(* ===== verification/Prelude.thy ===== *)
theory Prelude
  imports
    Complex_Main
    "HOL-Library.AList"
    "HOL-Library.Char_ord"
    "HOL-Library.List_Lexorder"
    "HOL-Library.Product_Lexorder"
    "HOL-Library.Sublist"
begin

text \<open>
  Shared vocabulary of the development.

  \<^item> The exceptions of \<^verbatim>\<open>src/exceptions/service_exceptions.py\<close> with their HTTP status and
    error code, and the built-in exceptions the modelled code can raise.
  \<^item> Computations that may raise: the result type \<open>exn + 'a\<close> with \<open>rbind\<close>, and computations
    over a state, \<open>('s, 'a) comp\<close>, with \<open>bind\<close>, \<open>raise\<close> and \<open>catch\<close>.  A raise keeps the state
    changes already made, as a Python exception does with rows already committed.
  \<^item> Python dictionaries as association lists in insertion order: \<open>map_of\<close> reads,
    \<open>AList.update\<close> writes in place or appends.
  \<^item> Generic lemmas on these, collected in \<open>comp_simps\<close>.
\<close>

named_theorems comp_simps "unfolding and evaluation of computations"

subsection \<open>Exceptions\<close>

datatype service_kind =
    BaseService
  | RouterValidation
  | NotImplementedService
  | MethodNotAllowedPlaceholder
  | NotFoundService
  | ResourceBlocked
  | DomainValidation
  | DomainConflict
  | IdempotencyInProgress
  | InvalidTransition
  | AIOutputValidation
  | RagNotAllowed
  | SchemaIncompatible
  | HashIncompatible
  | AuthenticationFailed
  | AuthorizationDenied
  | RateLimitExceeded
  | LimitExceeded
  | GuardrailUnavailable

datatype py_kind = TypeError | IndexError | KeyError | AttributeError | ValueError
  | OtherException string

text \<open>A service exception carries the message given at the raise; a built-in one only its class.\<close>

datatype exn = Service service_kind string | Py py_kind

fun status_code :: "service_kind \<Rightarrow> nat" where
  "status_code BaseService = 500"
| "status_code RouterValidation = 400"
| "status_code NotImplementedService = 501"
| "status_code MethodNotAllowedPlaceholder = 405"
| "status_code NotFoundService = 404"
| "status_code ResourceBlocked = 409"
| "status_code DomainValidation = 400"
| "status_code DomainConflict = 409"
| "status_code IdempotencyInProgress = 409"
| "status_code InvalidTransition = 400"
| "status_code AIOutputValidation = 400"
| "status_code RagNotAllowed = 400"
| "status_code SchemaIncompatible = 400"
| "status_code HashIncompatible = 400"
| "status_code AuthenticationFailed = 401"
| "status_code AuthorizationDenied = 403"
| "status_code RateLimitExceeded = 429"
| "status_code LimitExceeded = 409"
| "status_code GuardrailUnavailable = 503"

fun exn_name :: "service_kind \<Rightarrow> string" where
  "exn_name BaseService = ''INTERNAL_ERROR''"
| "exn_name RouterValidation = ''VALIDATION_ERROR''"
| "exn_name NotImplementedService = ''NOT_IMPLEMENTED''"
| "exn_name MethodNotAllowedPlaceholder = ''METHOD_NOT_ALLOWED''"
| "exn_name NotFoundService = ''NOT_FOUND''"
| "exn_name ResourceBlocked = ''RESOURCE_BLOCKED''"
| "exn_name DomainValidation = ''DOMAIN_VALIDATION''"
| "exn_name DomainConflict = ''DOMAIN_CONFLICT''"
| "exn_name IdempotencyInProgress = ''IDEMPOTENCY_IN_PROGRESS''"
| "exn_name InvalidTransition = ''INVALID_TRANSITION''"
| "exn_name AIOutputValidation = ''AI_OUTPUT_VALIDATION_FAILED''"
| "exn_name RagNotAllowed = ''RAG_NOT_ALLOWED''"
| "exn_name SchemaIncompatible = ''SCHEMA_INCOMPATIBLE''"
| "exn_name HashIncompatible = ''CONFIG_HASH_INCOMPATIBLE''"
| "exn_name AuthenticationFailed = ''AUTHENTICATION_FAILED''"
| "exn_name AuthorizationDenied = ''AUTHORIZATION_DENIED''"
| "exn_name RateLimitExceeded = ''RATE_LIMIT_EXCEEDED''"
| "exn_name LimitExceeded = ''LIMIT_EXCEEDED''"
| "exn_name GuardrailUnavailable = ''GUARDRAIL_UNAVAILABLE''"

text \<open>\<open>except DomainValidationException\<close> also catches the classes derived from it.\<close>

fun domain_validation_kind :: "service_kind \<Rightarrow> bool" where
  "domain_validation_kind k =
     (k \<in> {DomainValidation, InvalidTransition, AIOutputValidation, RagNotAllowed,
            SchemaIncompatible, HashIncompatible})"

fun is_domain_validation :: "exn \<Rightarrow> bool" where
  "is_domain_validation (Service k m) = domain_validation_kind k"
| "is_domain_validation (Py k) = False"

fun py_class_name :: "py_kind \<Rightarrow> string" where
  "py_class_name TypeError = ''TypeError''"
| "py_class_name IndexError = ''IndexError''"
| "py_class_name KeyError = ''KeyError''"
| "py_class_name AttributeError = ''AttributeError''"
| "py_class_name ValueError = ''ValueError''"
| "py_class_name (OtherException n) = n"

abbreviation domain_validation :: "string \<Rightarrow> exn" where
  "domain_validation m \<equiv> Service DomainValidation m"

text \<open>
  Two exceptions of the runtime that the modelled code can meet: pydantic rejecting a value, and
  the interpreter running out of stack frames.
\<close>

definition ValidationError :: exn where
  "ValidationError = Py (OtherException ''ValidationError'')"

definition RecursionError :: exn where
  "RecursionError = Py (OtherException ''RecursionError'')"

text \<open>UUIDs are only ever compared and generated.\<close>

type_synonym uuid = nat

subsection \<open>Results that may be an exception\<close>

definition rbind :: "exn + 'a \<Rightarrow> ('a \<Rightarrow> exn + 'b) \<Rightarrow> exn + 'b" where
  "rbind r f = (case r of Inl e \<Rightarrow> Inl e | Inr x \<Rightarrow> f x)"

subsection \<open>Computations over a state\<close>

type_synonym ('s, 'a) comp = "'s \<Rightarrow> (exn + 'a) \<times> 's"

definition ret :: "'a \<Rightarrow> ('s, 'a) comp" where
  "ret x s = (Inr x, s)"

definition raise :: "exn \<Rightarrow> ('s, 'a) comp" where
  "raise e s = (Inl e, s)"

definition bind :: "('s, 'a) comp \<Rightarrow> ('a \<Rightarrow> ('s, 'b) comp) \<Rightarrow> ('s, 'b) comp" where
  "bind m f s = (case m s of (Inl e, s') \<Rightarrow> (Inl e, s') | (Inr x, s') \<Rightarrow> f x s')"

definition catch :: "('s, 'a) comp \<Rightarrow> (exn \<Rightarrow> ('s, 'a) comp) \<Rightarrow> ('s, 'a) comp" where
  "catch m h s = (case m s of (Inl e, s') \<Rightarrow> h e s' | (Inr x, s') \<Rightarrow> (Inr x, s'))"

definition get :: "('s \<Rightarrow> 'a) \<Rightarrow> ('s, 'a) comp" where
  "get f s = (Inr (f s), s)"

definition modify :: "('s \<Rightarrow> 's) \<Rightarrow> ('s, unit) comp" where
  "modify f s = (Inr (), f s)"

definition lift_res :: "exn + 'a \<Rightarrow> ('s, 'a) comp" where
  "lift_res r s = (r, s)"

text \<open>Run a computation for every element, in order, and collect the results.\<close>

fun run_all :: "('a \<Rightarrow> ('s, 'b) comp) \<Rightarrow> 'a list \<Rightarrow> ('s, 'b list) comp" where
  "run_all f [] = ret []"
| "run_all f (x # xs) = bind (f x) (\<lambda>y. bind (run_all f xs) (\<lambda>ys. ret (y # ys)))"

text \<open>\<open>try: m finally: after\<close>\<close>

definition with_finally :: "('s, 'a) comp \<Rightarrow> ('s, unit) comp \<Rightarrow> ('s, 'a) comp" where
  "with_finally m after s =
     (case m s of (r, s') \<Rightarrow> (case after s' of (Inl x, s'') \<Rightarrow> (Inl x, s'') | (Inr _, s'') \<Rightarrow> (r, s'')))"

text \<open>A property of the state that a computation keeps, whether it returns or raises.\<close>

definition keeps :: "('s \<Rightarrow> 's \<Rightarrow> bool) \<Rightarrow> ('s, 'a) comp \<Rightarrow> bool" where
  "keeps R m \<longleftrightarrow> (\<forall>s. R s (snd (m s)))"

subsection \<open>Dictionaries\<close>

definition dict_get :: "('k \<times> 'v) list \<Rightarrow> 'k \<Rightarrow> 'v \<Rightarrow> 'v" where
  "dict_get d k dflt = (case map_of d k of None \<Rightarrow> dflt | Some v \<Rightarrow> v)"

subsection \<open>Lemmas\<close>

lemma rbind_Inl [simp]: "rbind (Inl e) f = Inl e"
  by (simp add: rbind_def)

lemma rbind_Inr [simp]: "rbind (Inr x) f = f x"
  by (simp add: rbind_def)

lemma rbind_eq_Inr: "rbind r f = Inr y \<longleftrightarrow> (\<exists>x. r = Inr x \<and> f x = Inr y)"
  by (auto simp: rbind_def split: sum.splits)

lemma rbind_eq_Inl:
  "rbind r f = Inl e \<longleftrightarrow> r = Inl e \<or> (\<exists>x. r = Inr x \<and> f x = Inl e)"
  by (auto simp: rbind_def split: sum.splits)

lemma rbind_cong [fundef_cong]:
  "r = r' \<Longrightarrow> (\<And>x. r' = Inr x \<Longrightarrow> f x = f' x) \<Longrightarrow> rbind r f = rbind r' f'"
  by (auto simp: rbind_def split: sum.splits)

declare ret_def [comp_simps] raise_def [comp_simps] bind_def [comp_simps] catch_def [comp_simps]
  get_def [comp_simps] modify_def [comp_simps] lift_res_def [comp_simps]

lemma bind_eq_Inr: "bind m f s = (Inr y, s') \<longleftrightarrow> (\<exists>x t. m s = (Inr x, t) \<and> f x t = (Inr y, s'))"
  by (auto simp: bind_def split: prod.splits sum.splits)

lemma bind_eq_Inl:
  "bind m f s = (Inl e, s') \<longleftrightarrow> m s = (Inl e, s') \<or> (\<exists>x t. m s = (Inr x, t) \<and> f x t = (Inl e, s'))"
  by (auto simp: bind_def split: prod.splits sum.splits)

lemma bind_step: "m s = (Inr x, t) \<Longrightarrow> bind m f s = f x t"
  by (simp add: bind_def)

lemma bind_stop: "m s = (Inl e, t) \<Longrightarrow> bind m f s = (Inl e, t)"
  by (simp add: bind_def)

lemma keepsD: "keeps R m \<Longrightarrow> m s = (r, s') \<Longrightarrow> R s s'"
  by (metis keeps_def snd_conv)

lemma keeps_ret: "reflp R \<Longrightarrow> keeps R (ret x)"
  by (simp add: keeps_def ret_def reflpD)

lemma keeps_raise: "reflp R \<Longrightarrow> keeps R (raise e)"
  by (simp add: keeps_def raise_def reflpD)

lemma keeps_get: "reflp R \<Longrightarrow> keeps R (get f)"
  by (simp add: keeps_def get_def reflpD)

lemma keeps_lift_res: "reflp R \<Longrightarrow> keeps R (lift_res r)"
  by (simp add: keeps_def lift_res_def reflpD)

lemma keeps_modify: "(\<And>s. R s (f s)) \<Longrightarrow> keeps R (modify f)"
  by (simp add: keeps_def modify_def)

lemma keeps_bind:
  assumes "transp R" "keeps R m" "\<And>x. keeps R (f x)"
  shows "keeps R (bind m f)"
  unfolding keeps_def
proof
  fix s
  show "R s (snd (bind m f s))"
  proof (cases "m s")
    case (Pair r s')
    have ms: "R s s'" using assms(2) Pair by (metis keeps_def snd_conv)
    show ?thesis
    proof (cases r)
      case (Inl e)
      then show ?thesis using ms Pair by (simp add: bind_def)
    next
      case (Inr x)
      have "R s' (snd (f x s'))" using assms(3) by (simp add: keeps_def)
      then show ?thesis using ms assms(1) Pair Inr by (auto simp: bind_def dest: transpD)
    qed
  qed
qed

lemma keeps_catch:
  assumes "transp R" "keeps R m" "\<And>e. keeps R (h e)"
  shows "keeps R (catch m h)"
  unfolding keeps_def
proof
  fix s
  show "R s (snd (catch m h s))"
  proof (cases "m s")
    case (Pair r s')
    have ms: "R s s'" using assms(2) Pair by (metis keeps_def snd_conv)
    show ?thesis
    proof (cases r)
      case (Inr x)
      then show ?thesis using ms Pair by (simp add: catch_def)
    next
      case (Inl e)
      have "R s' (snd (h e s'))" using assms(3) by (simp add: keeps_def)
      then show ?thesis using ms assms(1) Pair Inl by (auto simp: catch_def dest: transpD)
    qed
  qed
qed

text \<open>A preorder on states is kept by a computation when each of its steps keeps it.\<close>

locale kept_relation =
  fixes R :: "'s \<Rightarrow> 's \<Rightarrow> bool"
  assumes same: "reflp R" and chain: "transp R"
begin

lemma step_bind: "keeps R m \<Longrightarrow> (\<And>x. keeps R (f x)) \<Longrightarrow> keeps R (bind m f)"
  by (rule keeps_bind [OF chain])

lemma step_catch: "keeps R m \<Longrightarrow> (\<And>x. keeps R (h x)) \<Longrightarrow> keeps R (catch m h)"
  by (rule keeps_catch [OF chain])

lemma step_if: "(b \<Longrightarrow> keeps R m) \<Longrightarrow> (\<not> b \<Longrightarrow> keeps R m') \<Longrightarrow> keeps R (if b then m else m')"
  by simp

lemma step_option: "keeps R m \<Longrightarrow> (\<And>x. keeps R (f x)) \<Longrightarrow> keeps R (case v of None \<Rightarrow> m | Some x \<Rightarrow> f x)"
  by (cases v) simp_all

lemma step_pair: "(\<And>a b. keeps R (f a b)) \<Longrightarrow> keeps R (case p of (a, b) \<Rightarrow> f a b)"
  by (cases p) simp

lemma step_sum: "(\<And>a. keeps R (f a)) \<Longrightarrow> (\<And>b. keeps R (g b)) \<Longrightarrow> keeps R (case v of Inl a \<Rightarrow> f a | Inr b \<Rightarrow> g b)"
  by (cases v) simp_all

lemma step_pure: "(\<And>s. snd (m s) = s) \<Longrightarrow> keeps R m"
  using same by (simp add: keeps_def reflp_def)

lemma step_finally:
  assumes "keeps R m" and "keeps R after"
  shows "keeps R (with_finally m after)"
  unfolding keeps_def
proof
  fix s
  obtain r t where m: "m s = (r, t)" by fastforce
  obtain x u where a: "after t = (x, u)" by fastforce
  have "R s u"
    using keepsD [OF assms(1) m] keepsD [OF assms(2) a] chain by (blast dest: transpD)
  moreover have "snd (with_finally m after s) = u"
    by (cases x) (simp_all add: with_finally_def m a)
  ultimately show "R s (snd (with_finally m after s))" by simp
qed

lemmas step_basic = keeps_ret [OF same] keeps_raise [OF same] keeps_get [OF same] keeps_lift_res [OF same]

lemmas steps = step_bind step_if step_option step_pair step_sum step_basic

end

lemma map_of_update_same [simp]: "map_of (AList.update k v d) k = Some v"
  by (simp add: update_conv)

lemma map_of_update_other [simp]: "k' \<noteq> k \<Longrightarrow> map_of (AList.update k v d) k' = map_of d k'"
  by (simp add: update_conv)

lemma set_update_subset: "set (AList.update k v d) \<subseteq> insert (k, v) (set d)"
  by (induction d) auto

subsection \<open>Sequences of computations\<close>

lemma run_all_append:
  "run_all f (xs @ ys) s = bind (run_all f xs) (\<lambda>as. bind (run_all f ys) (\<lambda>bs. ret (as @ bs))) s"
proof (induction xs arbitrary: s)
  case Nil
  show ?case by (auto simp: comp_simps split: prod.splits sum.splits)
next
  case (Cons x xs)
  show ?case
    by (cases "f x s"; cases "fst (f x s)") (auto simp: comp_simps Cons split: prod.splits sum.splits)
qed

end
