(* ===== verification/PyValue.thy ===== *)
theory PyValue
  imports Prelude
begin

text \<open>
  The Python values that flow through the runtime, and the built-in operations the modelled code
  applies to them: truthiness, equality, ordering, membership, length, iteration, attribute access.

  \<^item> A \<open>str\<close> is its UTF-8 encoding, so that code-point order and substring tests are those of the
    byte lists; \<open>utf8_chars\<close> recovers the characters where the code counts or iterates them.
  \<^item> A \<open>float\<close> is the rational it denotes (finite values; no arithmetic is done on floats here).
  \<^item> A \<open>dict\<close> with string keys is an association list in insertion order.
  \<^item> \<open>PSubst\<close>, \<open>PLen\<close> and \<open>PResults\<close> are the objects the condition parser builds
    (\<^verbatim>\<open>SubstituteVal\<close>, \<^verbatim>\<open>LenVal\<close>, \<^verbatim>\<open>pyparsing.ParseResults\<close>); \<open>PMethod\<close> is a bound method of
    a built-in value, which is what a public attribute name of such a value denotes.
\<close>

datatype pyval =
    PNone
  | PBool bool
  | PInt int
  | PFloat rat
  | PStr string
  | PList "pyval list"
  | PDict "(string \<times> pyval) list"
  | PMethod pyval string
  | PSubst pyval
  | PLen pyval
  | PResults "pyval list"

type_synonym pydict = "(string \<times> pyval) list"

subsection \<open>Characters of a string\<close>

definition utf8_cont :: "char \<Rightarrow> bool" where
  "utf8_cont c \<longleftrightarrow> 128 \<le> (of_char c :: nat) \<and> (of_char c :: nat) < 192"

function utf8_chars :: "string \<Rightarrow> string list" where
  "utf8_chars [] = []"
| "utf8_chars (c # cs) = (c # takeWhile utf8_cont cs) # utf8_chars (dropWhile utf8_cont cs)"
  by pat_completeness auto
termination
  by (relation "measure length") (auto simp: le_imp_less_Suc length_dropWhile_le)

text \<open>\<open>str.lower()\<close> on the ASCII letters; other code points are kept.\<close>

definition lower_char :: "char \<Rightarrow> char" where
  "lower_char c =
     (let n = (of_char c :: nat) in if 65 \<le> n \<and> n \<le> 90 then char_of (n + 32) else c)"

definition py_lower :: "string \<Rightarrow> string" where
  "py_lower s = map lower_char s"

definition py_space :: "char \<Rightarrow> bool" where
  "py_space c \<longleftrightarrow> (let n = (of_char c :: nat) in n = 32 \<or> (9 \<le> n \<and> n \<le> 13) \<or> (28 \<le> n \<and> n \<le> 31))"

text \<open>\<open>str.strip()\<close>, for the white space of ASCII.\<close>

definition py_strip :: "string \<Rightarrow> string" where
  "py_strip s = rev (dropWhile py_space (rev (dropWhile py_space s)))"

subsection \<open>Truthiness, numbers, equality\<close>

fun truthy :: "pyval \<Rightarrow> bool" where
  "truthy PNone = False"
| "truthy (PBool b) = b"
| "truthy (PInt i) = (i \<noteq> 0)"
| "truthy (PFloat r) = (r \<noteq> 0)"
| "truthy (PStr s) = (s \<noteq> [])"
| "truthy (PList xs) = (xs \<noteq> [])"
| "truthy (PDict d) = (d \<noteq> [])"
| "truthy (PResults xs) = (xs \<noteq> [])"
| "truthy _ = True"

fun num_of :: "pyval \<Rightarrow> rat option" where
  "num_of (PBool b) = Some (if b then 1 else 0)"
| "num_of (PInt i) = Some (of_int i)"
| "num_of (PFloat r) = Some r"
| "num_of _ = None"

fun py_eq :: "pyval \<Rightarrow> pyval \<Rightarrow> bool"
  and py_eq_list :: "pyval list \<Rightarrow> pyval list \<Rightarrow> bool"
  and py_eq_items :: "pydict \<Rightarrow> pydict \<Rightarrow> bool" where
  "py_eq PNone y = (y = PNone)"
| "py_eq (PBool a) y = (num_of y = Some (if a then 1 else 0))"
| "py_eq (PInt i) y = (num_of y = Some (of_int i))"
| "py_eq (PFloat r) y = (num_of y = Some r)"
| "py_eq (PStr s) y = (y = PStr s)"
| "py_eq (PList xs) y = (case y of PList ys \<Rightarrow> py_eq_list xs ys | _ \<Rightarrow> False)"
| "py_eq (PDict d) y =
     (case y of PDict e \<Rightarrow> length d = length e \<and> py_eq_items d e | _ \<Rightarrow> False)"
| "py_eq (PMethod v m) y = (y = PMethod v m)"
| "py_eq (PSubst v) y = (y = PSubst v)"
| "py_eq (PLen v) y = (y = PLen v)"
| "py_eq (PResults xs) y = (y = PResults xs)"
| "py_eq_list [] [] = True"
| "py_eq_list (x # xs) (y # ys) = (py_eq x y \<and> py_eq_list xs ys)"
| "py_eq_list _ _ = False"
| "py_eq_items [] e = True"
| "py_eq_items ((k, v) # d) e =
     ((case map_of e k of None \<Rightarrow> False | Some w \<Rightarrow> py_eq v w) \<and> py_eq_items d e)"

text \<open>\<open>is\<close>: the singletons are decided; for other objects identity is a parameter \<open>same\<close>.\<close>

definition py_is :: "(pyval \<Rightarrow> pyval \<Rightarrow> bool) \<Rightarrow> pyval \<Rightarrow> pyval \<Rightarrow> bool" where
  "py_is same x y =
     (if x = PNone \<or> y = PNone \<or> x \<in> {PBool True, PBool False} \<or> y \<in> {PBool True, PBool False}
      then x = y else same x y)"

subsection \<open>Ordering\<close>

datatype ord_op = OLt | OLe | OGt | OGe

definition ord_op_apply :: "ord_op \<Rightarrow> 'a::linorder \<Rightarrow> 'a \<Rightarrow> bool" where
  "ord_op_apply op x y = (case op of OLt \<Rightarrow> x < y | OLe \<Rightarrow> x \<le> y | OGt \<Rightarrow> y < x | OGe \<Rightarrow> y \<le> x)"

text \<open>Rich comparison; lists compare at the first position whose items differ, then by length.\<close>

definition num_ord :: "ord_op \<Rightarrow> rat \<Rightarrow> pyval \<Rightarrow> exn + bool" where
  "num_ord op a y =
     (case num_of y of Some b \<Rightarrow> Inr (ord_op_apply op a b) | None \<Rightarrow> Inl (Py TypeError))"

fun py_ord :: "ord_op \<Rightarrow> pyval \<Rightarrow> pyval \<Rightarrow> exn + bool"
  and py_ord_list :: "ord_op \<Rightarrow> pyval list \<Rightarrow> pyval list \<Rightarrow> exn + bool" where
  "py_ord op (PStr s) y =
     (case y of PStr t \<Rightarrow> Inr (ord_op_apply op s t) | _ \<Rightarrow> Inl (Py TypeError))"
| "py_ord op (PList xs) y =
     (case y of PList ys \<Rightarrow> py_ord_list op xs ys | _ \<Rightarrow> Inl (Py TypeError))"
| "py_ord op (PBool a) y = num_ord op (if a then 1 else 0) y"
| "py_ord op (PInt i) y = num_ord op (of_int i) y"
| "py_ord op (PFloat r) y = num_ord op r y"
| "py_ord op _ y = Inl (Py TypeError)"
| "py_ord_list op (x # xs) (y # ys) =
     (if py_eq x y then py_ord_list op xs ys else py_ord op x y)"
| "py_ord_list op xs ys = Inr (ord_op_apply op (length xs) (length ys))"

subsection \<open>Length, iteration, membership\<close>

fun py_len :: "pyval \<Rightarrow> exn + nat" where
  "py_len (PStr s) = Inr (length (utf8_chars s))"
| "py_len (PList xs) = Inr (length xs)"
| "py_len (PDict d) = Inr (length d)"
| "py_len (PResults xs) = Inr (length xs)"
| "py_len _ = Inl (Py TypeError)"

fun py_iter :: "pyval \<Rightarrow> exn + pyval list" where
  "py_iter (PStr s) = Inr (map PStr (utf8_chars s))"
| "py_iter (PList xs) = Inr xs"
| "py_iter (PDict d) = Inr (map (\<lambda>(k, v). PStr k) d)"
| "py_iter (PResults xs) = Inr xs"
| "py_iter _ = Inl (Py TypeError)"

fun hashable :: "pyval \<Rightarrow> bool" where
  "hashable (PList _) = False"
| "hashable (PDict _) = False"
| "hashable _ = True"

fun py_in :: "pyval \<Rightarrow> pyval \<Rightarrow> exn + bool" where
  "py_in x (PList ys) = Inr (\<exists>y \<in> set ys. py_eq x y)"
| "py_in x (PStr s) = (case x of PStr t \<Rightarrow> Inr (sublist t s) | _ \<Rightarrow> Inl (Py TypeError))"
| "py_in x (PDict d) =
     (if \<not> hashable x then Inl (Py TypeError)
      else Inr (case x of PStr k \<Rightarrow> k \<in> fst ` set d | _ \<Rightarrow> False))"
| "py_in x _ = Inl (Py TypeError)"

text \<open>\<open>any\<close> and \<open>all\<close> over a generator: left to right, stopping at the first decisive item.\<close>

fun py_any :: "('a \<Rightarrow> exn + bool) \<Rightarrow> 'a list \<Rightarrow> exn + bool" where
  "py_any p [] = Inr False"
| "py_any p (x # xs) = rbind (p x) (\<lambda>b. if b then Inr True else py_any p xs)"

fun py_all :: "('a \<Rightarrow> exn + bool) \<Rightarrow> 'a list \<Rightarrow> exn + bool" where
  "py_all p [] = Inr True"
| "py_all p (x # xs) = rbind (p x) (\<lambda>b. if b then py_all p xs else Inr False)"

text \<open>Indexing a list; a \<open>bool\<close> index is an \<open>int\<close>, a negative one counts from the end.\<close>

fun index_of :: "pyval \<Rightarrow> int option" where
  "index_of (PInt i) = Some i"
| "index_of (PBool b) = Some (if b then 1 else 0)"
| "index_of _ = None"

definition py_index :: "pyval list \<Rightarrow> pyval \<Rightarrow> exn + pyval" where
  "py_index xs i =
     (case index_of i of
        None \<Rightarrow> Inl (Py TypeError)
      | Some n \<Rightarrow>
          let j = (if n < 0 then int (length xs) + n else n)
          in if 0 \<le> j \<and> j < int (length xs) then Inr (xs ! nat j) else Inl (Py IndexError))"

subsection \<open>Public attributes of the built-in values\<close>

definition str_methods :: "string list" where
  "str_methods =
     [''capitalize'', ''casefold'', ''center'', ''count'', ''encode'', ''endswith'', ''expandtabs'',
      ''find'', ''format'', ''format_map'', ''index'', ''isalnum'', ''isalpha'', ''isascii'',
      ''isdecimal'', ''isdigit'', ''isidentifier'', ''islower'', ''isnumeric'', ''isprintable'',
      ''isspace'', ''istitle'', ''isupper'', ''join'', ''ljust'', ''lower'', ''lstrip'',
      ''maketrans'', ''partition'', ''removeprefix'', ''removesuffix'', ''replace'', ''rfind'',
      ''rindex'', ''rjust'', ''rpartition'', ''rsplit'', ''rstrip'', ''split'', ''splitlines'',
      ''startswith'', ''strip'', ''swapcase'', ''title'', ''translate'', ''upper'', ''zfill'']"

definition int_methods :: "string list" where
  "int_methods =
     [''as_integer_ratio'', ''bit_count'', ''bit_length'', ''conjugate'', ''from_bytes'',
      ''is_integer'', ''to_bytes'']"

definition float_methods :: "string list" where
  "float_methods =
     [''as_integer_ratio'', ''conjugate'', ''from_number'', ''fromhex'', ''hex'', ''is_integer'']"

definition list_methods :: "string list" where
  "list_methods =
     [''append'', ''clear'', ''copy'', ''count'', ''extend'', ''index'', ''insert'', ''pop'',
      ''remove'', ''reverse'', ''sort'']"

definition dict_methods :: "string list" where
  "dict_methods =
     [''clear'', ''copy'', ''fromkeys'', ''get'', ''items'', ''keys'', ''pop'', ''popitem'',
      ''setdefault'', ''update'', ''values'']"

definition int_attr :: "int \<Rightarrow> pyval \<Rightarrow> string \<Rightarrow> pyval option" where
  "int_attr i self name =
     (if name \<in> {''real'', ''numerator''} then Some (PInt i)
      else if name = ''imag'' then Some (PInt 0)
      else if name = ''denominator'' then Some (PInt 1)
      else if name \<in> set int_methods then Some (PMethod self name)
      else None)"

fun py_attr :: "pyval \<Rightarrow> string \<Rightarrow> pyval option" where
  "py_attr (PStr s) name = (if name \<in> set str_methods then Some (PMethod (PStr s) name) else None)"
| "py_attr (PInt i) name = int_attr i (PInt i) name"
| "py_attr (PBool b) name = int_attr (if b then 1 else 0) (PBool b) name"
| "py_attr (PFloat r) name =
     (if name = ''real'' then Some (PFloat r)
      else if name = ''imag'' then Some (PFloat 0)
      else if name \<in> set float_methods then Some (PMethod (PFloat r) name)
      else None)"
| "py_attr (PList xs) name =
     (if name \<in> set list_methods then Some (PMethod (PList xs) name) else None)"
| "py_attr (PDict d) name =
     (if name \<in> set dict_methods then Some (PMethod (PDict d) name) else None)"
| "py_attr _ name = None"

subsection \<open>Lemmas\<close>

lemma size_map_of: "map_of d k = Some v \<Longrightarrow> size v < size (PDict d)"
proof (induction d)
  case Nil
  then show ?case by simp
next
  case (Cons p d)
  then show ?case by (cases p) (auto split: if_splits)
qed

lemma size_map_of_item [termination_simp]:
  fixes d :: pydict
  assumes "map_of d k = Some (PList vs)" "x \<in> set vs"
  shows "size x < Suc (size_list (\<lambda>x. Suc (size (snd x))) d)"
proof -
  have "size x < size (PList vs)"
    using assms(2) by (induction vs) auto
  also have "\<dots> < size (PDict d)"
    using assms(1) by (rule size_map_of)
  finally have "size x < Suc (size_list (size_prod (\<lambda>_. 0) size) d)" by simp
  moreover have "size_prod (\<lambda>_::string. 0) size = (\<lambda>p :: string \<times> pyval. Suc (size (snd p)))"
    by (rule ext, rename_tac p, case_tac p) simp
  ultimately show ?thesis by simp
qed

lemma py_any_cong [fundef_cong]:
  "xs = ys \<Longrightarrow> (\<And>x. x \<in> set ys \<Longrightarrow> p x = q x) \<Longrightarrow> py_any p xs = py_any q ys"
  by (induction xs arbitrary: ys) (auto intro!: rbind_cong)

lemma py_all_cong [fundef_cong]:
  "xs = ys \<Longrightarrow> (\<And>x. x \<in> set ys \<Longrightarrow> p x = q x) \<Longrightarrow> py_all p xs = py_all q ys"
  by (induction xs arbitrary: ys) (auto intro!: rbind_cong)

text \<open>Without exceptions, \<open>any\<close> and \<open>all\<close> are the quantifiers over the items.\<close>

lemma py_any_total: "(\<And>x. x \<in> set xs \<Longrightarrow> p x = Inr (b x)) \<Longrightarrow> py_any p xs = Inr (\<exists>x \<in> set xs. b x)"
  by (induction xs) auto

lemma py_all_total: "(\<And>x. x \<in> set xs \<Longrightarrow> p x = Inr (b x)) \<Longrightarrow> py_all p xs = Inr (\<forall>x \<in> set xs. b x)"
  by (induction xs) auto

lemma utf8_chars_concat [simp]: "concat (utf8_chars s) = s"
  by (induction s rule: utf8_chars.induct) auto

end
