(* ===== verification/EdgeEvaluator.thy ===== *)
theory EdgeEvaluator
  imports PyValue
begin

text \<open>
  The edge condition language of
  \<^verbatim>\<open>src/domain/execution/services/graph_runtime/edge_evaluator.py\<close>: paths into the node output,
  the operator and function tables, the evaluator \<open>eval\<close>, the serialisation of a parsed condition
  and the identifiers a condition reads.

  The grammar is run by the pyparsing package, which is a parameter \<open>parse\<close> of
  \<open>compile_condition\<close>: it returns the first parsed token or the exception it raised.  The
  \<open>input_data\<close> and \<open>errors\<close> fields attached to exceptions for diagnosis are left out.
\<close>

subsection \<open>Paths: SubstituteVal and LenVal\<close>

definition edge_evaluation_error :: exn where
  "edge_evaluation_error = Service DomainValidation ''edge_evaluation_error''"

text \<open>\<open>segment[0]\<close> and \<open>segment[1:]\<close>.\<close>

fun seg_head :: "pyval \<Rightarrow> exn + pyval" where
  "seg_head (PList (n # _)) = Inr n"
| "seg_head (PList []) = Inl (Py IndexError)"
| "seg_head (PStr s) =
     (case utf8_chars s of [] \<Rightarrow> Inl (Py IndexError) | c # _ \<Rightarrow> Inr (PStr c))"
| "seg_head (PDict _) = Inl (Py KeyError)"
| "seg_head _ = Inl (Py TypeError)"

fun seg_tail :: "pyval \<Rightarrow> pyval list" where
  "seg_tail (PList xs) = tl xs"
| "seg_tail (PStr s) = map PStr (tl (utf8_chars s))"
| "seg_tail _ = []"

text \<open>One item of a list under a name: a dictionary entry, else an attribute, else \<open>None\<close>.\<close>

definition item_get :: "string \<Rightarrow> pyval \<Rightarrow> pyval" where
  "item_get name item =
     (case item of
        PDict d \<Rightarrow> (case map_of d name of
                      Some v \<Rightarrow> v
                    | None \<Rightarrow> (case py_attr item name of Some v \<Rightarrow> v | None \<Rightarrow> PNone))
      | _ \<Rightarrow> (case py_attr item name of Some v \<Rightarrow> v | None \<Rightarrow> PNone))"

text \<open>
  The step of \<open>SubstituteVal.resolve\<close> for the name of a segment.  A name that is not a string can
  only come from a condition that the parser did not build: the membership test then fails or
  raises, and \<open>hasattr\<close> raises \<open>TypeError\<close>.
\<close>

definition resolve_name :: "pyval \<Rightarrow> pyval \<Rightarrow> exn + pyval" where
  "resolve_name name val =
     (case val of
        PDict d \<Rightarrow>
          (case name of
             PStr n \<Rightarrow> (case map_of d n of None \<Rightarrow> Inl edge_evaluation_error | Some v \<Rightarrow> Inr v)
           | _ \<Rightarrow> if hashable name then Inl edge_evaluation_error else Inl (Py TypeError))
      | PList items \<Rightarrow>
          (case name of
             PStr n \<Rightarrow> Inr (PList (map (item_get n) items))
           | _ \<Rightarrow> if items = [] then Inr (PList []) else Inl edge_evaluation_error)
      | _ \<Rightarrow>
          (case name of
             PStr n \<Rightarrow> (case py_attr val n of None \<Rightarrow> Inl edge_evaluation_error | Some v \<Rightarrow> Inr v)
           | _ \<Rightarrow> Inl (Py TypeError)))"

fun resolve_indices :: "pyval list \<Rightarrow> pyval \<Rightarrow> exn + pyval" where
  "resolve_indices [] val = Inr val"
| "resolve_indices (idx # ids) val =
     (case val of
        PList xs \<Rightarrow>
          (case py_index xs idx of
             Inl e \<Rightarrow> Inl edge_evaluation_error
           | Inr v \<Rightarrow> resolve_indices ids v)
      | _ \<Rightarrow> Inl edge_evaluation_error)"

fun resolve_segments :: "pyval list \<Rightarrow> pyval \<Rightarrow> exn + pyval" where
  "resolve_segments [] val = Inr val"
| "resolve_segments (segment # segments) val =
     rbind (seg_head segment) (\<lambda>name.
     rbind (resolve_name name val) (\<lambda>v.
     rbind (resolve_indices (seg_tail segment) v) (\<lambda>w.
     resolve_segments segments w)))"

definition subst_resolve :: "pyval \<Rightarrow> pyval \<Rightarrow> exn + pyval" where
  "subst_resolve segments context =
     (if context = PNone then Inl edge_evaluation_error
      else rbind (py_iter segments) (\<lambda>segs. resolve_segments segs context))"

definition py_len_checked :: "pyval \<Rightarrow> exn + pyval" where
  "py_len_checked base =
     (case py_len base of Inl e \<Rightarrow> Inl edge_evaluation_error | Inr n \<Rightarrow> Inr (PInt (int n)))"

fun len_resolve :: "pyval \<Rightarrow> pyval \<Rightarrow> exn + pyval" where
  "len_resolve (PSubst segments) context = rbind (subst_resolve segments context) py_len_checked"
| "len_resolve v context = py_len_checked v"

subsection \<open>Operator and function tables\<close>

datatype binop = OpEq | OpNe | OpOrd ord_op | OpIn | OpNotIn | OpIs | OpIsNot
  | OpSubset | OpSuperset | OpIntersects | OpDisjoint

text \<open>The operators outside ASCII, by their UTF-8 encoding.\<close>

definition sym_ne :: string where "sym_ne = [CHR 0xE2, CHR 0x89, CHR 0xA0]"
definition sym_le :: string where "sym_le = [CHR 0xE2, CHR 0x89, CHR 0xA4]"
definition sym_ge :: string where "sym_ge = [CHR 0xE2, CHR 0x89, CHR 0xA5]"
definition sym_in :: string where "sym_in = [CHR 0xE2, CHR 0x88, CHR 0x88]"
definition sym_notin :: string where "sym_notin = [CHR 0xE2, CHR 0x88, CHR 0x89]"
definition sym_subset :: string where "sym_subset = [CHR 0xE2, CHR 0x8A, CHR 0x86]"
definition sym_superset :: string where "sym_superset = [CHR 0xE2, CHR 0x8A, CHR 0x87]"
definition sym_cap :: string where "sym_cap = [CHR 0xE2, CHR 0x88, CHR 0xA9]"

definition COMPARISON_OPERATORS :: "(string \<times> binop) list" where
  "COMPARISON_OPERATORS =
     [(''='', OpEq), (''=='', OpEq), (''eq'', OpEq),
      (''!='', OpNe), (''ne'', OpNe), (sym_ne, OpNe),
      (''>'', OpOrd OGt), (''gt'', OpOrd OGt),
      (''>='', OpOrd OGe), (''ge'', OpOrd OGe), (sym_ge, OpOrd OGe),
      (''<'', OpOrd OLt), (''lt'', OpOrd OLt),
      (''<='', OpOrd OLe), (''le'', OpOrd OLe), (sym_le, OpOrd OLe),
      (''in'', OpIn), (sym_in, OpIn),
      (''notin'', OpNotIn), (sym_notin, OpNotIn),
      (''is'', OpIs), (''isnot'', OpIsNot)]"

definition SET_OPERATORS :: "(string \<times> binop) list" where
  "SET_OPERATORS =
     [(sym_subset, OpSubset), (sym_superset, OpSuperset), (sym_cap, OpIntersects),
      (''not'' @ sym_cap, OpDisjoint)]"

definition COMPARISON_AND_SET_OPERATORS :: "(string \<times> binop) list" where
  "COMPARISON_AND_SET_OPERATORS = COMPARISON_OPERATORS @ SET_OPERATORS"

fun apply_binop :: "(pyval \<Rightarrow> pyval \<Rightarrow> bool) \<Rightarrow> binop \<Rightarrow> pyval \<Rightarrow> pyval \<Rightarrow> exn + bool" where
  "apply_binop same OpEq x y = Inr (py_eq x y)"
| "apply_binop same OpNe x y = Inr (\<not> py_eq x y)"
| "apply_binop same (OpOrd op) x y = py_ord op x y"
| "apply_binop same OpIn x y = py_in x y"
| "apply_binop same OpNotIn x y = rbind (py_in x y) (\<lambda>b. Inr (\<not> b))"
| "apply_binop same OpIs x y = Inr (py_is same x y)"
| "apply_binop same OpIsNot x y = Inr (\<not> py_is same x y)"
| "apply_binop same OpSubset x y = rbind (py_iter x) (\<lambda>xs. py_all (\<lambda>xi. py_in xi y) xs)"
| "apply_binop same OpSuperset x y = rbind (py_iter y) (\<lambda>ys. py_all (\<lambda>yi. py_in yi x) ys)"
| "apply_binop same OpIntersects x y = rbind (py_iter x) (\<lambda>xs. py_any (\<lambda>xi. py_in xi y) xs)"
| "apply_binop same OpDisjoint x y =
     rbind (rbind (py_iter x) (\<lambda>xs. py_any (\<lambda>xi. py_in xi y) xs)) (\<lambda>b. Inr (\<not> b))"

datatype custom_fn = HasAny | HasAll | AnyEquals | AllEquals | AnyNonEmpty | AllNonEmpty

definition CUSTOM_FUNCTIONS :: "(string \<times> custom_fn) list" where
  "CUSTOM_FUNCTIONS =
     [(''HasAny'', HasAny), (''HasAll'', HasAll), (''AnyEquals'', AnyEquals),
      (''AllEquals'', AllEquals), (''AnyNonEmpty'', AnyNonEmpty), (''AllNonEmpty'', AllNonEmpty)]"

text \<open>A call with the wrong number of arguments raises \<open>TypeError\<close>.\<close>

definition apply_custom :: "custom_fn \<Rightarrow> pyval list \<Rightarrow> exn + bool" where
  "apply_custom f args =
     (case (f, args) of
        (HasAny, [lst, vals]) \<Rightarrow> rbind (py_iter lst) (\<lambda>xs. py_any (\<lambda>x. py_in x vals) xs)
      | (HasAll, [lst, vals]) \<Rightarrow> rbind (py_iter lst) (\<lambda>xs. py_all (\<lambda>x. py_in x vals) xs)
      | (AnyEquals, [lst, v]) \<Rightarrow> rbind (py_iter lst) (\<lambda>xs. py_any (\<lambda>x. Inr (py_eq x v)) xs)
      | (AllEquals, [lst, v]) \<Rightarrow> rbind (py_iter lst) (\<lambda>xs. py_all (\<lambda>x. Inr (py_eq x v)) xs)
      | (AnyNonEmpty, [lst]) \<Rightarrow> rbind (py_iter lst) (\<lambda>xs. py_any (\<lambda>x. Inr (truthy x)) xs)
      | (AllNonEmpty, [lst]) \<Rightarrow>
          (case lst of
             PList xs \<Rightarrow> Inr (xs \<noteq> [] \<and> (\<forall>x \<in> set xs. truthy x))
           | _ \<Rightarrow> Inr False)
      | _ \<Rightarrow> Inl (Py TypeError))"

subsection \<open>Evaluation\<close>

text \<open>\<open>node.lower()\<close>: only strings have it among the values a condition holds.\<close>

fun lower_of :: "pyval \<Rightarrow> exn + string" where
  "lower_of (PStr s) = Inr (py_lower s)"
| "lower_of _ = Inl (Py AttributeError)"

definition str_in :: "pyval \<Rightarrow> (string \<times> 'a) list \<Rightarrow> 'a option" where
  "str_in v table = (case v of PStr s \<Rightarrow> map_of table s | _ \<Rightarrow> None)"

definition is_not_word :: "pyval \<Rightarrow> bool" where
  "is_not_word v = (case v of PStr s \<Rightarrow> py_lower s = ''not'' | _ \<Rightarrow> False)"

definition type_tag :: "pydict \<Rightarrow> string \<Rightarrow> bool" where
  "type_tag d t \<longleftrightarrow> map_of d ''__type__'' = Some (PStr t)"

definition is_path_dict :: "pyval \<Rightarrow> pyval option" where
  "is_path_dict v =
     (case v of
        PDict d \<Rightarrow> if type_tag d ''path'' then Some (dict_get d ''segments'' (PList [])) else None
      | _ \<Rightarrow> None)"

text \<open>The three-element form: comparison and set operators first, then \<open>and\<close>, \<open>or\<close>.\<close>

definition apply_operator ::
  "(pyval \<Rightarrow> pyval \<Rightarrow> bool) \<Rightarrow> string \<Rightarrow> pyval \<Rightarrow> pyval \<Rightarrow> exn + pyval" where
  "apply_operator same operator left right =
     (case map_of COMPARISON_AND_SET_OPERATORS operator of
        Some op \<Rightarrow>
          (case apply_binop same op left right of
             Inr b \<Rightarrow> Inr (PBool b)
           | Inl e \<Rightarrow> if e = Py TypeError then Inl edge_evaluation_error else Inl e)
      | None \<Rightarrow>
          if operator = ''and'' then Inr (PBool (truthy left \<and> truthy right))
          else if operator = ''or'' then Inr (PBool (truthy left \<or> truthy right))
          else Inl (Service DomainValidation ''edge_condition_not_supported''))"

text \<open>
  \<open>eval\<close> is \<open>EdgeEvaluator._eval\<close>; \<open>eval_list\<close> evaluates a list of nodes left to right, and
  \<open>eval_chain\<close> is the \<open>while\<close> loop over \<open>node[i], node[i+1]\<close> of a longer list.
\<close>

function (sequential) eval ::
    "(pyval \<Rightarrow> pyval \<Rightarrow> bool) \<Rightarrow> pyval \<Rightarrow> pyval \<Rightarrow> exn + pyval"
  and eval_list :: "(pyval \<Rightarrow> pyval \<Rightarrow> bool) \<Rightarrow> pyval list \<Rightarrow> pyval \<Rightarrow> exn + pyval list"
  and eval_chain ::
    "(pyval \<Rightarrow> pyval \<Rightarrow> bool) \<Rightarrow> pyval \<Rightarrow> pyval list \<Rightarrow> pyval \<Rightarrow> exn + pyval" where
  "eval same (PDict d) context =
     (if type_tag d ''path''
      then subst_resolve (dict_get d ''segments'' (PList [])) context
      else if type_tag d ''len''
      then (case map_of d ''value'' of
              None \<Rightarrow> py_len_checked PNone
            | Some v \<Rightarrow>
                (case is_path_dict v of
                   Some segments \<Rightarrow> len_resolve (PSubst segments) context
                 | None \<Rightarrow> len_resolve v context))
      else if type_tag d ''list''
      then (case map_of d ''values'' of
              None \<Rightarrow> Inr (PList [])
            | Some (PList vs) \<Rightarrow> rbind (eval_list same vs context) (\<lambda>ws. Inr (PList ws))
            | Some v \<Rightarrow> rbind (py_iter v) (\<lambda>ws. Inr (PList ws)))
      else Inl edge_evaluation_error)"
| "eval same (PResults node) context = eval same (PList node) context"
| "eval same (PList []) context = Inl (Py IndexError)"
| "eval same (PList (n # ns)) context =
     (case str_in n CUSTOM_FUNCTIONS of
        Some f \<Rightarrow>
          rbind (eval_list same ns context) (\<lambda>args.
          rbind (apply_custom f args) (\<lambda>b. Inr (PBool b)))
      | None \<Rightarrow>
          (case ns of
             [x] \<Rightarrow>
               if is_not_word n
               then rbind (eval same x context) (\<lambda>v. Inr (PBool (\<not> truthy v)))
               else rbind (eval same n context) (\<lambda>result. eval_chain same result ns context)
           | [op, x] \<Rightarrow>
               rbind (eval same n context) (\<lambda>left.
               rbind (lower_of op) (\<lambda>operator.
               rbind (eval same x context) (\<lambda>right.
               apply_operator same operator left right)))
           | _ \<Rightarrow> rbind (eval same n context) (\<lambda>result. eval_chain same result ns context)))"
| "eval same (PSubst segments) context =
     (case subst_resolve segments context of
        Inr v \<Rightarrow> Inr v
      | Inl e \<Rightarrow> if is_domain_validation e then Inl e else Inl edge_evaluation_error)"
| "eval same (PLen v) context =
     (case len_resolve v context of Inr n \<Rightarrow> Inr n | Inl e \<Rightarrow> Inl edge_evaluation_error)"
| "eval same node context = Inr node"
| "eval_list same [] context = Inr []"
| "eval_list same (n # ns) context =
     rbind (eval same n context) (\<lambda>v.
     rbind (eval_list same ns context) (\<lambda>vs. Inr (v # vs)))"
| "eval_chain same result [] context = Inr result"
| "eval_chain same result [op] context = rbind (lower_of op) (\<lambda>_. Inl (Py IndexError))"
| "eval_chain same result (op # x # rest) context =
     rbind (lower_of op) (\<lambda>operator.
     rbind (eval same x context) (\<lambda>right.
     if operator = ''and''
     then eval_chain same (PBool (truthy result \<and> truthy right)) rest context
     else if operator = ''or''
     then eval_chain same (PBool (truthy result \<or> truthy right)) rest context
     else Inl (Service DomainValidation ''edge_condition_not_supported'')))"
  by pat_completeness auto
termination
  by (relation "measure (\<lambda>x. case x of
      Inl (same, node, _) \<Rightarrow> 2 * size node + (case node of PResults _ \<Rightarrow> 1 | _ \<Rightarrow> 0)
    | Inr (Inl (same, ns, _)) \<Rightarrow> 2 * size_list size ns + 1
    | Inr (Inr (same, result, ns, _)) \<Rightarrow> 2 * size_list size ns + 1)")
    (auto dest!: size_map_of split: pyval.splits)

text \<open>\<open>EdgeEvaluator._to_serializable\<close>.\<close>

fun to_serializable :: "pyval \<Rightarrow> pyval" where
  "to_serializable (PResults node) = PList (map to_serializable node)"
| "to_serializable (PSubst segments) =
     PDict [(''__type__'', PStr ''path''), (''segments'', segments)]"
| "to_serializable (PLen v) =
     PDict [(''__type__'', PStr ''len''), (''value'', to_serializable v)]"
| "to_serializable (PDict d) =
     (if type_tag d ''list''
      then PDict [(''__type__'', PStr ''list''),
                  (''values'', case map_of d ''values'' of
                     Some (PList vs) \<Rightarrow> PList (map to_serializable vs)
                   | Some v \<Rightarrow> v
                   | None \<Rightarrow> PList [])]
      else PDict d)"
| "to_serializable (PList node) = PList (map to_serializable node)"
| "to_serializable node = node"

definition compile_condition :: "(string \<Rightarrow> exn + pyval) \<Rightarrow> string \<Rightarrow> exn + pyval" where
  "compile_condition parse condition =
     (case parse condition of
        Inr parsed \<Rightarrow> Inr (to_serializable parsed)
      | Inl e \<Rightarrow> Inl (Service DomainValidation ''edge_condition_invalid''))"

text \<open>
  \<open>EdgeEvaluator.is_true\<close>: whatever \<open>_eval\<close> raises leaves as a domain validation error, and a
  result that is not a \<open>bool\<close> is rejected.
\<close>

definition is_true ::
  "(string \<Rightarrow> exn + pyval) \<Rightarrow> (pyval \<Rightarrow> pyval \<Rightarrow> bool) \<Rightarrow> string \<Rightarrow> pyval \<Rightarrow> pyval option
   \<Rightarrow> exn + bool" where
  "is_true parse same condition context compiled =
     (let r = rbind (case compiled of Some c \<Rightarrow> Inr c | None \<Rightarrow> compile_condition parse condition)
                (\<lambda>expression. rbind (eval same expression context) (\<lambda>result.
                  case result of PBool b \<Rightarrow> Inr b | _ \<Rightarrow> Inl edge_evaluation_error))
      in case r of
           Inr b \<Rightarrow> Inr b
         | Inl e \<Rightarrow> if is_domain_validation e then Inl e else Inl edge_evaluation_error)"

text \<open>\<open>EdgeEvaluator.collect_identifiers\<close>: the root name of every path, in visiting order.\<close>

definition path_root :: "pydict \<Rightarrow> string list" where
  "path_root d =
     (case dict_get d ''segments'' (PList []) of
        PList (PList (PStr rt # _) # _) \<Rightarrow> [rt]
      | _ \<Rightarrow> [])"

fun collect_identifiers :: "pyval \<Rightarrow> string list" where
  "collect_identifiers (PDict d) =
     (if type_tag d ''path'' then path_root d
      else concat (map (\<lambda>(k, v). collect_identifiers v) d))"
| "collect_identifiers (PList xs) = concat (map collect_identifiers xs)"
| "collect_identifiers _ = []"

subsection \<open>Shapes of conditions\<close>

text \<open>
  What the grammar produces: a path is a non-empty list of segments, each a name followed by integer
  indices; the argument of \<open>len\<close> is a path; a list literal holds literals and paths; the other nodes
  are literals and groups.  \<open>wf_compiled\<close> is the shape of a serialised condition, whatever the order
  of the dictionary keys, as after a round trip through the JSON column that stores it.
\<close>

fun wf_segment :: "pyval \<Rightarrow> bool" where
  "wf_segment (PList (PStr n # ids)) = (\<forall>i \<in> set ids. \<exists>k. i = PInt k)"
| "wf_segment _ = False"

fun wf_path :: "pyval \<Rightarrow> bool" where
  "wf_path (PList segs) = (segs \<noteq> [] \<and> (\<forall>s \<in> set segs. wf_segment s))"
| "wf_path _ = False"

fun literal :: "pyval \<Rightarrow> bool" where
  "literal v = (case v of PNone \<Rightarrow> True | PBool _ \<Rightarrow> True | PInt _ \<Rightarrow> True | PFloat _ \<Rightarrow> True
                        | PStr _ \<Rightarrow> True | _ \<Rightarrow> False)"

fun list_item :: "pyval \<Rightarrow> bool" where
  "list_item v = (literal v \<or> (\<exists>segs. v = PSubst segs \<and> wf_path segs))"

fun raw_node :: "pyval \<Rightarrow> bool" where
  "raw_node (PSubst segs) = wf_path segs"
| "raw_node (PLen v) = (case v of PSubst segs \<Rightarrow> wf_path segs | _ \<Rightarrow> False)"
| "raw_node (PDict d) =
     (\<exists>vs. d = [(''__type__'', PStr ''list''), (''values'', PList vs)] \<and> (\<forall>v \<in> set vs. list_item v))"
| "raw_node (PList xs) = (\<forall>x \<in> set xs. raw_node x)"
| "raw_node (PResults xs) = (\<forall>x \<in> set xs. raw_node x)"
| "raw_node (PMethod _ _) = False"
| "raw_node _ = True"

fun wf_compiled :: "pyval \<Rightarrow> bool" where
  "wf_compiled (PDict d) =
     (if type_tag d ''path'' then wf_path (dict_get d ''segments'' (PList []))
      else if type_tag d ''len''
      then (case map_of d ''value'' of
              None \<Rightarrow> True
            | Some v \<Rightarrow> (case is_path_dict v of
                           Some segs \<Rightarrow> wf_path segs
                         | None \<Rightarrow> (case v of PSubst _ \<Rightarrow> False | _ \<Rightarrow> True)))
      else if type_tag d ''list''
      then (case map_of d ''values'' of
              Some (PList vs) \<Rightarrow> (\<forall>v \<in> set vs. wf_compiled v)
            | _ \<Rightarrow> True)
      else True)"
| "wf_compiled (PList xs) = (\<forall>x \<in> set xs. wf_compiled x)"
| "wf_compiled (PSubst _) = False"
| "wf_compiled (PLen _) = False"
| "wf_compiled (PResults _) = False"
| "wf_compiled _ = True"

text \<open>A chain of operands joined by one connective word.\<close>

fun chain_of :: "string \<Rightarrow> pyval list \<Rightarrow> pyval list" where
  "chain_of op [] = []"
| "chain_of op (x # xs) = x # concat (map (\<lambda>y. [PStr op, y]) xs)"

text \<open>The usual routing condition: a path compared with a string literal.\<close>

definition switch_case :: "pyval \<Rightarrow> string \<Rightarrow> pyval" where
  "switch_case path s = PList [path, PStr ''=='', PStr s]"

text \<open>A map on nodes that keeps the words (strings) of a condition and makes no new ones.\<close>

definition keeps_words :: "(pyval \<Rightarrow> pyval) \<Rightarrow> bool" where
  "keeps_words f \<longleftrightarrow> (\<forall>v s. f v = PStr s \<longleftrightarrow> v = PStr s)"

text \<open>A condition and a node output used by the examples.\<close>

definition demo_condition :: pyval where
  "demo_condition = PResults [PSubst (PList [PList [PStr ''result'', PInt 0], PList [PStr ''intent'']]),
     PStr ''=='', PStr ''query'']"

definition demo_output :: pydict where
  "demo_output = [(''result'', PList [PDict [(''intent'', PStr ''query'')]])]"

definition demo_switch_path :: pyval where
  "demo_switch_path = PDict [(''__type__'', PStr ''path''), (''segments'', PList [PList [PStr ''kind'']])]"

subsection \<open>Lemmas\<close>

lemma domain_edge_error [simp]: "is_domain_validation edge_evaluation_error"
  by (simp add: edge_evaluation_error_def)

lemma resolve_indices_error: "resolve_indices ids v = Inl e \<Longrightarrow> e = edge_evaluation_error"
  by (induction ids v rule: resolve_indices.induct) (auto split: pyval.splits sum.splits)

lemma resolve_name_str_error: "resolve_name (PStr n) v = Inl e \<Longrightarrow> e = edge_evaluation_error"
  by (auto simp: resolve_name_def split: pyval.splits option.splits)

lemma wf_segmentE:
  assumes "wf_segment s"
  obtains n ids where "s = PList (PStr n # ids)"
  using assms by (cases s rule: wf_segment.cases) auto

lemma resolve_segments_error:
  "\<forall>s \<in> set segs. wf_segment s \<Longrightarrow> resolve_segments segs v = Inl e \<Longrightarrow> e = edge_evaluation_error"
proof (induction segs arbitrary: v)
  case (Cons s segs)
  from Cons.prems obtain n ids where s: "s = PList (PStr n # ids)"
    by (auto elim: wf_segmentE)
  with Cons show ?case
    by (auto simp: rbind_eq_Inl dest: resolve_name_str_error resolve_indices_error)
qed simp

lemma subst_resolve_error:
  "wf_path segs \<Longrightarrow> subst_resolve segs v = Inl e \<Longrightarrow> e = edge_evaluation_error"
  by (cases segs) (auto simp: subst_resolve_def rbind_eq_Inl split: if_splits dest: resolve_segments_error)

lemma py_len_checked_error: "py_len_checked v = Inl e \<Longrightarrow> e = edge_evaluation_error"
  by (auto simp: py_len_checked_def split: sum.splits)

lemma len_resolve_error:
  "wf_path segs \<Longrightarrow> len_resolve (PSubst segs) v = Inl e \<Longrightarrow> e = edge_evaluation_error"
  by (auto simp: rbind_eq_Inl dest: subst_resolve_error py_len_checked_error)

lemma to_serializable_PStr [simp]: "to_serializable v = PStr s \<longleftrightarrow> v = PStr s"
  by (cases v) auto

lemma str_in_serializable [simp]: "str_in (to_serializable v) t = str_in v t"
  by (cases v) (auto simp: str_in_def)

lemma is_not_word_serializable [simp]: "is_not_word (to_serializable v) = is_not_word v"
  by (cases v) (auto simp: is_not_word_def)

lemma lower_of_serializable [simp]: "lower_of (to_serializable v) = lower_of v"
  by (cases v) auto

lemma type_tag_Cons [simp]: "type_tag ((''__type__'', PStr t) # d) t' \<longleftrightarrow> t = t'"
  by (simp add: type_tag_def)

lemma eval_literal: "literal v \<Longrightarrow> eval same v ctx = Inr v"
  by (cases v) auto

lemma eval_PSubst_wf: "wf_path segs \<Longrightarrow> eval same (PSubst segs) ctx = subst_resolve segs ctx"
  by (auto split: sum.splits dest: subst_resolve_error)

lemma eval_path_dict [simp]:
  "eval same (PDict [(''__type__'', PStr ''path''), (''segments'', segs)]) ctx = subst_resolve segs ctx"
  by (simp add: dict_get_def)

text \<open>
  Evaluation of a list node only needs the evaluation of its items and the words it is made of, so
  two evaluations that agree on the items agree on the node.
\<close>

lemma not_word:
  assumes "\<forall>s. v \<noteq> PStr s"
  shows "str_in v t = None" "is_not_word v = False" "lower_of v = Inl (Py AttributeError)"
  using assms by (cases v; simp add: str_in_def is_not_word_def)+

lemma keeps_wordsD:
  assumes "keeps_words f"
  shows "str_in (f v) t = str_in v t" "is_not_word (f v) = is_not_word v" "lower_of (f v) = lower_of v"
proof -
  consider s where "v = PStr s" "f v = PStr s" | "\<forall>s. v \<noteq> PStr s" "\<forall>s. f v \<noteq> PStr s"
    using assms by (auto simp: keeps_words_def)
  then have "str_in (f v) t = str_in v t \<and> is_not_word (f v) = is_not_word v \<and> lower_of (f v) = lower_of v"
    by cases (simp_all add: not_word)
  then show "str_in (f v) t = str_in v t" "is_not_word (f v) = is_not_word v" "lower_of (f v) = lower_of v"
    by simp_all
qed

lemma keeps_words_id [simp]: "keeps_words (\<lambda>v. v)"
  by (simp add: keeps_words_def)

lemma keeps_words_serializable [simp]: "keeps_words to_serializable"
  by (simp add: keeps_words_def)

lemma eval_list_cong:
  "(\<And>x. x \<in> set xs \<Longrightarrow> eval same (f x) c = eval same x c') \<Longrightarrow>
   eval_list same (map f xs) c = eval_list same xs c'"
  by (induction xs) auto

lemma eval_chain_cong:
  "keeps_words f \<Longrightarrow> (\<And>x. x \<in> set xs \<Longrightarrow> eval same (f x) c = eval same x c') \<Longrightarrow>
   eval_chain same r (map f xs) c = eval_chain same r xs c'"
proof (induction xs arbitrary: r rule: induct_list012)
  case (3 op x xs)
  then show ?case by (auto simp: keeps_wordsD intro!: rbind_cong)
qed (simp_all add: keeps_wordsD)

lemma eval_PList_cong:
  assumes f: "keeps_words f" and eq: "\<And>x. x \<in> set xs \<Longrightarrow> eval same (f x) c = eval same x c'"
  shows "eval same (PList (map f xs)) c = eval same (PList xs) c'"
proof (cases xs)
  case (Cons n ns)
  have n: "eval same (f n) c = eval same n c'" and
    ns: "\<And>x. x \<in> set ns \<Longrightarrow> eval same (f x) c = eval same x c'"
    using eq by (auto simp: Cons)
  have lst: "eval_list same (map f ns) c = eval_list same ns c'" using ns by (rule eval_list_cong)
  have chain: "eval_chain same r (map f ns) c = eval_chain same r ns c'" for r
    using f ns by (rule eval_chain_cong)
  show ?thesis
  proof (cases "str_in n CUSTOM_FUNCTIONS")
    case (Some a)
    then show ?thesis by (simp add: Cons keeps_wordsD [OF f] lst)
  next
    case None
    consider "ns = []" | x where "ns = [x]" | op x where "ns = [op, x]"
      | op x y zs where "ns = op # x # y # zs"
      by (metis remdups_adj.cases)
    then show ?thesis
    proof cases
      case 3
      then show ?thesis using None ns by (simp add: Cons keeps_wordsD [OF f] n)
    qed (use None ns chain in \<open>simp_all add: Cons keeps_wordsD [OF f] n del: eval_chain.simps\<close>)
  qed
qed simp

lemma eval_list_frame:
  "(\<And>x. x \<in> set xs \<Longrightarrow> eval same x c = eval same x c') \<Longrightarrow>
   eval_list same xs c = eval_list same xs c'"
  using eval_list_cong [of xs same "\<lambda>v. v" c c'] by simp

lemma eval_PList_frame:
  "(\<And>x. x \<in> set xs \<Longrightarrow> eval same x c = eval same x c') \<Longrightarrow>
   eval same (PList xs) c = eval same (PList xs) c'"
  using eval_PList_cong [of "\<lambda>v. v" xs same c c'] by simp

lemma eval_list_item:
  "list_item v \<Longrightarrow> eval same (to_serializable v) ctx = eval same v ctx"
  by (cases v) (auto simp: eval_PSubst_wf dict_get_def simp del: eval.simps(5))

lemma eval_serializable:
  "raw_node n \<Longrightarrow> eval same (to_serializable n) ctx = eval same n ctx"
proof (induction n rule: raw_node.induct)
  case (1 segs)
  then show ?case by (simp add: eval_PSubst_wf dict_get_def del: eval.simps(5))
next
  case (2 v)
  then obtain segs where v: "v = PSubst segs" "wf_path segs" by (auto split: pyval.splits)
  then show ?case
    by (auto simp: is_path_dict_def dict_get_def simp del: len_resolve.simps split: sum.splits
             dest: len_resolve_error)
next
  case (3 d)
  then obtain vs where d: "d = [(''__type__'', PStr ''list''), (''values'', PList vs)]"
    and vs: "\<forall>v \<in> set vs. list_item v" by auto
  have "eval_list same (map to_serializable vs) ctx = eval_list same vs ctx"
    using vs by (intro eval_list_cong) (auto simp del: list_item.simps intro: eval_list_item)
  then show ?case by (simp add: d)
next
  case (4 xs)
  then show ?case by (auto intro!: eval_PList_cong simp del: eval.simps(3,4))
next
  case (5 xs)
  then show ?case by (auto intro!: eval_PList_cong simp del: eval.simps(3,4))
qed auto


lemma subst_resolve_root:
  assumes "wf_path segs" "segs = PList (PList (PStr n # ids) # rest)" "map_of d n = map_of e n"
  shows "subst_resolve segs (PDict d) = subst_resolve segs (PDict e)"
  using assms by (simp add: subst_resolve_def resolve_name_def)

lemma path_frame:
  assumes "wf_path (dict_get d' ''segments'' (PList []))"
    and "\<forall>x \<in> set (path_root d'). map_of d x = map_of e x"
  shows "subst_resolve (dict_get d' ''segments'' (PList [])) (PDict d) =
         subst_resolve (dict_get d' ''segments'' (PList [])) (PDict e)"
proof -
  obtain s rest where segs: "dict_get d' ''segments'' (PList []) = PList (s # rest)" and s: "wf_segment s"
    using assms(1) by (cases "dict_get d' ''segments'' (PList [])") (auto simp: neq_Nil_conv)
  from s obtain n ids where s': "s = PList (PStr n # ids)" by (rule wf_segmentE)
  with assms(2) segs have "map_of d n = map_of e n" by (simp add: path_root_def)
  then show ?thesis using subst_resolve_root [of _ n ids rest d e] assms(1) segs s' by simp
qed

lemma len_frame:
  assumes "map_of d' ''value'' = Some v" "\<not> type_tag d' ''path''"
    and wf: "case is_path_dict v of Some segs \<Rightarrow> wf_path segs | None \<Rightarrow> (case v of PSubst _ \<Rightarrow> False | _ \<Rightarrow> True)"
    and agree: "\<forall>x \<in> set (collect_identifiers (PDict d')). map_of d x = map_of e x"
  shows "(case is_path_dict v of Some segs \<Rightarrow> len_resolve (PSubst segs) (PDict d) | None \<Rightarrow> len_resolve v (PDict d)) =
         (case is_path_dict v of Some segs \<Rightarrow> len_resolve (PSubst segs) (PDict e) | None \<Rightarrow> len_resolve v (PDict e))"
proof (cases "is_path_dict v")
  case None
  then show ?thesis using wf by (cases v) auto
next
  case (Some segs)
  then obtain dv where v: "v = PDict dv" "type_tag dv ''path''" "segs = dict_get dv ''segments'' (PList [])"
    by (cases v) (auto simp: is_path_dict_def split: if_splits)
  have "set (path_root dv) \<subseteq> set (collect_identifiers (PDict d'))"
    using assms(1,2) v(1,2) by (force dest: map_of_SomeD)
  then have "\<forall>x \<in> set (path_root dv). map_of d x = map_of e x"
    using agree by blast
  then show ?thesis using Some wf path_frame [of dv d e] v(3) by simp
qed

lemma eval_frame:
  "wf_compiled c \<Longrightarrow> \<forall>x \<in> set (collect_identifiers c). map_of d x = map_of e x \<Longrightarrow>
   eval same c (PDict d) = eval same c (PDict e)"
proof (induction c rule: wf_compiled.induct)
  case (1 d')
  consider "type_tag d' ''path''" | "type_tag d' ''len''" | "type_tag d' ''list''"
    | "\<not> type_tag d' ''path''" "\<not> type_tag d' ''len''" "\<not> type_tag d' ''list''" by blast
  then show ?case
  proof cases
    case 1
    then show ?thesis using path_frame [of d' d e] "1.prems" by simp
  next
    case 2
    then have np: "\<not> type_tag d' ''path''" by (simp add: type_tag_def)
    show ?thesis
    proof (cases "map_of d' ''value''")
      case None
      then show ?thesis using 2 np by simp
    next
      case (Some v)
      then show ?thesis using 2 np "1.prems" len_frame [OF Some np, of d e] by simp
    qed
  next
    case 3
    then have np: "\<not> type_tag d' ''path''" "\<not> type_tag d' ''len''" by (simp_all add: type_tag_def)
    show ?thesis
    proof (cases "\<exists>vs. map_of d' ''values'' = Some (PList vs)")
      case True
      then obtain vs where vs: "map_of d' ''values'' = Some (PList vs)" by blast
      have "eval same v (PDict d) = eval same v (PDict e)" if v: "v \<in> set vs" for v
      proof (rule "1.IH" [OF np(1) np(2) 3 vs refl v])
        show "wf_compiled v" using "1.prems"(1) np 3 vs v by simp
        have "set (collect_identifiers v) \<subseteq> set (collect_identifiers (PList vs))" using v by auto
        also have "\<dots> \<subseteq> set (collect_identifiers (PDict d'))"
          using map_of_SomeD [OF vs] np by (auto simp del: collect_identifiers.simps(2))
        finally show "\<forall>x \<in> set (collect_identifiers v). map_of d x = map_of e x"
          using "1.prems"(2) by blast
      qed
      then have "eval_list same vs (PDict d) = eval_list same vs (PDict e)"
        by (rule eval_list_frame)
      then show ?thesis using np 3 vs by simp
    next
      case False
      show ?thesis
      proof (cases "map_of d' ''values''")
        case None
        then show ?thesis using np 3 by simp
      next
        case (Some v)
        then show ?thesis using np 3 False by (cases v) simp_all
      qed
    qed
  next
    case 4
    then show ?thesis by simp
  qed
next
  case (2 xs)
  then have "eval same x (PDict d) = eval same x (PDict e)" if "x \<in> set xs" for x
    using that by auto
  then show ?case by (rule eval_PList_frame)
qed auto


lemma to_serializable_list_item: "list_item v \<Longrightarrow> wf_compiled (to_serializable v)"
  by (cases v) (auto simp: dict_get_def)

lemma wf_compiled_serializable: "raw_node n \<Longrightarrow> wf_compiled (to_serializable n)"
proof (induction n rule: raw_node.induct)
  case (1 segs)
  then show ?case by (simp add: dict_get_def)
next
  case (2 v)
  then show ?case by (auto simp: is_path_dict_def dict_get_def split: pyval.splits)
next
  case (3 d)
  then obtain vs where d: "d = [(''__type__'', PStr ''list''), (''values'', PList vs)]"
    and vs: "\<forall>v \<in> set vs. list_item v" by auto
  show ?case using vs to_serializable_list_item by (simp add: d del: list_item.simps)
qed auto

text \<open>C12: compiling a condition loses nothing.  For every condition whose parse has the grammar's
  shape, \<open>compile_condition\<close> returns a well-formed serialised condition, and evaluating that one gives
  the same value or the same error as evaluating the parse tree, on every node output.\<close>

theorem compile_condition_faithful:
  assumes "parse condition = Inr parsed" and "raw_node parsed"
  shows "compile_condition parse condition = Inr (to_serializable parsed)
     \<and> wf_compiled (to_serializable parsed)
     \<and> eval same (to_serializable parsed) ctx = eval same parsed ctx"
  using assms eval_serializable wf_compiled_serializable by (simp add: compile_condition_def)

theorem compile_condition_faithful_witness:
  "compile_condition (\<lambda>_. Inr demo_condition) ''c'' = Inr (to_serializable demo_condition)
   \<and> wf_compiled (to_serializable demo_condition)
   \<and> eval (=) (to_serializable demo_condition) (PDict demo_output) = eval (=) demo_condition (PDict demo_output)"
  by (rule compile_condition_faithful [where parse = "\<lambda>_. Inr demo_condition" and condition = "''c''"])
    (simp_all add: demo_condition_def)

lemma is_true_compiled:
  "is_true parse same condition ctx (Some c) =
     (case eval same c ctx of
        Inr (PBool b) \<Rightarrow> Inr b
      | Inr _ \<Rightarrow> Inl edge_evaluation_error
      | Inl e \<Rightarrow> if is_domain_validation e then Inl e else Inl edge_evaluation_error)"
  by (auto simp: is_true_def Let_def split: sum.splits pyval.splits)

text \<open>C17: \<open>collect_identifiers\<close> is complete.  Two node outputs that agree on the identifiers
  collected from a compiled condition give the same verdict (or the same error), so validating
  those names against a node's output schema covers everything the edge reads.\<close>

theorem is_true_reads_identifiers:
  assumes "parse condition = Inr parsed" "raw_node parsed" "compile_condition parse condition = Inr compiled"
    and "\<forall>x \<in> set (collect_identifiers compiled). map_of out x = map_of out' x"
  shows "is_true parse same condition (PDict out) (Some compiled) =
         is_true parse same condition (PDict out') (Some compiled)"
proof -
  have "wf_compiled compiled"
    using assms(1-3) wf_compiled_serializable by (auto simp: compile_condition_def)
  then show ?thesis using eval_frame [of compiled out out' same] assms(4) by (simp add: is_true_compiled)
qed

theorem is_true_reads_identifiers_witness:
  "collect_identifiers (to_serializable demo_condition) = [''result'']
   \<and> is_true (\<lambda>_. Inr demo_condition) (=) ''c'' (PDict demo_output) (Some (to_serializable demo_condition)) =
     is_true (\<lambda>_. Inr demo_condition) (=) ''c'' (PDict ((''other'', PNone) # demo_output)) (Some (to_serializable demo_condition))"
proof -
  have ids: "collect_identifiers (to_serializable demo_condition) = [''result'']"
    by (simp add: demo_condition_def path_root_def dict_get_def)
  show ?thesis
    using is_true_reads_identifiers [where parse = "\<lambda>_. Inr demo_condition" and condition = "''c''"
        and parsed = demo_condition and compiled = "to_serializable demo_condition" and same = "(=)"
        and out = demo_output and out' = "(''other'', PNone) # demo_output"] ids
    by (simp add: compile_condition_def demo_condition_def)
qed

text \<open>C18: \<open>is_true\<close> only ever raises \<open>DomainValidationException\<close> (or a subclass), whatever the
  condition, its compiled form and the node output are; \<open>NodeStepRunner\<close> catches exactly that class.\<close>

theorem is_true_error_domain:
  "is_true parse same condition ctx compiled = Inl e \<Longrightarrow> is_domain_validation e"
  by (auto simp: is_true_def Let_def split: sum.splits if_splits)

theorem is_true_error_domain_witness:
  "is_true (\<lambda>_. Inl (Py ValueError)) (=) ''a = '' PNone None = Inl (Service DomainValidation ''edge_condition_invalid'')
   \<and> is_domain_validation (Service DomainValidation ''edge_condition_invalid'')"
proof -
  have eq: "is_true (\<lambda>_. Inl (Py ValueError)) (=) ''a = '' PNone None = Inl (Service DomainValidation ''edge_condition_invalid'')"
    by (simp add: is_true_def compile_condition_def)
  with is_true_error_domain [OF eq] show ?thesis by simp
qed

lemma eval_chain_and:
  "py_lower op = ''and'' \<Longrightarrow> eval_list same xs ctx = Inr vs \<Longrightarrow>
   eval_chain same (PBool b) (concat (map (\<lambda>y. [PStr op, y]) xs)) ctx =
     Inr (PBool (b \<and> (\<forall>v \<in> set vs. truthy v)))"
  by (induction xs arbitrary: b vs) (auto simp: rbind_eq_Inr)

lemma eval_chain_or:
  "py_lower op = ''or'' \<Longrightarrow> eval_list same xs ctx = Inr vs \<Longrightarrow>
   eval_chain same (PBool b) (concat (map (\<lambda>y. [PStr op, y]) xs)) ctx =
     Inr (PBool (b \<or> (\<exists>v \<in> set vs. truthy v)))"
  by (induction xs arbitrary: b vs) (auto simp: rbind_eq_Inr)

lemma and_or_not_operators [simp]:
  "map_of COMPARISON_AND_SET_OPERATORS ''and'' = None"
  "map_of COMPARISON_AND_SET_OPERATORS ''or'' = None"
  by (simp_all add: COMPARISON_AND_SET_OPERATORS_def COMPARISON_OPERATORS_def SET_OPERATORS_def
      sym_ne_def sym_le_def sym_ge_def sym_in_def sym_notin_def sym_subset_def sym_superset_def sym_cap_def)

text \<open>a chain of two or more operands joined by \<open>and\<close> (or by \<open>or\<close>), in any case of letters,
  evaluates to the conjunction (disjunction) of the truth values of all operands: the three-element
  form and the loop for longer chains agree, and every operand is evaluated.\<close>

theorem eval_connective_chain:
  assumes "eval_list same (x # y # xs) ctx = Inr vs" and "str_in x CUSTOM_FUNCTIONS = None"
    and "py_lower op \<in> {''and'', ''or''}"
  shows "eval same (PList (chain_of op (x # y # xs))) ctx =
     Inr (PBool (if py_lower op = ''and'' then \<forall>v \<in> set vs. truthy v else \<exists>v \<in> set vs. truthy v))"
proof -
  obtain a b us where ev: "eval same x ctx = Inr a" "eval same y ctx = Inr b"
    "eval_list same xs ctx = Inr us" "vs = a # b # us"
    using assms(1) by (auto simp: rbind_eq_Inr)
  show ?thesis
  proof (cases xs)
    case Nil
    then show ?thesis using assms(2,3) ev by (auto simp: apply_operator_def)
  next
    case (Cons z zs)
    have split: "eval same (PList (chain_of op (x # y # xs))) ctx =
        rbind (eval same x ctx) (\<lambda>r. eval_chain same r (concat (map (\<lambda>y. [PStr op, y]) (y # xs))) ctx)"
      using assms(2) Cons by (simp del: eval_chain.simps)
    show ?thesis
      using assms(3) ev eval_chain_and [of op same xs ctx us] eval_chain_or [of op same xs ctx us]
      unfolding split by auto
  qed
qed

theorem eval_connective_chain_witness:
  "eval (=) (PList (chain_of ''AND'' [PBool True, PStr ''x'', PInt 0])) (PDict []) = Inr (PBool False)"
proof -
  have "py_lower ''AND'' = ''and''" by code_simp
  then show ?thesis
    using eval_connective_chain [of "(=)" "PBool True" "PStr ''x''" "[PInt 0]" "PDict []"
        "[PBool True, PStr ''x'', PInt 0]" "''AND''"]
    by (simp add: str_in_def)
qed

lemma py_eq_PStr [simp]: "py_eq v (PStr s) \<longleftrightarrow> v = PStr s"
  by (cases v) auto

lemma eq_operator: "map_of COMPARISON_AND_SET_OPERATORS ''=='' = Some OpEq"
  by (simp add: COMPARISON_AND_SET_OPERATORS_def COMPARISON_OPERATORS_def)



end
