(* ===== verification/GraphSearch.thy ===== *)
theory GraphSearch
  imports Main
begin

text \<open>
  The three depth-first searches that the graph validators are written with, over a successor
  function:

  \<^item> \<open>dfs\<close>: collect the nodes visited from a node (\<open>_validate_reachability\<close> of the graph compiler,
    the reachability check of the authoring validator);
  \<^item> \<open>dfs_loops\<close>: look for an edge back into the current path that is not marked as a loop
    (\<open>_validate_loops\<close>, \<open>_validate_cycles\<close>);
  \<^item> \<open>has_terminal_path\<close>: backtracking search for a terminal node.

  Each recursion takes fuel, which bounds the depth of the nested calls as the interpreter's stack
  does; \<open>None\<close> is running out of it.  The locale \<open>finite_graph\<close> states that the successors stay
  inside a finite universe and proves that one unit of fuel more than its size is always enough.
\<close>

subsection \<open>Searches\<close>

fun dfs :: "nat \<Rightarrow> ('n \<Rightarrow> 'n list) \<Rightarrow> 'n \<Rightarrow> 'n list \<Rightarrow> 'n list option"
  and dfs_each :: "nat \<Rightarrow> ('n \<Rightarrow> 'n list) \<Rightarrow> 'n list \<Rightarrow> 'n list \<Rightarrow> 'n list option" where
  "dfs 0 succ n visited = None"
| "dfs (Suc fuel) succ n visited =
     (if n \<in> set visited then Some visited
      else dfs_each fuel succ (succ n) (n # visited))"
| "dfs_each fuel succ [] visited = Some visited"
| "dfs_each fuel succ (m # ms) visited =
     (case dfs fuel succ m visited of
        None \<Rightarrow> None
      | Some visited' \<Rightarrow> dfs_each fuel succ ms visited')"

text \<open>
  The loop check carries \<open>visiting\<close> (the nodes of the current path) and \<open>visited\<close> (the finished
  nodes, latest first).  Successors come with their edge mark, \<open>True\<close> for a LOOP edge.  The result
  \<open>Some None\<close> is the error \<open>cycle_not_marked_loop\<close>.
\<close>

fun dfs_loops ::
    "nat \<Rightarrow> ('n \<Rightarrow> ('n \<times> bool) list) \<Rightarrow> 'n \<Rightarrow> 'n list \<Rightarrow> 'n list \<Rightarrow> 'n list option option"
  and dfs_loops_each ::
    "nat \<Rightarrow> ('n \<Rightarrow> ('n \<times> bool) list) \<Rightarrow> ('n \<times> bool) list \<Rightarrow> 'n list \<Rightarrow> 'n list
     \<Rightarrow> 'n list option option" where
  "dfs_loops 0 succ n visiting visited = None"
| "dfs_loops (Suc fuel) succ n visiting visited =
     (if n \<in> set visiting then Some (Some visited)
      else case dfs_loops_each fuel succ (succ n) (n # visiting) visited of
             None \<Rightarrow> None
           | Some None \<Rightarrow> Some None
           | Some (Some visited') \<Rightarrow> Some (Some (n # visited')))"
| "dfs_loops_each fuel succ [] visiting visited = Some (Some visited)"
| "dfs_loops_each fuel succ ((m, is_loop) # es) visiting visited =
     (if m \<in> set visiting \<and> \<not> is_loop then Some None
      else if m \<notin> set visited
      then (case dfs_loops fuel succ m visiting visited of
              None \<Rightarrow> None
            | Some None \<Rightarrow> Some None
            | Some (Some visited') \<Rightarrow> dfs_loops_each fuel succ es visiting visited')
      else dfs_loops_each fuel succ es visiting visited)"

fun has_terminal_path ::
    "nat \<Rightarrow> ('n \<Rightarrow> 'n list) \<Rightarrow> ('n \<Rightarrow> bool) \<Rightarrow> 'n \<Rightarrow> 'n list \<Rightarrow> bool option"
  and any_terminal_path ::
    "nat \<Rightarrow> ('n \<Rightarrow> 'n list) \<Rightarrow> ('n \<Rightarrow> bool) \<Rightarrow> 'n list \<Rightarrow> 'n list \<Rightarrow> bool option" where
  "has_terminal_path 0 succ terminal n seen = None"
| "has_terminal_path (Suc fuel) succ terminal n seen =
     (if n \<in> set seen then Some False
      else if terminal n then Some True
      else any_terminal_path fuel succ terminal (succ n) (n # seen))"
| "any_terminal_path fuel succ terminal [] seen = Some False"
| "any_terminal_path fuel succ terminal (m # ms) seen =
     (case has_terminal_path fuel succ terminal m seen of
        None \<Rightarrow> None
      | Some True \<Rightarrow> Some True
      | Some False \<Rightarrow> any_terminal_path fuel succ terminal ms seen)"

subsection \<open>Graphs of a successor function\<close>

definition graph_of :: "('n \<Rightarrow> 'n list) \<Rightarrow> ('n \<times> 'n) set" where
  "graph_of succ = {(a, b). b \<in> set (succ a)}"

definition targets :: "('n \<Rightarrow> ('n \<times> bool) list) \<Rightarrow> 'n \<Rightarrow> 'n list" where
  "targets succ n = map fst (succ n)"

text \<open>The edges that are not marked as loops.\<close>

definition normal_edges :: "('n \<Rightarrow> ('n \<times> bool) list) \<Rightarrow> ('n \<times> 'n) set" where
  "normal_edges succ = {(a, b). (b, False) \<in> set (succ a)}"

text \<open>Every node of the list only has normal edges to nodes finished before it.\<close>

fun topo :: "('n \<Rightarrow> ('n \<times> bool) list) \<Rightarrow> 'n list \<Rightarrow> bool" where
  "topo succ [] = True"
| "topo succ (n # ns) = ((\<forall>m. (m, False) \<in> set (succ n) \<longrightarrow> m \<in> set ns) \<and> n \<notin> set ns \<and> topo succ ns)"

definition avoiding :: "('n \<Rightarrow> 'n list) \<Rightarrow> 'n set \<Rightarrow> ('n \<times> 'n) set" where
  "avoiding succ S = {(a, b). b \<in> set (succ a) \<and> b \<notin> S}"

lemma graph_of_iff [simp]: "(a, b) \<in> graph_of succ \<longleftrightarrow> b \<in> set (succ a)"
  by (simp add: graph_of_def)

subsection \<open>Reachability\<close>

lemma dfs_grows:
  "dfs fuel succ n V = Some W \<Longrightarrow> set V \<subseteq> set W"
  "dfs_each fuel succ ms V = Some W \<Longrightarrow> set V \<subseteq> set W"
  by (induction fuel succ n V and fuel succ ms V arbitrary: W and W rule: dfs_dfs_each.induct)
    (auto split: if_splits option.splits)

lemma dfs_roots:
  "dfs fuel succ n V = Some W \<Longrightarrow> n \<in> set W"
  "dfs_each fuel succ ms V = Some W \<Longrightarrow> set ms \<subseteq> set W"
proof (induction fuel succ n V and fuel succ ms V arbitrary: W and W rule: dfs_dfs_each.induct)
  case (2 fuel succ n V)
  then show ?case using dfs_grows(2) by (fastforce split: if_splits)
next
  case (4 fuel succ m ms V)
  then show ?case using dfs_grows(2) by (fastforce split: option.splits)
qed auto

text \<open>New nodes have all their successors visited.\<close>

lemma dfs_closed:
  "dfs fuel succ n V = Some W \<Longrightarrow> a \<in> set W \<Longrightarrow> a \<notin> set V \<Longrightarrow> set (succ a) \<subseteq> set W"
  "dfs_each fuel succ ms V = Some W \<Longrightarrow> a \<in> set W \<Longrightarrow> a \<notin> set V \<Longrightarrow> set (succ a) \<subseteq> set W"
proof (induction fuel succ n V and fuel succ ms V arbitrary: W and W rule: dfs_dfs_each.induct)
  case (2 fuel succ n V)
  show ?case
  proof (cases "n \<in> set V")
    case True
    with 2 show ?thesis by simp
  next
    case False
    with 2(2) have W: "dfs_each fuel succ (succ n) (n # V) = Some W" by simp
    show ?thesis
    proof (cases "a = n")
      case True
      then show ?thesis using dfs_roots(2) [OF W] by simp
    next
      case a: False
      then show ?thesis using 2(1) [OF False W] 2(3,4) by simp
    qed
  qed
next
  case (4 fuel succ m ms V)
  then obtain V' where V': "dfs fuel succ m V = Some V'" "dfs_each fuel succ ms V' = Some W"
    by (auto split: option.splits)
  show ?case
  proof (cases "a \<in> set V'")
    case True
    then have "set (succ a) \<subseteq> set V'" using 4(1) V'(1) 4(5) by blast
    then show ?thesis using dfs_grows(2) [OF V'(2)] by blast
  next
    case False
    then show ?thesis using 4(2) [OF V'(1) V'(2)] 4(4) by blast
  qed
qed auto

lemma dfs_sound:
  "dfs fuel succ n V = Some W \<Longrightarrow> set W \<subseteq> set V \<union> (graph_of succ)\<^sup>* `` {n}"
  "dfs_each fuel succ ms V = Some W \<Longrightarrow> set W \<subseteq> set V \<union> (graph_of succ)\<^sup>* `` set ms"
proof (induction fuel succ n V and fuel succ ms V arbitrary: W and W rule: dfs_dfs_each.induct)
  case (2 fuel succ n V)
  show ?case
  proof (cases "n \<in> set V")
    case True
    with 2 show ?thesis by simp
  next
    case False
    with 2 have "set W \<subseteq> set (n # V) \<union> (graph_of succ)\<^sup>* `` set (succ n)" by simp
    moreover have "(graph_of succ)\<^sup>* `` set (succ n) \<subseteq> (graph_of succ)\<^sup>* `` {n}"
      by (auto intro: converse_rtrancl_into_rtrancl)
    ultimately show ?thesis by auto
  qed
next
  case (4 fuel succ m ms V)
  then obtain V' where V': "dfs fuel succ m V = Some V'" "dfs_each fuel succ ms V' = Some W"
    by (auto split: option.splits)
  with 4 show ?case by fastforce
qed auto

theorem dfs_reachable:
  assumes "dfs fuel succ n [] = Some W"
  shows "set W = (graph_of succ)\<^sup>* `` {n}"
proof
  show "set W \<subseteq> (graph_of succ)\<^sup>* `` {n}" using dfs_sound(1) [OF assms] by simp
  have "b \<in> set W" if "(n, b) \<in> (graph_of succ)\<^sup>*" for b
    using that
  proof (induction rule: rtrancl_induct)
    case base
    show ?case using dfs_roots(1) [OF assms] .
  next
    case (step a b)
    then show ?case using dfs_closed(1) [OF assms, of a] by auto
  qed
  then show "(graph_of succ)\<^sup>* `` {n} \<subseteq> set W" by blast
qed

subsection \<open>Loop marks\<close>

lemma dfs_loops_eachE:
  assumes "dfs_loops_each fuel succ ((m, l) # es) S W = Some (Some W')"
  obtains (skip) "\<not> (m \<in> set S \<and> \<not> l)" "m \<in> set W" "dfs_loops_each fuel succ es S W = Some (Some W')"
  | (visit) W1 where "\<not> (m \<in> set S \<and> \<not> l)" "m \<notin> set W"
      "dfs_loops fuel succ m S W = Some (Some W1)" "dfs_loops_each fuel succ es S W1 = Some (Some W')"
  using assms by (auto split: if_splits option.splits)

lemma dfs_loopsE:
  assumes "dfs_loops (Suc fuel) succ n S W = Some (Some W')"
  obtains (skip) "n \<in> set S" "W' = W"
  | (visit) W'' where "n \<notin> set S" "W' = n # W''"
      "dfs_loops_each fuel succ (succ n) (n # S) W = Some (Some W'')"
  using assms by (auto split: if_splits option.splits)

text \<open>
  What a successful loop check establishes: the finished list stays topologically ordered along the
  normal edges, and every edge of a newly finished node leads to a finished node or back into the
  path.
\<close>

lemma dfs_loops_invariant:
  "dfs_loops fuel succ n S W = Some (Some W') \<Longrightarrow> n \<notin> set W \<Longrightarrow> set S \<inter> set W = {} \<Longrightarrow> topo succ W \<Longrightarrow>
     topo succ W' \<and> set S \<inter> set W' = {} \<and> set W \<subseteq> set W' \<and> n \<in> set S \<union> set W' \<and>
     (\<forall>a \<in> set W' - set W. \<forall>e \<in> set (succ a). fst e \<in> set W' \<union> set S)"
  "dfs_loops_each fuel succ es S W = Some (Some W') \<Longrightarrow> set S \<inter> set W = {} \<Longrightarrow> topo succ W \<Longrightarrow>
     topo succ W' \<and> set S \<inter> set W' = {} \<and> set W \<subseteq> set W' \<and>
     (\<forall>(m, l) \<in> set es. m \<in> set W' \<or> m \<in> set S \<and> l) \<and>
     (\<forall>a \<in> set W' - set W. \<forall>e \<in> set (succ a). fst e \<in> set W' \<union> set S)"
proof (induction fuel succ n S W and fuel succ es S W arbitrary: W' and W'
      rule: dfs_loops_dfs_loops_each.induct)
  case (2 fuel succ n S W)
  from 2(2) show ?case
  proof (cases rule: dfs_loopsE)
    case skip
    then show ?thesis using 2 by simp
  next
    case (visit W'')
    have inv: "topo succ W''" "set (n # S) \<inter> set W'' = {}" "set W \<subseteq> set W''"
      "\<forall>(m, l) \<in> set (succ n). m \<in> set W'' \<or> m \<in> set (n # S) \<and> l"
      "\<forall>a \<in> set W'' - set W. \<forall>e \<in> set (succ a). fst e \<in> set W'' \<union> set (n # S)"
      using 2(1) [OF visit(1,3)] 2(3-5) by simp_all
    have "topo succ W'" using inv(1,2,4) by (auto simp: visit(2))
    moreover have "fst e \<in> set W' \<union> set S" if a: "a \<in> set W' - set W" and e: "e \<in> set (succ a)" for a e
    proof (cases "a = n")
      case True
      then show ?thesis using inv(4) e by (cases e) (auto simp: visit(2))
    next
      case False
      then have "fst e \<in> set W'' \<union> set (n # S)" using inv(5) a e by (auto simp: visit(2))
      then show ?thesis by (auto simp: visit(2))
    qed
    ultimately show ?thesis using inv(2,3) visit(1) by (auto simp: visit(2))
  qed
next
  case (4 fuel succ m l es S W)
  from 4(4) show ?case
  proof (cases rule: dfs_loops_eachE)
    case skip
    have i: "topo succ W'" "set S \<inter> set W' = {}" "set W \<subseteq> set W'"
       "\<forall>(m, l) \<in> set es. m \<in> set W' \<or> m \<in> set S \<and> l"
       "\<forall>a \<in> set W' - set W. \<forall>e \<in> set (succ a). fst e \<in> set W' \<union> set S"
      using 4(3) [OF skip(1) _ skip(3) 4(5,6)] skip(2) by simp_all
    have j: "\<forall>(m, l) \<in> set ((m, l) # es). m \<in> set W' \<or> m \<in> set S \<and> l"
      using i(3,4) skip(2) by auto
    show ?thesis by (intro conjI i j)
  next
    case (visit W1)
    have i1: "topo succ W1" "set S \<inter> set W1 = {}" "set W \<subseteq> set W1" "m \<in> set S \<union> set W1"
       "\<forall>a \<in> set W1 - set W. \<forall>e \<in> set (succ a). fst e \<in> set W1 \<union> set S"
      using 4(1) [OF visit(1-3,2) 4(5,6)] by simp_all
    have i2: "topo succ W'" "set S \<inter> set W' = {}" "set W1 \<subseteq> set W'"
       "\<forall>(m, l) \<in> set es. m \<in> set W' \<or> m \<in> set S \<and> l"
       "\<forall>a \<in> set W' - set W1. \<forall>e \<in> set (succ a). fst e \<in> set W' \<union> set S"
      using 4(2) [OF visit(1-3) refl visit(4) i1(2,1)] by simp_all
    have j: "\<forall>(m, l) \<in> set ((m, l) # es). m \<in> set W' \<or> m \<in> set S \<and> l"
      using i1(4) i2(3,4) visit(1) by auto
    have k: "\<forall>a \<in> set W' - set W. \<forall>e \<in> set (succ a). fst e \<in> set W' \<union> set S"
      using i1(5) i2(3,5) by blast
    have "set W \<subseteq> set W'" using i1(3) i2(3) by blast
    then show ?thesis by (intro conjI i2 j k)
  qed
qed simp_all

lemma topo_targets: "topo succ ns \<Longrightarrow> a \<in> set ns \<Longrightarrow> (m, False) \<in> set (succ a) \<Longrightarrow> m \<in> set ns"
  by (induction ns) auto

lemma topo_position:
  "topo succ ns \<Longrightarrow> a \<in> set ns \<Longrightarrow> (m, False) \<in> set (succ a) \<Longrightarrow>
   length (takeWhile (\<lambda>x. x \<noteq> a) ns) < length (takeWhile (\<lambda>x. x \<noteq> m) ns)"
proof (induction ns)
  case (Cons n ns)
  show ?case
  proof (cases "a = n")
    case True
    with Cons.prems have "m \<in> set ns" "m \<noteq> n" by auto
    with True show ?thesis by simp
  next
    case False
    with Cons.prems have a: "a \<in> set ns" "topo succ ns" "n \<notin> set ns" by auto
    have "m \<in> set ns" by (rule topo_targets [OF a(2,1) Cons.prems(3)])
    with a have "m \<noteq> n" by blast
    with Cons a False show ?thesis by auto
  qed
qed simp

lemma topo_acyclic:
  assumes "topo succ ns"
  shows "acyclic (normal_edges succ \<inter> set ns \<times> UNIV)"
proof -
  let ?pos = "\<lambda>a. length (takeWhile (\<lambda>x. x \<noteq> a) ns)"
  let ?r = "normal_edges succ \<inter> set ns \<times> UNIV"
  have "?r\<inverse> \<subseteq> measure (\<lambda>a. length ns - ?pos a)"
  proof
    fix p assume "p \<in> ?r\<inverse>"
    then obtain a m where p: "p = (m, a)" "a \<in> set ns" "(m, False) \<in> set (succ a)"
      by (auto simp: normal_edges_def)
    have "?pos a < ?pos m" using topo_position [OF assms] p by blast
    moreover have "?pos m \<le> length ns" by (rule length_takeWhile_le)
    ultimately show "p \<in> measure (\<lambda>a. length ns - ?pos a)" by (simp add: p)
  qed
  then have "acyclic (?r\<inverse>)" using wf_acyclic wf_subset wf_measure by blast
  then show ?thesis by (simp add: acyclic_converse)
qed

lemma dfs_loops_reached:
  "dfs_loops fuel succ n S W = Some (Some W') \<Longrightarrow> set W' \<subseteq> set W \<union> (graph_of (targets succ))\<^sup>* `` {n}"
  "dfs_loops_each fuel succ es S W = Some (Some W') \<Longrightarrow>
     set W' \<subseteq> set W \<union> (graph_of (targets succ))\<^sup>* `` (fst ` set es)"
proof (induction fuel succ n S W and fuel succ es S W arbitrary: W' and W'
      rule: dfs_loops_dfs_loops_each.induct)
  case (2 fuel succ n S W)
  from 2(2) show ?case
  proof (cases rule: dfs_loopsE)
    case skip
    then show ?thesis by simp
  next
    case (visit W'')
    have "(n, m) \<in> graph_of (targets succ)" if "m \<in> fst ` set (succ n)" for m
      using that by (simp add: targets_def)
    then have "(graph_of (targets succ))\<^sup>* `` (fst ` set (succ n)) \<subseteq> (graph_of (targets succ))\<^sup>* `` {n}"
      by (blast intro: converse_rtrancl_into_rtrancl)
    moreover have "set W'' \<subseteq> set W \<union> (graph_of (targets succ))\<^sup>* `` (fst ` set (succ n))"
      using 2(1) [OF visit(1,3)] .
    ultimately have "set W'' \<subseteq> set W \<union> (graph_of (targets succ))\<^sup>* `` {n}" by blast
    then show ?thesis by (simp add: visit(2))
  qed
next
  case (4 fuel succ m l es S W)
  from 4(4) show ?case
  proof (cases rule: dfs_loops_eachE)
    case skip
    then have "set W' \<subseteq> set W \<union> (graph_of (targets succ))\<^sup>* `` (fst ` set es)" using 4(3) by blast
    then show ?thesis by (simp add: Image_Un) blast
  next
    case (visit W1)
    have "set W1 \<subseteq> set W \<union> (graph_of (targets succ))\<^sup>* `` {m}" using 4(1) [OF visit(1-3)] .
    moreover have "set W' \<subseteq> set W1 \<union> (graph_of (targets succ))\<^sup>* `` (fst ` set es)"
      using 4(2) [OF visit(1-3) refl visit(4)] .
    ultimately show ?thesis by auto
  qed
qed simp_all

theorem dfs_loops_accepts:
  assumes "dfs_loops fuel succ n [] [] = Some (Some W)"
  shows "set W = (graph_of (targets succ))\<^sup>* `` {n}"
    and "acyclic (normal_edges succ \<inter> (graph_of (targets succ))\<^sup>* `` {n} \<times> UNIV)"
proof -
  have inv: "topo succ W" "n \<in> set W"
    "\<forall>a \<in> set W. \<forall>e \<in> set (succ a). fst e \<in> set W"
    using dfs_loops_invariant(1) [OF assms] by simp_all
  have "b \<in> set W" if "(n, b) \<in> (graph_of (targets succ))\<^sup>*" for b
    using that
  proof (induction rule: rtrancl_induct)
    case (step a b)
    then show ?case using inv(3) by (auto simp: targets_def)
  qed (rule inv(2))
  then have sup: "(graph_of (targets succ))\<^sup>* `` {n} \<subseteq> set W" by blast
  have "set W \<subseteq> (graph_of (targets succ))\<^sup>* `` {n}"
    using dfs_loops_reached(1) [OF assms] by simp
  with sup show W: "set W = (graph_of (targets succ))\<^sup>* `` {n}" by blast
  show "acyclic (normal_edges succ \<inter> (graph_of (targets succ))\<^sup>* `` {n} \<times> UNIV)"
    using topo_acyclic [OF inv(1)] by (simp add: W)
qed

text \<open>A rejected graph really has a normal edge that closes a cycle, in the part it can reach.\<close>

lemma dfs_loops_witness:
  "dfs_loops fuel succ n S W = Some None \<Longrightarrow> \<forall>s \<in> set S. (s, n) \<in> (graph_of (targets succ))\<^sup>* \<Longrightarrow>
     \<exists>a b. (n, a) \<in> (graph_of (targets succ))\<^sup>* \<and> (a, b) \<in> normal_edges succ
           \<and> (b, a) \<in> (graph_of (targets succ))\<^sup>*"
  "dfs_loops_each fuel succ es S W = Some None \<Longrightarrow> S = p # P \<Longrightarrow> set es \<subseteq> set (succ p) \<Longrightarrow>
     \<forall>s \<in> set S. (s, p) \<in> (graph_of (targets succ))\<^sup>* \<Longrightarrow>
     \<exists>a b. (p, a) \<in> (graph_of (targets succ))\<^sup>* \<and> (a, b) \<in> normal_edges succ
           \<and> (b, a) \<in> (graph_of (targets succ))\<^sup>*"
proof (induction fuel succ n S W and fuel succ es S W arbitrary: and p P
      rule: dfs_loops_dfs_loops_each.induct)
  case (2 fuel succ n S W)
  then have "n \<notin> set S" "dfs_loops_each fuel succ (succ n) (n # S) W = Some None"
    by (auto split: if_splits option.splits)
  then show ?case using 2(1) [of n S] 2(3) by simp
next
  case (4 fuel succ m l es S W)
  let ?r = "(graph_of (targets succ))\<^sup>*"
  have pm: "(p, m) \<in> graph_of (targets succ)" and es: "set es \<subseteq> set (succ p)"
    using 4(6) by (auto simp: targets_def image_iff intro: bexI [of _ "(m, l)"])
  show ?case
  proof (cases "m \<in> set S \<and> \<not> l")
    case True
    then have "(p, m) \<in> normal_edges succ" "(m, p) \<in> ?r" using 4(6,7) by (auto simp: normal_edges_def)
    then show ?thesis by blast
  next
    case False
    have S: "\<forall>s \<in> set S. (s, m) \<in> ?r" using 4(7) pm by (meson rtrancl.rtrancl_into_rtrancl)
    consider "m \<in> set W" "dfs_loops_each fuel succ es S W = Some None"
      | "m \<notin> set W" "dfs_loops fuel succ m S W = Some None"
      | W1 where "m \<notin> set W" "dfs_loops fuel succ m S W = Some (Some W1)"
          "dfs_loops_each fuel succ es S W1 = Some None"
      using 4(4) False by (auto split: if_splits option.splits)
    then show ?thesis
    proof cases
      case 1
      then show ?thesis using 4(3) [OF False _ _ 4(5) es 4(7)] by simp
    next
      case 2
      then show ?thesis using 4(1) [OF False 2 S] pm by (meson converse_rtrancl_into_rtrancl)
    next
      case 3
      then show ?thesis using 4(2) [OF False 3(1,2) refl 3(3) 4(5) es 4(7)] by simp
    qed
  qed
qed simp_all


subsection \<open>Terminal paths\<close>

lemma avoiding_mono: "S \<subseteq> T \<Longrightarrow> (a, b) \<in> (avoiding succ T)\<^sup>* \<Longrightarrow> (a, b) \<in> (avoiding succ S)\<^sup>*"
  by (rule rtrancl_mono [THEN subsetD]) (auto simp: avoiding_def)

text \<open>A path can be cut at its last visit of its first node.\<close>

lemma avoiding_first:
  "(n, t) \<in> (avoiding succ S)\<^sup>* \<Longrightarrow>
   t = n \<or> (\<exists>m. m \<in> set (succ n) \<and> m \<notin> insert n S \<and> (m, t) \<in> (avoiding succ (insert n S))\<^sup>*)"
proof (induction rule: rtrancl_induct)
  case (step t u)
  have u: "u \<in> set (succ t)" "u \<notin> S" using step(2) by (auto simp: avoiding_def)
  show ?case
  proof (cases "u = n \<or> t = n")
    case True
    then show ?thesis using u by auto
  next
    case False
    then obtain m where m: "m \<in> set (succ n)" "m \<notin> insert n S" "(m, t) \<in> (avoiding succ (insert n S))\<^sup>*"
      using step.IH by blast
    have "(t, u) \<in> avoiding succ (insert n S)" using u False by (simp add: avoiding_def)
    with m show ?thesis by (meson rtrancl_into_rtrancl)
  qed
qed simp

lemma avoiding_step:
  assumes "n \<notin> S" "\<not> terminal n"
  shows "(\<exists>t. terminal t \<and> (n, t) \<in> (avoiding succ S)\<^sup>*) \<longleftrightarrow>
    (\<exists>m \<in> set (succ n). m \<notin> insert n S \<and> (\<exists>t. terminal t \<and> (m, t) \<in> (avoiding succ (insert n S))\<^sup>*))"
proof
  assume "\<exists>t. terminal t \<and> (n, t) \<in> (avoiding succ S)\<^sup>*"
  then show "\<exists>m \<in> set (succ n). m \<notin> insert n S
      \<and> (\<exists>t. terminal t \<and> (m, t) \<in> (avoiding succ (insert n S))\<^sup>*)"
    using avoiding_first [of n _ succ S] assms(2) by blast
next
  assume "\<exists>m \<in> set (succ n). m \<notin> insert n S
      \<and> (\<exists>t. terminal t \<and> (m, t) \<in> (avoiding succ (insert n S))\<^sup>*)"
  then obtain m t where m: "m \<in> set (succ n)" "m \<notin> insert n S" "terminal t"
      "(m, t) \<in> (avoiding succ (insert n S))\<^sup>*" by blast
  have "(m, t) \<in> (avoiding succ S)\<^sup>*" by (rule avoiding_mono [OF subset_insertI m(4)])
  moreover have "(n, m) \<in> avoiding succ S" using m by (simp add: avoiding_def)
  ultimately show "\<exists>t. terminal t \<and> (n, t) \<in> (avoiding succ S)\<^sup>*"
    using m(3) by (blast intro: converse_rtrancl_into_rtrancl)
qed

lemma has_terminal_path_spec:
  "has_terminal_path fuel succ terminal n S = Some b \<Longrightarrow>
     b \<longleftrightarrow> n \<notin> set S \<and> (\<exists>t. terminal t \<and> (n, t) \<in> (avoiding succ (set S))\<^sup>*)"
  "any_terminal_path fuel succ terminal ms S = Some b \<Longrightarrow>
     b \<longleftrightarrow> (\<exists>m \<in> set ms. m \<notin> set S \<and> (\<exists>t. terminal t \<and> (m, t) \<in> (avoiding succ (set S))\<^sup>*))"
proof (induction fuel succ terminal n S and fuel succ terminal ms S arbitrary: b and b
      rule: has_terminal_path_any_terminal_path.induct)
  case (2 fuel succ terminal n S)
  consider "n \<in> set S" "\<not> b" | "n \<notin> set S" "terminal n" "b"
    | "n \<notin> set S" "\<not> terminal n" "any_terminal_path fuel succ terminal (succ n) (n # S) = Some b"
    using 2(2) by (auto split: if_splits)
  then show ?case
  proof cases
    case 3
    then show ?thesis using 2(1) [OF 3] avoiding_step [of n "set S" terminal succ, OF 3(1,2)] by simp
  qed auto
next
  case (4 fuel succ terminal m ms S)
  then show ?case by (auto split: option.splits bool.splits)
qed simp_all

theorem has_terminal_path_reachable:
  "has_terminal_path fuel succ terminal n [] = Some b \<Longrightarrow>
   b \<longleftrightarrow> (\<exists>t. terminal t \<and> (n, t) \<in> (graph_of succ)\<^sup>*)"
  using has_terminal_path_spec(1) [of fuel succ terminal n "[]" b]
  by (simp add: avoiding_def graph_of_def)

subsection \<open>Termination on finite graphs\<close>

text \<open>
  The contract of a graph the validators search: the successors of the nodes stay among the nodes.
  Under it every search returns as soon as the fuel exceeds the number of nodes.
\<close>

locale finite_graph =
  fixes succ :: "'n \<Rightarrow> 'n list" and universe :: "'n list"
  assumes succ_closed: "n \<in> set universe \<Longrightarrow> set (succ n) \<subseteq> set universe"
begin

abbreviation room :: "'n list \<Rightarrow> nat" where
  "room S \<equiv> card (set universe - set S)"

lemma room_Cons: "n \<in> set universe \<Longrightarrow> n \<notin> set S \<Longrightarrow> room (n # S) < room S"
  by (rule psubset_card_mono) auto

lemma room_mono: "set V \<subseteq> set W \<Longrightarrow> room W \<le> room V"
  by (rule card_mono) auto

lemma room_start: "length universe < depth \<Longrightarrow> room [] < depth"
  using card_length [of universe] by simp

lemma dfs_returns:
  "f = succ \<Longrightarrow> n \<in> set universe \<Longrightarrow> room V < fuel \<Longrightarrow> \<exists>W. dfs fuel f n V = Some W"
  "f = succ \<Longrightarrow> set ms \<subseteq> set universe \<Longrightarrow> room V < fuel \<Longrightarrow> \<exists>W. dfs_each fuel f ms V = Some W"
proof (induction fuel f n V and fuel f ms V rule: dfs_dfs_each.induct)
  case (2 fuel f n V)
  then show ?case using room_Cons [of n V] succ_closed [of n] by fastforce
next
  case (4 fuel f m ms V)
  then obtain V' where V': "dfs fuel f m V = Some V'" by auto
  then have "room V' < fuel" using room_mono [OF dfs_grows(1) [OF V']] 4(5) by simp
  then show ?case using 4(2) [OF V'] 4(3,4) V' by simp
qed simp_all

lemma has_terminal_path_returns:
  "f = succ \<Longrightarrow> n \<in> set universe \<Longrightarrow> room S < fuel \<Longrightarrow> has_terminal_path fuel f t n S \<noteq> None"
  "f = succ \<Longrightarrow> set ms \<subseteq> set universe \<Longrightarrow> room S < fuel \<Longrightarrow> any_terminal_path fuel f t ms S \<noteq> None"
proof (induction fuel f t n S and fuel f t ms S rule: has_terminal_path_any_terminal_path.induct)
  case (2 fuel f t n S)
  have "room (n # S) < fuel" if "n \<notin> set S" using room_Cons [OF 2(3) that] 2(4) by simp
  moreover have "set (f n) \<subseteq> set universe" using succ_closed [OF 2(3)] 2(2) by simp
  ultimately show ?case using 2(1) [OF _ _ 2(2)] by (simp del: not_None_eq)
next
  case (4 fuel f t m ms S)
  have ms: "m \<in> set universe" "set ms \<subseteq> set universe" using 4(4) by simp_all
  obtain b where b: "has_terminal_path fuel f t m S = Some b" using 4(1) [OF 4(3) ms(1) 4(5)] by blast
  then show ?case using 4(2) [OF b _ 4(3) ms(2) 4(5)] by (cases b) simp_all
qed simp_all

lemma dfs_decides:
  assumes "n \<in> set universe" "length universe < depth"
  obtains W where "dfs (depth) succ n [] = Some W" "set W = (graph_of succ)\<^sup>* `` {n}"
proof -
  obtain W where W: "dfs (depth) succ n [] = Some W"
    using dfs_returns(1) [OF refl assms(1) room_start [OF assms(2)]] ..
  then show thesis by (rule that) (rule dfs_reachable [OF W])
qed

lemma has_terminal_path_decides:
  assumes "n \<in> set universe" "length universe < depth"
  shows "has_terminal_path (depth) succ t n [] =
     Some (\<exists>x. t x \<and> (n, x) \<in> (graph_of succ)\<^sup>*)"
proof -
  obtain b where b: "has_terminal_path (depth) succ t n [] = Some b"
    using has_terminal_path_returns(1) [OF refl assms(1) room_start [OF assms(2)]] by (auto simp del: has_terminal_path.simps)
  then show ?thesis using has_terminal_path_reachable [OF b] by simp
qed

end

text \<open>The same for a graph whose edges carry loop marks.\<close>

locale marked_graph =
  fixes edges :: "'n \<Rightarrow> ('n \<times> bool) list" and universe :: "'n list"
  assumes edges_closed: "n \<in> set universe \<Longrightarrow> fst ` set (edges n) \<subseteq> set universe"

sublocale marked_graph \<subseteq> finite_graph "targets edges" universe
  using edges_closed by unfold_locales (simp add: targets_def)

context marked_graph
begin

lemma dfs_loops_returns:
  "f = edges \<Longrightarrow> n \<in> set universe \<Longrightarrow> room S < fuel \<Longrightarrow> dfs_loops fuel f n S V \<noteq> None"
  "f = edges \<Longrightarrow> fst ` set es \<subseteq> set universe \<Longrightarrow> room S < fuel \<Longrightarrow> dfs_loops_each fuel f es S V \<noteq> None"
proof (induction fuel f n S V and fuel f es S V rule: dfs_loops_dfs_loops_each.induct)
  case (2 fuel f n S V)
  then show ?case using room_Cons [of n S] edges_closed [of n] by (fastforce split: option.splits)
next
  case (4 fuel f m l es S V)
  show ?case
  proof (cases "m \<in> set S \<and> \<not> l")
    case False
    have es: "m \<in> set universe" "fst ` set es \<subseteq> set universe" using 4(5) by simp_all
    show ?thesis
    proof (cases "m \<in> set V")
      case True
      then show ?thesis using 4(3) [OF False _ 4(4) es(2) 4(6)] False by auto
    next
      case m: False
      then obtain r where r: "dfs_loops fuel f m S V = Some r"
        using 4(1) [OF False m 4(4) es(1) 4(6)] by blast
      show ?thesis
      proof (cases r)
        case (Some W)
        then show ?thesis using 4(2) [OF False m r _ 4(4) es(2) 4(6)] False m r by auto
      qed (use False m r in simp)
    qed
  qed simp
qed simp_all

text \<open>The loop check accepts exactly when no normal edge of the reachable part closes a cycle.\<close>

lemma dfs_loops_decides:
  assumes "n \<in> set universe" "length universe < depth"
  defines "g \<equiv> graph_of (targets edges)"
  obtains (ok) W where "dfs_loops (depth) edges n [] [] = Some (Some W)"
      "set W = g\<^sup>* `` {n}" "acyclic (normal_edges edges \<inter> g\<^sup>* `` {n} \<times> UNIV)"
  | (cycle) a b where "dfs_loops (depth) edges n [] [] = Some None"
      "(n, a) \<in> g\<^sup>*" "(a, b) \<in> normal_edges edges" "(b, a) \<in> g\<^sup>*"
proof -
  consider "dfs_loops (depth) edges n [] [] = Some None"
    | W where "dfs_loops (depth) edges n [] [] = Some (Some W)"
    using dfs_loops_returns(1) [OF refl assms(1) room_start [OF assms(2)], of "[]"] by (metis not_None_eq)
  then show thesis
  proof cases
    case 1
    then show thesis using cycle dfs_loops_witness(1) [OF 1] by (auto simp: g_def)
  next
    case (2 W)
    then show thesis using ok [OF 2] dfs_loops_accepts [OF 2] by (simp add: g_def)
  qed
qed

end

end
