(* ===== verification/GraphCompiler.thy ===== *)
theory GraphCompiler
  imports "HOL-Library.Multiset" PyValue GraphSearch
begin

text \<open>
  The runtime graph compiler: \<^verbatim>\<open>src/src/domain/execution/services/graph_runtime/graph_compiler.py\<close>
  and \<^verbatim>\<open>execution_plan.py\<close>, over the flow graph snapshot written by the authoring plane
  (\<^verbatim>\<open>src/src/domain/flows/schemas/graph.py\<close>).

  The two recursive validations take the number of stack frames the interpreter has left
  (\<open>depth\<close>); running out of them is a \<open>RecursionError\<close>.  The theorems say how many are enough.
  Node ids, conditions and edge ends of a snapshot are strings; an edge mark and a compiled condition
  are whatever JSON value the snapshot holds, or absent.
\<close>

subsection \<open>Snapshots and plans\<close>

datatype EdgeKind = NORMAL | LOOP

definition edge_kind_value :: "EdgeKind \<Rightarrow> string" where
  "edge_kind_value k = (case k of NORMAL \<Rightarrow> ''NORMAL'' | LOOP \<Rightarrow> ''LOOP'')"

definition EdgeKind_of :: "string \<Rightarrow> exn + EdgeKind" where
  "EdgeKind_of s =
     (if s = ''NORMAL'' then Inr NORMAL else if s = ''LOOP'' then Inr LOOP else Inl (Py ValueError))"

record node_spec =
  type_of_node :: string
  config :: "pydict option"

record snapshot_edge =
  se_from :: string
  se_to :: string
  se_condition :: string
  se_edge_kind :: "pyval option"
  se_compiled :: "pyval option"

record snapshot =
  snap_start :: "string option"
  snap_nodes :: "(string \<times> node_spec) list"
  snap_edges :: "snapshot_edge list"

record compiled_edge =
  from_node :: string
  to_node :: string
  edge_kind :: EdgeKind
  compiled_condition :: "pyval list"
  order :: nat

type_synonym adjacency = "(string \<times> compiled_edge list) list"

record available_tool =
  tool_name :: "string option"
  tool_id :: uuid
  tool_config_id :: uuid
  summary :: "string option"
  description :: "string option"
  operation_id :: "string option"
  http_method :: "string option"
  http_path :: "string option"
  retrieval_score :: "rat option"

record execution_plan =
  start_node_id :: string
  ordered_nodes :: "string list"
  adjacency_map :: adjacency
  terminal_nodes :: "string set"
  structural_hash :: string
  plan_nodes :: "(string \<times> node_spec) list"
  available_tools :: "available_tool list"

definition TERMINAL_NODE_TYPES :: "string list" where
  "TERMINAL_NODE_TYPES = [''ResponseBuilder'', ''HumanFallback'']"

definition terminal_ids :: "(string \<times> node_spec) list \<Rightarrow> string list" where
  "terminal_ids nodes = map fst (filter (\<lambda>(n, spec). type_of_node spec \<in> set TERMINAL_NODE_TYPES) nodes)"

subsection \<open>Compilation\<close>

text \<open>\<open>sorted(edges, key=lambda e: (from_node, to_node, condition))\<close>; Python's sort is stable.\<close>

definition edge_key :: "snapshot_edge \<Rightarrow> string \<times> string \<times> string" where
  "edge_key e = (se_from e, se_to e, se_condition e)"

definition edge_kind_of :: "snapshot_edge \<Rightarrow> exn + EdgeKind" where
  "edge_kind_of e =
     (case se_edge_kind e of
        None \<Rightarrow> Inr NORMAL
      | Some (PStr s) \<Rightarrow> EdgeKind_of s
      | Some _ \<Rightarrow> Inl ValidationError)"

definition compile_edge :: "nat \<Rightarrow> snapshot_edge \<Rightarrow> exn + compiled_edge" where
  "compile_edge k e =
     (if se_compiled e = None \<or> se_compiled e = Some PNone
      then Inl (domain_validation ''compiled_condition_missing'')
      else rbind (edge_kind_of e) (\<lambda>kind.
        case se_compiled e of
          Some (PList c) \<Rightarrow>
            Inr \<lparr>from_node = se_from e, to_node = se_to e, edge_kind = kind, compiled_condition = c,
                 order = k\<rparr>
        | _ \<Rightarrow> Inl ValidationError))"

definition add_edge :: "adjacency \<Rightarrow> compiled_edge \<Rightarrow> adjacency" where
  "add_edge adj e = AList.update (from_node e) (dict_get adj (from_node e) [] @ [e]) adj"

fun compile_edges :: "nat \<Rightarrow> snapshot_edge list \<Rightarrow> adjacency \<Rightarrow> exn + adjacency" where
  "compile_edges k [] adj = Inr adj"
| "compile_edges k (e # es) adj =
     rbind (compile_edge k e) (\<lambda>ce. compile_edges (Suc k) es (add_edge adj ce))"

definition edges_from :: "adjacency \<Rightarrow> string \<Rightarrow> compiled_edge list" where
  "edges_from adj n = dict_get adj n []"

text \<open>The targets of the edges of a node, without and with their loop marks.\<close>

definition adj_targets :: "adjacency \<Rightarrow> string \<Rightarrow> string list" where
  "adj_targets adj n = map to_node (edges_from adj n)"

definition adj_marks :: "adjacency \<Rightarrow> string \<Rightarrow> (string \<times> bool) list" where
  "adj_marks adj n = map (\<lambda>e. (to_node e, edge_kind e = LOOP)) (edges_from adj n)"

definition validate_reachability :: "nat \<Rightarrow> string \<Rightarrow> adjacency \<Rightarrow> string list \<Rightarrow> exn + unit" where
  "validate_reachability depth start_node adj node_ids =
     (case dfs depth (adj_targets adj) start_node [] of
        None \<Rightarrow> Inl RecursionError
      | Some visited \<Rightarrow>
          if set node_ids \<noteq> set visited then Inl (domain_validation ''unreachable_nodes'') else Inr ())"

definition validate_loops :: "nat \<Rightarrow> string \<Rightarrow> adjacency \<Rightarrow> exn + unit" where
  "validate_loops depth start_node adj =
     (case dfs_loops depth (adj_marks adj) start_node [] [] of
        None \<Rightarrow> Inl RecursionError
      | Some None \<Rightarrow> Inl (domain_validation ''cycle_not_marked_loop'')
      | Some (Some _) \<Rightarrow> Inr ())"

definition graph_compile ::
    "nat \<Rightarrow> snapshot \<Rightarrow> string \<Rightarrow> available_tool list option \<Rightarrow> exn + execution_plan" where
  "graph_compile depth snapshot hash tools =
     (let nodes = snap_nodes snapshot; edges = snap_edges snapshot in
      case snap_start snapshot of
        None \<Rightarrow> Inl (domain_validation ''start_node_not_found'')
      | Some start \<Rightarrow>
          if start = '''' \<or> start \<notin> fst ` set nodes
          then Inl (domain_validation ''start_node_not_found'')
          else if edges = [] then Inl (domain_validation ''edges_required'')
          else
            let terminals = set (terminal_ids nodes)
            in if terminals = {} then Inl (domain_validation ''no_terminal_nodes'')
            else rbind (compile_edges 0 (sort_key edge_key edges) []) (\<lambda>adj.
              rbind (validate_reachability depth start adj (map fst nodes)) (\<lambda>_.
              rbind (validate_loops depth start adj) (\<lambda>_.
                Inr \<lparr>start_node_id = start, ordered_nodes = map fst nodes, adjacency_map = adj,
                     terminal_nodes = terminals, structural_hash = hash, plan_nodes = nodes,
                     available_tools = (case tools of None \<Rightarrow> [] | Some ts \<Rightarrow> ts)\<rparr>))))"

subsection \<open>What a snapshot describes\<close>

text \<open>The edges of a snapshot as a relation, all of them and those not marked LOOP.\<close>

definition snap_rel :: "snapshot \<Rightarrow> (string \<times> string) set" where
  "snap_rel s = {(se_from e, se_to e) |e. e \<in> set (snap_edges s)}"

definition snap_normal :: "snapshot \<Rightarrow> (string \<times> string) set" where
  "snap_normal s = {(se_from e, se_to e) |e. e \<in> set (snap_edges s) \<and> edge_kind_of e = Inr NORMAL}"

text \<open>The edges the code can turn into compiled edges.\<close>

definition edge_ok :: "snapshot_edge \<Rightarrow> bool" where
  "edge_ok e = (case compile_edge 0 e of Inr _ \<Rightarrow> True | Inl _ \<Rightarrow> False)"

text \<open>The universe of the searches: the start node and every edge target.\<close>

definition adj_universe :: "string \<Rightarrow> adjacency \<Rightarrow> string list" where
  "adj_universe start adj = start # map to_node (concat (map snd adj))"

text \<open>Two graphs of connected nodes for the witnesses: a chain that loops back, and its snapshot.\<close>

definition demo_edge :: "string \<Rightarrow> string \<Rightarrow> string \<Rightarrow> snapshot_edge" where
  "demo_edge a b kind = \<lparr>se_from = a, se_to = b, se_condition = ''intent == x'', se_edge_kind = Some (PStr kind),
     se_compiled = Some (PList [PStr ''intent'', PStr ''=='', PStr ''x''])\<rparr>"

definition demo_node :: "string \<Rightarrow> node_spec" where
  "demo_node t = \<lparr>type_of_node = t, config = None\<rparr>"

definition demo_snapshot :: "snapshot_edge list \<Rightarrow> snapshot" where
  "demo_snapshot es = \<lparr>snap_start = Some ''a'',
     snap_nodes = [(''a'', demo_node ''IntentClassifier''), (''b'', demo_node ''ToolExecutor''),
                   (''c'', demo_node ''ResponseBuilder'')],
     snap_edges = es\<rparr>"

definition demo_edges :: "snapshot_edge list" where
  "demo_edges = [demo_edge ''b'' ''c'' ''NORMAL'', demo_edge ''b'' ''b'' ''LOOP'', demo_edge ''a'' ''b'' ''NORMAL'']"

definition demo_plan :: execution_plan where
  "demo_plan = projr (graph_compile 9 (demo_snapshot demo_edges) ''h'' None)"

lemma snap_rel_code [code]: "snap_rel s = set (map (\<lambda>e. (se_from e, se_to e)) (snap_edges s))"
  by (auto simp: snap_rel_def)

lemma snap_normal_code [code]:
  "snap_normal s =
   set (map (\<lambda>e. (se_from e, se_to e)) (filter (\<lambda>e. edge_kind_of e = Inr NORMAL) (snap_edges s)))"
  by (auto simp: snap_normal_def)

subsection \<open>The adjacency built from the edges\<close>

lemma not_LOOP: "k \<noteq> LOOP \<longleftrightarrow> k = NORMAL"
  by (cases k) simp_all

lemma edges_from_Nil [simp]: "edges_from [] n = []"
  by (simp add: edges_from_def dict_get_def)

lemma edges_from_add [simp]:
  "edges_from (add_edge adj e) n = (if n = from_node e then edges_from adj n @ [e] else edges_from adj n)"
  by (simp add: edges_from_def add_edge_def dict_get_def update_conv)

lemma compile_edge_fields:
  "compile_edge k e = Inr ce \<Longrightarrow>
     from_node ce = se_from e \<and> to_node ce = se_to e \<and> edge_kind_of e = Inr (edge_kind ce) \<and>
     se_compiled e = Some (PList (compiled_condition ce)) \<and> order ce = k"
  by (auto simp: compile_edge_def rbind_eq_Inr split: if_splits option.splits pyval.splits)

lemma compile_edge_ok: "(\<exists>ce. compile_edge k e = Inr ce) \<longleftrightarrow> edge_ok e"
  by (auto simp: edge_ok_def compile_edge_def rbind_def split: sum.splits option.splits pyval.splits)

text \<open>
  The edges stored for a node are exactly its edges in the sorted list, in that order, numbered by
  their position there.
\<close>

lemma compile_edges_from:
  "compile_edges k es adj = Inr adj' \<Longrightarrow>
   \<exists>ces. list_all2 (\<lambda>(i, e) ce. compile_edge i e = Inr ce) (zip [k..<k + length es] es) ces \<and>
         (\<forall>n. edges_from adj' n = edges_from adj n @ filter (\<lambda>ce. from_node ce = n) ces)"
proof (induction k es adj rule: compile_edges.induct)
  case (2 k e es adj)
  then obtain ce where ce: "compile_edge k e = Inr ce" "compile_edges (Suc k) es (add_edge adj ce) = Inr adj'"
    by (auto simp: rbind_eq_Inr)
  obtain ces where ces: "list_all2 (\<lambda>(i, e) ce. compile_edge i e = Inr ce) (zip [Suc k..<Suc k + length es] es) ces"
      "\<forall>n. edges_from adj' n = edges_from (add_edge adj ce) n @ filter (\<lambda>ce. from_node ce = n) ces"
    using 2(1) [OF ce] by blast
  have "zip [k..<k + length (e # es)] (e # es) = (k, e) # zip [Suc k..<Suc k + length es] es"
    by (simp add: upt_conv_Cons del: upt_Suc)
  then show ?case using ces ce(1) by (intro exI [of _ "ce # ces"]) auto
qed simp

lemma compile_edges_ok:
  "(\<exists>adj'. compile_edges k es adj = Inr adj') \<longleftrightarrow> (\<forall>e \<in> set es. edge_ok e)"
proof (induction k es adj rule: compile_edges.induct)
  case (2 k e es adj)
  show ?case
  proof (cases "compile_edge k e")
    case (Inl x)
    then show ?thesis using compile_edge_ok [of k e] by simp
  next
    case (Inr ce)
    then show ?thesis using compile_edge_ok [of k e] 2 [OF Inr] by simp
  qed
qed simp


lemma edges_from_compiled:
  assumes "compile_edges 0 es [] = Inr adj"
  shows "ce \<in> set (edges_from adj n) \<longleftrightarrow>
           (\<exists>i < length es. compile_edge i (es ! i) = Inr ce \<and> from_node ce = n)"
    and "sorted_wrt (\<lambda>a b. order a < order b) (edges_from adj n)"
proof -
  obtain ces where ces: "list_all2 (\<lambda>(i, e) ce. compile_edge i e = Inr ce) (zip [0..<length es] es) ces"
      "\<And>n. edges_from adj n = filter (\<lambda>ce. from_node ce = n) ces"
    using compile_edges_from [OF assms] by auto
  have len: "length ces = length es" using list_all2_lengthD [OF ces(1)] by simp
  have nth: "compile_edge i (es ! i) = Inr (ces ! i)" if "i < length es" for i
    using list_all2_nthD2 [OF ces(1), of i] that len by simp
  have "ce \<in> set ces \<longleftrightarrow> (\<exists>i < length es. compile_edge i (es ! i) = Inr ce)"
    using nth len by (metis in_set_conv_nth sum.inject(2))
  then show "ce \<in> set (edges_from adj n) \<longleftrightarrow>
      (\<exists>i < length es. compile_edge i (es ! i) = Inr ce \<and> from_node ce = n)"
    by (auto simp: ces(2))
  have "order (ces ! i) = i" if "i < length es" for i using nth compile_edge_fields that by blast
  then have "sorted_wrt (\<lambda>a b. order a < order b) ces" by (simp add: sorted_wrt_iff_nth_less len)
  then show "sorted_wrt (\<lambda>a b. order a < order b) (edges_from adj n)"
    by (simp add: ces(2) sorted_wrt_filter)
qed

lemma adjacency_edge_iff:
  assumes "compile_edges 0 (sort_key edge_key (snap_edges s)) [] = Inr adj"
  shows "(\<exists>ce \<in> set (edges_from adj a). to_node ce = b \<and> P (edge_kind ce)) \<longleftrightarrow>
    (\<exists>e \<in> set (snap_edges s). se_from e = a \<and> se_to e = b \<and> (\<exists>k. edge_kind_of e = Inr k \<and> P k))"
    (is "?l \<longleftrightarrow> ?r")
proof
  let ?es = "sort_key edge_key (snap_edges s)"
  assume ?l
  then obtain ce i where ce: "i < length ?es" "compile_edge i (?es ! i) = Inr ce" "from_node ce = a"
      "to_node ce = b" "P (edge_kind ce)"
    using edges_from_compiled(1) [OF assms] by blast
  moreover have "?es ! i \<in> set (snap_edges s)" using nth_mem [OF ce(1)] by simp
  ultimately show ?r using compile_edge_fields [OF ce(2)] by metis
next
  let ?es = "sort_key edge_key (snap_edges s)"
  assume ?r
  then obtain e k where e: "e \<in> set ?es" "se_from e = a" "se_to e = b" "edge_kind_of e = Inr k" "P k"
    by auto
  from e(1) obtain i where i: "i < length ?es" "?es ! i = e" unfolding in_set_conv_nth by blast
  have "edge_ok e" using compile_edges_ok [THEN iffD1, OF exI, OF assms] e(1) by simp
  then obtain ce where ce: "compile_edge i e = Inr ce" using compile_edge_ok by blast
  then have "ce \<in> set (edges_from adj a)" "to_node ce = b" "P (edge_kind ce)"
    using edges_from_compiled(1) [OF assms, of ce a] compile_edge_fields [OF ce] e(2-5) i by auto
  then show ?l by blast
qed

lemma adjacency_relations:
  assumes "compile_edges 0 (sort_key edge_key (snap_edges s)) [] = Inr adj"
  shows "graph_of (adj_targets adj) = snap_rel s" and "normal_edges (adj_marks adj) = snap_normal s"
proof -
  have "edge_ok e" if "e \<in> set (snap_edges s)" for e
    using compile_edges_ok [THEN iffD1, OF exI, OF assms] that by simp
  then have kinds: "\<exists>k. edge_kind_of e = Inr k" if "e \<in> set (snap_edges s)" for e
    using compile_edge_fields compile_edge_ok that by blast
  have all: "(a, b) \<in> graph_of (adj_targets adj) \<longleftrightarrow> (\<exists>ce \<in> set (edges_from adj a). to_node ce = b \<and> True)" for a b
    by (auto simp: adj_targets_def)
  have normal: "(a, b) \<in> normal_edges (adj_marks adj) \<longleftrightarrow>
      (\<exists>ce \<in> set (edges_from adj a). to_node ce = b \<and> edge_kind ce = NORMAL)" for a b
    by (auto simp: normal_edges_def adj_marks_def image_iff not_LOOP)
  have "(a, b) \<in> graph_of (adj_targets adj) \<longleftrightarrow> (a, b) \<in> snap_rel s" for a b
    unfolding all adjacency_edge_iff [OF assms, where P = "\<lambda>_. True"] using kinds by (auto simp: snap_rel_def)
  then show "graph_of (adj_targets adj) = snap_rel s" by auto
  have "(a, b) \<in> normal_edges (adj_marks adj) \<longleftrightarrow> (a, b) \<in> snap_normal s" for a b
    unfolding normal adjacency_edge_iff [OF assms, where P = "\<lambda>k. k = NORMAL"] by (auto simp: snap_normal_def)
  then show "normal_edges (adj_marks adj) = snap_normal s" by auto
qed

lemma targets_adj_marks [simp]: "targets (adj_marks adj) = adj_targets adj"
  by (auto simp: targets_def adj_marks_def adj_targets_def)

lemma edges_from_subset: "set (edges_from adj n) \<subseteq> set (concat (map snd adj))"
  by (cases "map_of adj n") (auto simp: edges_from_def dict_get_def dest!: map_of_SomeD)

interpretation plan_graph: marked_graph "adj_marks adj" "adj_universe start adj" for adj start
  using edges_from_subset [of adj] by unfold_locales (fastforce simp: adj_marks_def adj_universe_def)


lemma add_edge_length: "length (concat (map snd (add_edge adj e))) = Suc (length (concat (map snd adj)))"
  unfolding add_edge_def by (induction adj) (auto simp: dict_get_def)

lemma compile_edges_length:
  "compile_edges k es adj = Inr adj' \<Longrightarrow>
   length (concat (map snd adj')) = length (concat (map snd adj)) + length es"
  by (induction k es adj arbitrary: adj' rule: compile_edges.induct)
    (auto simp: rbind_eq_Inr add_edge_length simp del: length_concat)

subsection \<open>Correctness of compilation\<close>

text \<open>One frame more than the nodes of the universe is enough for both searches.\<close>

lemma validate_reachability_decides:
  assumes "length (adj_universe start adj) < depth"
  shows "validate_reachability depth start adj ids =
    (if (graph_of (adj_targets adj))\<^sup>* `` {start} = set ids then Inr ()
     else Inl (domain_validation ''unreachable_nodes''))"
proof -
  have "start \<in> set (adj_universe start adj)" by (simp add: adj_universe_def)
  then obtain W where "dfs depth (adj_targets adj) start [] = Some W"
      "set W = (graph_of (adj_targets adj))\<^sup>* `` {start}"
    using plan_graph.dfs_decides [of start start adj depth] assms by auto
  then show ?thesis by (auto simp: validate_reachability_def)
qed

lemma validate_reachability_sound:
  "validate_reachability depth start adj ids = Inr u \<Longrightarrow> (graph_of (adj_targets adj))\<^sup>* `` {start} = set ids"
  by (auto simp: validate_reachability_def dest: dfs_reachable split: option.splits if_splits)

lemma validate_loops_sound:
  assumes "validate_loops depth start adj = Inr u"
  shows "acyclic (normal_edges (adj_marks adj) \<inter> (graph_of (adj_targets adj))\<^sup>* `` {start} \<times> UNIV)"
proof -
  from assms obtain W where "dfs_loops depth (adj_marks adj) start [] [] = Some (Some W)"
    by (auto simp: validate_loops_def split: option.splits)
  from dfs_loops_accepts(2) [OF this] show ?thesis by simp
qed

lemma validate_loops_complete:
  assumes "length (adj_universe start adj) < depth"
    and "\<And>a b. (start, a) \<in> (graph_of (adj_targets adj))\<^sup>* \<Longrightarrow> (a, b) \<in> normal_edges (adj_marks adj) \<Longrightarrow>
           (b, a) \<notin> (graph_of (adj_targets adj))\<^sup>*"
  shows "validate_loops depth start adj = Inr ()"
proof -
  have start: "start \<in> set (adj_universe start adj)" by (simp add: adj_universe_def)
  show ?thesis
    using start assms(1)
  proof (cases rule: plan_graph.dfs_loops_decides)
    case (ok W)
    then show ?thesis by (simp add: validate_loops_def)
  next
    case (cycle a b)
    then show ?thesis using assms(2) by simp
  qed
qed

lemma graph_compileE:
  assumes "graph_compile depth s hash tools = Inr plan"
  obtains start adj where "snap_start s = Some start" "start \<in> set (map fst (snap_nodes s))"
    "snap_edges s \<noteq> []" "terminal_ids (snap_nodes s) \<noteq> []"
    "compile_edges 0 (sort_key edge_key (snap_edges s)) [] = Inr adj"
    "validate_reachability depth start adj (map fst (snap_nodes s)) = Inr ()"
    "validate_loops depth start adj = Inr ()"
    "plan = \<lparr>start_node_id = start, ordered_nodes = map fst (snap_nodes s), adjacency_map = adj,
       terminal_nodes = set (terminal_ids (snap_nodes s)), structural_hash = hash,
       plan_nodes = snap_nodes s, available_tools = (case tools of None \<Rightarrow> [] | Some ts \<Rightarrow> ts)\<rparr>"
  using assms unfolding graph_compile_def Let_def
  by (auto simp: rbind_eq_Inr split: option.splits if_splits)

lemma demo_compiles: "graph_compile 9 (demo_snapshot demo_edges) ''h'' None = Inr demo_plan"
proof -
  have "\<not> isl (graph_compile 9 (demo_snapshot demo_edges) ''h'' None)" by code_simp
  then show ?thesis by (simp add: demo_plan_def)
qed

lemma demo_rel: "snap_rel (demo_snapshot demo_edges) = {(''b'', ''c''), (''b'', ''b''), (''a'', ''b'')}"
  "snap_normal (demo_snapshot demo_edges) = {(''b'', ''c''), (''a'', ''b'')}"
  by code_simp+

lemma demo_reach: "{(''b'', ''c''), (''b'', ''b''), (''a'', ''b'')}\<^sup>* `` {x} \<subseteq> insert x {''b'', ''c''}"
proof
  fix y assume "y \<in> {(''b'', ''c''), (''b'', ''b''), (''a'', ''b'')}\<^sup>* `` {x}"
  then have "(x, y) \<in> {(''b'', ''c''), (''b'', ''b''), (''a'', ''b'')}\<^sup>*" by simp
  then show "y \<in> insert x {''b'', ''c''}" by (induction rule: rtrancl_induct) auto
qed

text \<open>
  C10: A graph that compiles is sound for execution.  The nodes of the plan are exactly those reachable
  from its start node, the edges not marked LOOP form no cycle among them, there is a terminal node,
  and the plan keeps the start node and the nodes of the snapshot.
\<close>

theorem graph_compile_sound:
  assumes "graph_compile depth s hash tools = Inr plan"
  shows "snap_start s = Some (start_node_id plan)
    \<and> set (ordered_nodes plan) = (snap_rel s)\<^sup>* `` {start_node_id plan}
    \<and> ordered_nodes plan = map fst (snap_nodes s)
    \<and> acyclic (snap_normal s \<inter> set (ordered_nodes plan) \<times> UNIV)
    \<and> terminal_nodes plan = set (terminal_ids (snap_nodes s)) \<and> terminal_nodes plan \<noteq> {}"
  using assms
proof (cases rule: graph_compileE)
  case (1 start adj)
  note rel = adjacency_relations [OF 1(5)]
  have "(snap_rel s)\<^sup>* `` {start} = set (map fst (snap_nodes s))"
    using validate_reachability_sound [OF 1(6)] by (simp add: rel)
  moreover have "acyclic (snap_normal s \<inter> (snap_rel s)\<^sup>* `` {start} \<times> UNIV)"
    using validate_loops_sound [OF 1(7)] by (simp add: rel)
  ultimately show ?thesis using 1(1,4) by (simp add: 1(8))
qed

theorem graph_compile_sound_witness:
  "set (ordered_nodes demo_plan) = (snap_rel (demo_snapshot demo_edges))\<^sup>* `` {start_node_id demo_plan}
   \<and> terminal_nodes demo_plan \<noteq> {}"
  using graph_compile_sound [OF demo_compiles] by blast

lemma graph_compile_total:
  assumes "snap_start s = Some start" "start \<noteq> ''''" "start \<in> set (map fst (snap_nodes s))"
    and "snap_edges s \<noteq> []" "terminal_ids (snap_nodes s) \<noteq> []"
    and "list_all edge_ok (snap_edges s)"
    and "(snap_rel s)\<^sup>* `` {start} = set (map fst (snap_nodes s))"
    and "\<And>a b. (a, b) \<in> snap_normal s \<Longrightarrow> (b, a) \<notin> (snap_rel s)\<^sup>*"
    and "Suc (length (snap_edges s)) < depth"
  shows "\<exists>plan. graph_compile depth s hash tools = Inr plan"
proof -
  have "\<forall>e \<in> set (sort_key edge_key (snap_edges s)). edge_ok e" using assms(6) by (simp add: list_all_iff)
  then obtain adj where adj: "compile_edges 0 (sort_key edge_key (snap_edges s)) [] = Inr adj"
    unfolding compile_edges_ok [of 0 _ "[]", symmetric] by blast
  note rel = adjacency_relations [OF adj]
  have len: "length (adj_universe start adj) < depth"
    using compile_edges_length [OF adj] assms(9) by (simp add: adj_universe_def)
  have "validate_reachability depth start adj (map fst (snap_nodes s)) = Inr ()"
    unfolding validate_reachability_decides [OF len] using assms(7) by (simp add: rel)
  moreover have "validate_loops depth start adj = Inr ()"
    by (rule validate_loops_complete [OF len]) (use assms(8) in \<open>simp add: rel\<close>)
  ultimately show ?thesis using assms(1-5) adj by (simp add: graph_compile_def Let_def)
qed

text \<open>
  C11: Every well-formed snapshot compiles.  When the start node exists, there are edges and a
  terminal node, every edge has a list as compiled condition and a known mark, all nodes are reachable
  and no NORMAL edge lies on a cycle, the compiler returns a plan as soon as the stack has room for one
  frame more than there are edges.
\<close>

theorem graph_compile_complete:
  assumes "snap_start s = Some start" "start \<noteq> ''''" "start \<in> set (map fst (snap_nodes s))"
    and "snap_edges s \<noteq> []" "terminal_ids (snap_nodes s) \<noteq> []"
    and "list_all edge_ok (snap_edges s)"
    and "(snap_rel s)\<^sup>* `` {start} = set (map fst (snap_nodes s))"
    and "\<And>a b. (a, b) \<in> snap_normal s \<Longrightarrow> (b, a) \<notin> (snap_rel s)\<^sup>*"
    and "Suc (length (snap_edges s)) < depth"
  shows "\<exists>plan. graph_compile depth s hash tools = Inr plan"
  by (rule graph_compile_total) (use assms in simp_all)

theorem graph_compile_complete_witness:
  "\<exists>plan. graph_compile 5 (demo_snapshot demo_edges) ''h'' None = Inr plan"
proof (rule graph_compile_complete)
  let ?r = "{(''b'', ''c''), (''b'', ''b''), (''a'', ''b'')}"
  show "snap_start (demo_snapshot demo_edges) = Some ''a''" by (simp add: demo_snapshot_def)
  show "''a'' \<noteq> ''''" by simp
  show "''a'' \<in> set (map fst (snap_nodes (demo_snapshot demo_edges)))" by code_simp
  show "snap_edges (demo_snapshot demo_edges) \<noteq> []" by code_simp
  show "terminal_ids (snap_nodes (demo_snapshot demo_edges)) \<noteq> []" by code_simp
  show "list_all edge_ok (snap_edges (demo_snapshot demo_edges))" by code_simp
  have "(''a'', ''b'') \<in> ?r\<^sup>*" "(''a'', ''c'') \<in> ?r\<^sup>*"
    by (auto intro: rtrancl_into_rtrancl [of _ "''b''"])
  then show "(snap_rel (demo_snapshot demo_edges))\<^sup>* `` {''a''} =
      set (map fst (snap_nodes (demo_snapshot demo_edges)))"
    using demo_reach [of "''a''"] by (simp add: demo_rel) (auto simp: demo_snapshot_def)
  show "(b, a) \<notin> (snap_rel (demo_snapshot demo_edges))\<^sup>*"
    if "(a, b) \<in> snap_normal (demo_snapshot demo_edges)" for a b
  proof
    assume "(b, a) \<in> (snap_rel (demo_snapshot demo_edges))\<^sup>*"
    then have "(b, a) \<in> ?r\<^sup>*" by (simp add: demo_rel)
    then show False using that demo_reach [of "''c''"] demo_reach [of b]
      by (cases rule: converse_rtranclE) (auto simp: demo_rel)
  qed
  show "Suc (length (snap_edges (demo_snapshot demo_edges))) < 5" by code_simp
qed

text \<open>
  C20: The plan stores, for every node, exactly its outgoing edges in the sorted order of the snapshot,
  each with the ends, mark and compiled condition of the snapshot edge and numbered by its position.
\<close>

theorem graph_compile_edges:
  assumes "graph_compile depth s hash tools = Inr plan"
  shows "(ce \<in> set (edges_from (adjacency_map plan) n) \<longleftrightarrow>
      order ce < length (snap_edges s) \<and>
      compile_edge (order ce) (sort_key edge_key (snap_edges s) ! order ce) = Inr ce \<and> from_node ce = n)
    \<and> sorted_wrt (\<lambda>a b. order a < order b) (edges_from (adjacency_map plan) n)"
  using assms
proof (cases rule: graph_compileE)
  case (1 start adj)
  have "(\<exists>i < length (snap_edges s). compile_edge i (sort_key edge_key (snap_edges s) ! i) = Inr ce \<and> from_node ce = n)
     \<longleftrightarrow> order ce < length (snap_edges s) \<and>
        compile_edge (order ce) (sort_key edge_key (snap_edges s) ! order ce) = Inr ce \<and> from_node ce = n"
    using compile_edge_fields by blast
  then show ?thesis using edges_from_compiled [OF 1(5)] by (simp add: 1(8))
qed

theorem graph_compile_edges_witness:
  "map order (edges_from (adjacency_map demo_plan) ''b'') = [1, 2]
   \<and> sorted_wrt (\<lambda>a b. order a < order b) (edges_from (adjacency_map demo_plan) ''b'')"
proof
  show "map order (edges_from (adjacency_map demo_plan) ''b'') = [1, 2]" by code_simp
  show "sorted_wrt (\<lambda>a b. order a < order b) (edges_from (adjacency_map demo_plan) ''b'')"
    using graph_compile_edges [OF demo_compiles] by blast
qed

text \<open>
  The order in which the snapshot lists its edges does not matter: two snapshots with the same
  start node, nodes and edges, in which no two edges share their ends and condition, compile to the
  same plan or the same error.
\<close>

theorem graph_compile_edge_order:
  assumes "mset (snap_edges s) = mset (snap_edges t)" "snap_start s = snap_start t" "snap_nodes s = snap_nodes t"
    and "distinct (map edge_key (snap_edges s))"
  shows "graph_compile depth s hash tools = graph_compile depth t hash tools"
proof -
  have "inj_on edge_key (set (snap_edges s))" using assms(4) by (simp add: distinct_map)
  then have "sort_key edge_key (snap_edges s) = sort_key edge_key (snap_edges t)"
    using assms(1) by (intro sort_key_inj_key_eq) simp_all
  moreover have "(snap_edges s = []) = (snap_edges t = [])" using assms(1) by (metis mset_zero_iff)
  ultimately show ?thesis
    by (cases "snap_start t") (simp_all add: graph_compile_def Let_def assms(2,3))
qed

theorem graph_compile_edge_order_witness:
  "graph_compile 9 (demo_snapshot demo_edges) ''h'' None = graph_compile 9 (demo_snapshot (rev demo_edges)) ''h'' None"
proof (rule graph_compile_edge_order)
  show "distinct (map edge_key (snap_edges (demo_snapshot demo_edges)))" by code_simp
qed (simp_all add: demo_snapshot_def)

end
