(* ===== verification/FlowGraphValidator.thy ===== *)
theory FlowGraphValidator
  imports EdgeEvaluator GraphCompiler
begin

text \<open>
  The authoring side of flow graphs: \<^verbatim>\<open>src/src/domain/flows/schemas/graph.py\<close> and, under
  \<^verbatim>\<open>src/src/domain/flows/services/\<close>, \<^verbatim>\<open>flow_graph_validator.py\<close>,
  \<^verbatim>\<open>flow_graph_draft_validator.py\<close> and the edge compilation of \<^verbatim>\<open>flow_graph_compiler.py\<close>.

  Parameters of the model: \<open>parse\<close>, the grammar of edge conditions; \<open>model_validate\<close>, pydantic's
  check of a config against a schema class; \<open>ast_parse\<close>, Python's own expression parser, which
  gives the part of its syntax tree the code inspects.  As in the graph compiler, \<open>depth\<close> is
  the room on the interpreter's stack.
\<close>

subsection \<open>Definitions of graphs\<close>

record graph_edge =
  ge_from :: string
  ge_to :: string
  ge_condition :: string
  ge_kind :: EdgeKind

record graph_definition =
  start_node :: string
  def_nodes :: "(string \<times> node_spec) list"
  def_edges :: "graph_edge list"

text \<open>\<open>FlowGraphEdge._non_empty\<close>.\<close>

definition non_empty :: "string \<Rightarrow> exn + string" where
  "non_empty value = (if value = '''' \<or> py_strip value = '''' then Inl (Py ValueError) else Inr value)"

subsection \<open>FlowGraphValidator\<close>

definition DEPRECATED_NODE_TYPES :: "string list" where
  "DEPRECATED_NODE_TYPES = [''UserContextEnrichmentNode'']"

definition RAG_PIPELINE_NODE_TYPES :: "string list" where
  "RAG_PIPELINE_NODE_TYPES =
     [''IntentClassifier'', ''ToolResolver'', ''ToolInputFiller'', ''ResponseBuilder'', ''HumanFallback'']"

text \<open>\<open>spec.config or {}\<close>\<close>

definition cfg_of :: "node_spec \<Rightarrow> pydict" where
  "cfg_of spec = (case config spec of None \<Rightarrow> [] | Some c \<Rightarrow> c)"

definition def_targets :: "graph_definition \<Rightarrow> string \<Rightarrow> string list" where
  "def_targets d n = remdups (map ge_to (filter (\<lambda>e. ge_from e = n) (def_edges d)))"

fun check_edges :: "string list \<Rightarrow> graph_edge list \<Rightarrow> exn + unit" where
  "check_edges keys [] = Inr ()"
| "check_edges keys (e # es) =
     (if ge_from e \<notin> set keys \<or> ge_to e \<notin> set keys
      then Inl (domain_validation ''edge_references_unknown_node'')
      else if ge_condition e = '''' \<or> py_strip (ge_condition e) = ''''
      then Inl (domain_validation ''edge_condition_required'')
      else check_edges keys es)"

definition check_rag_pipeline :: "(string \<times> node_spec) list \<Rightarrow> exn + unit" where
  "check_rag_pipeline nodes =
     (if \<exists>(n, spec) \<in> set nodes. type_of_node spec \<in> set RAG_PIPELINE_NODE_TYPES \<and>
           (case dict_get (cfg_of spec) ''rag_pipeline'' PNone of
              PNone \<Rightarrow> False | PDict _ \<Rightarrow> False | _ \<Rightarrow> True)
      then Inl (domain_validation ''rag_pipeline_config_invalid'') else Inr ())"

text \<open>The rules of \<open>data_merge\<close>; looking an unhashable value up in the dict of nodes is a \<open>TypeError\<close>.\<close>

fun check_merge_rules :: "string list \<Rightarrow> pyval list \<Rightarrow> exn + unit" where
  "check_merge_rules ids [] = Inr ()"
| "check_merge_rules ids (rule # rules) =
     (case rule of
        PDict r \<Rightarrow>
          let fid = dict_get r ''from_node_id'' PNone in
          if \<not> truthy fid then Inl (domain_validation ''memory_commit_data_merge_unknown_from_node'')
          else if \<not> hashable fid then Inl (Py TypeError)
          else if fid \<notin> PStr ` set ids
          then Inl (domain_validation ''memory_commit_data_merge_unknown_from_node'')
          else check_merge_rules ids rules
      | _ \<Rightarrow> Inl (domain_validation ''memory_commit_data_merge_rule_invalid''))"

fun check_memory_commit :: "string list \<Rightarrow> (string \<times> node_spec) list \<Rightarrow> exn + unit" where
  "check_memory_commit ids [] = Inr ()"
| "check_memory_commit ids ((n, spec) # nodes) =
     (if type_of_node spec \<noteq> ''MemoryCommitNode'' then check_memory_commit ids nodes
      else case dict_get (cfg_of spec) ''data_merge'' PNone of
             PList rules \<Rightarrow> rbind (check_merge_rules ids rules) (\<lambda>_. check_memory_commit ids nodes)
           | _ \<Rightarrow> check_memory_commit ids nodes)"

definition validate_definition :: "nat \<Rightarrow> graph_definition \<Rightarrow> exn + unit" where
  "validate_definition depth d =
     (let nodes = def_nodes d; ids = map fst nodes; terminals = set (terminal_ids nodes) in
      if \<exists>(n, spec) \<in> set nodes. type_of_node spec \<in> set DEPRECATED_NODE_TYPES
      then Inl (domain_validation ''deprecated_node_type_user_context_enrichment'')
      else if start_node d \<notin> set ids then Inl (domain_validation ''start_node_not_found'')
      else rbind (check_edges ids (def_edges d)) (\<lambda>_.
        case dfs depth (def_targets d) (start_node d) [] of
          None \<Rightarrow> Inl RecursionError
        | Some visited \<Rightarrow>
            if set visited \<noteq> set ids then Inl (domain_validation ''unreachable_nodes'')
            else if terminals = {} then Inl (domain_validation ''no_terminal_nodes'')
            else case has_terminal_path depth (def_targets d) (\<lambda>n. n \<in> terminals) (start_node d) [] of
              None \<Rightarrow> Inl RecursionError
            | Some False \<Rightarrow> Inl (domain_validation ''no_terminal_path'')
            | Some True \<Rightarrow>
                rbind (check_rag_pipeline nodes) (\<lambda>_.
                  if length (filter (\<lambda>(n, spec). type_of_node spec = ''MemoryCommitNode'') nodes) > 1
                  then Inl (domain_validation ''multiple_memory_commit_nodes'')
                  else check_memory_commit ids nodes)))"

subsection \<open>FlowGraphDraftValidator\<close>

text \<open>\<open>validate_node_config\<close> of \<^verbatim>\<open>graph_node_config.py\<close>: the schema class of each node type.\<close>

datatype config_schema = LlmNodeConfigWrapper | QueryClarifierNodeConfig | ModerationNodeConfig
  | MemoryCommitNodeConfig | ContextSummarizerNodeConfig | ToolExecutorNodeConfig

definition type_to_schema :: "(string \<times> config_schema) list" where
  "type_to_schema =
     [(''IntentClassifier'', LlmNodeConfigWrapper), (''ToolResolver'', LlmNodeConfigWrapper),
      (''ToolInputFiller'', LlmNodeConfigWrapper), (''ResponseBuilder'', LlmNodeConfigWrapper),
      (''HumanFallback'', LlmNodeConfigWrapper), (''QueryClarifier'', QueryClarifierNodeConfig),
      (''ContentModeration'', ModerationNodeConfig), (''MemoryCommitNode'', MemoryCommitNodeConfig),
      (''ContextSummarizer'', ContextSummarizerNodeConfig), (''ToolExecutor'', ToolExecutorNodeConfig)]"

definition validate_node_config ::
    "(config_schema \<Rightarrow> pydict \<Rightarrow> bool) \<Rightarrow> string \<Rightarrow> pydict option \<Rightarrow> exn + unit" where
  "validate_node_config model_validate node_type cfg =
     (case cfg of
        None \<Rightarrow> Inr ()
      | Some c \<Rightarrow> (case map_of type_to_schema node_type of
                    None \<Rightarrow> Inr ()
                  | Some schema \<Rightarrow> if model_validate schema c then Inr () else Inl ValidationError))"

fun validate_node_configs ::
    "(config_schema \<Rightarrow> pydict \<Rightarrow> bool) \<Rightarrow> (string \<times> node_spec) list \<Rightarrow> exn + unit" where
  "validate_node_configs mv [] = Inr ()"
| "validate_node_configs mv ((n, spec) # nodes) =
     (case validate_node_config mv (type_of_node spec) (config spec) of
        Inl e \<Rightarrow> if e = ValidationError then Inl (domain_validation ''node_config_invalid'') else Inl e
      | Inr _ \<Rightarrow> validate_node_configs mv nodes)"

fun validate_edge_syntax :: "(string \<Rightarrow> exn + pyval) \<Rightarrow> graph_edge list \<Rightarrow> exn + unit" where
  "validate_edge_syntax parse [] = Inr ()"
| "validate_edge_syntax parse (e # es) =
     rbind (compile_condition parse (ge_condition e)) (\<lambda>_. validate_edge_syntax parse es)"

text \<open>The parts of Python's expression trees that \<open>_is_constant_true\<close> distinguishes.\<close>

datatype ast = AConstant pyval | ANot ast | AAnd "ast list" | AOr "ast list"
  | ACompare ast "(binop \<times> ast) list" | AOther

fun is_constant_true :: "(pyval \<Rightarrow> pyval \<Rightarrow> bool) \<Rightarrow> ast \<Rightarrow> exn + bool" where
  "is_constant_true same (AConstant v) = Inr (truthy v)"
| "is_constant_true same (ANot a) = rbind (is_constant_true same a) (\<lambda>b. Inr (\<not> b))"
| "is_constant_true same (AAnd as) = py_all (is_constant_true same) as"
| "is_constant_true same (AOr as) = py_any (is_constant_true same) as"
| "is_constant_true same (ACompare left cs) =
     (case (left, cs) of
        (AConstant x, [(opr, AConstant y)]) \<Rightarrow> apply_binop same opr x y
      | _ \<Rightarrow> Inr False)"
| "is_constant_true same AOther = Inr False"

text \<open>\<open>str.replace\<close> for a two-character pattern: leftmost matches, no overlaps.\<close>

fun replace2 :: "char \<Rightarrow> char \<Rightarrow> string \<Rightarrow> string \<Rightarrow> string" where
  "replace2 a b new (x # y # s) =
     (if x = a \<and> y = b then new @ replace2 a b new s else x # replace2 a b new (y # s))"
| "replace2 a b new s = s"

text \<open>\<open>_has_always_true\<close>: an edge whose condition does not parse or does not evaluate is skipped.\<close>

fun has_always_true ::
    "(string \<Rightarrow> exn + ast) \<Rightarrow> (pyval \<Rightarrow> pyval \<Rightarrow> bool) \<Rightarrow> graph_edge list \<Rightarrow> bool" where
  "has_always_true ast_parse same [] = False"
| "has_always_true ast_parse same (e # es) =
     (let expr = replace2 CHR ''|'' CHR ''|'' '' or '' (replace2 CHR ''&'' CHR ''&'' '' and '' (ge_condition e))
      in case rbind (ast_parse expr) (is_constant_true same) of
           Inr True \<Rightarrow> True
         | _ \<Rightarrow> has_always_true ast_parse same es)"

text \<open>The groups of edges by source node, in the order in which the sources first occur.\<close>

definition by_from :: "graph_edge list \<Rightarrow> graph_edge list list" where
  "by_from edges = map (\<lambda>n. filter (\<lambda>e. ge_from e = n) edges) (rev (remdups (rev (map ge_from edges))))"

fun validate_groups ::
    "(string \<Rightarrow> exn + ast) \<Rightarrow> (pyval \<Rightarrow> pyval \<Rightarrow> bool) \<Rightarrow> graph_edge list list \<Rightarrow> exn + unit" where
  "validate_groups ast_parse same [] = Inr ()"
| "validate_groups ast_parse same (g # gs) =
     (if length g < 2 then validate_groups ast_parse same gs
      else if \<not> distinct (map ge_condition g) then Inl (domain_validation ''edge_condition_duplicate'')
      else if has_always_true ast_parse same g
      then Inl (domain_validation ''edge_condition_not_mutually_exclusive'')
      else validate_groups ast_parse same gs)"

definition validate_mutual_exclusion ::
    "(string \<Rightarrow> exn + ast) \<Rightarrow> (pyval \<Rightarrow> pyval \<Rightarrow> bool) \<Rightarrow> graph_edge list \<Rightarrow> exn + unit" where
  "validate_mutual_exclusion ast_parse same edges = validate_groups ast_parse same (by_from edges)"

text \<open>\<open>edge_kind_map[(from, to)]\<close>: a later parallel edge overwrites the mark of an earlier one.\<close>

definition edge_kind_map :: "graph_edge list \<Rightarrow> ((string \<times> string) \<times> EdgeKind) list" where
  "edge_kind_map edges = foldl (\<lambda>m e. AList.update (ge_from e, ge_to e) (ge_kind e) m) [] edges"

definition draft_marks :: "graph_definition \<Rightarrow> string \<Rightarrow> (string \<times> bool) list" where
  "draft_marks d n =
     map (\<lambda>e. (ge_to e, map_of (edge_kind_map (def_edges d)) (n, ge_to e) = Some LOOP))
         (filter (\<lambda>e. ge_from e = n) (def_edges d))"

definition validate_cycles :: "nat \<Rightarrow> graph_definition \<Rightarrow> exn + unit" where
  "validate_cycles depth d =
     (case dfs_loops depth (draft_marks d) (start_node d) [] [] of
        None \<Rightarrow> Inl RecursionError
      | Some None \<Rightarrow> Inl (domain_validation ''cycle_not_marked_loop'')
      | Some (Some _) \<Rightarrow> Inr ())"

text \<open>What the validator takes from other code: the grammar, pydantic, Python's parser, object identity.\<close>

record authoring_env =
  parse_condition :: "string \<Rightarrow> exn + pyval"
  model_validate :: "config_schema \<Rightarrow> pydict \<Rightarrow> bool"
  ast_parse :: "string \<Rightarrow> exn + ast"
  same_object :: "pyval \<Rightarrow> pyval \<Rightarrow> bool"

definition draft_validate :: "authoring_env \<Rightarrow> nat \<Rightarrow> graph_definition \<Rightarrow> exn + unit" where
  "draft_validate env depth d =
     rbind (validate_definition depth d) (\<lambda>_.
     rbind (validate_node_configs (model_validate env) (def_nodes d)) (\<lambda>_.
     rbind (validate_edge_syntax (parse_condition env) (def_edges d)) (\<lambda>_.
     rbind (validate_mutual_exclusion (ast_parse env) (same_object env) (def_edges d)) (\<lambda>_.
       validate_cycles depth d))))"

subsection \<open>FlowGraphCompiler\<close>

fun compile_graph_edges :: "(string \<Rightarrow> exn + pyval) \<Rightarrow> graph_edge list \<Rightarrow> exn + snapshot_edge list" where
  "compile_graph_edges parse [] = Inr []"
| "compile_graph_edges parse (e # es) =
     rbind (compile_condition parse (ge_condition e)) (\<lambda>c.
     rbind (compile_graph_edges parse es) (\<lambda>rest.
       Inr (\<lparr>se_from = ge_from e, se_to = ge_to e, se_condition = ge_condition e,
             se_edge_kind = Some (PStr (edge_kind_value (ge_kind e))), se_compiled = Some c\<rparr> # rest)))"

definition flow_graph_snapshot :: "(string \<Rightarrow> exn + pyval) \<Rightarrow> graph_definition \<Rightarrow> exn + snapshot" where
  "flow_graph_snapshot parse d =
     rbind (compile_graph_edges parse
             (sort_key (\<lambda>e. (ge_from e, ge_to e, ge_condition e)) (def_edges d))) (\<lambda>edges.
       Inr \<lparr>snap_start = Some (start_node d), snap_nodes = def_nodes d, snap_edges = edges\<rparr>)"

subsection \<open>What a definition describes\<close>

definition def_rel :: "graph_definition \<Rightarrow> (string \<times> string) set" where
  "def_rel d = set (map (\<lambda>e. (ge_from e, ge_to e)) (def_edges d))"

definition def_normal :: "graph_definition \<Rightarrow> (string \<times> string) set" where
  "def_normal d = set (map (\<lambda>e. (ge_from e, ge_to e)) (filter (\<lambda>e. ge_kind e = NORMAL) (def_edges d)))"

definition def_universe :: "graph_definition \<Rightarrow> string list" where
  "def_universe d = start_node d # map ge_to (def_edges d)"

text \<open>Parallel edges between two nodes carry the same mark.\<close>

definition parallel_agree :: "graph_definition \<Rightarrow> bool" where
  "parallel_agree d \<longleftrightarrow>
     (\<forall>e \<in> set (def_edges d). \<forall>f \<in> set (def_edges d).
        ge_from e = ge_from f \<and> ge_to e = ge_to f \<longrightarrow> ge_kind e = ge_kind f)"

definition demo_env :: authoring_env where
  "demo_env = \<lparr>parse_condition = (\<lambda>s. Inr (PList [PStr ''intent'', PStr ''=='', PStr s])),
     model_validate = (\<lambda>_ _. True),
     ast_parse = (\<lambda>s. if s = ''not vip'' then Inr (ANot AOther) else Inr AOther),
     same_object = (\<lambda>_ _. False)\<rparr>"

definition demo_graph :: "(string \<times> string \<times> string \<times> EdgeKind) list \<Rightarrow> graph_definition" where
  "demo_graph es = \<lparr>start_node = ''s'',
     def_nodes = [(''s'', demo_node ''IntentClassifier''), (''a'', demo_node ''ToolExecutor''),
                  (''b'', demo_node ''ToolResolver''), (''t'', demo_node ''ResponseBuilder'')],
     def_edges = map (\<lambda>(x, y, c, k). \<lparr>ge_from = x, ge_to = y, ge_condition = c, ge_kind = k\<rparr>) es\<rparr>"

definition demo_straight :: graph_definition where
  "demo_straight = demo_graph [(''s'', ''b'', ''x'', NORMAL), (''s'', ''a'', ''y'', NORMAL),
     (''a'', ''t'', ''z'', NORMAL), (''b'', ''t'', ''z'', NORMAL)]"

text \<open>A graph in which the order of the two edges out of the start node decides the loop check.\<close>

definition demo_order :: graph_definition where
  "demo_order = demo_graph [(''s'', ''b'', ''x'', NORMAL), (''s'', ''a'', ''y'', NORMAL),
     (''b'', ''a'', ''x'', NORMAL), (''a'', ''b'', ''x'', LOOP), (''a'', ''t'', ''y'', NORMAL)]"

text \<open>A graph with a NORMAL and a LOOP edge from one node back to the start node.\<close>

definition demo_parallel :: graph_definition where
  "demo_parallel = demo_graph [(''s'', ''a'', ''x'', NORMAL), (''a'', ''b'', ''x'', NORMAL),
     (''a'', ''s'', ''y'', NORMAL), (''a'', ''s'', ''z'', LOOP), (''b'', ''t'', ''x'', NORMAL)]"

text \<open>A node that is not terminal and has no way out.\<close>

definition demo_dead_end :: graph_definition where
  "demo_dead_end = demo_graph [(''s'', ''a'', ''x'', NORMAL), (''s'', ''b'', ''y'', NORMAL), (''a'', ''t'', ''x'', NORMAL)]"

definition compile_definition :: "nat \<Rightarrow> (string \<Rightarrow> exn + pyval) \<Rightarrow> graph_definition \<Rightarrow> exn + execution_plan" where
  "compile_definition depth parse d =
     rbind (flow_graph_snapshot parse d) (\<lambda>s. graph_compile depth s ''h'' None)"

subsection \<open>The searches of the validators\<close>

lemma graph_of_def_targets [simp]: "graph_of (def_targets d) = def_rel d"
  by (auto simp: graph_of_def def_targets_def def_rel_def)

lemma graph_of_draft_marks [simp]: "graph_of (targets (draft_marks d)) = def_rel d"
  by (force simp: graph_of_def targets_def draft_marks_def def_rel_def)

lemma edge_kind_map_update:
  "map_of (foldl (\<lambda>m e. AList.update (ge_from e, ge_to e) (ge_kind e) m) m es) p =
   (case filter (\<lambda>e. (ge_from e, ge_to e) = p) es of [] \<Rightarrow> map_of m p | fs \<Rightarrow> Some (ge_kind (last fs)))"
proof (induction es arbitrary: m)
  case (Cons e es)
  show ?case
    by (cases "filter (\<lambda>e. (ge_from e, ge_to e) = p) es") (auto simp: Cons update_conv)
qed simp

lemma edge_kind_map_agree:
  assumes "parallel_agree d" "e \<in> set (def_edges d)"
  shows "map_of (edge_kind_map (def_edges d)) (ge_from e, ge_to e) = Some (ge_kind e)"
proof -
  let ?fs = "filter (\<lambda>f. (ge_from f, ge_to f) = (ge_from e, ge_to e)) (def_edges d)"
  have ne: "?fs \<noteq> []" using assms(2) by (auto simp: filter_empty_conv)
  then have "last ?fs \<in> set ?fs" by (rule last_in_set)
  then have "last ?fs \<in> set (def_edges d)" "ge_from (last ?fs) = ge_from e" "ge_to (last ?fs) = ge_to e"
    unfolding set_filter by blast+
  then have "ge_kind (last ?fs) = ge_kind e" using assms unfolding parallel_agree_def by blast
  with ne show ?thesis by (cases ?fs) (simp_all add: edge_kind_map_def edge_kind_map_update)
qed

lemma normal_edges_draft_marks:
  "parallel_agree d \<Longrightarrow> normal_edges (draft_marks d) = def_normal d"
proof -
  assume agree: "parallel_agree d"
  have "(b, False) \<in> set (draft_marks d a) \<longleftrightarrow>
      (\<exists>e \<in> set (def_edges d). ge_from e = a \<and> ge_to e = b \<and> ge_kind e = NORMAL)" for a b
    using edge_kind_map_agree [OF agree] not_LOOP by (auto simp: draft_marks_def image_iff) 
  then show ?thesis by (auto simp: normal_edges_def def_normal_def)
qed

interpretation def_graph: finite_graph "def_targets d" "def_universe d" for d
  by unfold_locales (auto simp: def_targets_def def_universe_def)

interpretation draft_graph: marked_graph "draft_marks d" "def_universe d" for d
  by unfold_locales (auto simp: draft_marks_def def_universe_def)

lemma start_in_universe: "start_node d \<in> set (def_universe d)"
  by (simp add: def_universe_def)

lemma check_edges_iff:
  "check_edges ids es = Inr () \<longleftrightarrow>
   (\<forall>e \<in> set es. ge_from e \<in> set ids \<and> ge_to e \<in> set ids \<and> py_strip (ge_condition e) \<noteq> '''')"
  by (induction ids es rule: check_edges.induct) (auto simp: py_strip_def)

text \<open>The structural checks, with the searches replaced by what they decide.\<close>

lemma validate_definition_cases:
  assumes "Suc (length (def_edges d)) < depth"
  shows "validate_definition depth d =
    (let nodes = def_nodes d; ids = map fst nodes in
     if \<exists>(n, spec) \<in> set nodes. type_of_node spec \<in> set DEPRECATED_NODE_TYPES
     then Inl (domain_validation ''deprecated_node_type_user_context_enrichment'')
     else if start_node d \<notin> set ids then Inl (domain_validation ''start_node_not_found'')
     else rbind (check_edges ids (def_edges d)) (\<lambda>_.
       if (def_rel d)\<^sup>* `` {start_node d} \<noteq> set ids then Inl (domain_validation ''unreachable_nodes'')
       else if terminal_ids nodes = [] then Inl (domain_validation ''no_terminal_nodes'')
       else rbind (check_rag_pipeline nodes) (\<lambda>_.
         if length (filter (\<lambda>(n, spec). type_of_node spec = ''MemoryCommitNode'') nodes) > 1
         then Inl (domain_validation ''multiple_memory_commit_nodes'')
         else check_memory_commit ids nodes)))"
proof -
  have depth: "length (def_universe d) < depth" using assms by (simp add: def_universe_def)
  obtain W where W: "dfs depth (def_targets d) (start_node d) [] = Some W"
      "set W = (def_rel d)\<^sup>* `` {start_node d}"
    using def_graph.dfs_decides [OF start_in_universe depth] by auto
  have path: "has_terminal_path depth (def_targets d) t (start_node d) [] =
      Some (\<exists>x. t x \<and> (start_node d, x) \<in> (def_rel d)\<^sup>*)" for t
    using def_graph.has_terminal_path_decides [OF start_in_universe depth] by simp
  have "terminal_ids (def_nodes d) \<noteq> [] \<Longrightarrow> (def_rel d)\<^sup>* `` {start_node d} = set (map fst (def_nodes d)) \<Longrightarrow>
      \<exists>x. x \<in> set (terminal_ids (def_nodes d)) \<and> (start_node d, x) \<in> (def_rel d)\<^sup>*"
  proof -
    assume ne: "terminal_ids (def_nodes d) \<noteq> []"
      and reach: "(def_rel d)\<^sup>* `` {start_node d} = set (map fst (def_nodes d))"
    from ne have "hd (terminal_ids (def_nodes d)) \<in> set (terminal_ids (def_nodes d))" by simp
    moreover have "set (terminal_ids (def_nodes d)) \<subseteq> set (map fst (def_nodes d))"
      by (auto simp: terminal_ids_def)
    ultimately show ?thesis using reach by blast
  qed
  then show ?thesis
    unfolding validate_definition_def Let_def W(1) path
    by (auto simp: W(2) rbind_def split: sum.splits bool.splits)
qed

lemma validate_groups_iff:
  "validate_groups ap same gs = Inr () \<longleftrightarrow>
   (\<forall>g \<in> set gs. length g \<ge> 2 \<longrightarrow> distinct (map ge_condition g) \<and> \<not> has_always_true ap same g)"
  by (induction gs) auto

lemma by_from_groups:
  "(\<forall>g \<in> set (by_from es). length g \<ge> 2 \<longrightarrow> P g) \<longleftrightarrow>
   (\<forall>n. length (filter (\<lambda>e. ge_from e = n) es) \<ge> 2 \<longrightarrow> P (filter (\<lambda>e. ge_from e = n) es))"
proof -
  have "n \<in> set (map ge_from es)" if "length (filter (\<lambda>e. ge_from e = n) es) \<ge> 2" for n
  proof (rule ccontr)
    assume "n \<notin> set (map ge_from es)"
    then have "filter (\<lambda>e. ge_from e = n) es = []" by (auto simp: filter_empty_conv)
    with that show False by simp
  qed
  then show ?thesis by (auto simp: by_from_def)
qed

lemma mutual_exclusion_iff:
  "validate_mutual_exclusion ap same es = Inr () \<longleftrightarrow>
   (\<forall>n. let g = filter (\<lambda>e. ge_from e = n) es in
        length g \<ge> 2 \<longrightarrow> distinct (map ge_condition g) \<and> \<not> has_always_true ap same g)"
  unfolding validate_mutual_exclusion_def validate_groups_iff Let_def by (rule by_from_groups)

lemma validate_cycles_sound:
  assumes "validate_cycles depth d = Inr u"
  shows "acyclic (normal_edges (draft_marks d) \<inter> (def_rel d)\<^sup>* `` {start_node d} \<times> UNIV)"
proof -
  from assms obtain W where "dfs_loops depth (draft_marks d) (start_node d) [] [] = Some (Some W)"
    by (auto simp: validate_cycles_def split: option.splits)
  from dfs_loops_accepts(2) [OF this] show ?thesis by simp
qed

lemma validate_definition_edges:
  assumes "validate_definition depth d = Inr u"
  shows "check_edges (map fst (def_nodes d)) (def_edges d) = Inr ()"
    and "(def_rel d)\<^sup>* `` {start_node d} = set (map fst (def_nodes d))"
    and "start_node d \<in> set (map fst (def_nodes d))" and "terminal_ids (def_nodes d) \<noteq> []"
proof -
  from assms obtain W where W: "dfs depth (def_targets d) (start_node d) [] = Some W"
      "set W = set (map fst (def_nodes d))"
      and *: "check_edges (map fst (def_nodes d)) (def_edges d) = Inr ()"
      "start_node d \<in> set (map fst (def_nodes d))" "terminal_ids (def_nodes d) \<noteq> []"
    by (auto simp: validate_definition_def Let_def rbind_eq_Inr split: if_splits option.splits)
  show "(def_rel d)\<^sup>* `` {start_node d} = set (map fst (def_nodes d))"
    using dfs_reachable [OF W(1)] W(2) by simp
  show "check_edges (map fst (def_nodes d)) (def_edges d) = Inr ()" by (rule *(1))
  show "start_node d \<in> set (map fst (def_nodes d))" by (rule *(2))
  show "terminal_ids (def_nodes d) \<noteq> []" by (rule *(3))
qed

lemma draft_validateE:
  assumes "draft_validate env depth d = Inr u"
  obtains "validate_definition depth d = Inr ()" "validate_node_configs (model_validate env) (def_nodes d) = Inr ()"
    "validate_edge_syntax (parse_condition env) (def_edges d) = Inr ()"
    "validate_mutual_exclusion (ast_parse env) (same_object env) (def_edges d) = Inr ()"
    "validate_cycles depth d = Inr ()"
  using assms by (auto simp: draft_validate_def rbind_eq_Inr)

lemma draft_validate_acyclic:
  assumes "draft_validate env depth d = Inr u" "parallel_agree d"
  shows "acyclic (def_normal d)"
  using assms(1)
proof (cases rule: draft_validateE)
  case 1
  have "def_normal d \<subseteq> (def_rel d)\<^sup>* `` {start_node d} \<times> UNIV"
    unfolding validate_definition_edges(2) [OF 1(1)]
    using validate_definition_edges(1) [OF 1(1)] by (auto simp: def_normal_def check_edges_iff)
  then have "def_normal d = def_normal d \<inter> (def_rel d)\<^sup>* `` {start_node d} \<times> UNIV" by blast
  then show ?thesis
    using validate_cycles_sound [OF 1(5)] by (simp add: normal_edges_draft_marks [OF assms(2)])
qed

subsection \<open>From a definition to its snapshot\<close>

lemma compile_graph_edges_shape:
  "compile_graph_edges parse es = Inr ses \<Longrightarrow>
   list_all2 (\<lambda>e se. se_from se = ge_from e \<and> se_to se = ge_to e \<and> edge_kind_of se = Inr (ge_kind e) \<and>
     (\<exists>c. compile_condition parse (ge_condition e) = Inr c \<and> se_compiled se = Some c)) es ses"
proof (induction es arbitrary: ses)
  case (Cons e es)
  then show ?case
    by (cases "ge_kind e") (auto simp: rbind_eq_Inr edge_kind_of_def edge_kind_value_def EdgeKind_of_def)
qed simp

lemma compile_graph_edges_total:
  "(\<And>e. e \<in> set es \<Longrightarrow> \<exists>c. compile_condition parse (ge_condition e) = Inr c) \<Longrightarrow>
   \<exists>ses. compile_graph_edges parse es = Inr ses"
proof (induction es)
  case (Cons e es)
  obtain c where "compile_condition parse (ge_condition e) = Inr c" using Cons.prems [of e] by auto
  moreover obtain ses where "compile_graph_edges parse es = Inr ses" using Cons by auto
  ultimately show ?case by simp
qed simp

lemma snapshot_fields:
  assumes "flow_graph_snapshot parse d = Inr s"
  shows "snap_start s = Some (start_node d)" "snap_nodes s = def_nodes d"
    and "length (snap_edges s) = length (def_edges d)"
    and "set (map (\<lambda>e. (se_from e, se_to e, edge_kind_of e)) (snap_edges s)) =
         set (map (\<lambda>e. (ge_from e, ge_to e, Inr (ge_kind e))) (def_edges d))"
    and "se \<in> set (snap_edges s) \<Longrightarrow> \<exists>e \<in> set (def_edges d).
           edge_kind_of se = Inr (ge_kind e) \<and>
           (\<exists>c. compile_condition parse (ge_condition e) = Inr c \<and> se_compiled se = Some c)"
proof -
  let ?es = "sort_key (\<lambda>e. (ge_from e, ge_to e, ge_condition e)) (def_edges d)"
  from assms have ses: "compile_graph_edges parse ?es = Inr (snap_edges s)"
    and *: "snap_start s = Some (start_node d)" "snap_nodes s = def_nodes d"
    by (auto simp: flow_graph_snapshot_def rbind_eq_Inr)
  note shape = compile_graph_edges_shape [OF ses]
  show "snap_start s = Some (start_node d)" "snap_nodes s = def_nodes d" by (rule *)+
  show "length (snap_edges s) = length (def_edges d)" using list_all2_lengthD [OF shape] by simp
  have "map (\<lambda>e. (se_from e, se_to e, edge_kind_of e)) (snap_edges s) =
      map (\<lambda>e. (ge_from e, ge_to e, Inr (ge_kind e))) ?es"
    using shape by (induction rule: list_all2_induct) auto
  then have "set (map (\<lambda>e. (se_from e, se_to e, edge_kind_of e)) (snap_edges s)) =
      set (map (\<lambda>e. (ge_from e, ge_to e, Inr (ge_kind e))) ?es)" by (rule arg_cong)
  then show "set (map (\<lambda>e. (se_from e, se_to e, edge_kind_of e)) (snap_edges s)) =
         set (map (\<lambda>e. (ge_from e, ge_to e, Inr (ge_kind e))) (def_edges d))" by simp
  assume "se \<in> set (snap_edges s)"
  then obtain i where i: "i < length (snap_edges s)" "snap_edges s ! i = se" unfolding in_set_conv_nth by blast
  then have "?es ! i \<in> set ?es" using list_all2_lengthD [OF shape] by (intro nth_mem) simp
  then have "?es ! i \<in> set (def_edges d)" by simp
  then show "\<exists>e \<in> set (def_edges d). edge_kind_of se = Inr (ge_kind e) \<and>
      (\<exists>c. compile_condition parse (ge_condition e) = Inr c \<and> se_compiled se = Some c)"
    using list_all2_nthD2 [OF shape i(1)] i(2) by blast
qed

lemma snapshot_relations:
  assumes "flow_graph_snapshot parse d = Inr s"
  shows "snap_rel s = def_rel d" and "snap_normal s = def_normal d"
proof -
  note t = snapshot_fields(4) [OF assms]
  have "snap_rel s = (\<lambda>(a, b, k). (a, b)) ` set (map (\<lambda>e. (se_from e, se_to e, edge_kind_of e)) (snap_edges s))"
    by (force simp: snap_rel_def)
  then show "snap_rel s = def_rel d" unfolding t by (force simp: def_rel_def)
  have "snap_normal s =
      {(a, b). (a, b, Inr NORMAL) \<in> set (map (\<lambda>e. (se_from e, se_to e, edge_kind_of e)) (snap_edges s))}"
    by (force simp: snap_normal_def)
  then show "snap_normal s = def_normal d" unfolding t by (force simp: def_normal_def)
qed

text \<open>A compiled condition that is a list gives an edge the runtime can compile.\<close>

lemma edge_ok_list: "se_compiled se = Some (PList c) \<Longrightarrow> edge_kind_of se = Inr k \<Longrightarrow> edge_ok se"
  by (simp add: edge_ok_def compile_edge_def)

text \<open>The errors of the local checks.\<close>

lemma check_edges_errors:
  "check_edges ids es = Inl e \<Longrightarrow>
   e \<in> {domain_validation ''edge_references_unknown_node'', domain_validation ''edge_condition_required''}"
  by (induction ids es rule: check_edges.induct) (auto split: if_splits)

lemma check_merge_rules_errors:
  "check_merge_rules ids rs = Inl e \<Longrightarrow>
   e \<in> {domain_validation ''memory_commit_data_merge_unknown_from_node'', Py TypeError,
        domain_validation ''memory_commit_data_merge_rule_invalid''}"
  by (induction ids rs rule: check_merge_rules.induct) (auto simp: Let_def split: pyval.splits if_splits)

lemma check_memory_commit_errors:
  "check_memory_commit ids ns = Inl e \<Longrightarrow>
   e \<in> {domain_validation ''memory_commit_data_merge_unknown_from_node'', Py TypeError,
        domain_validation ''memory_commit_data_merge_rule_invalid''}"
proof (induction ids ns rule: check_memory_commit.induct)
  case (2 ids n spec nodes)
  then show ?case
    by (cases "dict_get (cfg_of spec) ''data_merge'' PNone")
      (auto simp: rbind_eq_Inl split: if_splits dest: check_merge_rules_errors)
qed simp

subsection \<open>Properties\<close>


text \<open>
  The check for a path to a terminal node never fires: when the stack has room, a definition that
  passes the reachability check and has a terminal node has a path to it, so the error
  \<open>no_terminal_path\<close> is never raised.
\<close>

theorem no_terminal_path_never_raised:
  assumes "Suc (length (def_edges d)) < depth"
  shows "validate_definition depth d \<noteq> Inl (domain_validation ''no_terminal_path'')"
  unfolding validate_definition_cases [OF assms] Let_def
  by (auto simp: rbind_eq_Inl check_rag_pipeline_def dest!: check_edges_errors check_memory_commit_errors
      split: if_splits)

text \<open>
  C23: An accepted draft has no unmarked cycle: when parallel edges carry the same mark, the edges
  marked NORMAL form no cycle.
\<close>

theorem draft_validate_no_normal_cycle:
  assumes "draft_validate env depth d = Inr u" "parallel_agree d"
  shows "acyclic (def_normal d)"
  using assms by (rule draft_validate_acyclic)



theorem no_terminal_path_never_raised_witness:
  "validate_definition 9 demo_straight \<noteq> Inl (domain_validation ''no_terminal_path'')"
proof (rule no_terminal_path_never_raised)
  show "Suc (length (def_edges demo_straight)) < 9" by code_simp
qed

theorem draft_validate_no_normal_cycle_witness: "acyclic (def_normal demo_order)"
proof (rule draft_validate_no_normal_cycle)
  show "draft_validate demo_env 9 demo_order = Inr ()" by code_simp
  show "parallel_agree demo_order" by code_simp
qed



text \<open>
  A path may end in a node that is not terminal: the validator accepts a graph with a node that
  has no outgoing edge and is not of a terminal type.
\<close>

theorem dead_end_accepted:
  "validate_definition 9 demo_dead_end = Inr ()
   \<and> def_targets demo_dead_end ''b'' = [] \<and> ''b'' \<notin> set (terminal_ids (def_nodes demo_dead_end))"
  by (intro conjI) code_simp+

text \<open>
  Negated conditions count as always true.  \<open>_is_constant_true\<close> answers \<open>False\<close> both for a
  constant that is false and for an expression it cannot decide, and \<open>not\<close> turns either into \<open>True\<close>:
  a node with several outgoing edges, one of which has the condition \<open>not c\<close> for an undecided \<open>c\<close>,
  is rejected, even when the other edge has the condition \<open>c\<close>.
\<close>

theorem negated_condition_rejected:
  assumes "e \<in> set es" "f \<in> set es" "e \<noteq> f" "ge_from f = ge_from e"
    and "ap (replace2 CHR ''|'' CHR ''|'' '' or '' (replace2 CHR ''&'' CHR ''&'' '' and '' (ge_condition e))) = Inr (ANot c)"
    and "is_constant_true same c = Inr False"
  shows "\<exists>x. validate_mutual_exclusion ap same es = Inl x"
proof -
  let ?g = "filter (\<lambda>x. ge_from x = ge_from e) es"
  have g: "e \<in> set ?g" "f \<in> set ?g" using assms(1,2,4) by simp_all
  have "card {e, f} \<le> card (set ?g)" using g by (intro card_mono) simp_all
  then have len: "length ?g \<ge> 2" using assms(3) card_length [of ?g] by simp
  have "has_always_true ap same gs" if "e \<in> set gs" for gs
    using that by (induction gs) (auto simp: assms(5,6) Let_def split: sum.splits bool.splits)
  with g(1) have "has_always_true ap same ?g" by blast
  with len have "validate_mutual_exclusion ap same es \<noteq> Inr ()"
    unfolding mutual_exclusion_iff Let_def by blast
  then show ?thesis by (cases "validate_mutual_exclusion ap same es") auto
qed

theorem negated_condition_rejected_witness:
  "\<exists>x. validate_mutual_exclusion (ast_parse demo_env) (\<lambda>_ _. False)
     [\<lparr>ge_from = ''s'', ge_to = ''a'', ge_condition = ''vip'', ge_kind = NORMAL\<rparr>,
      \<lparr>ge_from = ''s'', ge_to = ''b'', ge_condition = ''not vip'', ge_kind = NORMAL\<rparr>] = Inl x"
proof (rule negated_condition_rejected)
  let ?e = "\<lparr>ge_from = ''s'', ge_to = ''b'', ge_condition = ''not vip'', ge_kind = NORMAL\<rparr>"
  let ?f = "\<lparr>ge_from = ''s'', ge_to = ''a'', ge_condition = ''vip'', ge_kind = NORMAL\<rparr>"
  show "?e \<in> set [?f, ?e]" "?f \<in> set [?f, ?e]" "?e \<noteq> ?f" "ge_from ?f = ge_from ?e" by simp_all
  show "ast_parse demo_env (replace2 CHR ''|'' CHR ''|'' '' or '' (replace2 CHR ''&'' CHR ''&'' '' and '' (ge_condition ?e))) =
      Inr (ANot AOther)" by code_simp
  show "is_constant_true (\<lambda>_ _. False) AOther = Inr False" by simp
qed

end
