(* ===== verification/PyUuid.thy ===== *)
theory PyUuid
  imports PyValue
begin

text \<open>
  UUIDs: Python's \<open>UUID(s)\<close> and \<open>str(u)\<close> (standard library \<^verbatim>\<open>uuid\<close>), which the runtime uses to move
  between node ids of a graph (strings) and database keys.  A UUID is its 128-bit number.
\<close>

function py_replace :: "string \<Rightarrow> string \<Rightarrow> string \<Rightarrow> string" where
  "py_replace pat new s =
     (if pat \<noteq> [] \<and> take (length pat) s = pat then new @ py_replace pat new (drop (length pat) s)
      else case s of [] \<Rightarrow> [] | c # cs \<Rightarrow> c # py_replace pat new cs)"
  by pat_completeness auto
termination
proof (relation "measure (\<lambda>(pat, new, s). length s)")
  fix pat new s :: string
  assume "pat \<noteq> [] \<and> take (length pat) s = pat"
  then show "((pat, new, drop (length pat) s), pat, new, s) \<in> measure (\<lambda>(pat, new, s). length s)"
    by (cases s; cases pat) auto
qed auto

definition strip_chars :: "char list \<Rightarrow> string \<Rightarrow> string" where
  "strip_chars cs s = rev (dropWhile (\<lambda>c. c \<in> set cs) (rev (dropWhile (\<lambda>c. c \<in> set cs) s)))"

definition hex_chars :: string where
  "hex_chars = ''0123456789abcdef''"

definition hex_val :: "char \<Rightarrow> nat option" where
  "hex_val c = map_of (zip hex_chars [0..<16] @ zip ''ABCDEF'' [10..<16]) c"

text \<open>The digits of \<open>int(s, 16)\<close>: single underscores may separate digits.\<close>

fun hex_digits :: "bool \<Rightarrow> nat \<Rightarrow> string \<Rightarrow> nat option" where
  "hex_digits prev acc [] = (if prev then Some acc else None)"
| "hex_digits prev acc (c # cs) =
     (if c = CHR ''_'' then (if prev then hex_digits False acc cs else None)
      else case hex_val c of None \<Rightarrow> None | Some d \<Rightarrow> hex_digits True (16 * acc + d) cs)"

definition int16 :: "string \<Rightarrow> int option" where
  "int16 str =
     (let s = py_strip str;
          neg = (take 1 s = ''-'');
          s1 = (if take 1 s = ''-'' \<or> take 1 s = ''+'' then drop 1 s else s);
          prefixed = (take 2 s1 = ''0x'' \<or> take 2 s1 = ''0X'');
          s2 = (if prefixed then drop 2 s1 else s1);
          s3 = (if prefixed \<and> take 1 s2 = ''_'' then drop 1 s2 else s2)
      in map_option (\<lambda>n. if neg then - int n else int n) (hex_digits False 0 s3))"

definition parse_uuid :: "string \<Rightarrow> exn + uuid" where
  "parse_uuid s =
     (let hex = py_replace ''-'' '''' (strip_chars ''{}'' (py_replace ''uuid:'' '''' (py_replace ''urn:'' '''' s)))
      in if length (utf8_chars hex) \<noteq> 32 then Inl (Py ValueError)
         else case int16 hex of
                None \<Rightarrow> Inl (Py ValueError)
              | Some i \<Rightarrow> if 0 \<le> i \<and> i < 2 ^ 128 then Inr (nat i) else Inl (Py ValueError))"

text \<open>\<open>'%032x' % self.int\<close>, then the groups of 8, 4, 4, 4 and 12 digits.\<close>

fun hex_string :: "nat \<Rightarrow> nat \<Rightarrow> string" where
  "hex_string 0 n = []"
| "hex_string (Suc k) n = hex_string k (n div 16) @ [hex_chars ! (n mod 16)]"

definition uuid_str :: "uuid \<Rightarrow> string" where
  "uuid_str u =
     (let h = hex_string 32 u in
      take 8 h @ ''-'' @ take 4 (drop 8 h) @ ''-'' @ take 4 (drop 12 h) @ ''-'' @ take 4 (drop 16 h)
      @ ''-'' @ drop 20 h)"

subsection \<open>Round trip\<close>

declare py_replace.simps [simp del]

lemma py_replace_id: "hd pat \<notin> set s \<Longrightarrow> pat \<noteq> [] \<Longrightarrow> py_replace pat new s = s"
proof (induction s)
  case Nil
  then show ?case by (auto simp: py_replace.simps)
next
  case (Cons c cs)
  then have "\<not> (pat \<noteq> [] \<and> take (length pat) (c # cs) = pat)"
    by (cases pat) auto
  then show ?case using Cons by (subst py_replace.simps) simp
qed

lemma py_replace_append:
  "set xs \<inter> {p} = {} \<Longrightarrow> py_replace [p] new (xs @ ys) = xs @ py_replace [p] new ys"
  by (induction xs) (auto simp: py_replace.simps)

lemma py_replace_hit: "py_replace [p] new (p # ys) = new @ py_replace [p] new ys"
  by (simp add: py_replace.simps)

lemma hex_string_length [simp]: "length (hex_string k n) = k"
  by (induction k arbitrary: n) auto

lemma hex_string_set: "set (hex_string k n) \<subseteq> set hex_chars"
proof (induction k arbitrary: n)
  case (Suc k)
  have "n mod 16 < length hex_chars" by (simp add: hex_chars_def)
  then have "hex_chars ! (n mod 16) \<in> set hex_chars" by (rule nth_mem)
  then show ?case using Suc by simp
qed simp

lemma hex_val_nth: "d < 16 \<Longrightarrow> hex_val (hex_chars ! d) = Some d \<and> hex_chars ! d \<noteq> CHR ''_''"
proof -
  have "\<forall>d \<in> set [0..<16]. hex_val (hex_chars ! d) = Some d \<and> hex_chars ! d \<noteq> CHR ''_''" by code_simp
  then show "d < 16 \<Longrightarrow> hex_val (hex_chars ! d) = Some d \<and> hex_chars ! d \<noteq> CHR ''_''" by simp
qed

abbreviation digit_step :: "char \<Rightarrow> nat \<Rightarrow> nat" where
  "digit_step c a \<equiv> 16 * a + the (hex_val c)"

lemma hex_val_hex: "\<forall>c \<in> set hex_chars. hex_val c \<noteq> None \<and> c \<noteq> CHR ''_''"
  by code_simp

lemma hex_digits_fold:
  "set xs \<subseteq> set hex_chars \<Longrightarrow> b \<or> xs \<noteq> [] \<Longrightarrow> hex_digits b acc xs = Some (fold digit_step xs acc)"
proof (induction xs arbitrary: b acc)
  case (Cons c cs)
  then have "c \<in> set hex_chars" by simp
  then obtain d where "hex_val c = Some d" "c \<noteq> CHR ''_''" using hex_val_hex by blast
  then show ?case using Cons by simp
qed simp

lemma fold_hex_string: "n < 16 ^ k \<Longrightarrow> fold digit_step (hex_string k n) acc = 16 ^ k * acc + n"
proof (induction k arbitrary: n)
  case (Suc k)
  have "the (hex_val (hex_chars ! (n mod 16))) = n mod 16" using hex_val_nth [of "n mod 16"] by simp
  moreover have "n div 16 < 16 ^ k" using Suc.prems by (simp add: less_mult_imp_div_less mult.commute)
  ultimately show ?case using Suc.IH by (simp add: algebra_simps)
qed simp

lemma hex_char_plain: "\<forall>c \<in> set hex_chars. \<not> py_space c \<and> \<not> utf8_cont c \<and> c \<notin> set ''-+xXu{}''"
  by code_simp

lemma utf8_chars_plain: "\<forall>c \<in> set s. \<not> utf8_cont c \<Longrightarrow> length (utf8_chars s) = length s"
proof (induction s rule: utf8_chars.induct)
  case (2 c cs)
  then have "takeWhile utf8_cont cs = []" "dropWhile utf8_cont cs = cs" by (cases cs; simp)+
  then show ?case using 2 by simp
qed simp

lemma dropWhile_none: "\<forall>c \<in> set s. \<not> P c \<Longrightarrow> dropWhile P s = s"
  by (cases s) auto

lemma int16_hex:
  assumes "set xs \<subseteq> set hex_chars" "xs \<noteq> []"
  shows "int16 xs = Some (int (fold digit_step xs 0))"
proof -
  have plain: "\<forall>c \<in> set xs. \<not> py_space c \<and> c \<notin> set ''-+xXu{}''" using assms(1) hex_char_plain by blast
  then have "py_strip xs = xs" by (simp add: py_strip_def dropWhile_none)
  moreover obtain c cs where "xs = c # cs" using assms(2) by (cases xs) auto
  ultimately show ?thesis
    using plain hex_digits_fold [OF assms(1)] assms(2) by (cases cs) (auto simp: int16_def Let_def)
qed

lemma uuid_str_hex:
  "set (uuid_str u) \<subseteq> set hex_chars \<union> {CHR ''-''}" "py_replace ''-'' '''' (uuid_str u) = hex_string 32 u"
proof -
  let ?h = "hex_string 32 u"
  have sub: "set (take a (drop b ?h)) \<subseteq> set hex_chars" "set (drop b ?h) \<subseteq> set hex_chars"
    "set (take a ?h) \<subseteq> set hex_chars" for a b
    using hex_string_set [of 32 u] by (meson in_set_dropD in_set_takeD subset_eq)+
  show "set (uuid_str u) \<subseteq> set hex_chars \<union> {CHR ''-''}"
    using sub(1) [of 4 8] sub(1) [of 4 12] sub(1) [of 4 16] sub(2) [of 20] sub(3) [of 8]
    by (auto simp: uuid_str_def Let_def)
  have dash: "CHR ''-'' \<notin> set hex_chars" by code_simp
  have skip: "py_replace ''-'' '''' (xs @ ys) = xs @ py_replace ''-'' '''' ys" if "set xs \<subseteq> set hex_chars" for xs ys
    using that dash by (intro py_replace_append) blast
  have tail: "py_replace ''-'' '''' (drop 20 ?h) = drop 20 ?h"
    by (rule py_replace_id) (use sub(2) [of 20] dash in auto)
  have "py_replace ''-'' '''' (uuid_str u) =
      take 8 ?h @ take 4 (drop 8 ?h) @ take 4 (drop 12 ?h) @ take 4 (drop 16 ?h) @ drop 20 ?h"
    by (simp add: uuid_str_def Let_def skip sub py_replace_hit tail)
  also have "\<dots> = ?h"
  proof -
    have d: "take 4 (drop k ?h) @ drop (4 + k) ?h = drop k ?h" for k
      using append_take_drop_id [of 4 "drop k ?h"] by simp
    show ?thesis using d [of 16] d [of 12] d [of 8] append_take_drop_id [of 8 ?h] by simp
  qed
  finally show "py_replace ''-'' '''' (uuid_str u) = ?h" .
qed

text \<open>Printing a UUID and parsing it back gives the same UUID, for every 128-bit value.\<close>

theorem parse_uuid_str [simp]:
  assumes "u < 2 ^ 128"
  shows "parse_uuid (uuid_str u) = Inr u"
proof -
  have plain: "\<forall>c \<in> set (uuid_str u). c \<notin> set ''u{}''"
  proof
    fix c assume "c \<in> set (uuid_str u)"
    then have "c \<in> set (CHR ''-'' # hex_chars)" using uuid_str_hex(1) by auto
    moreover have "\<forall>c \<in> set (CHR ''-'' # hex_chars). c \<notin> set ''u{}''" by code_simp
    ultimately show "c \<notin> set ''u{}''" by blast
  qed
  have "py_replace ''uuid:'' '''' (py_replace ''urn:'' '''' (uuid_str u)) = uuid_str u"
  proof -
    have "CHR ''u'' \<notin> set (uuid_str u)" using plain by auto
    then show ?thesis by (simp add: py_replace_id)
  qed
  moreover have "strip_chars ''{}'' (uuid_str u) = uuid_str u"
    using plain by (simp add: strip_chars_def dropWhile_none)
  moreover have "length (utf8_chars (hex_string 32 u)) = 32"
    using hex_string_set [of 32 u] hex_char_plain by (subst utf8_chars_plain) auto
  moreover have "int16 (hex_string 32 u) = Some (int u)"
  proof -
    have "hex_string 32 u \<noteq> []" using hex_string_length [of 32 u] by (metis list.size(3) zero_neq_numeral)
    then show ?thesis using int16_hex [OF hex_string_set] fold_hex_string [of u 32 0] assms by simp
  qed
  ultimately show ?thesis using assms by (simp add: parse_uuid_def Let_def uuid_str_hex(2))
qed

end
