(* ===== verification/StateMachine.thy ===== *)
theory StateMachine
  imports Prelude
begin

text \<open>
  The run lifecycles of \<^verbatim>\<open>src/domain/execution/services/state_machine.py\<close>: the status enumerations,
  the transition tables and the validators that raise \<open>InvalidTransitionException\<close> on a pair not
  in the table.  The tracer spans around the checks have no effect on the outcome and are left out.

  The locale \<open>lifecycle\<close> states what such a table promises to its users; it is interpreted for
  each of the five tables.
\<close>

subsection \<open>Statuses\<close>

datatype RunStatus = R_CREATED | R_QUEUED | R_RUNNING | R_WAITING_INPUT | R_COMPLETED | R_FAILED
  | R_CANCELLED

datatype FlowRunStatus = F_CREATED | F_RUNNING | F_WAITING | F_COMPLETED | F_FAILED | F_ESCALATED

datatype NodeRunStatus = N_PENDING | N_RUNNING | N_SKIPPED | N_COMPLETED | N_FAILED

datatype AgentRunStatus = A_CREATED | A_RUNNING | A_COMPLETED | A_FAILED | A_CANCELLED

datatype ToolRunStatus = T_CREATED | T_EXECUTING | T_SUCCESS | T_ERROR | T_TIMEOUT

text \<open>The string values of the enumerations, as they are stored in the database.\<close>

fun run_status :: "RunStatus \<Rightarrow> string" where
  "run_status R_CREATED = ''CREATED''"
| "run_status R_QUEUED = ''QUEUED''"
| "run_status R_RUNNING = ''RUNNING''"
| "run_status R_WAITING_INPUT = ''WAITING_INPUT''"
| "run_status R_COMPLETED = ''COMPLETED''"
| "run_status R_FAILED = ''FAILED''"
| "run_status R_CANCELLED = ''CANCELLED''"

fun flow_status :: "FlowRunStatus \<Rightarrow> string" where
  "flow_status F_CREATED = ''CREATED''"
| "flow_status F_RUNNING = ''RUNNING''"
| "flow_status F_WAITING = ''WAITING''"
| "flow_status F_COMPLETED = ''COMPLETED''"
| "flow_status F_FAILED = ''FAILED''"
| "flow_status F_ESCALATED = ''ESCALATED''"

fun node_status :: "NodeRunStatus \<Rightarrow> string" where
  "node_status N_PENDING = ''PENDING''"
| "node_status N_RUNNING = ''RUNNING''"
| "node_status N_SKIPPED = ''SKIPPED''"
| "node_status N_COMPLETED = ''COMPLETED''"
| "node_status N_FAILED = ''FAILED''"

fun agent_status :: "AgentRunStatus \<Rightarrow> string" where
  "agent_status A_CREATED = ''CREATED''"
| "agent_status A_RUNNING = ''RUNNING''"
| "agent_status A_COMPLETED = ''COMPLETED''"
| "agent_status A_FAILED = ''FAILED''"
| "agent_status A_CANCELLED = ''CANCELLED''"

fun tool_status :: "ToolRunStatus \<Rightarrow> string" where
  "tool_status T_CREATED = ''CREATED''"
| "tool_status T_EXECUTING = ''EXECUTING''"
| "tool_status T_SUCCESS = ''SUCCESS''"
| "tool_status T_ERROR = ''ERROR''"
| "tool_status T_TIMEOUT = ''TIMEOUT''"

subsection \<open>Transition tables\<close>

fun ALLOWED_TRANSITIONS :: "RunStatus \<Rightarrow> RunStatus list" where
  "ALLOWED_TRANSITIONS R_CREATED = [R_QUEUED, R_CANCELLED, R_FAILED]"
| "ALLOWED_TRANSITIONS R_QUEUED = [R_RUNNING, R_CANCELLED, R_FAILED]"
| "ALLOWED_TRANSITIONS R_RUNNING = [R_WAITING_INPUT, R_COMPLETED, R_FAILED, R_CANCELLED]"
| "ALLOWED_TRANSITIONS R_WAITING_INPUT = [R_RUNNING, R_CANCELLED, R_FAILED]"
| "ALLOWED_TRANSITIONS R_COMPLETED = []"
| "ALLOWED_TRANSITIONS R_FAILED = []"
| "ALLOWED_TRANSITIONS R_CANCELLED = []"

fun flow_transitions :: "FlowRunStatus \<Rightarrow> FlowRunStatus list" where
  "flow_transitions F_CREATED = [F_RUNNING, F_FAILED]"
| "flow_transitions F_RUNNING = [F_WAITING, F_COMPLETED, F_FAILED, F_ESCALATED]"
| "flow_transitions F_WAITING = [F_RUNNING, F_FAILED, F_ESCALATED]"
| "flow_transitions F_ESCALATED = []"
| "flow_transitions F_COMPLETED = []"
| "flow_transitions F_FAILED = []"

fun node_transitions :: "NodeRunStatus \<Rightarrow> NodeRunStatus list" where
  "node_transitions N_PENDING = [N_RUNNING, N_SKIPPED]"
| "node_transitions N_RUNNING = [N_COMPLETED, N_FAILED]"
| "node_transitions N_SKIPPED = []"
| "node_transitions N_COMPLETED = []"
| "node_transitions N_FAILED = []"

fun agent_transitions :: "AgentRunStatus \<Rightarrow> AgentRunStatus list" where
  "agent_transitions A_CREATED = [A_RUNNING, A_FAILED, A_CANCELLED]"
| "agent_transitions A_RUNNING = [A_COMPLETED, A_FAILED, A_CANCELLED]"
| "agent_transitions A_COMPLETED = []"
| "agent_transitions A_FAILED = []"
| "agent_transitions A_CANCELLED = []"

fun tool_transitions :: "ToolRunStatus \<Rightarrow> ToolRunStatus list" where
  "tool_transitions T_CREATED = [T_EXECUTING, T_ERROR, T_TIMEOUT]"
| "tool_transitions T_EXECUTING = [T_SUCCESS, T_ERROR, T_TIMEOUT]"
| "tool_transitions T_SUCCESS = []"
| "tool_transitions T_ERROR = []"
| "tool_transitions T_TIMEOUT = []"

subsection \<open>Validators\<close>

text \<open>
  \<open>ExecutionStateMachine.validate_transition\<close> is given plain strings: a current status outside the
  enumeration has no allowed target.
\<close>

definition parse_run_status :: "string \<Rightarrow> RunStatus option" where
  "parse_run_status s =
     map_of (map (\<lambda>r. (run_status r, r))
       [R_CREATED, R_QUEUED, R_RUNNING, R_WAITING_INPUT, R_COMPLETED, R_FAILED, R_CANCELLED]) s"

definition validate_transition :: "string \<Rightarrow> string \<Rightarrow> exn + unit" where
  "validate_transition current target =
     (let allowed = (case parse_run_status current of
                       None \<Rightarrow> []
                     | Some r \<Rightarrow> map run_status (ALLOWED_TRANSITIONS r))
      in if target \<notin> set allowed
         then Inl (Service InvalidTransition (''Invalid transition: '' @ current @ '' -> '' @ target))
         else Inr ())"

definition validate_flow :: "FlowRunStatus \<Rightarrow> FlowRunStatus \<Rightarrow> exn + unit" where
  "validate_flow current target =
     (if target \<notin> set (flow_transitions current)
      then Inl (Service InvalidTransition
             (''Invalid FlowRun transition: '' @ flow_status current @ '' -> '' @ flow_status target))
      else Inr ())"

definition validate_node :: "NodeRunStatus \<Rightarrow> NodeRunStatus \<Rightarrow> exn + unit" where
  "validate_node current target =
     (if target \<notin> set (node_transitions current)
      then Inl (Service InvalidTransition
             (''Invalid NodeRun transition: '' @ node_status current @ '' -> '' @ node_status target))
      else Inr ())"

definition validate_agent :: "AgentRunStatus \<Rightarrow> AgentRunStatus \<Rightarrow> exn + unit" where
  "validate_agent current target =
     (if target \<notin> set (agent_transitions current)
      then Inl (Service InvalidTransition
             (''Invalid AgentRun transition: '' @ agent_status current @ '' -> '' @ agent_status target))
      else Inr ())"

definition validate_tool :: "ToolRunStatus \<Rightarrow> ToolRunStatus \<Rightarrow> exn + unit" where
  "validate_tool current target =
     (if target \<notin> set (tool_transitions current)
      then Inl (Service InvalidTransition
             (''Invalid ToolRun transition: '' @ tool_status current @ '' -> '' @ tool_status target))
      else Inr ())"

subsection \<open>The contract of a lifecycle table\<close>

text \<open>
  \<open>accepts validate s ss\<close>: a run in status \<open>s\<close> is moved through \<open>ss\<close> and every move passes the
  validator.
\<close>

fun accepts :: "('s \<Rightarrow> 's \<Rightarrow> exn + unit) \<Rightarrow> 's \<Rightarrow> 's list \<Rightarrow> bool" where
  "accepts validate s [] = True"
| "accepts validate s (t # ts) = (validate s t = Inr () \<and> accepts validate t ts)"

locale lifecycle =
  fixes validate :: "'s \<Rightarrow> 's \<Rightarrow> exn + unit"
    and initial :: 's
    and failed :: 's
    and final :: "'s \<Rightarrow> bool"
  assumes final_stuck: "final s \<Longrightarrow> validate s t \<noteq> Inr ()"
    and initial_source: "validate s initial \<noteq> Inr ()"
    and failed_final: "final failed"
    and irreflexive: "validate s s \<noteq> Inr ()"
    and rejection: "validate s t = Inl e \<Longrightarrow> is_domain_validation e"
begin

lemma accepts_append: "accepts validate s (xs @ ys) \<longleftrightarrow>
    accepts validate s xs \<and> accepts validate (last (s # xs)) ys"
  by (induction xs arbitrary: s) auto

lemma final_ends_trace:
  assumes "accepts validate s ts" "ts = xs @ t # ys" "final t"
  shows "ys = []"
proof (cases ys)
  case (Cons y ys')
  from assms(1,2) have "accepts validate t ys" by (simp add: accepts_append)
  with Cons have "validate t y = Inr ()" by simp
  with assms(3) show ?thesis using final_stuck by blast
qed

lemma initial_never_reentered: "accepts validate s ts \<Longrightarrow> initial \<notin> set ts"
  by (induction ts arbitrary: s) (use initial_source in auto)

lemma no_stutter: "accepts validate s ts \<Longrightarrow> ts = xs @ a # b # ys \<Longrightarrow> a \<noteq> b"
  using irreflexive by (auto simp: accepts_append)

end

text \<open>A lifecycle in which the status also climbs a rank: a run makes a bounded number of moves.\<close>

locale ranked_lifecycle = lifecycle +
  fixes rank :: "'s \<Rightarrow> nat"
    and top :: nat
  assumes climbs: "validate s t = Inr () \<Longrightarrow> rank s < rank t"
    and bounded: "rank s \<le> top"
begin

lemma trace_bounded: "accepts validate s ts \<Longrightarrow> rank s + length ts \<le> top"
proof (induction ts arbitrary: s)
  case Nil
  then show ?case by (simp add: bounded)
next
  case (Cons t ts)
  then have "rank s < rank t" "rank t + length ts \<le> top" using climbs by auto
  then show ?case by simp
qed

lemma no_revisit: "accepts validate s ts \<Longrightarrow> distinct (s # ts)"
proof -
  have above: "accepts validate s ts \<Longrightarrow> t \<in> set ts \<Longrightarrow> rank s < rank t" for s t ts
    by (induction ts arbitrary: s) (auto dest: climbs less_trans)
  show "accepts validate s ts \<Longrightarrow> distinct (s # ts)"
    by (induction ts arbitrary: s) (use above in fastforce)+
qed

end

subsection \<open>The five tables are lifecycles\<close>

fun flow_final :: "FlowRunStatus \<Rightarrow> bool" where
  "flow_final s = (s \<in> {F_COMPLETED, F_FAILED, F_ESCALATED})"

fun run_final :: "RunStatus \<Rightarrow> bool" where
  "run_final s = (s \<in> {R_COMPLETED, R_FAILED, R_CANCELLED})"

fun node_final :: "NodeRunStatus \<Rightarrow> bool" where
  "node_final s = (s \<in> {N_SKIPPED, N_COMPLETED, N_FAILED})"

fun agent_final :: "AgentRunStatus \<Rightarrow> bool" where
  "agent_final s = (s \<in> {A_COMPLETED, A_FAILED, A_CANCELLED})"

fun tool_final :: "ToolRunStatus \<Rightarrow> bool" where
  "tool_final s = (s \<in> {T_SUCCESS, T_ERROR, T_TIMEOUT})"

fun node_rank :: "NodeRunStatus \<Rightarrow> nat" where
  "node_rank N_PENDING = 0" | "node_rank N_RUNNING = 1" | "node_rank _ = 2"

fun agent_rank :: "AgentRunStatus \<Rightarrow> nat" where
  "agent_rank A_CREATED = 0" | "agent_rank A_RUNNING = 1" | "agent_rank _ = 2"

fun tool_rank :: "ToolRunStatus \<Rightarrow> nat" where
  "tool_rank T_CREATED = 0" | "tool_rank T_EXECUTING = 1" | "tool_rank _ = 2"

text \<open>The runtime table on the enumeration; strings outside it are rejected.\<close>

definition validate_run :: "RunStatus \<Rightarrow> RunStatus \<Rightarrow> exn + unit" where
  "validate_run s t = validate_transition (run_status s) (run_status t)"

lemma run_status_inj [simp]: "run_status s = run_status t \<longleftrightarrow> s = t"
  by (cases s; cases t) simp_all

lemma parse_run_status [simp]: "parse_run_status (run_status s) = Some s"
  by (cases s) (simp_all add: parse_run_status_def)

lemma validate_run_iff: "validate_run s t = Inr () \<longleftrightarrow> t \<in> set (ALLOWED_TRANSITIONS s)"
  by (auto simp: validate_run_def validate_transition_def Let_def)

interpretation flow_lc: lifecycle validate_flow F_CREATED F_FAILED flow_final
proof
  show "validate_flow s F_CREATED \<noteq> Inr ()" for s by (cases s) (simp_all add: validate_flow_def)
  show "validate_flow s s \<noteq> Inr ()" for s by (cases s) (simp_all add: validate_flow_def)
qed (auto simp: validate_flow_def split: if_splits)

interpretation run_lc: lifecycle validate_run R_CREATED R_FAILED run_final
proof
  show "run_final s \<Longrightarrow> validate_run s t \<noteq> Inr ()" for s t
    by (auto simp: validate_run_iff)
  show "validate_run s R_CREATED \<noteq> Inr ()" for s by (cases s) (simp_all add: validate_run_iff)
  show "validate_run s s \<noteq> Inr ()" for s by (cases s) (simp_all add: validate_run_iff)
qed (auto simp: validate_run_def validate_transition_def Let_def split: if_splits)

interpretation node_lc: ranked_lifecycle validate_node N_PENDING N_FAILED node_final node_rank 2
proof
  show "validate_node s N_PENDING \<noteq> Inr ()" for s by (cases s) (simp_all add: validate_node_def)
  show "validate_node s s \<noteq> Inr ()" for s by (cases s) (simp_all add: validate_node_def)
  show "validate_node s t = Inr () \<Longrightarrow> node_rank s < node_rank t" for s t
    by (cases s) (auto simp: validate_node_def split: if_splits)
  show "node_rank s \<le> 2" for s by (cases s) simp_all
qed (auto simp: validate_node_def split: if_splits)

interpretation agent_lc: ranked_lifecycle validate_agent A_CREATED A_FAILED agent_final agent_rank 2
proof
  show "validate_agent s A_CREATED \<noteq> Inr ()" for s by (cases s) (simp_all add: validate_agent_def)
  show "validate_agent s s \<noteq> Inr ()" for s by (cases s) (simp_all add: validate_agent_def)
  show "validate_agent s t = Inr () \<Longrightarrow> agent_rank s < agent_rank t" for s t
    by (cases s) (auto simp: validate_agent_def split: if_splits)
  show "agent_rank s \<le> 2" for s by (cases s) simp_all
qed (auto simp: validate_agent_def split: if_splits)

interpretation tool_lc: ranked_lifecycle validate_tool T_CREATED T_ERROR tool_final tool_rank 2
proof
  show "validate_tool s T_CREATED \<noteq> Inr ()" for s by (cases s) (simp_all add: validate_tool_def)
  show "validate_tool s s \<noteq> Inr ()" for s by (cases s) (simp_all add: validate_tool_def)
  show "validate_tool s t = Inr () \<Longrightarrow> tool_rank s < tool_rank t" for s t
    by (cases s) (auto simp: validate_tool_def split: if_splits)
  show "tool_rank s \<le> 2" for s by (cases s) simp_all
qed (auto simp: validate_tool_def split: if_splits)

subsection \<open>Properties\<close>



text \<open>
  Node, agent and tool runs make at most two moves and never return to a status they left,
  whatever status changes are requested: a sequence the validators accept has at most two entries, all
  different from each other and from the starting status.
\<close>

theorem run_moves_bounded:
  assumes "accepts validate_node n ns" "accepts validate_agent a as" "accepts validate_tool t ts"
  shows "length ns \<le> 2 \<and> distinct (n # ns) \<and> length as \<le> 2 \<and> distinct (a # as)
    \<and> length ts \<le> 2 \<and> distinct (t # ts)"
  using node_lc.trace_bounded [OF assms(1)] node_lc.no_revisit [OF assms(1)]
    agent_lc.trace_bounded [OF assms(2)] agent_lc.no_revisit [OF assms(2)]
    tool_lc.trace_bounded [OF assms(3)] tool_lc.no_revisit [OF assms(3)] by simp

theorem run_moves_bounded_witness:
  "length [N_RUNNING, N_FAILED] \<le> 2 \<and> distinct (N_PENDING # [N_RUNNING, N_FAILED])
   \<and> length [A_RUNNING, A_COMPLETED] \<le> 2 \<and> distinct (A_CREATED # [A_RUNNING, A_COMPLETED])
   \<and> length [T_EXECUTING, T_SUCCESS] \<le> 2 \<and> distinct (T_CREATED # [T_EXECUTING, T_SUCCESS])"
  by (rule run_moves_bounded) (simp_all add: validate_node_def validate_agent_def validate_tool_def)

end
