(* ===== verification/StoreRows.thy ===== *)
theory StoreRows
  imports PyUuid StateMachine GraphCompiler
begin

text \<open>
  The rows of the tables under \<^verbatim>\<open>src/src/infra/database/models/\<close> and the state \<open>db\<close> that the
  repositories and services work on.

  \<open>db\<close> holds the tables as lists of rows in insertion order, the event buffers and the graph-state cache
  of the execution repository, the keys of the Redis instance, a clock (read by \<open>now()\<close> and
  \<open>datetime.now\<close>) and a counter that stands for \<open>uuid4()\<close>, which never repeats a value.  \<open>tracing\<close> says
  whether \<open>tracer.observe\<close> yields a handle, which one method looks at.  Foreign keys and unique
  constraints of the database are not enforced by the model.
\<close>

subsection \<open>Rows\<close>

type_synonym time = int

record flow_run =
  fr_id :: uuid
  fr_origin :: "uuid option"
  fr_flow_version_id :: uuid
  fr_session_id :: uuid
  fr_user_id :: string
  fr_interaction_id :: "uuid option"
  fr_status :: string
  fr_canonical_status :: string
  fr_correlation_id :: uuid
  fr_finished_at :: "time option"
  fr_input :: pydict
  fr_output :: pydict
  fr_error :: pydict
  fr_flow_graph_snapshot_id :: "uuid option"
  fr_flow_snapshot_id :: "uuid option"
  fr_flow_deployment_id :: "uuid option"
  fr_runtime_contract :: pydict
  fr_execution_plan_hash :: "string option"
  fr_runtime_policy_hash :: "string option"
  fr_tool_catalog_hash :: "string option"
  fr_llm_provider_config_hash :: "string option"
  fr_trace_id :: "uuid option"
  fr_root_observation_id :: "string option"
  fr_temporal_workflow_id :: "string option"
  fr_temporal_run_id :: "string option"
  fr_turn_index :: int
  fr_created_at :: time
  fr_updated_at :: time

record flow_run_lock =
  lk_flow_run_id :: uuid
  lk_locked_at :: time
  lk_owner :: "string option"
  lk_correlation_id :: "uuid option"

record execution_event =
  ev_id :: uuid
  ev_tenant_id :: uuid
  ev_user_id :: string
  ev_session_id :: uuid
  ev_flow_run_id :: uuid
  ev_correlation_id :: uuid
  ev_causation_id :: "uuid option"
  ev_sequence :: int
  ev_schema_version :: int
  ev_type :: string
  ev_payload :: pydict
  ev_node_id :: "uuid option"
  ev_edge_id :: "string option"

text \<open>An event waiting in the buffer: its user may still be unknown and it has no number yet.\<close>

record buffered_event =
  be_id :: uuid
  be_tenant_id :: uuid
  be_user_id :: "string option"
  be_session_id :: uuid
  be_type :: string
  be_payload :: pydict
  be_correlation_id :: uuid
  be_causation_id :: "uuid option"
  be_schema_version :: int
  be_node_id :: "uuid option"
  be_edge_id :: "string option"

record node_run =
  nr_id :: uuid
  nr_flow_run_id :: uuid
  nr_node_id :: uuid
  nr_status :: string
  nr_canonical_status :: string
  nr_correlation_id :: uuid
  nr_finished_at :: "time option"
  nr_input :: pydict
  nr_output :: pydict
  nr_created_at :: time

record tool_run =
  tr_id :: uuid
  tr_agent_run_id :: "uuid option"
  tr_node_run_id :: "uuid option"
  tr_tool_config_id :: uuid
  tr_status :: string
  tr_canonical_status :: string
  tr_correlation_id :: uuid
  tr_finished_at :: "time option"
  tr_input :: pydict
  tr_output :: pydict
  tr_error :: pydict
  tr_idempotency_key :: "string option"
  tr_tool_call_id :: "string option"
  tr_has_side_effect :: bool
  tr_estimated_cost :: "rat option"
  tr_billing_policy_version_id :: "uuid option"

record agent_run =
  ar_id :: uuid
  ar_tenant_id :: uuid
  ar_agent_id :: uuid
  ar_node_run_id :: "uuid option"
  ar_agent_version_id :: uuid
  ar_policy_version_id :: "uuid option"
  ar_model :: "string option"
  ar_input_tokens :: "int option"
  ar_output_tokens :: "int option"
  ar_estimated_cost :: "rat option"
  ar_billing_policy_version_id :: "uuid option"
  ar_status :: string
  ar_canonical_status :: string
  ar_correlation_id :: uuid
  ar_finished_at :: "time option"
  ar_input :: pydict
  ar_output :: pydict
  ar_error :: pydict
  ar_system_prompt_hash :: "string option"
  ar_runtime_snapshot :: pydict
  ar_runtime_snapshot_hash :: "string option"
  ar_origin :: string
  ar_root_agent_run_id :: "uuid option"
  ar_created_at :: time

record run_failure =
  rf_id :: uuid
  rf_tool_run_id :: "uuid option"
  rf_error_type :: string
  rf_error :: pydict
  rf_correlation_id :: uuid

record usage_entry =
  ue_id :: uuid
  ue_tenant_id :: uuid
  ue_flow_run_id :: "uuid option"
  ue_node_run_id :: "uuid option"
  ue_agent_run_id :: "uuid option"
  ue_session_id :: "uuid option"
  ue_provider :: "string option"
  ue_provider_model :: "string option"
  ue_task_type :: "string option"
  ue_inference_layer :: "string option"
  ue_input_tokens :: int
  ue_output_tokens :: int
  ue_cost_usd :: "rat option"
  ue_latency_ms :: "int option"
  ue_occurred_at :: time

record interaction =
  in_id :: uuid
  in_session_id :: uuid
  in_flow_run_id :: "uuid option"
  in_result_node_run_id :: "uuid option"
  in_channel :: string
  in_payload :: pydict
  in_output :: pydict
  in_headers :: pydict
  in_metadata :: pydict
  in_external_message_id :: "string option"
  in_request_id :: "string option"
  in_trace_id :: "string option"
  in_completed_at :: "time option"

record session_row =
  sn_id :: uuid
  sn_tenant_id :: uuid
  sn_user_id :: string

record memory_profile =
  mp_tenant_id :: uuid
  mp_user_id :: string
  mp_profile :: pydict
  mp_version :: int

record graph_state =
  gs_flow_run_id :: uuid
  gs_last_node_run_id :: "uuid option"
  gs_state :: pydict

record response_artifact =
  ra_id :: uuid
  ra_interaction_id :: uuid
  ra_flow_run_id :: uuid
  ra_payload :: pydict
  ra_schema_version :: int

record flow_deployment =
  fd_id :: uuid
  fd_flow_id :: uuid
  fd_flow_snapshot_id :: uuid
  fd_environment :: string
  fd_status :: string

record agent_version =
  av_id :: uuid
  av_agent_id :: uuid
  av_status :: string
  av_ai_execution_policy_version_id :: "uuid option"
  av_rag_config_id :: "uuid option"
  av_supported_tool_schema_version :: "int option"
  av_supported_tool_config_hash_prefix :: "string option"
  av_system_prompt :: "string option"
  av_is_active :: bool

subsection \<open>Rows of the authoring and governance planes\<close>

text \<open>The columns that the modelled code reads or writes.\<close>

record flow_row =
  fl_id :: uuid
  fl_tenant_id :: uuid
  fl_name :: string

record flow_version =
  fv_id :: uuid
  fv_flow_id :: uuid
  fv_status :: string
  fv_is_active :: bool

record flow_graph_row =
  fg_id :: uuid
  fg_flow_version_id :: uuid
  fg_definition :: pydict

record graph_snapshot_row =
  sg_id :: uuid
  sg_flow_version_id :: uuid
  sg_graph_hash :: string
  sg_snapshot :: snapshot

record flow_snapshot =
  ss_id :: uuid
  ss_flow_version_id :: uuid
  ss_snapshot :: pydict
  ss_runtime_policy :: pydict
  ss_tool_catalog :: pydict
  ss_llm_provider_config_hash :: "string option"

record node_row =
  no_id :: uuid
  no_flow_version_id :: uuid
  no_node_prompt_id :: uuid
  no_allow_rag_tenant :: bool
  no_allow_user_memory_structured :: bool
  no_allow_user_memory_vector :: bool
  no_rag_config_id :: "uuid option"
  no_allow_session_context :: bool
  no_allow_memory_write :: bool

record tool_config =
  tc_id :: uuid
  tc_tool_id :: uuid
  tc_tenant_id :: uuid
  tc_status :: string
  tc_config_hash :: "string option"
  tc_schema_version :: "int option"
  tc_config :: pydict

record ai_policy_version =
  pv_id :: uuid
  pv_policy_id :: uuid
  pv_model_id :: uuid
  pv_status :: string

record model_row =
  mo_id :: uuid
  mo_name :: string

record rag_config =
  rc_id :: uuid
  rc_tenant_id :: uuid
  rc_corpus_kind :: string

record runtime_policy =
  rp_id :: uuid
  rp_tenant_id :: uuid
  rp_scope :: string
  rp_flow_id :: "uuid option"
  rp_version :: string
  rp_status :: string
  rp_definition :: pydict
  rp_created_by :: string

text \<open>
  The other policies have one shape: a policy of a tenant and its versions, numbered by a semantic version.
  Versions of billing, memory and RAG policies are also activated for a tenant, one at a time.
\<close>

record policy_row =
  po_id :: uuid
  po_tenant_id :: uuid
  po_name :: string
  po_created_at :: time

record version_row =
  vr_id :: uuid
  vr_policy_id :: uuid
  vr_status :: string
  vr_major :: int
  vr_minor :: int
  vr_patch :: int
  vr_created_at :: time

record limit_policy_version = version_row +
  lv_max_agent_runs_per_interaction :: int
  lv_max_tool_runs_per_flow_run :: int

record rate_limit_policy_version = version_row +
  rl_action :: string
  rl_principal_type :: string
  rl_limit :: int
  rl_window_seconds :: int

record access_policy_version = version_row +
  ap_rules :: pydict

record activated_version = version_row +
  va_tenant_id :: "uuid option"
  va_is_active :: bool
  va_activated_at :: "time option"
  va_activated_by :: "string option"
  va_justification :: "string option"

record billing_policy_version = activated_version +
  bv_rules :: pydict

record memory_policy_version = activated_version +
  mv_retention_ttl_seconds :: int
  mv_consent_definition :: pydict
  mv_allowed_sources :: "pyval list"
  mv_allowed_schemas :: "pyval list"

record rag_policy_version = activated_version +
  rv_definition :: pydict

record config_tables =
  flows :: "flow_row list"
  flow_versions :: "flow_version list"
  flow_graphs :: "flow_graph_row list"
  flow_graph_snapshots :: "graph_snapshot_row list"
  flow_snapshots :: "flow_snapshot list"
  node_rows :: "node_row list"
  tool_configs :: "tool_config list"
  ai_policy_versions :: "ai_policy_version list"
  models :: "model_row list"
  rag_configs :: "rag_config list"
  billing_policies :: "policy_row list"
  billing_policy_versions :: "billing_policy_version list"
  memory_policies :: "policy_row list"
  memory_policy_versions :: "memory_policy_version list"
  rag_policies :: "policy_row list"
  rag_policy_versions :: "rag_policy_version list"
  runtime_policies :: "runtime_policy list"
  limit_policies :: "policy_row list"
  limit_policy_versions :: "limit_policy_version list"
  rate_limit_policies :: "policy_row list"
  rate_limit_policy_versions :: "rate_limit_policy_version list"
  access_policies :: "policy_row list"
  access_policy_versions :: "access_policy_version list"

subsection \<open>Responses of the execution service\<close>

text \<open>
  The schemas \<open>FlowRun\<close>, \<open>AgentRun\<close> and \<open>ToolRun\<close> that the service returns, and that it keeps under an
  idempotency key; a deployment response has the identifiers of the snapshot, the deployment and the version, and the
  environment.  Columns that no method of the repository writes (\<open>started_at\<close>, \<open>waiting_reason\<close>,
  \<open>waiting_deadline_at\<close>) are left out.
\<close>

record FlowRun =
  fw_id :: uuid
  fw_origin :: "uuid option"
  fw_flow_version_id :: uuid
  fw_session_id :: uuid
  fw_user_id :: string
  fw_interaction_id :: "uuid option"
  fw_status :: string
  fw_canonical_status :: string
  fw_correlation_id :: uuid
  fw_finished_at :: "time option"
  fw_input :: pydict
  fw_output :: pydict
  fw_error :: pydict
  fw_failure_reason :: "string option"
  fw_trace_id :: "uuid option"
  fw_root_observation_id :: "string option"
  fw_flow_graph_snapshot_id :: "uuid option"
  fw_flow_snapshot_id :: "uuid option"
  fw_flow_deployment_id :: "uuid option"
  fw_runtime_contract :: pydict
  fw_execution_plan_hash :: "string option"
  fw_runtime_policy_hash :: "string option"
  fw_tool_catalog_hash :: "string option"
  fw_llm_provider_config_hash :: "string option"
  fw_temporal_workflow_id :: "string option"
  fw_temporal_run_id :: "string option"

record AgentRun =
  aw_id :: uuid
  aw_node_run_id :: uuid
  aw_agent_version_id :: uuid
  aw_billing_policy_version_id :: "uuid option"
  aw_model :: "string option"
  aw_input_tokens :: "int option"
  aw_output_tokens :: "int option"
  aw_estimated_cost :: "rat option"
  aw_status :: string
  aw_canonical_status :: string
  aw_correlation_id :: uuid
  aw_started_at :: "string option"
  aw_finished_at :: "time option"
  aw_input :: pydict
  aw_output :: pydict
  aw_error :: pydict
  aw_system_prompt_hash :: "string option"
  aw_runtime_snapshot :: pydict
  aw_runtime_snapshot_hash :: "string option"

record ToolRun =
  tw_id :: uuid
  tw_tool_config_id :: uuid
  tw_agent_run_id :: "uuid option"
  tw_node_run_id :: "uuid option"
  tw_status :: string
  tw_canonical_status :: string
  tw_correlation_id :: uuid
  tw_finished_at :: "time option"
  tw_input :: pydict
  tw_output :: pydict
  tw_error :: pydict
  tw_idempotency_key :: "string option"
  tw_has_side_effect :: bool
  tw_estimated_cost :: "rat option"
  tw_billing_policy_version_id :: "uuid option"

datatype response = FlowRunResponse FlowRun | AgentRunResponse AgentRun | ToolRunResponse ToolRun
  | DeploymentResponse uuid uuid uuid string

text \<open>What an idempotency key holds: the mark of a request in progress, or its response.\<close>

datatype idempotency_entry = PROCESSING | RESPONSE response

subsection \<open>Redis\<close>

text \<open>
  The keys of the Redis instance, one association list per key prefix; an entry carries the time at which
  it expires.  \<open>rd_up\<close> says whether the server answers, \<open>rd_silent\<close> is \<open>CACHE_SILENT_MODE\<close>.
\<close>

type_synonym ('k, 'v) cache = "('k \<times> 'v \<times> time) list"

record redis_store =
  rd_up :: bool
  rd_silent :: bool
  rd_flow_version :: "(uuid, flow_version) cache"
  rd_flow_active_version :: "(uuid, uuid) cache"
  rd_flow_graph :: "(uuid, flow_graph_row) cache"
  rd_flow_snapshot :: "(uuid, graph_snapshot_row) cache"
  rd_tool_config :: "(uuid, tool_config) cache"
  rd_agent_version :: "(uuid, agent_version) cache"
  rd_agent_active_version :: "(uuid, uuid) cache"
  rd_ai_policy_version :: "(uuid, ai_policy_version) cache"
  rd_model :: "(uuid, model_row) cache"
  rd_node :: "(uuid, node_row) cache"
  rd_rag_config :: "(uuid, rag_config) cache"
  rd_active_billing_version :: "(uuid, uuid) cache"
  rd_billing_policy_version :: "(uuid, billing_policy_version) cache"
  rd_active_memory_version :: "(uuid, uuid) cache"
  rd_memory_policy_version :: "(uuid, memory_policy_version) cache"
  rd_active_rag_version :: "(uuid, uuid) cache"
  rd_rag_policy_version :: "(uuid, rag_policy_version) cache"
  rd_plan :: "(string, execution_plan) cache"
  rd_idempotency :: "(string, idempotency_entry) cache"
  rd_counters :: "(string, int) cache"

subsection \<open>The store\<close>

record db =
  fresh :: uuid
  clock :: time
  tracing :: bool
  flow_runs :: "flow_run list"
  locks :: "flow_run_lock list"
  events :: "execution_event list"
  node_runs :: "node_run list"
  tool_runs :: "tool_run list"
  agent_runs :: "agent_run list"
  run_failures :: "run_failure list"
  usage_ledger :: "usage_entry list"
  interactions :: "interaction list"
  sessions :: "session_row list"
  end_users :: "(uuid \<times> string) list"
  profiles :: "memory_profile list"
  graph_states :: "graph_state list"
  graph_state_cache :: "(uuid \<times> graph_state) list"
  response_artifacts :: "response_artifact list"
  flow_deployments :: "flow_deployment list"
  agent_versions :: "agent_version list"
  event_batch_size :: int
  event_batch_buffer :: "(uuid \<times> buffered_event list) list"
  batching_flow_runs :: "uuid set"
  config_db :: config_tables
  redis_db :: redis_store

definition new_uuid :: "(db, uuid) comp" where
  "new_uuid s = (Inr (fresh s), s\<lparr>fresh := Suc (fresh s)\<rparr>)"

text \<open>\<open>UPDATE ... WHERE\<close>, and \<open>scalar_one_or_none\<close>, which raises when several rows match.\<close>

definition update_where :: "('r \<Rightarrow> bool) \<Rightarrow> ('r \<Rightarrow> 'r) \<Rightarrow> 'r list \<Rightarrow> 'r list" where
  "update_where P f rows = map (\<lambda>r. if P r then f r else r) rows"

definition MultipleResultsFound :: exn where
  "MultipleResultsFound = Py (OtherException ''MultipleResultsFound'')"

definition NoResultFound :: exn where
  "NoResultFound = Py (OtherException ''NoResultFound'')"

definition one_or_none :: "('r \<Rightarrow> bool) \<Rightarrow> 'r list \<Rightarrow> exn + 'r option" where
  "one_or_none P rows =
     (case filter P rows of [] \<Rightarrow> Inr None | [r] \<Rightarrow> Inr (Some r) | _ \<Rightarrow> Inl MultipleResultsFound)"

abbreviation not_found :: "string \<Rightarrow> exn" where
  "not_found m \<equiv> Service NotFoundService m"

abbreviation select_one :: "(db \<Rightarrow> 'r list) \<Rightarrow> ('r \<Rightarrow> bool) \<Rightarrow> (db, 'r option) comp" where
  "select_one table P \<equiv> (\<lambda>s. (one_or_none P (table s), s))"

end
