(* ===== verification/ExecutionStore.thy ===== *)
theory ExecutionStore
  imports StoreRows
begin

text \<open>
  The execution store: \<^verbatim>\<open>src/src/domain/execution/repositories/execution_repository.py\<close> over the
  tables of \<^verbatim>\<open>src/src/infra/database/models/\<close>.

  Every method is one computation over the state \<open>db\<close> of \<open>StoreRows\<close>; a method that raises before its
  commit leaves the tables unchanged, as the session rolls back.

  This theory holds the methods on flow runs, sessions, interactions, node, agent and
  tool runs, the usage ledger, locks and graph states; events are in \<open>EventLog\<close>, user preferences in
  \<open>UserMemory\<close>, the cached reads of configuration rows in \<open>ConfigCache\<close>.
\<close>

subsection \<open>Flow runs\<close>

text \<open>An \<open>UPDATE\<close> of a flow run also stamps \<open>updated_at\<close> (\<open>onupdate\<close> of \<open>ORMBaseModel\<close>).\<close>

definition update_flow_run :: "uuid \<Rightarrow> (flow_run \<Rightarrow> flow_run) \<Rightarrow> db \<Rightarrow> db" where
  "update_flow_run fid f s =
     s\<lparr>flow_runs := update_where (\<lambda>r. fr_id r = fid) (\<lambda>r. (f r)\<lparr>fr_updated_at := clock s\<rparr>) (flow_runs s)\<rparr>"

record flow_run_args =
  fa_session_id :: uuid
  fa_flow_version_id :: uuid
  fa_correlation_id :: uuid
  fa_origin_flow_run_id :: "uuid option"
  fa_user_id :: string
  fa_input :: pydict
  fa_interaction_id :: "uuid option"
  fa_flow_graph_snapshot_id :: "uuid option"
  fa_flow_snapshot_id :: "uuid option"
  fa_flow_deployment_id :: "uuid option"
  fa_runtime_contract :: "pydict option"
  fa_execution_plan_hash :: "string option"
  fa_runtime_policy_hash :: "string option"
  fa_tool_catalog_hash :: "string option"
  fa_llm_provider_config_hash :: "string option"
  fa_trace_id :: "uuid option"
  fa_root_observation_id :: "string option"

definition or_empty :: "pydict option \<Rightarrow> pydict" where
  "or_empty d = (case d of None \<Rightarrow> [] | Some x \<Rightarrow> x)"

definition new_flow_run :: "flow_run_args \<Rightarrow> uuid \<Rightarrow> time \<Rightarrow> flow_run" where
  "new_flow_run a fid now = \<lparr>
     fr_id = fid, fr_origin = fa_origin_flow_run_id a, fr_flow_version_id = fa_flow_version_id a,
     fr_session_id = fa_session_id a, fr_user_id = fa_user_id a, fr_interaction_id = fa_interaction_id a,
     fr_status = ''CREATED'', fr_canonical_status = ''CREATED'', fr_correlation_id = fa_correlation_id a,
     fr_finished_at = None, fr_input = fa_input a, fr_output = [], fr_error = [],
     fr_flow_graph_snapshot_id = fa_flow_graph_snapshot_id a, fr_flow_snapshot_id = fa_flow_snapshot_id a,
     fr_flow_deployment_id = fa_flow_deployment_id a, fr_runtime_contract = or_empty (fa_runtime_contract a),
     fr_execution_plan_hash = fa_execution_plan_hash a, fr_runtime_policy_hash = fa_runtime_policy_hash a,
     fr_tool_catalog_hash = fa_tool_catalog_hash a,
     fr_llm_provider_config_hash = fa_llm_provider_config_hash a, fr_trace_id = fa_trace_id a,
     fr_root_observation_id = fa_root_observation_id a, fr_temporal_workflow_id = None,
     fr_temporal_run_id = None, fr_turn_index = 0, fr_created_at = now, fr_updated_at = now\<rparr>"

definition create_flow_run :: "flow_run_args \<Rightarrow> (db, uuid) comp" where
  "create_flow_run a =
     bind new_uuid (\<lambda>fid.
     bind (modify (\<lambda>s. s\<lparr>
       flow_runs := flow_runs s @ [new_flow_run a fid (clock s)],
       locks := locks s @ [\<lparr>lk_flow_run_id = fid, lk_locked_at = clock s, lk_owner = None,
         lk_correlation_id = Some (fa_correlation_id a)\<rparr>]\<rparr>))
     (\<lambda>_. ret fid))"

text \<open>\<open>dict.update\<close>\<close>

definition dict_update :: "pydict \<Rightarrow> pydict \<Rightarrow> pydict" where
  "dict_update d patch = foldl (\<lambda>m (k, v). AList.update k v m) d patch"

definition get_flow_run :: "uuid \<Rightarrow> (db, flow_run option) comp" where
  "get_flow_run fid = select_one flow_runs (\<lambda>r. fr_id r = fid)"

text \<open>
  \<open>merge_flow_run_runtime_contract\<close> assigns to a loaded row, so an unchanged contract writes nothing.
\<close>

definition merge_flow_run_runtime_contract :: "uuid \<Rightarrow> pydict \<Rightarrow> (db, unit) comp" where
  "merge_flow_run_runtime_contract fid patch =
     bind (get_flow_run fid) (\<lambda>row.
       case row of
         None \<Rightarrow> ret ()
       | Some r \<Rightarrow>
           let current = dict_update (fr_runtime_contract r) patch in
           if py_eq (PDict current) (PDict (fr_runtime_contract r)) then ret ()
           else modify (update_flow_run fid (\<lambda>r. r\<lparr>fr_runtime_contract := current\<rparr>)))"

definition get_active_flow_deployment :: "uuid \<Rightarrow> string \<Rightarrow> (db, flow_deployment option) comp" where
  "get_active_flow_deployment flow_id environment =
     select_one flow_deployments (\<lambda>d. fd_flow_id d = flow_id \<and> fd_environment d = environment \<and> fd_status d = ''ACTIVE'')"

definition set_root_observation_id :: "uuid \<Rightarrow> string \<Rightarrow> (db, unit) comp" where
  "set_root_observation_id fid oid = modify (update_flow_run fid (\<lambda>r. r\<lparr>fr_root_observation_id := Some oid\<rparr>))"

definition complete_flow_run :: "uuid \<Rightarrow> string \<Rightarrow> pydict \<Rightarrow> (db, unit) comp" where
  "complete_flow_run fid status output =
     modify (\<lambda>s. update_flow_run fid (\<lambda>r. r\<lparr>fr_status := status, fr_canonical_status := status,
       fr_output := output, fr_finished_at := Some (clock s)\<rparr>) s)"

definition fail_flow_run :: "uuid \<Rightarrow> string \<Rightarrow> pydict option \<Rightarrow> (db, unit) comp" where
  "fail_flow_run fid failure_reason error =
     modify (\<lambda>s. update_flow_run fid (\<lambda>r. r\<lparr>fr_status := ''FAILED'', fr_canonical_status := ''FAILED'',
       fr_error := (if or_empty error = [] then [(''reason'', PStr failure_reason)] else or_empty error),
       fr_finished_at := Some (clock s)\<rparr>) s)"

definition set_flow_run_status :: "uuid \<Rightarrow> string \<Rightarrow> string \<Rightarrow> (db, unit) comp" where
  "set_flow_run_status fid status canonical =
     modify (update_flow_run fid (\<lambda>r. r\<lparr>fr_status := status, fr_canonical_status := canonical\<rparr>))"

definition set_flow_run_input :: "uuid \<Rightarrow> pydict \<Rightarrow> (db, unit) comp" where
  "set_flow_run_input fid input = modify (update_flow_run fid (\<lambda>r. r\<lparr>fr_input := input\<rparr>))"

definition set_flow_run_output :: "uuid \<Rightarrow> pydict \<Rightarrow> (db, unit) comp" where
  "set_flow_run_output fid output = modify (update_flow_run fid (\<lambda>r. r\<lparr>fr_output := output\<rparr>))"

definition set_flow_run_dispatch :: "uuid \<Rightarrow> string \<Rightarrow> string \<Rightarrow> string \<Rightarrow> string \<Rightarrow> (db, unit) comp" where
  "set_flow_run_dispatch fid workflow_id run_id status canonical =
     modify (update_flow_run fid (\<lambda>r. r\<lparr>fr_temporal_workflow_id := Some workflow_id,
       fr_temporal_run_id := Some run_id, fr_status := status, fr_canonical_status := canonical\<rparr>))"

definition next_flow_run_turn_index :: "uuid \<Rightarrow> (db, int) comp" where
  "next_flow_run_turn_index fid =
     bind (modify (update_flow_run fid (\<lambda>r. r\<lparr>fr_turn_index := fr_turn_index r + 1\<rparr>))) (\<lambda>_.
     bind (get_flow_run fid) (\<lambda>row.
       case row of None \<Rightarrow> raise (not_found ''flow_run_not_found'') | Some r \<Rightarrow> ret (fr_turn_index r)))"

definition list_stale_running_flow_runs :: "time \<Rightarrow> int \<Rightarrow> (db, flow_run list) comp" where
  "list_stale_running_flow_runs older_than limit =
     get (\<lambda>s. take (nat limit) (sort_key fr_updated_at
       (filter (\<lambda>r. fr_status r \<in> {run_status R_QUEUED, run_status R_RUNNING} \<and> fr_updated_at r < older_than)
         (flow_runs s))))"

text \<open>\<open>ORDER BY created_at DESC, flow_run_id DESC LIMIT 2\<close>\<close>

definition get_latest_waiting_flow_run_id ::
    "uuid \<Rightarrow> uuid \<Rightarrow> uuid \<Rightarrow> string \<Rightarrow> (db, uuid option \<times> uuid list) comp" where
  "get_latest_waiting_flow_run_id session_id correlation_id flow_version_id user_id =
     get (\<lambda>s. let candidates = take 2 (map fr_id (rev (sort_key (\<lambda>r. (fr_created_at r, fr_id r))
         (filter (\<lambda>r. fr_session_id r = session_id \<and> fr_correlation_id r = correlation_id
                      \<and> fr_flow_version_id r = flow_version_id \<and> fr_user_id r = user_id
                      \<and> (fr_status r = run_status R_WAITING_INPUT \<or> fr_canonical_status r = flow_status F_WAITING))
           (flow_runs s)))))
       in (case candidates of [] \<Rightarrow> None | c # _ \<Rightarrow> Some c, candidates))"

subsection \<open>Sessions and interactions\<close>

definition get_session :: "uuid \<Rightarrow> (db, session_row option) comp" where
  "get_session sid = select_one sessions (\<lambda>r. sn_id r = sid)"

definition create_session :: "uuid \<Rightarrow> uuid \<Rightarrow> string \<Rightarrow> (db, unit) comp" where
  "create_session sid tenant user =
     bind (select_one end_users (\<lambda>u. u = (tenant, user))) (\<lambda>user_record.
     bind (get_session sid) (\<lambda>existing.
       case existing of
         None \<Rightarrow> modify (\<lambda>s. s\<lparr>
           end_users := (if user_record = None then end_users s @ [(tenant, user)] else end_users s),
           sessions := sessions s @ [\<lparr>sn_id = sid, sn_tenant_id = tenant, sn_user_id = user\<rparr>]\<rparr>)
       | Some r \<Rightarrow>
           if sn_tenant_id r \<noteq> tenant \<or> sn_user_id r \<noteq> user
           then raise (Service DomainConflict ''session_user_mismatch'')
           else modify (\<lambda>s. s\<lparr>
             end_users := (if user_record = None then end_users s @ [(tenant, user)] else end_users s)\<rparr>)))"

definition get_flow_context :: "uuid \<Rightarrow> (db, uuid \<times> uuid) comp" where
  "get_flow_context fid =
     bind (get_flow_run fid) (\<lambda>row.
       case row of
         None \<Rightarrow> raise (not_found ''flow_run_not_found'')
       | Some r \<Rightarrow> bind (get_session (fr_session_id r)) (\<lambda>sn.
           case sn of
             None \<Rightarrow> raise (not_found ''session_not_found'')
           | Some t \<Rightarrow> ret (fr_session_id r, sn_tenant_id t)))"

definition create_interaction ::
    "uuid \<Rightarrow> string \<Rightarrow> pydict \<Rightarrow> pydict \<Rightarrow> pydict \<Rightarrow> string option \<Rightarrow> string option \<Rightarrow> string option
     \<Rightarrow> (db, uuid) comp" where
  "create_interaction session_id channel payload headers metadata external_message_id request_id trace_id =
     bind new_uuid (\<lambda>iid.
     bind (modify (\<lambda>s. s\<lparr>interactions := interactions s @ [\<lparr>
       in_id = iid, in_session_id = session_id, in_flow_run_id = None, in_result_node_run_id = None,
       in_channel = channel, in_payload = payload, in_output = [], in_headers = headers,
       in_metadata = metadata, in_external_message_id = external_message_id, in_request_id = request_id,
       in_trace_id = trace_id, in_completed_at = None\<rparr>]\<rparr>))
     (\<lambda>_. ret iid))"

definition update_interaction :: "uuid \<Rightarrow> (interaction \<Rightarrow> interaction) \<Rightarrow> db \<Rightarrow> db" where
  "update_interaction iid f s = s\<lparr>interactions := update_where (\<lambda>r. in_id r = iid) f (interactions s)\<rparr>"

definition get_interaction :: "uuid \<Rightarrow> (db, interaction option) comp" where
  "get_interaction iid = select_one interactions (\<lambda>r. in_id r = iid)"

definition link_interaction_to_flow_run :: "uuid \<Rightarrow> uuid \<Rightarrow> (db, unit) comp" where
  "link_interaction_to_flow_run iid fid =
     bind (get_interaction iid) (\<lambda>row.
       case row of
         None \<Rightarrow> raise (not_found ''interaction_not_found'')
       | Some _ \<Rightarrow> modify (\<lambda>s. update_flow_run fid (\<lambda>r. r\<lparr>fr_interaction_id := Some iid\<rparr>)
           (update_interaction iid (\<lambda>r. r\<lparr>in_flow_run_id := Some fid\<rparr>) s)))"

definition update_interaction_result :: "uuid \<Rightarrow> pydict \<Rightarrow> string \<Rightarrow> pydict option \<Rightarrow> (db, unit) comp" where
  "update_interaction_result iid output status error =
     bind (get_interaction iid) (\<lambda>row.
       case row of
         None \<Rightarrow> raise (not_found ''interaction_not_found'')
       | Some r \<Rightarrow>
           let metadata = AList.update ''status'' (PStr status) (in_metadata r);
               metadata = (case error of
                 Some e \<Rightarrow> AList.update ''error'' (PDict e) metadata
               | None \<Rightarrow> AList.delete ''error'' metadata)
           in modify (update_interaction iid (\<lambda>r. r\<lparr>in_metadata := metadata, in_output := output\<rparr>)))"

text \<open>The subquery yields no row, or a null key, when the run is unknown or not linked.\<close>

definition set_current_interaction_result_for_flow_run ::
    "uuid \<Rightarrow> pydict \<Rightarrow> uuid option \<Rightarrow> (db, unit) comp" where
  "set_current_interaction_result_for_flow_run fid output node_run_id =
     modify (\<lambda>s. case filter (\<lambda>r. fr_id r = fid) (flow_runs s) of
         r # _ \<Rightarrow> (case fr_interaction_id r of
             Some iid \<Rightarrow> update_interaction iid (\<lambda>i. i\<lparr>in_output := output,
               in_result_node_run_id := node_run_id, in_completed_at := Some (clock s)\<rparr>) s
           | None \<Rightarrow> s)
       | [] \<Rightarrow> s)"

definition get_interaction_metadata_for_flow_run :: "uuid \<Rightarrow> (db, pydict) comp" where
  "get_interaction_metadata_for_flow_run fid =
     bind (get_flow_run fid) (\<lambda>row.
       case Option.bind row fr_interaction_id of
         None \<Rightarrow> ret []
       | Some iid \<Rightarrow> bind (get_interaction iid) (\<lambda>i.
           ret (case i of None \<Rightarrow> [] | Some i \<Rightarrow> in_metadata i)))"

subsection \<open>Node runs and graph states\<close>

definition create_node_run ::
    "uuid \<Rightarrow> uuid \<Rightarrow> uuid \<Rightarrow> pydict \<Rightarrow> pydict \<Rightarrow> string \<Rightarrow> string \<Rightarrow> (db, uuid) comp" where
  "create_node_run fid node_id correlation_id input output status canonical =
     bind new_uuid (\<lambda>nid.
     bind (modify (\<lambda>s. s\<lparr>node_runs := node_runs s @ [\<lparr>
       nr_id = nid, nr_flow_run_id = fid, nr_node_id = node_id, nr_status = status,
       nr_canonical_status = canonical, nr_correlation_id = correlation_id, nr_finished_at = None,
       nr_input = input, nr_output = output, nr_created_at = clock s\<rparr>]\<rparr>)) (\<lambda>_.
     bind (get tracing) (\<lambda>handle.
       if handle then ret nid else raise (domain_validation ''node_run_not_created''))))"

definition get_node_run :: "uuid \<Rightarrow> (db, node_run option) comp" where
  "get_node_run nid = select_one node_runs (\<lambda>r. nr_id r = nid)"

definition update_node_run_result :: "uuid \<Rightarrow> pydict \<Rightarrow> string \<Rightarrow> string \<Rightarrow> (db, unit) comp" where
  "update_node_run_result nid output status canonical =
     bind (get_node_run nid) (\<lambda>row.
       case row of
         None \<Rightarrow> raise (not_found ''node_run_not_found'')
       | Some _ \<Rightarrow> modify (\<lambda>s. s\<lparr>node_runs := update_where (\<lambda>r. nr_id r = nid)
           (\<lambda>r. r\<lparr>nr_output := output, nr_status := status, nr_canonical_status := canonical,
                   nr_finished_at := Some (clock s)\<rparr>) (node_runs s)\<rparr>))"

text \<open>The cached copy is read first; a miss loads the row and caches it.\<close>

definition get_graph_state :: "uuid \<Rightarrow> (db, graph_state option) comp" where
  "get_graph_state fid =
     bind (get (\<lambda>s. map_of (graph_state_cache s) fid)) (\<lambda>cached.
       case cached of
         Some g \<Rightarrow> ret (Some g)
       | None \<Rightarrow> bind (select_one graph_states (\<lambda>g. gs_flow_run_id g = fid)) (\<lambda>row.
           case row of
             None \<Rightarrow> ret None
           | Some g \<Rightarrow> bind (modify (\<lambda>s. s\<lparr>graph_state_cache := AList.update fid g (graph_state_cache s)\<rparr>))
               (\<lambda>_. ret (Some g))))"

definition upsert_graph_state :: "uuid \<Rightarrow> pydict \<Rightarrow> uuid option \<Rightarrow> (db, unit) comp" where
  "upsert_graph_state fid state last_node_run_id =
     bind (select_one graph_states (\<lambda>g. gs_flow_run_id g = fid)) (\<lambda>row.
     bind (modify (\<lambda>s. s\<lparr>graph_states := (case row of
         None \<Rightarrow> graph_states s @ [\<lparr>gs_flow_run_id = fid, gs_last_node_run_id = last_node_run_id, gs_state = state\<rparr>]
       | Some _ \<Rightarrow> update_where (\<lambda>g. gs_flow_run_id g = fid)
           (\<lambda>g. g\<lparr>gs_state := state, gs_last_node_run_id := last_node_run_id\<rparr>) (graph_states s))\<rparr>)) (\<lambda>_.
       modify (\<lambda>s. s\<lparr>graph_state_cache := AList.delete fid (graph_state_cache s)\<rparr>)))"

subsection \<open>Agent runs, tool runs, usage\<close>

record agent_run_args =
  aa_tenant_id :: uuid
  aa_node_run_id :: uuid
  aa_agent_version_id :: uuid
  aa_correlation_id :: uuid
  aa_input :: pydict
  aa_model :: "string option"
  aa_billing_policy_version_id :: "uuid option"
  aa_system_prompt_hash :: "string option"
  aa_runtime_snapshot :: "pydict option"
  aa_runtime_snapshot_hash :: "string option"
  aa_policy_version_id :: "uuid option"
  aa_status :: string
  aa_canonical_status :: string

definition create_agent_run :: "agent_run_args \<Rightarrow> (db, uuid) comp" where
  "create_agent_run a =
     bind new_uuid (\<lambda>aid.
     bind (select_one agent_versions (\<lambda>v. av_id v = aa_agent_version_id a)) (\<lambda>version.
       case version of
         None \<Rightarrow> raise NoResultFound
       | Some v \<Rightarrow> bind (modify (\<lambda>s. s\<lparr>agent_runs := agent_runs s @ [\<lparr>
           ar_id = aid, ar_tenant_id = aa_tenant_id a, ar_agent_id = av_agent_id v,
           ar_node_run_id = Some (aa_node_run_id a), ar_agent_version_id = aa_agent_version_id a,
           ar_policy_version_id = aa_policy_version_id a, ar_model = aa_model a, ar_input_tokens = None,
           ar_output_tokens = None, ar_estimated_cost = None,
           ar_billing_policy_version_id = aa_billing_policy_version_id a, ar_status = aa_status a,
           ar_canonical_status = aa_canonical_status a, ar_correlation_id = aa_correlation_id a,
           ar_finished_at = None, ar_input = aa_input a, ar_output = [], ar_error = [],
           ar_system_prompt_hash = aa_system_prompt_hash a,
           ar_runtime_snapshot = or_empty (aa_runtime_snapshot a),
           ar_runtime_snapshot_hash = aa_runtime_snapshot_hash a, ar_origin = ''FLOW_NODE'',
           ar_root_agent_run_id = Some aid, ar_created_at = clock s\<rparr>]\<rparr>)) (\<lambda>_. ret aid)))"

definition get_agent_run :: "uuid \<Rightarrow> (db, agent_run option) comp" where
  "get_agent_run aid = select_one agent_runs (\<lambda>r. ar_id r = aid)"

definition update_agent_run :: "uuid \<Rightarrow> (time \<Rightarrow> agent_run \<Rightarrow> agent_run) \<Rightarrow> (db, unit) comp" where
  "update_agent_run aid f =
     bind (get_agent_run aid) (\<lambda>row.
       case row of
         None \<Rightarrow> raise (not_found ''agent_run_not_found'')
       | Some _ \<Rightarrow> modify (\<lambda>s. s\<lparr>agent_runs := update_where (\<lambda>r. ar_id r = aid) (f (clock s)) (agent_runs s)\<rparr>))"

definition update_agent_run_result ::
    "uuid \<Rightarrow> string \<Rightarrow> string \<Rightarrow> pydict option \<Rightarrow> pydict option \<Rightarrow> int option \<Rightarrow> int option \<Rightarrow> rat option
     \<Rightarrow> (db, unit) comp" where
  "update_agent_run_result aid status canonical output error input_tokens output_tokens cost =
     update_agent_run aid (\<lambda>now r. r\<lparr>ar_status := status, ar_canonical_status := canonical,
       ar_output := or_empty output, ar_error := or_empty error, ar_output_tokens := output_tokens,
       ar_input_tokens := input_tokens, ar_estimated_cost := cost, ar_finished_at := Some now\<rparr>)"

definition stamp_agent_run_billing_policy :: "uuid \<Rightarrow> uuid \<Rightarrow> (db, unit) comp" where
  "stamp_agent_run_billing_policy aid bid =
     update_agent_run aid (\<lambda>now r. r\<lparr>ar_billing_policy_version_id := Some bid\<rparr>)"

text \<open>The flow run of a node run, as a join on \<open>node_run_id\<close> finds it.\<close>

definition node_flow :: "db \<Rightarrow> uuid option \<Rightarrow> uuid option" where
  "node_flow s nid = (case nid of None \<Rightarrow> None
     | Some n \<Rightarrow> map_option nr_flow_run_id (List.find (\<lambda>r. nr_id r = n) (node_runs s)))"

text \<open>\<open>ORDER BY\<close> without \<open>LIMIT\<close>: several runs of one version in one flow are an error.\<close>

definition get_agent_run_by_agent_version_and_flow :: "uuid \<Rightarrow> uuid \<Rightarrow> (db, agent_run option) comp" where
  "get_agent_run_by_agent_version_and_flow version fid =
     (\<lambda>s. select_one agent_runs (\<lambda>r. ar_agent_version_id r = version \<and> node_flow s (ar_node_run_id r) = Some fid) s)"

definition count_agent_runs_for_flow_run :: "uuid \<Rightarrow> (db, nat) comp" where
  "count_agent_runs_for_flow_run fid =
     get (\<lambda>s. card (ar_id ` set (filter (\<lambda>r. node_flow s (ar_node_run_id r) = Some fid) (agent_runs s))))"

definition agent_node :: "db \<Rightarrow> uuid option \<Rightarrow> uuid option" where
  "agent_node s aid = (case aid of None \<Rightarrow> None
     | Some a \<Rightarrow> Option.bind (List.find (\<lambda>r. ar_id r = a) (agent_runs s)) ar_node_run_id)"

definition count_tool_runs_for_flow_run :: "uuid \<Rightarrow> (db, nat) comp" where
  "count_tool_runs_for_flow_run fid =
     get (\<lambda>s. card (tr_id ` set (filter (\<lambda>r. node_flow s (tr_node_run_id r) = Some fid
         \<or> node_flow s (agent_node s (tr_agent_run_id r)) = Some fid) (tool_runs s))))"

definition record_llm_usage ::
    "uuid \<Rightarrow> uuid option \<Rightarrow> uuid option \<Rightarrow> uuid option \<Rightarrow> uuid option \<Rightarrow> string option \<Rightarrow> string option
     \<Rightarrow> string option \<Rightarrow> string option \<Rightarrow> int \<Rightarrow> int \<Rightarrow> rat option \<Rightarrow> int option \<Rightarrow> (db, uuid) comp" where
  "record_llm_usage tenant fid nid aid sid provider provider_model task_type layer in_tokens out_tokens cost latency =
     bind new_uuid (\<lambda>lid.
     bind (modify (\<lambda>s. s\<lparr>usage_ledger := usage_ledger s @ [\<lparr>
       ue_id = lid, ue_tenant_id = tenant, ue_flow_run_id = fid, ue_node_run_id = nid, ue_agent_run_id = aid,
       ue_session_id = sid, ue_provider = provider, ue_provider_model = provider_model,
       ue_task_type = task_type, ue_inference_layer = layer, ue_input_tokens = in_tokens,
       ue_output_tokens = out_tokens, ue_cost_usd = cost, ue_latency_ms = latency,
       ue_occurred_at = clock s\<rparr>]\<rparr>)) (\<lambda>_. ret lid))"

text \<open>\<open>coalesce(sum(cost_usd), 0)\<close>: null costs do not count.\<close>

definition sum_llm_cost_for_tenant :: "uuid \<Rightarrow> time \<Rightarrow> time option \<Rightarrow> (db, rat) comp" where
  "sum_llm_cost_for_tenant tenant since until =
     get (\<lambda>s. sum_list (map (\<lambda>e. case ue_cost_usd e of None \<Rightarrow> 0 | Some c \<Rightarrow> c)
       (filter (\<lambda>e. ue_tenant_id e = tenant \<and> since \<le> ue_occurred_at e
           \<and> (case until of None \<Rightarrow> True | Some u \<Rightarrow> ue_occurred_at e < u)) (usage_ledger s))))"

definition create_tool_run ::
    "uuid \<Rightarrow> uuid \<Rightarrow> uuid option \<Rightarrow> uuid option \<Rightarrow> string option \<Rightarrow> bool \<Rightarrow> pydict \<Rightarrow> rat option
     \<Rightarrow> uuid option \<Rightarrow> string option \<Rightarrow> (db, uuid) comp" where
  "create_tool_run config_id correlation_id agent_run_id node_run_id key side_effect input cost bid call_id =
     bind new_uuid (\<lambda>tid.
     bind (modify (\<lambda>s. s\<lparr>tool_runs := tool_runs s @ [\<lparr>
       tr_id = tid, tr_agent_run_id = agent_run_id, tr_node_run_id = node_run_id,
       tr_tool_config_id = config_id, tr_status = ''CREATED'', tr_canonical_status = ''CREATED'',
       tr_correlation_id = correlation_id, tr_finished_at = None, tr_input = input, tr_output = [],
       tr_error = [], tr_idempotency_key = key, tr_tool_call_id = call_id,
       tr_has_side_effect = side_effect, tr_estimated_cost = cost,
       tr_billing_policy_version_id = bid\<rparr>]\<rparr>)) (\<lambda>_. ret tid))"

definition get_tool_run :: "uuid \<Rightarrow> (db, tool_run option) comp" where
  "get_tool_run tid = select_one tool_runs (\<lambda>r. tr_id r = tid)"

definition update_tool_run :: "uuid \<Rightarrow> (time \<Rightarrow> tool_run \<Rightarrow> tool_run) \<Rightarrow> (db, unit) comp" where
  "update_tool_run tid f =
     bind (get_tool_run tid) (\<lambda>row.
       case row of
         None \<Rightarrow> raise (not_found ''tool_run_not_found'')
       | Some _ \<Rightarrow> modify (\<lambda>s. s\<lparr>tool_runs := update_where (\<lambda>r. tr_id r = tid) (f (clock s)) (tool_runs s)\<rparr>))"

definition update_tool_run_result ::
    "uuid \<Rightarrow> string \<Rightarrow> string \<Rightarrow> pydict option \<Rightarrow> pydict option \<Rightarrow> (db, unit) comp" where
  "update_tool_run_result tid status canonical output error =
     update_tool_run tid (\<lambda>now r. r\<lparr>tr_status := status, tr_canonical_status := canonical,
       tr_output := or_empty output, tr_error := or_empty error,
       tr_finished_at := (if status \<in> {tool_status T_SUCCESS, tool_status T_ERROR} then Some now
                          else tr_finished_at r)\<rparr>)"

definition stamp_tool_run_billing_policy :: "uuid \<Rightarrow> uuid \<Rightarrow> rat option \<Rightarrow> (db, unit) comp" where
  "stamp_tool_run_billing_policy tid bid cost =
     update_tool_run tid (\<lambda>now r. r\<lparr>tr_billing_policy_version_id := Some bid,
       tr_estimated_cost := (case cost of None \<Rightarrow> tr_estimated_cost r | Some c \<Rightarrow> Some c)\<rparr>)"

definition flow_run_id_of_node :: "uuid option \<Rightarrow> (db, uuid) comp" where
  "flow_run_id_of_node nid =
     bind (case nid of None \<Rightarrow> ret None | Some n \<Rightarrow> get_node_run n) (\<lambda>row.
       case row of None \<Rightarrow> raise (not_found ''node_run_not_found'') | Some r \<Rightarrow> ret (nr_flow_run_id r))"

definition get_flow_run_id_for_tool_run :: "uuid \<Rightarrow> (db, uuid) comp" where
  "get_flow_run_id_for_tool_run tid =
     bind (get_tool_run tid) (\<lambda>row.
       case row of
         None \<Rightarrow> raise (not_found ''tool_run_not_found'')
       | Some r \<Rightarrow>
           (case tr_node_run_id r of
              Some n \<Rightarrow> flow_run_id_of_node (Some n)
            | None \<Rightarrow> (case tr_agent_run_id r of
                Some a \<Rightarrow> bind (get_agent_run a) (\<lambda>ar.
                  case ar of None \<Rightarrow> raise (not_found ''agent_run_not_found'')
                           | Some a \<Rightarrow> flow_run_id_of_node (ar_node_run_id a))
              | None \<Rightarrow> raise (domain_validation ''tool_run_missing_parent''))))"

definition create_run_failure_for_tool_run :: "uuid \<Rightarrow> uuid \<Rightarrow> string \<Rightarrow> pydict \<Rightarrow> (db, uuid) comp" where
  "create_run_failure_for_tool_run tid correlation_id error_type error =
     bind new_uuid (\<lambda>rid.
     bind (modify (\<lambda>s. s\<lparr>run_failures := run_failures s @ [\<lparr>rf_id = rid, rf_tool_run_id = Some tid,
       rf_error_type = error_type, rf_error = error, rf_correlation_id = correlation_id\<rparr>]\<rparr>)) (\<lambda>_. ret rid))"

definition create_response_artifact_for_flow_run :: "uuid \<Rightarrow> pydict \<Rightarrow> (db, uuid) comp" where
  "create_response_artifact_for_flow_run fid payload =
     bind (get_flow_run fid) (\<lambda>row.
       case Option.bind row fr_interaction_id of
         None \<Rightarrow> raise (domain_validation ''flow_run_missing_interaction'')
       | Some iid \<Rightarrow> bind new_uuid (\<lambda>rid.
           bind (modify (\<lambda>s. s\<lparr>response_artifacts := response_artifacts s @ [\<lparr>ra_id = rid,
             ra_interaction_id = iid, ra_flow_run_id = fid, ra_payload = payload, ra_schema_version = 1\<rparr>]\<rparr>))
           (\<lambda>_. ret rid)))"

definition create_response_artifact_for_tool_run :: "uuid \<Rightarrow> pydict \<Rightarrow> (db, uuid) comp" where
  "create_response_artifact_for_tool_run tid payload =
     bind (get_flow_run_id_for_tool_run tid) (\<lambda>fid. create_response_artifact_for_flow_run fid payload)"

subsection \<open>Locks and listings\<close>

definition acquire_flow_run_lock :: "uuid \<Rightarrow> string option \<Rightarrow> uuid option \<Rightarrow> (db, bool) comp" where
  "acquire_flow_run_lock fid owner correlation_id =
     bind (select_one locks (\<lambda>l. lk_flow_run_id l = fid)) (\<lambda>lock.
     bind (modify (\<lambda>s. if lock = None
         then s\<lparr>locks := locks s @ [\<lparr>lk_flow_run_id = fid, lk_locked_at = clock s, lk_owner = owner,
           lk_correlation_id = correlation_id\<rparr>]\<rparr>
         else s)) (\<lambda>_. ret True))"

text \<open>Inner joins up to the session give the tenant of a flow run.\<close>

definition flow_tenant :: "db \<Rightarrow> uuid \<Rightarrow> uuid option" where
  "flow_tenant s fid =
     (case List.find (\<lambda>r. fr_id r = fid) (flow_runs s) of
        None \<Rightarrow> None
      | Some r \<Rightarrow> map_option sn_tenant_id (List.find (\<lambda>t. sn_id t = fr_session_id r) (sessions s)))"

definition list_node_runs :: "uuid \<Rightarrow> uuid option \<Rightarrow> int \<Rightarrow> (db, node_run list) comp" where
  "list_node_runs tenant fid limit =
     get (\<lambda>s. take (nat limit) (sort_key (\<lambda>r. - nr_created_at r)
       (filter (\<lambda>r. flow_tenant s (nr_flow_run_id r) = Some tenant
           \<and> (fid = None \<or> fid = Some (nr_flow_run_id r))) (node_runs s))))"

definition list_agent_runs :: "uuid \<Rightarrow> uuid option \<Rightarrow> int \<Rightarrow> (db, agent_run list) comp" where
  "list_agent_runs tenant fid limit =
     get (\<lambda>s. take (nat limit) (sort_key (\<lambda>r. - ar_created_at r)
       (filter (\<lambda>r. case node_flow s (ar_node_run_id r) of
             None \<Rightarrow> False
           | Some f \<Rightarrow> flow_tenant s f = Some tenant \<and> (fid = None \<or> fid = Some f)) (agent_runs s))))"

subsection \<open>Invariants\<close>

text \<open>
  The invariant of graph states: one row per flow run, and every cached copy equals the row of its
  run.
\<close>

definition graph_wf :: "db \<Rightarrow> bool" where
  "graph_wf s \<longleftrightarrow> distinct (map gs_flow_run_id (graph_states s)) \<and>
     list_all (\<lambda>(fid, g). List.find (\<lambda>r. gs_flow_run_id r = fid) (graph_states s) = Some g) (graph_state_cache s)"

definition runs_wf :: "db \<Rightarrow> bool" where
  "runs_wf s \<longleftrightarrow> distinct (map fr_id (flow_runs s)) \<and> list_all (\<lambda>r. fr_id r < fresh s) (flow_runs s)"

definition sessions_wf :: "db \<Rightarrow> bool" where
  "sessions_wf s \<longleftrightarrow> distinct (map sn_id (sessions s)) \<and> distinct (end_users s)"

definition empty_config :: config_tables where
  "empty_config = \<lparr>flows = [], flow_versions = [], flow_graphs = [], flow_graph_snapshots = [],
     flow_snapshots = [], node_rows = [], tool_configs = [], ai_policy_versions = [], models = [],
     rag_configs = [], billing_policies = [], billing_policy_versions = [], memory_policies = [],
     memory_policy_versions = [], rag_policies = [], rag_policy_versions = [],
     runtime_policies = [], limit_policies = [], limit_policy_versions = [], rate_limit_policies = [],
     rate_limit_policy_versions = [], access_policies = [], access_policy_versions = []\<rparr>"

definition empty_redis :: redis_store where
  "empty_redis = \<lparr>rd_up = True, rd_silent = True, rd_flow_version = [], rd_flow_active_version = [],
     rd_flow_graph = [], rd_flow_snapshot = [], rd_tool_config = [], rd_agent_version = [],
     rd_agent_active_version = [], rd_ai_policy_version = [], rd_model = [], rd_node = [], rd_rag_config = [],
     rd_active_billing_version = [], rd_billing_policy_version = [], rd_active_memory_version = [],
     rd_memory_policy_version = [], rd_active_rag_version = [], rd_rag_policy_version = [], rd_plan = [],
     rd_idempotency = [], rd_counters = []\<rparr>"

definition empty_db :: db where
  "empty_db = \<lparr>fresh = 100, clock = 0, tracing = True, flow_runs = [], locks = [], events = [], node_runs = [],
     tool_runs = [], agent_runs = [], run_failures = [], usage_ledger = [], interactions = [], sessions = [],
     end_users = [], profiles = [], graph_states = [], graph_state_cache = [], response_artifacts = [],
     flow_deployments = [], agent_versions = [], event_batch_size = 20, event_batch_buffer = [],
     batching_flow_runs = {}, config_db = empty_config, redis_db = empty_redis\<rparr>"

definition demo_args :: flow_run_args where
  "demo_args = \<lparr>fa_session_id = 1, fa_flow_version_id = 2, fa_correlation_id = 3, fa_origin_flow_run_id = None,
     fa_user_id = ''u'', fa_input = [], fa_interaction_id = Some 4, fa_flow_graph_snapshot_id = None,
     fa_flow_snapshot_id = None, fa_flow_deployment_id = None, fa_runtime_contract = None,
     fa_execution_plan_hash = None, fa_runtime_policy_hash = None, fa_tool_catalog_hash = None,
     fa_llm_provider_config_hash = None, fa_trace_id = None, fa_root_observation_id = None\<rparr>"

subsection \<open>Tables\<close>

text \<open>
  The contract of a table of the store: rows are read and written through one field of \<open>db\<close>, and
  writing it leaves the counter alone.  What the methods do with keyed rows is proved once here.
\<close>

locale table =
  fixes rows :: "db \<Rightarrow> 'r list"
    and set_rows :: "('r list \<Rightarrow> 'r list) \<Rightarrow> db \<Rightarrow> db"
    and key :: "'r \<Rightarrow> 'k"
  assumes rows_set: "rows (set_rows f s) = f (rows s)"
    and fresh_set: "fresh (set_rows f s) = fresh s"
begin

abbreviation keyed :: "db \<Rightarrow> bool" where
  "keyed s \<equiv> distinct (map key (rows s))"

abbreviation row_of :: "db \<Rightarrow> 'k \<Rightarrow> 'r option" where
  "row_of s k \<equiv> List.find (\<lambda>r. key r = k) (rows s)"

lemma filter_key:
  "keyed s \<Longrightarrow> filter (\<lambda>r. key r = k) (rows s) = (case row_of s k of None \<Rightarrow> [] | Some r \<Rightarrow> [r])"
proof -
  have "distinct (map key rs) \<Longrightarrow>
      filter (\<lambda>r. key r = k) rs = (case List.find (\<lambda>r. key r = k) rs of None \<Rightarrow> [] | Some r \<Rightarrow> [r])" for rs
  proof (induction rs)
    case (Cons r rs)
    have "key x \<noteq> key r" if "x \<in> set rs" for x
      using Cons.prems imageI [OF that, of key] by auto
    then have "filter (\<lambda>x. key x = key r) rs = []" by (simp add: filter_empty_conv)
    then show ?case using Cons by auto
  qed simp
  then show "keyed s \<Longrightarrow> filter (\<lambda>r. key r = k) (rows s) = (case row_of s k of None \<Rightarrow> [] | Some r \<Rightarrow> [r])" .
qed

lemma lookup: "keyed s \<Longrightarrow> one_or_none (\<lambda>r. key r = k) (rows s) = Inr (row_of s k)"
  by (simp add: one_or_none_def filter_key split: option.splits)

lemma row_key: "row_of s k = Some r \<Longrightarrow> key r = k \<and> r \<in> set (rows s)"
  by (auto simp: find_Some_iff)

lemma insert_row:
  assumes "keyed s" "row_of s (key r) = None"
  shows "keyed (set_rows (\<lambda>t. t @ [r]) s)" and "row_of (set_rows (\<lambda>t. t @ [r]) s) (key r) = Some r"
    and "k \<noteq> key r \<Longrightarrow> row_of (set_rows (\<lambda>t. t @ [r]) s) k = row_of s k"
proof -
  have no: "key r \<notin> key ` set (rows s)" using assms(2) by (auto simp: find_None_iff)
  then show "keyed (set_rows (\<lambda>t. t @ [r]) s)" using assms(1) by (simp add: rows_set)
  have app: "List.find P (xs @ ys) = (case List.find P xs of None \<Rightarrow> List.find P ys | Some x \<Rightarrow> Some x)"
    for P and xs ys :: "'r list" by (induction xs) auto
  show "row_of (set_rows (\<lambda>t. t @ [r]) s) (key r) = Some r" using assms(2) by (simp add: rows_set app)
  show "k \<noteq> key r \<Longrightarrow> row_of (set_rows (\<lambda>t. t @ [r]) s) k = row_of s k"
    by (simp add: rows_set app split: option.splits)
qed

lemma update_row:
  assumes "\<And>r. key (f r) = key r"
  shows "keyed s \<Longrightarrow> keyed (set_rows (update_where (\<lambda>r. key r = k) f) s)"
    and "row_of (set_rows (update_where (\<lambda>r. key r = k) f) s) k' =
         (if k' = k then map_option f (row_of s k) else row_of s k')"
proof -
  have "map key (update_where (\<lambda>r. key r = k) f rs) = map key rs" for rs
    by (simp add: update_where_def assms comp_def if_distrib cong: if_cong)
  then show "keyed s \<Longrightarrow> keyed (set_rows (update_where (\<lambda>r. key r = k) f) s)" by (simp add: rows_set)
  have "List.find (\<lambda>r. key r = k') (update_where (\<lambda>r. key r = k) f rs) =
      (if k' = k then map_option f (List.find (\<lambda>r. key r = k) rs) else List.find (\<lambda>r. key r = k') rs)" for rs
    by (induction rs) (auto simp: update_where_def assms)
  then show "row_of (set_rows (update_where (\<lambda>r. key r = k) f) s) k' =
      (if k' = k then map_option f (row_of s k) else row_of s k')" by (simp add: rows_set)
qed

end

text \<open>A table whose keys come from \<open>uuid4()\<close>: a new key is never in it.\<close>

locale generated_table = table rows set_rows key
  for rows :: "db \<Rightarrow> 'r list" and set_rows and key :: "'r \<Rightarrow> uuid" +
  assumes rows_fresh: "rows (s\<lparr>fresh := n\<rparr>) = rows s"
begin

abbreviation generated :: "db \<Rightarrow> bool" where
  "generated s \<equiv> distinct (map key (rows s)) \<and> (\<forall>r \<in> set (rows s). key r < fresh s)"

lemma fresh_row: "generated s \<Longrightarrow> row_of (s\<lparr>fresh := n\<rparr>) (fresh s) = None"
  by (auto simp: find_None_iff rows_fresh)

lemma insert_fresh:
  assumes "generated s" "key r = fresh s"
  shows "generated (set_rows (\<lambda>t. t @ [r]) (s\<lparr>fresh := Suc (fresh s)\<rparr>))"
    and "row_of (set_rows (\<lambda>t. t @ [r]) (s\<lparr>fresh := Suc (fresh s)\<rparr>)) (key r) = Some r"
    and "k \<noteq> key r \<Longrightarrow> row_of (set_rows (\<lambda>t. t @ [r]) (s\<lparr>fresh := Suc (fresh s)\<rparr>)) k = row_of s k"
proof -
  let ?s = "s\<lparr>fresh := Suc (fresh s)\<rparr>"
  have *: "keyed ?s" "row_of ?s (key r) = None" using assms fresh_row by (simp_all add: rows_fresh)
  show "generated (set_rows (\<lambda>t. t @ [r]) ?s)"
    using insert_row(1) [OF *] assms by (auto simp: rows_set rows_fresh fresh_set)
  show "row_of (set_rows (\<lambda>t. t @ [r]) ?s) (key r) = Some r" by (rule insert_row(2) [OF *])
  show "k \<noteq> key r \<Longrightarrow> row_of (set_rows (\<lambda>t. t @ [r]) ?s) k = row_of s k"
    using insert_row(3) [OF *] by (simp add: rows_fresh)
qed

end

interpretation flow_run_table: generated_table flow_runs flow_runs_update fr_id
  by unfold_locales simp_all

interpretation node_run_table: generated_table node_runs node_runs_update nr_id
  by unfold_locales simp_all

interpretation tool_run_table: generated_table tool_runs tool_runs_update tr_id
  by unfold_locales simp_all

interpretation agent_run_table: generated_table agent_runs agent_runs_update ar_id
  by unfold_locales simp_all

interpretation interaction_table: generated_table interactions interactions_update in_id
  by unfold_locales simp_all

interpretation session_table: table sessions sessions_update sn_id
  by unfold_locales simp_all

interpretation lock_table: table locks locks_update lk_flow_run_id
  by unfold_locales simp_all

interpretation graph_state_table: table graph_states graph_states_update gs_flow_run_id
  by unfold_locales simp_all

subsection \<open>Properties\<close>

lemma one_or_none_member:
  "distinct xs \<Longrightarrow> \<exists>r. one_or_none (\<lambda>x. x = a) xs = Inr r \<and> (r = None \<longleftrightarrow> a \<notin> set xs)"
proof -
  assume d: "distinct xs"
  have "filter (\<lambda>x. x = a) xs = (if a \<in> set xs then [a] else [])" using d by (induction xs) auto
  then show ?thesis by (auto simp: one_or_none_def)
qed

lemma runs_wf_generated: "runs_wf s \<longleftrightarrow> flow_run_table.generated s"
  by (simp add: runs_wf_def list_all_iff)

lemma get_flow_run_lookup: "runs_wf s \<Longrightarrow> get_flow_run fid s = (Inr (flow_run_table.row_of s fid), s)"
  by (simp add: get_flow_run_def flow_run_table.lookup runs_wf_def)

lemma cache_entry:
  "graph_wf s \<Longrightarrow> map_of (graph_state_cache s) fid = Some g \<Longrightarrow> graph_state_table.row_of s fid = Some g"
  by (auto simp: graph_wf_def list_all_iff dest: map_of_SomeD)

lemma get_graph_state_row:
  assumes "graph_wf s"
  shows "fst (get_graph_state fid s) = Inr (graph_state_table.row_of s fid)"
    and "graph_wf (snd (get_graph_state fid s))"
    and "graph_states (snd (get_graph_state fid s)) = graph_states s"
proof -
  have row: "one_or_none (\<lambda>g. gs_flow_run_id g = fid) (graph_states s) = Inr (graph_state_table.row_of s fid)"
    using assms by (intro graph_state_table.lookup) (simp add: graph_wf_def)
  have wf: "graph_wf (s\<lparr>graph_state_cache := AList.update fid g (graph_state_cache s)\<rparr>)"
    if "graph_state_table.row_of s fid = Some g" for g
    using assms that set_update_subset [of fid g "graph_state_cache s"] by (auto simp: graph_wf_def list_all_iff)
  show "fst (get_graph_state fid s) = Inr (graph_state_table.row_of s fid)"
    using row cache_entry [OF assms]
    by (auto simp: get_graph_state_def comp_simps split: option.splits)
  show "graph_wf (snd (get_graph_state fid s))"
    using row wf assms by (auto simp: get_graph_state_def comp_simps split: option.splits)
  show "graph_states (snd (get_graph_state fid s)) = graph_states s"
    using row by (auto simp: get_graph_state_def comp_simps split: option.splits)
qed

lemma upsert_graph_state_effect:
  assumes "graph_wf s"
  shows "fst (upsert_graph_state fid st n s) = Inr ()"
    and "graph_wf (snd (upsert_graph_state fid st n s))"
    and "graph_state_table.row_of (snd (upsert_graph_state fid st n s)) k =
         (if k = fid then Some \<lparr>gs_flow_run_id = fid, gs_last_node_run_id = n, gs_state = st\<rparr>
          else graph_state_table.row_of s k)"
proof -
  let ?new = "\<lparr>gs_flow_run_id = fid, gs_last_node_run_id = n, gs_state = st\<rparr>"
  let ?upd = "update_where (\<lambda>g. gs_flow_run_id g = fid) (\<lambda>g. g\<lparr>gs_state := st, gs_last_node_run_id := n\<rparr>)"
  let ?ins = "graph_states_update (\<lambda>t. t @ [?new]) s" and ?chg = "graph_states_update ?upd s"
  have keyed: "graph_state_table.keyed s" using assms by (simp add: graph_wf_def)
  have eq: "upsert_graph_state fid st n s = (Inr (),
      (if graph_state_table.row_of s fid = None then ?ins else ?chg)
        \<lparr>graph_state_cache := AList.delete fid (graph_state_cache s)\<rparr>)"
    using graph_state_table.lookup [OF keyed]
    by (auto simp: upsert_graph_state_def comp_simps split: option.splits)
  then show "fst (upsert_graph_state fid st n s) = Inr ()" by simp
  have row: "graph_state_table.row_of (if graph_state_table.row_of s fid = None then ?ins else ?chg) k =
      (if k = fid then Some ?new else graph_state_table.row_of s k)" for k
  proof (cases "graph_state_table.row_of s fid")
    case None
    then show ?thesis using graph_state_table.insert_row(2) [OF keyed, of ?new]
        graph_state_table.insert_row(3) [OF keyed, of ?new k] by auto
  next
    case (Some g)
    moreover have "gs_flow_run_id g = fid" using graph_state_table.row_key [OF Some] by simp
    ultimately show ?thesis
      using graph_state_table.update_row(2) [where f = "\<lambda>g. g\<lparr>gs_state := st, gs_last_node_run_id := n\<rparr>"
          and s = s and k = fid and k' = k] by auto
  qed
  then show "graph_state_table.row_of (snd (upsert_graph_state fid st n s)) k =
      (if k = fid then Some ?new else graph_state_table.row_of s k)" by (simp add: eq)
  have "graph_state_table.keyed (if graph_state_table.row_of s fid = None then ?ins else ?chg)"
    using graph_state_table.insert_row(1) [OF keyed, of ?new] graph_state_table.update_row(1) [OF _ keyed] by auto
  then show "graph_wf (snd (upsert_graph_state fid st n s))"
    using assms row by (auto simp: eq graph_wf_def list_all_iff AList.delete_eq)
qed



text \<open>
  A created flow run is stored under a new id.  \<open>create_flow_run\<close> returns an id that no run had,
  reading it gives the new row in status CREATED with the given session, user and version, it comes
  with its lock, and every other run is unchanged.
\<close>

theorem create_flow_run_stored:
  assumes "runs_wf s" "create_flow_run a s = (r, s')"
  shows "r = Inr (fresh s) \<and> runs_wf s' \<and> fresh s \<notin> fr_id ` set (flow_runs s)
    \<and> (\<exists>row. fst (get_flow_run (fresh s) s') = Inr (Some row) \<and> fr_status row = ''CREATED''
         \<and> fr_canonical_status row = flow_status F_CREATED \<and> fr_session_id row = fa_session_id a
         \<and> fr_user_id row = fa_user_id a \<and> fr_flow_version_id row = fa_flow_version_id a)
    \<and> (\<exists>lock \<in> set (locks s'). lk_flow_run_id lock = fresh s)
    \<and> (k \<noteq> fresh s \<longrightarrow> fst (get_flow_run k s') = fst (get_flow_run k s))"
proof -
  let ?row = "new_flow_run a (fresh s) (clock s)"
  have gen: "flow_run_table.generated s" using assms(1) by (simp add: runs_wf_generated)
  have s': "r = Inr (fresh s)" "fresh s' = Suc (fresh s)"
      "flow_runs s' = flow_runs (flow_runs_update (\<lambda>t. t @ [?row]) (s\<lparr>fresh := Suc (fresh s)\<rparr>))"
      "lk_flow_run_id (last (locks s')) = fresh s" "locks s' \<noteq> []"
    using assms(2) by (auto simp: create_flow_run_def new_uuid_def comp_simps)
  have key: "fr_id ?row = fresh s" by (simp add: new_flow_run_def)
  note ins = flow_run_table.insert_fresh [OF gen key]
  have wf: "runs_wf s'" using ins(1) by (simp add: runs_wf_generated s'(2,3))
  have row: "flow_run_table.row_of s' (fresh s) = Some ?row" using ins(2) key by (simp add: s'(3))
  have other: "flow_run_table.row_of s' k = flow_run_table.row_of s k" if "k \<noteq> fresh s"
    using ins(3) [of k] key that by (simp add: s'(3))
  have "last (locks s') \<in> set (locks s')" using s'(5) by (rule last_in_set)
  then show ?thesis
    using wf row other s'(1,4) gen
    by (auto simp: get_flow_run_lookup assms(1) new_flow_run_def)
qed

theorem create_flow_run_stored_witness:
  "\<exists>row. fst (get_flow_run 100 (snd (create_flow_run demo_args empty_db))) = Inr (Some row) \<and> fr_user_id row = ''u''"
proof -
  have "runs_wf empty_db" by code_simp
  from create_flow_run_stored [OF this prod.collapse [symmetric], of demo_args] show ?thesis
    by (auto simp: empty_db_def demo_args_def)
qed

text \<open>
  A session belongs to one user of one tenant.  If \<open>create_session\<close> returns, reading the session
  gives the requested owner; if it raises, it is because the session belongs to someone else, and the
  store is unchanged.  No session row is ever changed or lost.
\<close>

theorem create_session_owner:
  assumes "sessions_wf s" "create_session sid t u s = (r, s')"
  shows "(case r of
      Inr _ \<Rightarrow> fst (get_session sid s') = Inr (Some \<lparr>sn_id = sid, sn_tenant_id = t, sn_user_id = u\<rparr>)
    | Inl e \<Rightarrow> e = Service DomainConflict ''session_user_mismatch'' \<and> s' = s
        \<and> (\<exists>row \<in> set (sessions s). sn_id row = sid \<and> (sn_tenant_id row, sn_user_id row) \<noteq> (t, u)))
    \<and> set (sessions s) \<subseteq> set (sessions s') \<and> sessions_wf s'"
proof -
  have wf: "session_table.keyed s" "distinct (end_users s)" using assms(1) by (simp_all add: sessions_wf_def)
  obtain known where known: "one_or_none (\<lambda>x. x = (t, u)) (end_users s) = Inr known"
      "known = None \<longleftrightarrow> (t, u) \<notin> set (end_users s)"
    using one_or_none_member [OF wf(2), of "(t, u)"] by auto
  let ?users = "if known = None then end_users s @ [(t, u)] else end_users s"
  have users: "distinct ?users" using wf(2) known(2) by simp
  show ?thesis
  proof (cases "session_table.row_of s sid")
    case None
    let ?row = "\<lparr>sn_id = sid, sn_tenant_id = t, sn_user_id = u\<rparr>"
    have s': "r = Inr ()" "sessions s' = sessions (sessions_update (\<lambda>x. x @ [?row]) s)" "end_users s' = ?users"
      using assms(2) None known(1) session_table.lookup [OF wf(1), of sid]
      by (auto simp: create_session_def get_session_def comp_simps)
    have "session_table.row_of s (sn_id ?row) = None" using None by simp
    note ins = session_table.insert_row(1,2) [OF wf(1) this]
    have "one_or_none (\<lambda>x. sn_id x = sid) (sessions s') = Inr (Some ?row)"
      using session_table.lookup [of s' sid] ins by (simp add: s'(2))
    then show ?thesis using ins(1) users s' by (auto simp: get_session_def sessions_wf_def)
  next
    case (Some row)
    then have row: "sn_id row = sid" "row \<in> set (sessions s)" using session_table.row_key by blast+
    show ?thesis
    proof (cases "sn_tenant_id row = t \<and> sn_user_id row = u")
      case True
      then have "row = \<lparr>sn_id = sid, sn_tenant_id = t, sn_user_id = u\<rparr>" using row(1) by (cases row) auto
      moreover have "r = Inr ()" "sessions s' = sessions s" "end_users s' = ?users"
        using assms(2) Some True known(1) session_table.lookup [OF wf(1), of sid]
        by (auto simp: create_session_def get_session_def comp_simps)
      ultimately show ?thesis
        using Some users wf session_table.lookup [OF wf(1), of sid] by (auto simp: get_session_def sessions_wf_def)
    next
      case False
      then have "r = Inl (Service DomainConflict ''session_user_mismatch'')" "s' = s"
        using assms(2) Some known(1) session_table.lookup [OF wf(1), of sid]
        by (auto simp: create_session_def get_session_def comp_simps)
      then show ?thesis using row False assms(1) by auto
    qed
  qed
qed

theorem create_session_owner_witness:
  "create_session 1 2 ''mallory'' (snd (create_session 1 2 ''alice'' empty_db)) =
     (Inl (Service DomainConflict ''session_user_mismatch''), snd (create_session 1 2 ''alice'' empty_db))"
proof -
  let ?s = "snd (create_session 1 2 ''alice'' empty_db)"
  have "sessions_wf ?s" by code_simp
  moreover have "isl (fst (create_session 1 2 ''mallory'' ?s))" by code_simp
  ultimately show ?thesis
    using create_session_owner [of ?s 1 2 "''mallory''", OF _ prod.collapse [symmetric]]
    by (cases "create_session 1 2 ''mallory'' ?s") (auto split: sum.splits)
qed

end
