(* ===== verification/EventLog.thy ===== *)
theory EventLog
  imports ExecutionStore
begin

text \<open>
  Execution events: the event methods of
  \<^verbatim>\<open>src/src/domain/execution/repositories/execution_repository.py\<close> with their batching, and the hook
  that emits them, \<open>DbExecutionEventHook\<close> of
  \<^verbatim>\<open>src/src/domain/execution/services/observability/hooks.py\<close>.

  What is shown: every run's events are numbered 1, 2, 3, ... without gaps, the event table only
  grows, the log of a run (stored events followed by buffered ones) is an append-only list, and
  batching does not change what ends up in the table.  The abstract log is the interface
  \<open>event_log\<close>, interpreted on \<open>append_execution_event\<close>.
\<close>

subsection \<open>Persisting events\<close>

record event_args =
  ea_tenant_id :: uuid
  ea_user_id :: "string option"
  ea_session_id :: uuid
  ea_type :: string
  ea_payload :: pydict
  ea_correlation_id :: uuid
  ea_causation_id :: "uuid option"
  ea_schema_version :: int
  ea_node_id :: "uuid option"
  ea_edge_id :: "string option"

definition buffered :: "event_args \<Rightarrow> uuid \<Rightarrow> buffered_event" where
  "buffered a eid = \<lparr>be_id = eid, be_tenant_id = ea_tenant_id a, be_user_id = ea_user_id a,
     be_session_id = ea_session_id a, be_type = ea_type a, be_payload = ea_payload a,
     be_correlation_id = ea_correlation_id a, be_causation_id = ea_causation_id a,
     be_schema_version = ea_schema_version a, be_node_id = ea_node_id a, be_edge_id = ea_edge_id a\<rparr>"

definition stored :: "uuid \<Rightarrow> string \<Rightarrow> int \<Rightarrow> buffered_event \<Rightarrow> execution_event" where
  "stored fid user n b = \<lparr>ev_id = be_id b, ev_tenant_id = be_tenant_id b, ev_user_id = user,
     ev_session_id = be_session_id b, ev_flow_run_id = fid, ev_correlation_id = be_correlation_id b,
     ev_causation_id = be_causation_id b, ev_sequence = n, ev_schema_version = be_schema_version b,
     ev_type = be_type b, ev_payload = be_payload b, ev_node_id = be_node_id b, ev_edge_id = be_edge_id b\<rparr>"

text \<open>The events of a flow run in the table, and \<open>coalesce(max(event_sequence), 0) + 1\<close>.\<close>

definition events_of :: "db \<Rightarrow> uuid \<Rightarrow> execution_event list" where
  "events_of s fid = filter (\<lambda>e. ev_flow_run_id e = fid) (events s)"

definition next_sequence :: "db \<Rightarrow> uuid \<Rightarrow> int" where
  "next_sequence s fid =
     (case map ev_sequence (events_of s fid) of [] \<Rightarrow> 0 | n # ns \<Rightarrow> fold max ns n) + 1"

definition next_event_sequence :: "uuid \<Rightarrow> (db, int) comp" where
  "next_event_sequence fid = get (\<lambda>s. next_sequence s fid)"

definition run_user :: "uuid \<Rightarrow> (db, string option) comp" where
  "run_user fid = bind (get_flow_run fid) (\<lambda>r. ret (map_option fr_user_id r))"

definition event_user :: "string option \<Rightarrow> uuid \<Rightarrow> (db, string) comp" where
  "event_user user fid =
     bind (case user of Some u \<Rightarrow> ret (Some u) | None \<Rightarrow> run_user fid) (\<lambda>u.
       case u of Some v \<Rightarrow> ret v | None \<Rightarrow> raise (not_found ''flow_run_user_not_found''))"

fun number_from :: "uuid \<Rightarrow> string \<Rightarrow> int \<Rightarrow> buffered_event list \<Rightarrow> execution_event list" where
  "number_from fid user n [] = []"
| "number_from fid user n (b # bs) = stored fid user n b # number_from fid user (n + 1) bs"

definition persist_execution_events_batch :: "uuid \<Rightarrow> buffered_event list \<Rightarrow> (db, unit) comp" where
  "persist_execution_events_batch fid evs =
     (case evs of
        [] \<Rightarrow> ret ()
      | first # _ \<Rightarrow>
          bind (event_user (be_user_id first) fid) (\<lambda>user.
            modify (\<lambda>s. s\<lparr>events := events s @ number_from fid user (next_sequence s fid) evs\<rparr>)))"

subsection \<open>Batching\<close>

definition buffer_of :: "db \<Rightarrow> uuid \<Rightarrow> buffered_event list" where
  "buffer_of s fid = dict_get (event_batch_buffer s) fid []"

definition start_event_batching :: "uuid \<Rightarrow> (db, unit) comp" where
  "start_event_batching fid =
     modify (\<lambda>s. s\<lparr>batching_flow_runs := insert fid (batching_flow_runs s),
       event_batch_buffer := (if map_of (event_batch_buffer s) fid = None
         then AList.update fid [] (event_batch_buffer s) else event_batch_buffer s)\<rparr>)"

definition flush_execution_events :: "uuid \<Rightarrow> (db, unit) comp" where
  "flush_execution_events fid =
     bind (get (\<lambda>s. buffer_of s fid)) (\<lambda>evs.
     bind (modify (\<lambda>s. s\<lparr>batching_flow_runs := batching_flow_runs s - {fid},
         event_batch_buffer := AList.delete fid (event_batch_buffer s)\<rparr>)) (\<lambda>_.
       persist_execution_events_batch fid evs))"

definition end_event_batching :: "uuid \<Rightarrow> (db, unit) comp" where
  "end_event_batching fid = flush_execution_events fid"

definition buffer_event :: "uuid \<Rightarrow> buffered_event \<Rightarrow> (db, buffered_event list) comp" where
  "buffer_event fid ev s =
     (let evs = buffer_of s fid @ [ev] in
      if int (length evs) \<ge> event_batch_size s
      then (Inr evs, s\<lparr>event_batch_buffer := AList.update fid [] (event_batch_buffer s)\<rparr>)
      else (Inr [], s\<lparr>event_batch_buffer := AList.update fid evs (event_batch_buffer s)\<rparr>))"

definition append_execution_event :: "uuid option \<Rightarrow> event_args \<Rightarrow> (db, uuid) comp" where
  "append_execution_event flow_run_id a =
     bind new_uuid (\<lambda>eid.
       case flow_run_id of
         None \<Rightarrow> ret eid
       | Some fid \<Rightarrow>
           bind (get (\<lambda>s. fid \<in> batching_flow_runs s)) (\<lambda>in_batching.
             if in_batching
             then bind (buffer_event fid (buffered a eid)) (\<lambda>events_to_flush.
                  bind (if events_to_flush = [] then ret ()
                        else persist_execution_events_batch fid events_to_flush) (\<lambda>_. ret eid))
             else bind (event_user (ea_user_id a) fid) (\<lambda>user.
                  bind (modify (\<lambda>s. s\<lparr>events := events s @
                      [stored fid user (next_sequence s fid) (buffered a eid)]\<rparr>)) (\<lambda>_. ret eid))))"

definition list_execution_events ::
    "uuid \<Rightarrow> uuid option \<Rightarrow> uuid option \<Rightarrow> int \<Rightarrow> (db, execution_event list) comp" where
  "list_execution_events tenant fid correlation_id limit =
     get (\<lambda>s. take (nat limit) (sort_key (\<lambda>e. (ev_flow_run_id e, ev_sequence e))
       (filter (\<lambda>e. ev_tenant_id e = tenant
           \<and> (fid = None \<or> fid = Some (ev_flow_run_id e))
           \<and> (correlation_id = None \<or> correlation_id = Some (ev_correlation_id e))) (events s))))"

subsection \<open>The hook\<close>

datatype ExecutionEventType =
    FlowStarted | FlowRunning | FlowWaiting | FlowCompleted | FlowFailed | FlowEscalated
    | NodeEntered | NodeStarted | NodeSkipped | NodeCompleted | NodeFailed | EdgeEvaluated
    | AgentRunStarted | AgentRunCompleted | AgentRunFailed | AgentRunRetried | AgentRunAborted
    | AgentDelegationRequested | AgentDelegationCompleted | AgentDelegationFailed
    | ToolInvocationRequested | ToolInvocationDenied | ToolInvocationSucceeded
    | ToolInvocationFailed | ToolInvocationTimedOut | ToolInvocationRetried | LLMCallStarted
    | LLMCallCompleted | LLMCallFailed | GuardrailChecked | GuardrailBlocked | GuardrailDegraded
    | MemoryEmbeddingQueued | MemoryEmbeddingStarted | MemoryEmbeddingCompleted
    | MemoryEmbeddingFailed | MemoryEmbedded | MemoryUpdated | PolicyEvaluated | PolicyDenied
    | PolicyViolated | EscalationTriggered | ManualInterventionRequested | AuthFailed
    | LimitExceeded | BillingPolicyViolated | ValidationFailed | SecretAccessed | NodePromptUpdated
    | NodePromptExecuted

definition event_type_value :: "ExecutionEventType \<Rightarrow> string" where
  "event_type_value t = (case t of
     FlowStarted \<Rightarrow> ''FlowStarted'' | FlowRunning \<Rightarrow> ''FlowRunning''
     | FlowWaiting \<Rightarrow> ''FlowWaiting'' | FlowCompleted \<Rightarrow> ''FlowCompleted''
     | FlowFailed \<Rightarrow> ''FlowFailed'' | FlowEscalated \<Rightarrow> ''FlowEscalated''
     | NodeEntered \<Rightarrow> ''NodeEntered'' | NodeStarted \<Rightarrow> ''NodeStarted''
     | NodeSkipped \<Rightarrow> ''NodeSkipped'' | NodeCompleted \<Rightarrow> ''NodeCompleted''
     | NodeFailed \<Rightarrow> ''NodeFailed'' | EdgeEvaluated \<Rightarrow> ''EdgeEvaluated''
     | AgentRunStarted \<Rightarrow> ''AgentRunStarted''
     | AgentRunCompleted \<Rightarrow> ''AgentRunCompleted''
     | AgentRunFailed \<Rightarrow> ''AgentRunFailed''
     | AgentRunRetried \<Rightarrow> ''AgentRunRetried''
     | AgentRunAborted \<Rightarrow> ''AgentRunAborted''
     | AgentDelegationRequested \<Rightarrow> ''AgentDelegationRequested''
     | AgentDelegationCompleted \<Rightarrow> ''AgentDelegationCompleted''
     | AgentDelegationFailed \<Rightarrow> ''AgentDelegationFailed''
     | ToolInvocationRequested \<Rightarrow> ''ToolInvocationRequested''
     | ToolInvocationDenied \<Rightarrow> ''ToolInvocationDenied''
     | ToolInvocationSucceeded \<Rightarrow> ''ToolInvocationSucceeded''
     | ToolInvocationFailed \<Rightarrow> ''ToolInvocationFailed''
     | ToolInvocationTimedOut \<Rightarrow> ''ToolInvocationTimedOut''
     | ToolInvocationRetried \<Rightarrow> ''ToolInvocationRetried''
     | LLMCallStarted \<Rightarrow> ''LLMCallStarted''
     | LLMCallCompleted \<Rightarrow> ''LLMCallCompleted''
     | LLMCallFailed \<Rightarrow> ''LLMCallFailed''
     | GuardrailChecked \<Rightarrow> ''GuardrailChecked''
     | GuardrailBlocked \<Rightarrow> ''GuardrailBlocked''
     | GuardrailDegraded \<Rightarrow> ''GuardrailDegraded''
     | MemoryEmbeddingQueued \<Rightarrow> ''MemoryEmbeddingQueued''
     | MemoryEmbeddingStarted \<Rightarrow> ''MemoryEmbeddingStarted''
     | MemoryEmbeddingCompleted \<Rightarrow> ''MemoryEmbeddingCompleted''
     | MemoryEmbeddingFailed \<Rightarrow> ''MemoryEmbeddingFailed''
     | MemoryEmbedded \<Rightarrow> ''MemoryEmbedded''
     | MemoryUpdated \<Rightarrow> ''MemoryUpdated''
     | PolicyEvaluated \<Rightarrow> ''PolicyEvaluated''
     | PolicyDenied \<Rightarrow> ''PolicyDenied'' | PolicyViolated \<Rightarrow> ''PolicyViolated''
     | EscalationTriggered \<Rightarrow> ''EscalationTriggered''
     | ManualInterventionRequested \<Rightarrow> ''ManualInterventionRequested''
     | AuthFailed \<Rightarrow> ''AuthFailed'' | LimitExceeded \<Rightarrow> ''LimitExceeded''
     | BillingPolicyViolated \<Rightarrow> ''BillingPolicyViolated''
     | ValidationFailed \<Rightarrow> ''ValidationFailed''
     | SecretAccessed \<Rightarrow> ''SecretAccessed''
     | NodePromptUpdated \<Rightarrow> ''NodePromptUpdated''
     | NodePromptExecuted \<Rightarrow> ''NodePromptExecuted'')"

text \<open>\<open>DbExecutionEventHook._safe_emit\<close>: a failure to store the event is logged and swallowed.\<close>

definition safe_emit :: "ExecutionEventType \<Rightarrow> uuid \<Rightarrow> event_args \<Rightarrow> (db, unit) comp" where
  "safe_emit t fid a =
     catch (bind (append_execution_event (Some fid) (a\<lparr>ea_type := event_type_value t\<rparr>)) (\<lambda>_. ret ()))
       (\<lambda>e. ret ())"

record hook_args =
  ha_tenant_id :: uuid
  ha_user_id :: "string option"
  ha_session_id :: uuid
  ha_flow_run_id :: uuid
  ha_correlation_id :: uuid
  ha_payload :: pydict
  ha_causation_id :: "uuid option"
  ha_schema_version :: int

definition hook_event :: "hook_args \<Rightarrow> uuid option \<Rightarrow> string option \<Rightarrow> event_args" where
  "hook_event h node_id edge_id = \<lparr>ea_tenant_id = ha_tenant_id h, ea_user_id = ha_user_id h,
     ea_session_id = ha_session_id h, ea_type = [], ea_payload = ha_payload h,
     ea_correlation_id = ha_correlation_id h, ea_causation_id = ha_causation_id h,
     ea_schema_version = ha_schema_version h, ea_node_id = node_id, ea_edge_id = edge_id\<rparr>"

definition on_flow_start :: "hook_args \<Rightarrow> (db, unit) comp" where
  "on_flow_start h = safe_emit FlowStarted (ha_flow_run_id h) (hook_event h None None)"

definition on_node_start :: "hook_args \<Rightarrow> uuid option \<Rightarrow> (db, unit) comp" where
  "on_node_start h node_id = safe_emit NodeStarted (ha_flow_run_id h) (hook_event h node_id None)"

definition on_node_complete :: "hook_args \<Rightarrow> uuid option \<Rightarrow> (db, unit) comp" where
  "on_node_complete h node_id = safe_emit NodeCompleted (ha_flow_run_id h) (hook_event h node_id None)"

definition on_edge_evaluated :: "hook_args \<Rightarrow> uuid option \<Rightarrow> string option \<Rightarrow> (db, unit) comp" where
  "on_edge_evaluated h node_id edge_id = safe_emit EdgeEvaluated (ha_flow_run_id h) (hook_event h node_id edge_id)"

definition on_flow_complete :: "hook_args \<Rightarrow> (db, unit) comp" where
  "on_flow_complete h = safe_emit FlowCompleted (ha_flow_run_id h) (hook_event h None None)"

definition on_flow_failed :: "hook_args \<Rightarrow> (db, unit) comp" where
  "on_flow_failed h = safe_emit FlowFailed (ha_flow_run_id h) (hook_event h None None)"

text \<open>
  The six hooks as an object, \<open>CompositeHook\<close>, which runs every subscriber and then raises the error of the
  first one, and \<open>MemoryExtractionHook\<close>, which runs the memory extraction of a completed flow after its base
  hook; the extraction itself is an argument.
\<close>

record 's event_hook =
  hk_flow_start :: "hook_args \<Rightarrow> ('s, unit) comp"
  hk_node_start :: "hook_args \<Rightarrow> uuid option \<Rightarrow> ('s, unit) comp"
  hk_node_complete :: "hook_args \<Rightarrow> uuid option \<Rightarrow> ('s, unit) comp"
  hk_edge_evaluated :: "hook_args \<Rightarrow> uuid option \<Rightarrow> string option \<Rightarrow> ('s, unit) comp"
  hk_flow_complete :: "hook_args \<Rightarrow> ('s, unit) comp"
  hk_flow_failed :: "hook_args \<Rightarrow> ('s, unit) comp"

definition DbExecutionEventHook :: "db event_hook" where
  "DbExecutionEventHook = \<lparr>hk_flow_start = on_flow_start, hk_node_start = on_node_start,
     hk_node_complete = on_node_complete, hk_edge_evaluated = on_edge_evaluated,
     hk_flow_complete = on_flow_complete, hk_flow_failed = on_flow_failed\<rparr>"

fun subscribers :: "nat \<Rightarrow> ('s, unit) comp list \<Rightarrow> exn option \<Rightarrow> ('s, exn option) comp" where
  "subscribers index [] db_error = ret db_error"
| "subscribers index (m # ms) db_error =
     bind (catch (bind m (\<lambda>_. ret db_error)) (\<lambda>e. ret (if index = 0 then Some e else db_error)))
       (subscribers (Suc index) ms)"

definition composite :: "('s, unit) comp list \<Rightarrow> ('s, unit) comp" where
  "composite ms =
     bind (subscribers 0 ms None) (\<lambda>db_error. case db_error of Some e \<Rightarrow> raise e | None \<Rightarrow> ret ())"

definition CompositeHook :: "'s event_hook list \<Rightarrow> 's event_hook" where
  "CompositeHook hooks = \<lparr>
     hk_flow_start = (\<lambda>h. composite (map (\<lambda>k. hk_flow_start k h) hooks)),
     hk_node_start = (\<lambda>h n. composite (map (\<lambda>k. hk_node_start k h n) hooks)),
     hk_node_complete = (\<lambda>h n. composite (map (\<lambda>k. hk_node_complete k h n) hooks)),
     hk_edge_evaluated = (\<lambda>h n e. composite (map (\<lambda>k. hk_edge_evaluated k h n e) hooks)),
     hk_flow_complete = (\<lambda>h. composite (map (\<lambda>k. hk_flow_complete k h) hooks)),
     hk_flow_failed = (\<lambda>h. composite (map (\<lambda>k. hk_flow_failed k h) hooks))\<rparr>"

definition MemoryExtractionHook ::
    "(hook_args \<Rightarrow> pydict \<Rightarrow> pydict \<Rightarrow> ('s, unit) comp) \<Rightarrow> 's event_hook \<Rightarrow> 's event_hook" where
  "MemoryExtractionHook extract base = base\<lparr>hk_flow_complete := (\<lambda>h.
     bind (hk_flow_complete base h) (\<lambda>_.
       if ha_user_id h = None then ret ()
       else let flow_output = (case map_of (ha_payload h) ''payload'' of Some (PDict d) \<Rightarrow> d | _ \<Rightarrow> []) in
         case map_of (ha_payload h) ''memory_extraction_config'' of
           Some (PDict mx_config) \<Rightarrow> catch (extract h flow_output mx_config) (\<lambda>e. ret ())
         | _ \<Rightarrow> ret ()))\<rparr>"

subsection \<open>The abstract log\<close>

text \<open>
  An entry of the log is an event without its number and user; the log of a run lists its stored
  events and then its buffered ones.
\<close>

definition entry :: "buffered_event \<Rightarrow> buffered_event" where
  "entry b = b\<lparr>be_user_id := None\<rparr>"

definition entry_of :: "execution_event \<Rightarrow> buffered_event" where
  "entry_of e = \<lparr>be_id = ev_id e, be_tenant_id = ev_tenant_id e, be_user_id = None,
     be_session_id = ev_session_id e, be_type = ev_type e, be_payload = ev_payload e,
     be_correlation_id = ev_correlation_id e, be_causation_id = ev_causation_id e,
     be_schema_version = ev_schema_version e, be_node_id = ev_node_id e, be_edge_id = ev_edge_id e\<rparr>"

definition event_log_of :: "db \<Rightarrow> uuid \<Rightarrow> buffered_event list" where
  "event_log_of s fid = map entry_of (events_of s fid) @ map entry (buffer_of s fid)"

text \<open>The events of every run are numbered 1, 2, 3, ... in the order of the table.\<close>

definition seq_wf :: "db \<Rightarrow> bool" where
  "seq_wf s \<longleftrightarrow>
     (\<forall>fid. map ev_sequence (events_of s fid) = [1..int (length (events_of s fid))])"

text \<open>A run whose user can be found.\<close>

definition known_run :: "db \<Rightarrow> uuid \<Rightarrow> bool" where
  "known_run s fid \<longleftrightarrow> length (filter (\<lambda>r. fr_id r = fid) (flow_runs s)) = 1"

text \<open>Besides, outside batching nothing waits in the buffer.\<close>

definition ready_run :: "db \<Rightarrow> uuid \<Rightarrow> bool" where
  "ready_run s fid \<longleftrightarrow> known_run s fid \<and> (fid \<in> batching_flow_runs s \<or> buffer_of s fid = [])"

text \<open>The event table only grows, and stays numbered.\<close>

definition events_grow :: "db \<Rightarrow> db \<Rightarrow> bool" where
  "events_grow s s' \<longleftrightarrow> prefix (events s) (events s') \<and> (seq_wf s \<longrightarrow> seq_wf s')"

text \<open>A batch: what the runtime does between \<open>start_event_batching\<close> and \<open>end_event_batching\<close>.\<close>

definition batched :: "uuid \<Rightarrow> event_args list \<Rightarrow> (db, uuid list) comp" where
  "batched fid as =
     bind (start_event_batching fid) (\<lambda>_.
     bind (run_all (append_execution_event (Some fid)) as) (\<lambda>ids.
     bind (end_event_batching fid) (\<lambda>_. ret ids)))"

inductive event_step :: "db \<Rightarrow> db \<Rightarrow> bool" where
  step_start: "event_step s (snd (start_event_batching fid s))"
| step_append: "event_step s (snd (append_execution_event fid a s))"
| step_flush: "event_step s (snd (flush_execution_events fid s))"

text \<open>The table as it would be if the buffer of a run were flushed, and a batching state against a direct one.\<close>

definition batch_sim :: "uuid \<Rightarrow> string option \<Rightarrow> db \<Rightarrow> db \<Rightarrow> bool" where
  "batch_sim fid user s d \<longleftrightarrow> known_run s fid \<and> seq_wf s \<and> fid \<in> batching_flow_runs s \<and>
     fid \<notin> batching_flow_runs d \<and> fresh d = fresh s \<and> flow_runs d = flow_runs s \<and>
     (\<forall>b \<in> set (buffer_of s fid). be_user_id b = user) \<and>
     (\<exists>u. fst (event_user user fid s) = Inr u \<and>
        events d = events s @ number_from fid u (next_sequence s fid) (buffer_of s fid))"

subsection \<open>Numbering\<close>

lemma number_from_entries [simp]: "map entry_of (number_from fid u n bs) = map entry bs"
  by (induction bs arbitrary: n) (auto simp: entry_of_def entry_def stored_def)

lemma number_from_append:
  "number_from fid u n (bs @ cs) = number_from fid u n bs @ number_from fid u (n + int (length bs)) cs"
  by (induction bs arbitrary: n) (auto simp: algebra_simps)

lemma number_from_run: "e \<in> set (number_from fid u n bs) \<Longrightarrow> ev_flow_run_id e = fid \<and> ev_user_id e = u"
  by (induction bs arbitrary: n) (auto simp: stored_def)

lemma filter_number_from [simp]:
  "filter (\<lambda>e. ev_flow_run_id e = k) (number_from fid u n bs) = (if k = fid then number_from fid u n bs else [])"
  by (auto simp: filter_empty_conv filter_id_conv dest: number_from_run)

lemma length_number_from [simp]: "length (number_from fid u n bs) = length bs"
  by (induction bs arbitrary: n) auto

lemma number_from_sequence: "map ev_sequence (number_from fid u n bs) = [n..n + int (length bs) - 1]"
proof (induction bs arbitrary: n)
  case (Cons b bs)
  have "[n..n + int (length (b # bs)) - 1] = n # [n + 1..n + 1 + int (length bs) - 1]"
    by (subst upto_rec1) simp_all
  then show ?case using Cons [of "n + 1"] by (simp add: stored_def)
qed simp

lemma next_sequence_count:
  assumes "seq_wf s"
  shows "next_sequence s fid = int (length (events_of s fid)) + 1"
proof (cases "events_of s fid")
  case Nil
  then show ?thesis by (simp add: next_sequence_def)
next
  case (Cons e es)
  let ?k = "int (length (events_of s fid))"
  have ns: "map ev_sequence (events_of s fid) = [1..?k]" using assms by (simp add: seq_wf_def)
  have "fold max (map ev_sequence es) (ev_sequence e) = Max (set (map ev_sequence (events_of s fid)))"
    by (simp only: Cons list.map Max.set_eq_fold)
  also have "\<dots> = Max {1..?k}" by (simp only: ns set_upto)
  also have "\<dots> = ?k" using Cons by (intro Max_eqI) auto
  finally show ?thesis using Cons by (simp add: next_sequence_def)
qed

lemma seq_wf_extend:
  assumes "seq_wf s" "events s' = events s @ number_from fid u (next_sequence s fid) bs"
  shows "seq_wf s'"
  unfolding seq_wf_def
proof
  fix k
  show "map ev_sequence (events_of s' k) = [1..int (length (events_of s' k))]"
  proof (cases "k = fid")
    case False
    then have "events_of s' k = events_of s k" by (simp add: events_of_def assms(2))
    then show ?thesis using assms(1) by (simp add: seq_wf_def)
  next
    case True
    let ?n = "int (length (events_of s fid))"
    have "events_of s' k = events_of s fid @ number_from fid u (next_sequence s fid) bs"
      by (simp add: True events_of_def assms(2))
    then have "map ev_sequence (events_of s' k) = [1..?n] @ [?n + 1..?n + 1 + int (length bs) - 1]"
      using assms(1) next_sequence_count [OF assms(1), of fid] by (simp add: seq_wf_def number_from_sequence)
    also have "\<dots> = [1..?n + int (length bs)]" using upto_split2 [of 1 ?n "?n + int (length bs)"]
      by (cases "events_of s fid") (simp_all add: algebra_simps)
    finally show ?thesis by (simp add: True events_of_def assms(2))
  qed
qed

subsection \<open>What the event methods do\<close>

lemma event_user_known:
  assumes "user \<noteq> None \<or> known_run s fid"
  obtains u where "event_user user fid s = (Inr u, s)"
proof (cases user)
  case None
  with assms obtain r where "filter (\<lambda>r. fr_id r = fid) (flow_runs s) = [r]"
    by (auto simp: known_run_def length_Suc_conv)
  then have "event_user user fid s = (Inr (fr_user_id r), s)"
    by (simp add: None event_user_def run_user_def get_flow_run_def one_or_none_def comp_simps)
  then show thesis by (rule that)
next
  case (Some u)
  then have "event_user user fid s = (Inr u, s)" by (simp add: event_user_def comp_simps)
  then show thesis by (rule that)
qed

lemma event_user_state [simp]: "snd (event_user user fid s) = s"
  by (auto simp: event_user_def run_user_def get_flow_run_def comp_simps split: option.splits sum.splits)

lemma persist_ok:
  assumes "event_user (be_user_id (hd evs)) fid s = (Inr u, s)" "evs \<noteq> []"
  shows "persist_execution_events_batch fid evs s =
    (Inr (), s\<lparr>events := events s @ number_from fid u (next_sequence s fid) evs\<rparr>)"
  using assms by (cases evs) (auto simp: persist_execution_events_batch_def comp_simps)

lemma persist_fail:
  assumes "event_user (be_user_id (hd evs)) fid s = (Inl e, s)" "evs \<noteq> []"
  shows "persist_execution_events_batch fid evs s = (Inl e, s)"
  using assms by (cases evs) (auto simp: persist_execution_events_batch_def comp_simps)

lemma events_grow_reflp: "reflp events_grow"
  by (simp add: reflp_def events_grow_def)

lemma events_grow_transp: "transp events_grow"
proof (rule transpI)
  fix s t u
  assume a: "events_grow s t" "events_grow t u"
  then have "prefix (events s) (events u)"
    unfolding events_grow_def by (meson prefix_order.trans)
  then show "events_grow s u" using a by (simp add: events_grow_def)
qed

lemma seq_wf_cong: "events s' = events s \<Longrightarrow> seq_wf s' = seq_wf s"
  by (simp add: seq_wf_def events_of_def)

lemma events_grow_same: "events s' = events s \<Longrightarrow> events_grow s s'"
  by (simp add: events_grow_def seq_wf_def events_of_def)

lemma events_grow_number:
  "events s' = events s @ number_from fid u (next_sequence s fid) bs \<Longrightarrow> events_grow s s'"
  by (simp add: events_grow_def seq_wf_extend)

named_theorems growing "computations that only append numbered events"

lemma growing_ret [growing]: "keeps events_grow (ret x)"
  by (rule keeps_ret [OF events_grow_reflp])

lemma growing_raise [growing]: "keeps events_grow (raise e)"
  by (rule keeps_raise [OF events_grow_reflp])

lemma growing_get [growing]: "keeps events_grow (get f)"
  by (rule keeps_get [OF events_grow_reflp])

lemma growing_lift_res [growing]: "keeps events_grow (lift_res r)"
  by (rule keeps_lift_res [OF events_grow_reflp])

lemma growing_bind [growing]:
  "keeps events_grow m \<Longrightarrow> (\<And>x. keeps events_grow (f x)) \<Longrightarrow> keeps events_grow (bind m f)"
  by (rule keeps_bind [OF events_grow_transp])

lemma growing_catch [growing]:
  "keeps events_grow m \<Longrightarrow> (\<And>e. keeps events_grow (h e)) \<Longrightarrow> keeps events_grow (catch m h)"
  by (rule keeps_catch [OF events_grow_transp])

lemma growing_same: "(\<And>s. events (snd (m s)) = events s) \<Longrightarrow> keeps events_grow m"
  by (simp add: keeps_def events_grow_same)

lemma growing_modify: "(\<And>s. events (f s) = events s) \<Longrightarrow> keeps events_grow (modify f)"
  by (rule growing_same) (simp add: modify_def)

lemma growing_new_uuid [growing]: "keeps events_grow new_uuid"
  by (rule growing_same) (simp add: new_uuid_def)

lemma growing_event_user [growing]: "keeps events_grow (event_user u fid)"
  by (rule growing_same) simp

lemma growing_persist [growing]: "keeps events_grow (persist_execution_events_batch fid evs)"
  unfolding keeps_def
proof
  fix s
  show "events_grow s (snd (persist_execution_events_batch fid evs s))"
  proof (cases "evs = []")
    case True
    then show ?thesis by (simp add: persist_execution_events_batch_def comp_simps events_grow_same)
  next
    case False
    then show ?thesis
    proof (cases "event_user (be_user_id (hd evs)) fid s")
      case (Pair r t)
      then have t: "t = s" using event_user_state [of "be_user_id (hd evs)" fid s] by simp
      show ?thesis
      proof (cases r)
        case (Inl e)
        then show ?thesis using persist_fail [of evs fid s e] Pair t False by (simp add: events_grow_same)
      next
        case (Inr u)
        then show ?thesis using persist_ok [of evs fid s u] Pair t False by (simp add: events_grow_number)
      qed
    qed
  qed
qed

lemma growing_buffer_event [growing]: "keeps events_grow (buffer_event fid ev)"
  by (rule growing_same) (simp add: buffer_event_def Let_def)

lemma growing_store [growing]:
  "keeps events_grow (modify (\<lambda>s. s\<lparr>events := events s @ [stored fid u (next_sequence s fid) b]\<rparr>))"
  by (rule keeps_modify, rule events_grow_number [where bs = "[b]" and u = u and fid = fid]) simp

lemma growing_append [growing]: "keeps events_grow (append_execution_event fid a)"
  unfolding append_execution_event_def
  by (intro growing) (auto split: option.splits intro!: growing)

lemma growing_flush [growing]: "keeps events_grow (flush_execution_events fid)"
  unfolding flush_execution_events_def by (intro growing growing_modify) simp

lemma growing_safe_emit [growing]: "keeps events_grow (safe_emit t fid a)"
  unfolding safe_emit_def by (intro growing)

subsection \<open>The log as an interface\<close>

text \<open>
  What the runtime relies on: while the log of a key is ready, emitting never fails, adds exactly the
  new entry at its end, leaves the other logs alone and keeps it ready.
\<close>

locale event_log =
  fixes emit :: "'k \<Rightarrow> 'a \<Rightarrow> ('s, 'id) comp"
    and log :: "'s \<Rightarrow> 'k \<Rightarrow> 'e list"
    and ready :: "'s \<Rightarrow> 'k \<Rightarrow> bool"
    and mk :: "'a \<Rightarrow> 'id \<Rightarrow> 'e"
  assumes emit_law: "ready s k \<Longrightarrow> \<exists>i s'. emit k a s = (Inr i, s') \<and> ready s' k \<and>
    log s' k = log s k @ [mk a i] \<and> (\<forall>k'. k' \<noteq> k \<longrightarrow> log s' k' = log s k')"
begin

lemma emit_all:
  "ready s k \<Longrightarrow> \<exists>is s'. run_all (emit k) as s = (Inr is, s') \<and> ready s' k \<and> length is = length as \<and>
     log s' k = log s k @ map2 mk as is \<and> (\<forall>k'. k' \<noteq> k \<longrightarrow> log s' k' = log s k')"
proof (induction as arbitrary: s)
  case Nil
  then show ?case by (simp add: ret_def)
next
  case (Cons a as)
  obtain i s1 where s1: "emit k a s = (Inr i, s1)" "ready s1 k" "log s1 k = log s k @ [mk a i]"
      "\<forall>k'. k' \<noteq> k \<longrightarrow> log s1 k' = log s k'"
    using emit_law [OF Cons.prems] by blast
  obtain "is" s2 where "run_all (emit k) as s1 = (Inr is, s2)" "ready s2 k" "length is = length as"
      "log s2 k = log s1 k @ map2 mk as is" "\<forall>k'. k' \<noteq> k \<longrightarrow> log s2 k' = log s1 k'"
    using Cons.IH [OF s1(2)] by blast
  then show ?case using s1 by (intro exI [of _ "i # is"] exI [of _ s2]) (simp add: comp_simps)
qed

end

lemma buffer_of_update [simp]:
  "buffer_of (s\<lparr>event_batch_buffer := AList.update k evs b\<rparr>) fid =
   (if fid = k then evs else dict_get b fid [])"
  by (simp add: buffer_of_def dict_get_def update_conv)

lemma entry_stored [simp]: "entry_of (stored fid u n b) = entry b"
  by (simp add: entry_of_def entry_def stored_def)

lemma buffered_user [simp]: "be_user_id (buffered a i) = ea_user_id a"
  by (simp add: buffered_def)

lemma append_direct:
  assumes "fid \<notin> batching_flow_runs s" "ea_user_id a \<noteq> None \<or> known_run s fid"
  obtains u where "event_user (ea_user_id a) fid s = (Inr u, s)"
    "append_execution_event (Some fid) a s = (Inr (fresh s),
       s\<lparr>fresh := Suc (fresh s), events := events s @ number_from fid u (next_sequence s fid) [buffered a (fresh s)]\<rparr>)"
proof -
  obtain u where u: "event_user (ea_user_id a) fid s = (Inr u, s)" using event_user_known [OF assms(2)] .
  have "event_user (ea_user_id a) fid (s\<lparr>fresh := Suc (fresh s)\<rparr>) = (Inr u, s\<lparr>fresh := Suc (fresh s)\<rparr>)"
    using u by (auto simp: event_user_def run_user_def get_flow_run_def comp_simps split: option.splits sum.splits)
  then have "append_execution_event (Some fid) a s = (Inr (fresh s),
       s\<lparr>fresh := Suc (fresh s), events := events s @ number_from fid u (next_sequence s fid) [buffered a (fresh s)]\<rparr>)"
    using assms(1)
    by (simp add: append_execution_event_def new_uuid_def comp_simps next_sequence_def events_of_def)
  with u show thesis by (rule that)
qed

lemma append_batched:
  fixes a :: event_args
  assumes "fid \<in> batching_flow_runs s" "known_run s fid"
  defines "evs \<equiv> buffer_of s fid @ [buffered a (fresh s)]"
  obtains (keep) "int (length evs) < event_batch_size s"
    "append_execution_event (Some fid) a s = (Inr (fresh s),
       s\<lparr>fresh := Suc (fresh s), event_batch_buffer := AList.update fid evs (event_batch_buffer s)\<rparr>)"
  | (flush) u where "event_user (be_user_id (hd evs)) fid s = (Inr u, s)"
    "append_execution_event (Some fid) a s = (Inr (fresh s),
       s\<lparr>fresh := Suc (fresh s), event_batch_buffer := AList.update fid [] (event_batch_buffer s),
         events := events s @ number_from fid u (next_sequence s fid) evs\<rparr>)"
proof (cases "int (length evs) < event_batch_size s")
  case True
  then have "append_execution_event (Some fid) a s = (Inr (fresh s),
       s\<lparr>fresh := Suc (fresh s), event_batch_buffer := AList.update fid evs (event_batch_buffer s)\<rparr>)"
    using assms(1)
    by (auto simp: append_execution_event_def new_uuid_def buffer_event_def comp_simps evs_def buffer_of_def Let_def)
  with True show thesis by (rule keep)
next
  case False
  obtain u where u: "event_user (be_user_id (hd evs)) fid s = (Inr u, s)"
    using event_user_known [of "be_user_id (hd evs)" s fid] assms(2) by blast
  let ?s = "s\<lparr>fresh := Suc (fresh s), event_batch_buffer := AList.update fid [] (event_batch_buffer s)\<rparr>"
  have "event_user (be_user_id (hd evs)) fid ?s = (Inr u, ?s)"
    using u by (auto simp: event_user_def run_user_def get_flow_run_def comp_simps split: option.splits sum.splits)
  then have "persist_execution_events_batch fid evs ?s =
      (Inr (), ?s\<lparr>events := events s @ number_from fid u (next_sequence s fid) evs\<rparr>)"
    using persist_ok [of evs fid ?s u] by (simp add: evs_def next_sequence_def events_of_def)
  then have "append_execution_event (Some fid) a s = (Inr (fresh s),
       ?s\<lparr>events := events s @ number_from fid u (next_sequence s fid) evs\<rparr>)"
    using assms(1) False
    by (auto simp: append_execution_event_def new_uuid_def buffer_event_def comp_simps evs_def buffer_of_def Let_def)
  with u show thesis by (intro flush) simp_all
qed

lemma stored_run [simp]: "ev_flow_run_id (stored fid u n b) = fid"
  by (simp add: stored_def)

lemma append_law:
  assumes "ready_run s fid"
  shows "\<exists>s'. append_execution_event (Some fid) a s = (Inr (fresh s), s') \<and> ready_run s' fid \<and>
    event_log_of s' fid = event_log_of s fid @ [entry (buffered a (fresh s))] \<and>
    (\<forall>k. k \<noteq> fid \<longrightarrow> event_log_of s' k = event_log_of s k)"
proof (cases "fid \<in> batching_flow_runs s")
  case False
  then have "ea_user_id a \<noteq> None \<or> known_run s fid" "buffer_of s fid = []"
    using assms by (simp_all add: ready_run_def)
  with False show ?thesis
    by (elim append_direct [where a = a])
      (use assms in \<open>auto simp: event_log_of_def events_of_def buffer_of_def known_run_def ready_run_def\<close>)
next
  case True
  have "known_run s fid" using assms by (simp add: ready_run_def)
  with True show ?thesis
  proof (cases rule: append_batched [where a = a])
    case keep
    then show ?thesis using assms True
      by (auto simp: event_log_of_def events_of_def known_run_def ready_run_def buffer_of_def dict_get_def update_conv)
  next
    case (flush u)
    then show ?thesis using assms True
      by (auto simp: event_log_of_def events_of_def known_run_def ready_run_def buffer_of_def dict_get_def update_conv)
  qed
qed

interpretation run_log: event_log
  "\<lambda>fid. append_execution_event (Some fid)" event_log_of ready_run "\<lambda>a i. entry (buffered a i)"
  using append_law by unfold_locales blast

subsection \<open>Batching\<close>

lemma ready_start:
  assumes "known_run s fid"
  obtains s' where "start_event_batching fid s = (Inr (), s')" "ready_run s' fid" "events s' = events s"
    "fresh s' = fresh s" "flow_runs s' = flow_runs s" "fid \<in> batching_flow_runs s'" "\<And>k. buffer_of s' k = buffer_of s k"
    "event_batch_size s' = event_batch_size s"
  using assms
  by (intro that [of "snd (start_event_batching fid s)"])
    (auto simp: start_event_batching_def modify_def ready_run_def known_run_def buffer_of_def dict_get_def
      update_conv split: option.splits)

lemma buffer_of_delete [simp]:
  "buffer_of (s\<lparr>batching_flow_runs := B, event_batch_buffer := AList.delete k b\<rparr>) fid =
   (if fid = k then [] else dict_get b fid [])"
  by (simp add: buffer_of_def dict_get_def delete_conv)

lemma flush_run:
  assumes "known_run s fid"
  obtains s' u where "flush_execution_events fid s = (Inr (), s')"
    "event_user (be_user_id (hd (buffer_of s fid))) fid s = (Inr u, s)"
    "events s' = events s @ number_from fid u (next_sequence s fid) (buffer_of s fid)"
    "buffer_of s' fid = []" "\<And>k. k \<noteq> fid \<Longrightarrow> buffer_of s' k = buffer_of s k"
proof -
  let ?evs = "buffer_of s fid"
  let ?s = "s\<lparr>batching_flow_runs := batching_flow_runs s - {fid},
         event_batch_buffer := AList.delete fid (event_batch_buffer s)\<rparr>"
  obtain u where u: "event_user (be_user_id (hd ?evs)) fid s = (Inr u, s)"
    using event_user_known [of "be_user_id (hd ?evs)" s fid] assms by blast
  then have "event_user (be_user_id (hd ?evs)) fid ?s = (Inr u, ?s)"
    by (auto simp: event_user_def run_user_def get_flow_run_def comp_simps split: option.splits sum.splits)
  then have "persist_execution_events_batch fid ?evs ?s =
      (Inr (), ?s\<lparr>events := events s @ number_from fid u (next_sequence s fid) ?evs\<rparr>)"
    using persist_ok [of ?evs fid ?s u]
    by (cases "?evs = []") (auto simp: next_sequence_def events_of_def persist_execution_events_batch_def comp_simps)
  then have "flush_execution_events fid s =
      (Inr (), ?s\<lparr>events := events s @ number_from fid u (next_sequence s fid) ?evs\<rparr>)"
    by (simp add: flush_execution_events_def comp_simps)
  then show thesis
    by (rule that) (use u in \<open>simp_all add: buffer_of_def dict_get_def delete_conv\<close>)
qed

lemma flush_log:
  assumes "known_run s fid" "flush_execution_events fid s = (r, s')"
  shows "r = Inr ()" "map entry_of (events_of s' fid) = event_log_of s fid" "buffer_of s' fid = []"
    "k \<noteq> fid \<Longrightarrow> event_log_of s' k = event_log_of s k"
  using assms
  by (elim flush_run; force simp: event_log_of_def events_of_def)+

text \<open>C26: A batch loses nothing and reorders nothing.  For a run the repository knows, starting
  batching, appending any list of events and ending the batch succeeds, returns one id per event, and
  the run's rows in the table are then exactly its log before the batch followed by the new events in
  the order they were appended, whatever the batch size; no event is left in the buffer and the log of
  every other run is untouched.\<close>

theorem batched_log:
  assumes "known_run s fid"
  shows "\<exists>ids s'. batched fid as s = (Inr ids, s') \<and> length ids = length as \<and>
    map entry_of (events_of s' fid) = event_log_of s fid @ map2 (\<lambda>a i. entry (buffered a i)) as ids \<and>
    buffer_of s' fid = [] \<and> (\<forall>k. k \<noteq> fid \<longrightarrow> event_log_of s' k = event_log_of s k)"
proof -
  obtain s1 where s1: "start_event_batching fid s = (Inr (), s1)" "ready_run s1 fid" "events s1 = events s"
      "\<And>k. buffer_of s1 k = buffer_of s k"
    using ready_start [OF assms] by blast
  have log: "event_log_of s1 k = event_log_of s k" for k
    using s1 by (simp add: event_log_of_def events_of_def)
  obtain ids s2 where s2: "run_all (append_execution_event (Some fid)) as s1 = (Inr ids, s2)" "ready_run s2 fid"
      "length ids = length as"
      "event_log_of s2 fid = event_log_of s1 fid @ map2 (\<lambda>a i. entry (buffered a i)) as ids"
      "\<forall>k. k \<noteq> fid \<longrightarrow> event_log_of s2 k = event_log_of s1 k"
    using run_log.emit_all [OF s1(2)] by blast
  obtain r s3 where s3: "flush_execution_events fid s2 = (r, s3)" by fastforce
  note fl = flush_log [OF _ s3] 
  have "known_run s2 fid" using s2(2) by (simp add: ready_run_def)
  from fl [OF this] show ?thesis
    using s1(1) s2 s3 log by (simp add: batched_def end_event_batching_def comp_simps)
qed

theorem batched_log_witness:
  "length (events_of (snd (batched 100
     (replicate 21 \<lparr>ea_tenant_id = 1, ea_user_id = Some ''u'', ea_session_id = 1, ea_type = ''NodeStarted'',
       ea_payload = [], ea_correlation_id = 3, ea_causation_id = None, ea_schema_version = 1,
       ea_node_id = None, ea_edge_id = None\<rparr>)
     (snd (create_flow_run demo_args empty_db)))) 100) = 21" (is "length (events_of (snd (batched 100 ?as ?s)) 100) = 21")
proof -
  have k: "known_run ?s 100" and e: "event_log_of ?s 100 = []" by code_simp+
  obtain ids s' where r: "batched 100 ?as ?s = (Inr ids, s')" "length ids = length ?as"
      "map entry_of (events_of s' 100) = event_log_of ?s 100 @ map2 (\<lambda>a i. entry (buffered a i)) ?as ids"
    using batched_log [OF k, of ?as] by blast
  then have "length (map entry_of (events_of s' 100)) = 21" by (simp only: e) simp
  with r(1) show ?thesis by simp
qed

lemma event_user_cong:
  "flow_runs d = flow_runs s \<Longrightarrow> fst (event_user user fid d) = fst (event_user user fid s)"
  by (auto simp: event_user_def run_user_def get_flow_run_def comp_simps split: option.splits sum.splits)

lemma next_sequence_extend:
  assumes "seq_wf s" "events d = events s @ number_from fid u (next_sequence s fid) bs"
  shows "next_sequence d fid = next_sequence s fid + int (length bs)"
proof -
  have "length (events_of d fid) = length (events_of s fid) + length bs"
    by (simp add: events_of_def assms(2))
  then show ?thesis
    using next_sequence_count [OF assms(1), of fid] next_sequence_count [OF seq_wf_extend [OF assms], of fid] by simp
qed

lemma batch_sim_append:
  assumes sim: "batch_sim fid user s d" and a: "ea_user_id a = user"
  obtains s' d' where "append_execution_event (Some fid) a s = (Inr (fresh s), s')"
    "append_execution_event (Some fid) a d = (Inr (fresh s), d')" "batch_sim fid user s' d'"
proof -
  let ?b = "buffered a (fresh s)"
  let ?evs = "buffer_of s fid @ [?b]"
  obtain u where u: "fst (event_user user fid s) = Inr u"
      "events d = events s @ number_from fid u (next_sequence s fid) (buffer_of s fid)"
    using sim by (auto simp: batch_sim_def)
  have s: "known_run s fid" "fid \<in> batching_flow_runs s" "seq_wf s" and d: "fid \<notin> batching_flow_runs d" "known_run d fid"
    using sim by (auto simp: batch_sim_def known_run_def)
  have eqs: "fresh d = fresh s" "flow_runs d = flow_runs s" using sim by (auto simp: batch_sim_def)
  have hd_user: "be_user_id (hd ?evs) = user" using sim a by (cases "buffer_of s fid") (auto simp: batch_sim_def)
  obtain v where "event_user user fid d = (Inr v, d)"
      and app_d: "append_execution_event (Some fid) a d = (Inr (fresh d),
       d\<lparr>fresh := Suc (fresh d), events := events d @ number_from fid v (next_sequence d fid) [buffered a (fresh d)]\<rparr>)"
    using append_direct [OF d(1), of a] d(2) a by blast
  then have v: "v = u" using u(1) event_user_cong [OF eqs(2), of user fid] by simp
  let ?d = "d\<lparr>fresh := Suc (fresh s), events := events s @ number_from fid u (next_sequence s fid) ?evs\<rparr>"
  have d': "append_execution_event (Some fid) a d = (Inr (fresh s), ?d)"
    using app_d by (simp add: v eqs u(2) number_from_append next_sequence_extend [OF s(3) u(2)])
  show thesis
  proof (cases rule: append_batched [OF s(2,1), of a])
    case 1
    let ?s = "s\<lparr>fresh := Suc (fresh s), event_batch_buffer := AList.update fid ?evs (event_batch_buffer s)\<rparr>"
    have ev: "fst (event_user user fid ?s) = Inr u" using event_user_cong [of ?s s user fid] u(1) by simp
    have "batch_sim fid user ?s ?d"
      using sim a ev eqs
      by (auto simp: batch_sim_def known_run_def seq_wf_def events_of_def next_sequence_def number_from_append)
    then show thesis using 1 d' by (intro that) auto
  next
    case (2 w)
    let ?s = "s\<lparr>fresh := Suc (fresh s), event_batch_buffer := AList.update fid [] (event_batch_buffer s),
         events := events s @ number_from fid u (next_sequence s fid) ?evs\<rparr>"
    have w: "w = u" using 2(1) u(1) hd_user by simp
    have ev: "fst (event_user user fid ?s) = Inr u" using event_user_cong [of ?s s user fid] u(1) by simp
    have "seq_wf ?s" by (rule seq_wf_extend [OF s(3)]) simp
    moreover have "buffer_of ?s fid = []" by (simp add: buffer_of_def dict_get_def update_conv)
    ultimately have "batch_sim fid user ?s ?d"
      using sim ev eqs by (simp add: batch_sim_def known_run_def)
    then show thesis using 2(2) d' w by (intro that) auto
  qed
qed

lemma batch_sim_appends:
  assumes "batch_sim fid user s d" "\<forall>a \<in> set as. ea_user_id a = user"
  shows "\<exists>ids s' d'. run_all (append_execution_event (Some fid)) as s = (Inr ids, s') \<and>
    run_all (append_execution_event (Some fid)) as d = (Inr ids, d') \<and> batch_sim fid user s' d'"
  using assms
proof (induction as arbitrary: s d)
  case Nil
  then show ?case by (simp add: comp_simps)
next
  case (Cons a as)
  have a: "ea_user_id a = user" "\<forall>a \<in> set as. ea_user_id a = user" using Cons.prems(2) by simp_all
  obtain s1 d1 where 1: "append_execution_event (Some fid) a s = (Inr (fresh s), s1)"
    "append_execution_event (Some fid) a d = (Inr (fresh s), d1)" "batch_sim fid user s1 d1"
    using batch_sim_append [OF Cons.prems(1) a(1)] .
  obtain ids s2 d2 where "run_all (append_execution_event (Some fid)) as s1 = (Inr ids, s2)"
    "run_all (append_execution_event (Some fid)) as d1 = (Inr ids, d2)" "batch_sim fid user s2 d2"
    using Cons.IH [OF 1(3) a(2)] by blast
  then show ?case using 1 by (simp add: comp_simps)
qed



text \<open>C13: Events are never changed, reordered or lost once stored, and every run's events are numbered
  1, 2, 3, ... without gaps or duplicates.  This holds through any sequence of event operations, the
  ones that fail included.\<close>

theorem event_table_append_only:
  assumes "event_step\<^sup>*\<^sup>* s s'" "seq_wf s"
  shows "seq_wf s' \<and> prefix (events s) (events s')"
  using assms
proof (induction rule: rtranclp_induct)
  case base
  then show ?case by simp
next
  case (step t u)
  from step.hyps(2) have "events_grow t u"
  proof cases
    case (step_start fid)
    then show ?thesis by (auto simp: start_event_batching_def modify_def intro: events_grow_same)
  next
    case (step_append fid a)
    then show ?thesis using growing_append by (simp add: keeps_def)
  next
    case (step_flush fid)
    then show ?thesis using growing_flush by (simp add: keeps_def)
  qed
  then show ?case using step.IH step.prems unfolding events_grow_def by (meson prefix_order.trans)
qed

theorem event_table_append_only_witness:
  "seq_wf (snd (append_execution_event (Some 100) (hook_event \<lparr>ha_tenant_id = 1, ha_user_id = None, ha_session_id = 1,
     ha_flow_run_id = 100, ha_correlation_id = 3, ha_payload = [], ha_causation_id = None, ha_schema_version = 1\<rparr> None None)
     (snd (start_event_batching 100 empty_db))))"
proof -
  have "seq_wf empty_db" by (simp add: seq_wf_def events_of_def empty_db_def)
  moreover have "event_step\<^sup>*\<^sup>* empty_db (snd (append_execution_event (Some 100) a (snd (start_event_batching 100 empty_db))))" for a
    using step_append step_start by (meson converse_rtranclp_into_rtranclp r_into_rtranclp)
  ultimately show ?thesis using event_table_append_only by blast
qed

text \<open>A flush that fails loses the batch.  \<open>flush_execution_events\<close> takes the events out of the
  buffer before it looks up the user to store them under: for a run the store does not know and events
  without a user it raises \<open>flow_run_user_not_found\<close>, stores nothing and leaves the buffer empty.\<close>

theorem flush_failure_loses_events:
  assumes "\<forall>r \<in> set (flow_runs s). fr_id r \<noteq> fid" "buffer_of s fid = b # bs" "be_user_id b = None"
  shows "\<exists>s'. flush_execution_events fid s = (Inl (not_found ''flow_run_user_not_found''), s') \<and>
    events s' = events s \<and> buffer_of s' fid = []"
proof -
  have "filter (\<lambda>r. fr_id r = fid) (flow_runs s) = []" using assms(1) by (simp add: filter_empty_conv)
  then show ?thesis
    using assms(2,3)
    by (simp add: flush_execution_events_def persist_execution_events_batch_def event_user_def run_user_def
        get_flow_run_def one_or_none_def comp_simps)
qed

theorem flush_failure_loses_events_witness:
  "(let e = buffered (hook_event \<lparr>ha_tenant_id = 1, ha_user_id = None, ha_session_id = 1, ha_flow_run_id = 9,
              ha_correlation_id = 3, ha_payload = [], ha_causation_id = None, ha_schema_version = 1\<rparr> None None) 1;
        s = empty_db\<lparr>batching_flow_runs := {9}, event_batch_buffer := [(9, [e])]\<rparr>
    in fst (flush_execution_events 9 s) = Inl (not_found ''flow_run_user_not_found'')
       \<and> buffer_of (snd (flush_execution_events 9 s)) 9 = [])"
proof -
  define e where "e = buffered (hook_event \<lparr>ha_tenant_id = 1, ha_user_id = None, ha_session_id = 1, ha_flow_run_id = 9,
              ha_correlation_id = 3, ha_payload = [], ha_causation_id = None, ha_schema_version = 1\<rparr> None None) 1"
  define s where "s = empty_db\<lparr>batching_flow_runs := {9}, event_batch_buffer := [(9, [e])]\<rparr>"
  have "flow_runs s = []" "buffer_of s 9 = [e]" "be_user_id e = None"
    by (simp_all add: s_def e_def empty_db_def buffer_of_def dict_get_def hook_event_def)
  then show ?thesis
    using flush_failure_loses_events [of s 9 e "[]"] by (auto simp: Let_def s_def e_def)
qed

lemma subscribers_run:
  "subscribers (Suc n) ms err s = (Inr err, fold (\<lambda>m t. snd (m t)) ms s)"
proof (induction ms arbitrary: n s)
  case (Cons m ms)
  show ?case by (cases "m s"; cases "fst (m s)") (auto simp: comp_simps Cons)
qed (simp add: comp_simps)

text \<open>A composite hook runs every subscriber exactly once and in order, whatever the others do: it
  ends in the state all of them leave one after the other, and it raises exactly what the first
  subscriber, the database hook, raised.\<close>

theorem composite_runs_all:
  "hk_flow_complete (CompositeHook (db_hook # rest)) h s =
     (fst (hk_flow_complete db_hook h s), fold (\<lambda>k t. snd (hk_flow_complete k h t)) (db_hook # rest) s)"
  by (cases "hk_flow_complete db_hook h s"; cases "fst (hk_flow_complete db_hook h s)")
    (auto simp: CompositeHook_def composite_def comp_simps subscribers_run fold_map comp_def)

end
