(* ===== verification/PyConv.thy ===== *)
theory PyConv
  imports PyValue
begin

text \<open>
  Conversions of Python values the runtime uses: \<open>int(v)\<close>, \<open>str(v)\<close> and \<open>dict(v)\<close>.  Digits are the
  ASCII ones.  The text of a float or of a container is a parameter \<open>rp\<close> (its \<open>repr\<close>); the other
  values are written out.
\<close>

subsection \<open>Integers\<close>

definition digit :: "char \<Rightarrow> nat option" where
  "digit c = (let n = (of_char c :: nat) in if 48 \<le> n \<and> n \<le> 57 then Some (n - 48) else None)"

text \<open>Decimal digits, with single underscores between them.\<close>

fun dec_digits :: "nat \<Rightarrow> bool \<Rightarrow> string \<Rightarrow> nat option" where
  "dec_digits acc ok [] = (if ok then Some acc else None)"
| "dec_digits acc ok (c # cs) =
     (case digit c of
        Some d \<Rightarrow> dec_digits (10 * acc + d) True cs
      | None \<Rightarrow> if c = CHR ''_'' \<and> ok then dec_digits acc False cs else None)"

text \<open>The interpreter refuses to convert more than 4300 digits.\<close>

definition dec_nat :: "string \<Rightarrow> exn + int" where
  "dec_nat s =
     (if length (filter (\<lambda>c. digit c \<noteq> None) s) > 4300 then Inl (Py ValueError)
      else case dec_digits 0 False s of None \<Rightarrow> Inl (Py ValueError) | Some n \<Rightarrow> Inr (int n))"

definition parse_int :: "string \<Rightarrow> exn + int" where
  "parse_int s =
     (case py_strip s of
        [] \<Rightarrow> Inl (Py ValueError)
      | c # cs \<Rightarrow>
          if c = CHR ''-'' then rbind (dec_nat cs) (\<lambda>n. Inr (- n))
          else if c = CHR ''+'' then dec_nat cs
          else dec_nat (c # cs))"

fun py_int :: "pyval \<Rightarrow> exn + int" where
  "py_int (PInt i) = Inr i"
| "py_int (PBool b) = Inr (if b then 1 else 0)"
| "py_int (PFloat r) = Inr (if r < 0 then \<lceil>r\<rceil> else \<lfloor>r\<rfloor>)"
| "py_int (PStr s) = parse_int s"
| "py_int _ = Inl (Py TypeError)"

subsection \<open>Strings\<close>

fun nat_str :: "nat \<Rightarrow> string" where
  "nat_str n = (if n < 10 then [char_of (48 + n)] else nat_str (n div 10) @ [char_of (48 + n mod 10)])"

definition int_str :: "int \<Rightarrow> string" where
  "int_str i = (if i < 0 then CHR ''-'' # nat_str (nat (- i)) else nat_str (nat i))"

fun py_str :: "(pyval \<Rightarrow> string) \<Rightarrow> pyval \<Rightarrow> string" where
  "py_str rp (PStr s) = s"
| "py_str rp (PInt i) = int_str i"
| "py_str rp (PBool b) = (if b then ''True'' else ''False'')"
| "py_str rp PNone = ''None''"
| "py_str rp v = rp v"

subsection \<open>Dictionaries\<close>

text \<open>
  One element of a sequence of pairs: a pair whose key is a string (the only keys a JSON object has), or
  a string of two characters.
\<close>

definition pair_item :: "pyval list \<Rightarrow> exn + string \<times> pyval" where
  "pair_item xs =
     (if length xs \<noteq> 2 then Inl (Py ValueError)
      else case xs ! 0 of PStr k \<Rightarrow> Inr (k, xs ! 1) | _ \<Rightarrow> Inl (Py TypeError))"

definition dict_item :: "pyval \<Rightarrow> exn + string \<times> pyval" where
  "dict_item v = rbind (py_iter v) pair_item"

fun dict_items :: "pyval list \<Rightarrow> pydict \<Rightarrow> exn + pydict" where
  "dict_items [] d = Inr d"
| "dict_items (v # vs) d = rbind (dict_item v) (\<lambda>(k, w). dict_items vs (AList.update k w d))"

definition py_dict :: "pyval \<Rightarrow> exn + pydict" where
  "py_dict v = (case v of PDict d \<Rightarrow> Inr d | _ \<Rightarrow> rbind (py_iter v) (\<lambda>vs. dict_items vs []))"

subsection \<open>Round trip of integers\<close>

declare nat_str.simps [simp del]

lemma digit_char [simp]: "n < 10 \<Longrightarrow> digit (char_of (48 + n)) = Some n"
  by (simp add: digit_def)

lemma dec_digits_snoc:
  "dec_digits acc ok cs = Some m \<Longrightarrow> d < 10 \<Longrightarrow>
   dec_digits acc ok (cs @ [char_of (48 + d)]) = Some (10 * m + d)"
proof (induction acc ok cs rule: dec_digits.induct)
  case (1 acc ok)
  then show ?case by (auto split: if_splits)
next
  case (2 acc ok c cs)
  then show ?case by (auto split: option.splits if_splits)
qed

lemma dec_digits_nat_str: "dec_digits 0 False (nat_str n) = Some n"
proof (induction n rule: nat_str.induct)
  case (1 n)
  show ?case
  proof (cases "n < 10")
    case True
    then show ?thesis by (subst nat_str.simps) simp
  next
    case False
    then have "dec_digits 0 False (nat_str (n div 10) @ [char_of (48 + n mod 10)]) = Some (10 * (n div 10) + n mod 10)"
      using 1 by (intro dec_digits_snoc) auto
    then show ?thesis using False by (subst nat_str.simps) (simp add: mult.commute)
  qed
qed

end
