(* ===== verification/NodeStepRunner.thy ===== *)
theory NodeStepRunner
  imports EventLog EdgeEvaluator GraphCompiler StateMachine PyUuid PyConv
begin

text \<open>
  One step of a flow run: \<open>NodeStepRunner\<close> of
  \<^verbatim>\<open>src/src/domain/execution/services/graph_runtime/node_step_runner.py\<close> with the types of
  \<^verbatim>\<open>types.py\<close> and \<^verbatim>\<open>fallback_reason_resolver.py\<close>.

  A node executor is an argument: a function that reads the context and the node's configuration, may
  change the database, and returns a result or raises.  The registry gives for a node type the outcome
  of constructing the node.  The dictionary of loop counters, which every copy of the context shares,
  is part of the state.  The streaming callback of the context is left out.
\<close>

subsection \<open>Types of the runtime\<close>

datatype NodeExecutionStatus = SUCCESS | ERROR | NEEDS_INPUT

definition node_execution_status :: "NodeExecutionStatus \<Rightarrow> string" where
  "node_execution_status s = (case s of SUCCESS \<Rightarrow> ''SUCCESS'' | ERROR \<Rightarrow> ''ERROR'' | NEEDS_INPUT \<Rightarrow> ''NEEDS_INPUT'')"

datatype FlowFailureReason =
    POLICY_VIOLATION | TIMEOUT | STRUCTURAL_ERROR | CIRCUIT_BREAKER_OPEN | MISSING_GRAPH
  | MAX_STEPS_EXCEEDED | NODE_NOT_FOUND | UNKNOWN_NODE_TYPE | NO_MATCHING_EDGE
  | EDGE_EVALUATION_ERROR | MULTIPLE_MATCHING_EDGES

definition failure_reason_value :: "FlowFailureReason \<Rightarrow> string" where
  "failure_reason_value r = (case r of
       POLICY_VIOLATION \<Rightarrow> ''POLICY_VIOLATION'' | TIMEOUT \<Rightarrow> ''TIMEOUT''
     | STRUCTURAL_ERROR \<Rightarrow> ''STRUCTURAL_ERROR'' | CIRCUIT_BREAKER_OPEN \<Rightarrow> ''CIRCUIT_BREAKER_OPEN''
     | MISSING_GRAPH \<Rightarrow> ''MISSING_GRAPH'' | MAX_STEPS_EXCEEDED \<Rightarrow> ''MAX_STEPS_EXCEEDED''
     | NODE_NOT_FOUND \<Rightarrow> ''NODE_NOT_FOUND'' | UNKNOWN_NODE_TYPE \<Rightarrow> ''UNKNOWN_NODE_TYPE''
     | NO_MATCHING_EDGE \<Rightarrow> ''NO_MATCHING_EDGE'' | EDGE_EVALUATION_ERROR \<Rightarrow> ''EDGE_EVALUATION_ERROR''
     | MULTIPLE_MATCHING_EDGES \<Rightarrow> ''MULTIPLE_MATCHING_EDGES'')"

record ExecutionContext =
  cx_tenant_id :: uuid
  cx_interaction_id :: uuid
  cx_user_id :: string
  cx_session_id :: uuid
  cx_input_payload :: "pydict option"
  cx_flow_id :: uuid
  cx_flow_version_id :: uuid
  cx_flow_run_id :: uuid
  cx_correlation_id :: uuid
  cx_trace_id :: "uuid option"
  cx_current_node_id :: string
  cx_current_node_run_id :: "uuid option"
  cx_available_tools :: "available_tool list"
  cx_state :: pydict
  cx_memory :: "pydict list"
  cx_metadata :: pydict
  cx_node_output :: pydict
  cx_system_prompt :: "string option"
  cx_system_context :: "string option"

record LLMUsageRecord =
  us_provider :: "string option"
  us_provider_model :: "string option"
  us_task_type :: "string option"
  us_inference_layer :: "string option"
  us_input_tokens :: int
  us_output_tokens :: int
  us_cost_usd :: "rat option"
  us_agent_version_id :: "uuid option"
  us_ai_execution_policy_version_id :: "uuid option"
  us_latency_ms :: "int option"

record NodeResult =
  nd_node :: string
  nd_status :: NodeExecutionStatus
  nd_data :: pydict
  nd_error :: "pydict option"
  nd_metrics :: "pydict option"
  nd_next_state :: "pydict option"
  nd_memory :: "pydict list option"
  nd_usage :: "LLMUsageRecord option"

text \<open>
  A node's \<open>execute\<close>; besides its result it leaves the tools of the context, the one field a node assigns.
  A node class either raises when it is constructed or gives such a function.
\<close>

type_synonym node = "ExecutionContext \<Rightarrow> pydict \<Rightarrow> (db, NodeResult \<times> available_tool list) comp"
type_synonym node_cls = "exn + node"

text \<open>
  What the runtime is built with: the registry, the event hook, and the parameters of the model: object
  identity, pydantic's dump of a usage record, the text of a built-in exception and of a value.
\<close>

record runtime =
  rt_registry :: "string \<Rightarrow> node_cls option"
  rt_hook :: "db event_hook option"
  rt_same :: "pyval \<Rightarrow> pyval \<Rightarrow> bool"
  rt_dump_usage :: "LLMUsageRecord \<Rightarrow> pyval"
  rt_message :: "py_kind \<Rightarrow> string"
  rt_repr :: "pyval \<Rightarrow> string"

type_synonym counters = "(string \<times> int) list"

definition on_db :: "('d, 'a) comp \<Rightarrow> ('d \<times> 'x, 'a) comp" where
  "on_db m s = (case m (fst s) of (r, d) \<Rightarrow> (r, (d, snd s)))"

subsection \<open>Fallback reasons\<close>

datatype SLAFallbackReason = LOW_CONFIDENCE | TOOL_FAILURE | FR_TIMEOUT | EXECUTION_LIMIT | POLICY_BLOCK
  | UNKNOWN_INTENT | USER_REQUESTED_HUMAN | USER_FRUSTRATION | USER_ANGER | USER_INSULT

definition fallback_reason_value :: "SLAFallbackReason \<Rightarrow> string" where
  "fallback_reason_value r = (case r of
       LOW_CONFIDENCE \<Rightarrow> ''LOW_CONFIDENCE'' | TOOL_FAILURE \<Rightarrow> ''TOOL_FAILURE'' | FR_TIMEOUT \<Rightarrow> ''TIMEOUT''
     | EXECUTION_LIMIT \<Rightarrow> ''EXECUTION_LIMIT'' | POLICY_BLOCK \<Rightarrow> ''POLICY_BLOCK''
     | UNKNOWN_INTENT \<Rightarrow> ''UNKNOWN_INTENT'' | USER_REQUESTED_HUMAN \<Rightarrow> ''USER_REQUESTED_HUMAN''
     | USER_FRUSTRATION \<Rightarrow> ''USER_FRUSTRATION'' | USER_ANGER \<Rightarrow> ''USER_ANGER'' | USER_INSULT \<Rightarrow> ''USER_INSULT'')"

definition has_intent :: "pydict \<Rightarrow> bool" where
  "has_intent out =
     (case map_of out ''result'' of
        Some (PList (PDict first # _)) \<Rightarrow>
          (case map_of first ''intent_type'' of Some (PStr s) \<Rightarrow> py_strip s \<noteq> [] | _ \<Rightarrow> False)
      | _ \<Rightarrow> False)"

definition resolve_fallback_reason :: "string \<Rightarrow> pydict \<Rightarrow> SLAFallbackReason" where
  "resolve_fallback_reason node_type out =
     (if node_type = ''ContentModeration'' then POLICY_BLOCK
      else if node_type = ''ToolErrorHandlerNode'' then TOOL_FAILURE
      else if node_type = ''ToolExecutor'' then TOOL_FAILURE
      else if node_type = ''IntentClassifier'' then
        (if has_intent out then LOW_CONFIDENCE else UNKNOWN_INTENT)
      else LOW_CONFIDENCE)"

subsection \<open>Outcomes\<close>

datatype NodeStepStatus = ADVANCE | TERMINAL | STEP_NEEDS_INPUT | STEP_FAILED

record NodeStepOutcome =
  oc_status :: NodeStepStatus
  oc_node_type :: "string option"
  oc_node_run_id :: "uuid option"
  oc_node_data :: pydict
  oc_context :: ExecutionContext
  oc_next_node_id :: "string option"
  oc_resume_to_node_id :: "string option"
  oc_loop_edge_keys :: "string list"
  oc_failure_reason :: "FlowFailureReason option"
  oc_failure_exception :: "exn option"

definition outcome :: "NodeStepStatus \<Rightarrow> ExecutionContext \<Rightarrow> NodeStepOutcome" where
  "outcome st c = \<lparr>oc_status = st, oc_node_type = None, oc_node_run_id = None, oc_node_data = [],
     oc_context = c, oc_next_node_id = None, oc_resume_to_node_id = None, oc_loop_edge_keys = [],
     oc_failure_reason = None, oc_failure_exception = None\<rparr>"

definition map_node_status :: "NodeExecutionStatus \<Rightarrow> NodeRunStatus" where
  "map_node_status s = (if s = SUCCESS then N_COMPLETED else if s = ERROR then N_FAILED else N_PENDING)"

subsection \<open>Events of a step\<close>

definition opt_dict :: "pydict option \<Rightarrow> pyval" where
  "opt_dict d = (case d of None \<Rightarrow> PNone | Some d \<Rightarrow> PDict d)"

definition hook_call :: "ExecutionContext \<Rightarrow> pydict \<Rightarrow> hook_args" where
  "hook_call c payload = \<lparr>ha_tenant_id = cx_tenant_id c, ha_user_id = Some (cx_user_id c),
     ha_session_id = cx_session_id c, ha_flow_run_id = cx_flow_run_id c,
     ha_correlation_id = cx_correlation_id c, ha_payload = payload, ha_causation_id = None,
     ha_schema_version = 1\<rparr>"

text \<open>Without a hook the event is appended directly, without user and node.\<close>

definition direct_event :: "uuid \<Rightarrow> uuid \<Rightarrow> uuid \<Rightarrow> uuid \<Rightarrow> ExecutionEventType \<Rightarrow> pydict \<Rightarrow> (db, unit) comp" where
  "direct_event tenant session fid correlation t payload =
     bind (append_execution_event (Some fid) \<lparr>ea_tenant_id = tenant, ea_user_id = None, ea_session_id = session,
       ea_type = event_type_value t, ea_payload = payload, ea_correlation_id = correlation,
       ea_causation_id = None, ea_schema_version = 1, ea_node_id = None, ea_edge_id = None\<rparr>) (\<lambda>_. ret ())"

definition context_event :: "ExecutionContext \<Rightarrow> ExecutionEventType \<Rightarrow> pydict \<Rightarrow> (db, unit) comp" where
  "context_event c = direct_event (cx_tenant_id c) (cx_session_id c) (cx_flow_run_id c) (cx_correlation_id c)"

text \<open>\<open>UUID(context.current_node_id) if context.current_node_id else None\<close>\<close>

definition current_node_uuid :: "ExecutionContext \<Rightarrow> (db, uuid option) comp" where
  "current_node_uuid c =
     (if cx_current_node_id c = [] then ret None
      else bind (lift_res (parse_uuid (cx_current_node_id c))) (\<lambda>u. ret (Some u)))"

definition emit_node_started :: "runtime \<Rightarrow> ExecutionContext \<Rightarrow> (db, unit) comp" where
  "emit_node_started rt c =
     (let payload = [(''node_id'', PStr (cx_current_node_id c))] in
      bind (current_node_uuid c) (\<lambda>node_id.
        case rt_hook rt of
          Some hook \<Rightarrow> hk_node_start hook (hook_call c payload) node_id
        | None \<Rightarrow> context_event c NodeStarted payload))"

definition emit_node_completed :: "runtime \<Rightarrow> ExecutionContext \<Rightarrow> NodeResult \<Rightarrow> (db, unit) comp" where
  "emit_node_completed rt c r =
     (let payload = [(''node_id'', PStr (cx_current_node_id c)),
          (''status'', PStr (node_execution_status (nd_status r))), (''payload'', PDict (nd_data r)),
          (''error'', opt_dict (nd_error r)), (''metrics'', opt_dict (nd_metrics r))] in
      case rt_hook rt of
        Some hook \<Rightarrow> bind (current_node_uuid c) (hk_node_complete hook (hook_call c payload))
      | None \<Rightarrow> context_event c NodeCompleted payload)"

definition emit_edge_evaluated :: "runtime \<Rightarrow> ExecutionContext \<Rightarrow> string \<Rightarrow> bool \<Rightarrow> (db, unit) comp" where
  "emit_edge_evaluated rt c to result =
     (let payload = [(''from_node'', PStr (cx_current_node_id c)), (''to_node'', PStr to), (''result'', PBool result)] in
      case rt_hook rt of
        Some hook \<Rightarrow> bind (current_node_uuid c) (\<lambda>node_id.
          hk_edge_evaluated hook (hook_call c payload) node_id (Some (cx_current_node_id c @ ''->'' @ to)))
      | None \<Rightarrow> context_event c EdgeEvaluated payload)"

subsection \<open>Usage\<close>

definition record_usage :: "ExecutionContext \<Rightarrow> uuid \<Rightarrow> NodeResult \<Rightarrow> (db, unit) comp" where
  "record_usage c nid r =
     (case nd_usage r of
        None \<Rightarrow> ret ()
      | Some u \<Rightarrow> catch
          (bind (case us_agent_version_id u of
                None \<Rightarrow> ret None
              | Some v \<Rightarrow>
                  bind (create_agent_run \<lparr>aa_tenant_id = cx_tenant_id c, aa_node_run_id = nid,
                    aa_agent_version_id = v, aa_correlation_id = cx_correlation_id c,
                    aa_input = [(''task_type'', (case us_task_type u of None \<Rightarrow> PNone | Some t \<Rightarrow> PStr t))],
                    aa_model = us_provider_model u, aa_billing_policy_version_id = None,
                    aa_system_prompt_hash = None, aa_runtime_snapshot = None, aa_runtime_snapshot_hash = None,
                    aa_policy_version_id = us_ai_execution_policy_version_id u,
                    aa_status = agent_status A_COMPLETED, aa_canonical_status = agent_status A_COMPLETED\<rparr>) (\<lambda>aid.
                  bind (update_agent_run_result aid (agent_status A_COMPLETED) (agent_status A_COMPLETED)
                    (Some (nd_data r)) None (Some (us_input_tokens u)) (Some (us_output_tokens u)) (us_cost_usd u))
                    (\<lambda>_. ret (Some aid)))) (\<lambda>agent_run_id.
           bind (record_llm_usage (cx_tenant_id c) (Some (cx_flow_run_id c)) (Some nid) agent_run_id
               (Some (cx_session_id c)) (us_provider u) (us_provider_model u) (us_task_type u)
               (us_inference_layer u) (us_input_tokens u) (us_output_tokens u) (us_cost_usd u) (us_latency_ms u))
             (\<lambda>_. ret ())))
          (\<lambda>e. ret ()))"

subsection \<open>Edges\<close>

text \<open>
  The loop counters and the keys of the loop edges met are state of the evaluation: both keep their
  changes when it raises.
\<close>

type_synonym edge_state = "db \<times> counters \<times> string list"

definition count_loop :: "int \<Rightarrow> compiled_edge \<Rightarrow> (edge_state, unit) comp" where
  "count_loop loop_limit e s =
     (if edge_kind e = LOOP then
        let key = from_node e @ ''->'' @ to_node e;
            n = dict_get (fst (snd s)) key 0 + 1;
            s' = (fst s, AList.update key n (fst (snd s)), snd (snd s) @ [key])
        in (if n > loop_limit then Inl (domain_validation ''loop_iteration_limit_exceeded'') else Inr (), s')
      else (Inr (), s))"

definition edge_is_true :: "runtime \<Rightarrow> compiled_edge \<Rightarrow> pydict \<Rightarrow> exn + bool" where
  "edge_is_true rt e out =
     is_true (\<lambda>_. Inl ValidationError) (rt_same rt) [] (PDict out) (Some (PList (compiled_condition e)))"

fun evaluate_edges ::
    "runtime \<Rightarrow> ExecutionContext \<Rightarrow> pydict \<Rightarrow> int \<Rightarrow> compiled_edge list \<Rightarrow> (edge_state, string list) comp" where
  "evaluate_edges rt c out loop_limit [] = ret []"
| "evaluate_edges rt c out loop_limit (e # es) =
     (if from_node e \<noteq> cx_current_node_id c then evaluate_edges rt c out loop_limit es
      else bind (count_loop loop_limit e) (\<lambda>_.
           bind (lift_res (edge_is_true rt e out)) (\<lambda>result.
           bind (on_db (emit_edge_evaluated rt c (to_node e) result)) (\<lambda>_.
           bind (evaluate_edges rt c out loop_limit es) (\<lambda>candidates.
             ret (if result then to_node e # candidates else candidates))))))"

subsection \<open>A step\<close>

definition NODE_OUTPUTS_BY_NODE_ID_KEY :: string where
  "NODE_OUTPUTS_BY_NODE_ID_KEY = ''_node_outputs_by_node_id''"

text \<open>\<open>model_dump(mode="json")\<close> of a result whose payloads are JSON values.\<close>

definition dump_result :: "runtime \<Rightarrow> NodeResult \<Rightarrow> pydict" where
  "dump_result rt r = [(''node'', PStr (nd_node r)), (''status'', PStr (node_execution_status (nd_status r))),
     (''data'', PDict (nd_data r)), (''error'', opt_dict (nd_error r)), (''metrics'', opt_dict (nd_metrics r)),
     (''next_state'', opt_dict (nd_next_state r)),
     (''memory'', (case nd_memory r of None \<Rightarrow> PNone | Some ms \<Rightarrow> PList (map PDict ms))),
     (''usage'', (case nd_usage r of None \<Rightarrow> PNone | Some u \<Rightarrow> rt_dump_usage rt u))]"

text \<open>The state after the node: its own next state or the old one, with the output filed under the node's id.\<close>

definition next_state :: "ExecutionContext \<Rightarrow> NodeResult \<Rightarrow> exn + pydict" where
  "next_state c r =
     (let base = (case nd_next_state r of Some d \<Rightarrow> if d = [] then cx_state c else d | None \<Rightarrow> cx_state c);
          old = dict_get base NODE_OUTPUTS_BY_NODE_ID_KEY PNone
      in rbind (if truthy old then py_dict old else Inr []) (\<lambda>snap.
           Inr (AList.update NODE_OUTPUTS_BY_NODE_ID_KEY
             (PDict (if cx_current_node_id c = [] then snap
                     else AList.update (cx_current_node_id c) (PDict (nd_data r)) snap)) base)))"

definition next_memory :: "ExecutionContext \<Rightarrow> NodeResult \<Rightarrow> pydict list" where
  "next_memory c r = (case nd_memory r of Some ms \<Rightarrow> ms | None \<Rightarrow> cx_memory c)"

definition resume_to :: "ExecutionContext \<Rightarrow> pydict \<Rightarrow> NodeResult \<Rightarrow> pyval" where
  "resume_to c cfg r =
     (if nd_status r = NEEDS_INPUT
      then (let v = dict_get cfg ''resume_to_node_id'' PNone in
            if truthy v then v else PStr (cx_current_node_id c))
      else PNone)"

definition fallback_metadata :: "ExecutionContext \<Rightarrow> string \<Rightarrow> NodeResult \<Rightarrow> pydict" where
  "fallback_metadata c node_type r =
     AList.update ''fallback_reason'' (PStr (fallback_reason_value (resolve_fallback_reason node_type (nd_data r))))
       (AList.update ''fallback_source_node'' (PStr (cx_current_node_id c)) (cx_metadata c))"

definition advance_context ::
    "execution_plan \<Rightarrow> ExecutionContext \<Rightarrow> string \<Rightarrow> NodeResult \<Rightarrow> pydict \<Rightarrow> string \<Rightarrow> ExecutionContext" where
  "advance_context plan c node_type r new_state next =
     (let c' = c\<lparr>cx_current_node_id := next, cx_state := new_state, cx_memory := next_memory c r,
                 cx_node_output := nd_data r\<rparr>
      in case map_of (plan_nodes plan) next of
           Some spec \<Rightarrow> if type_of_node spec = ''HumanFallback''
             then c'\<lparr>cx_metadata := fallback_metadata c node_type r\<rparr> else c'
         | None \<Rightarrow> c')"

text \<open>Choosing the next node: exactly one edge must match.\<close>

definition route ::
    "runtime \<Rightarrow> execution_plan \<Rightarrow> ExecutionContext \<Rightarrow> string \<Rightarrow> uuid \<Rightarrow> NodeResult \<Rightarrow> pydict \<Rightarrow> int
     \<Rightarrow> (db \<times> counters, NodeStepOutcome) comp" where
  "route rt plan c node_type nid r new_state loop_limit s =
     (case evaluate_edges rt c (nd_data r) loop_limit (edges_from (adjacency_map plan) (cx_current_node_id c))
             (fst s, snd s, []) of
        (result, (d, cnt, keys)) \<Rightarrow>
          let base = (outcome STEP_FAILED c)\<lparr>oc_node_type := Some node_type, oc_node_run_id := Some nid,
                oc_node_data := nd_data r, oc_loop_edge_keys := keys\<rparr>
          in (case result of
                Inl e \<Rightarrow> if is_domain_validation e
                  then Inr (base\<lparr>oc_failure_reason := Some EDGE_EVALUATION_ERROR, oc_failure_exception := Some e\<rparr>)
                  else Inl e
              | Inr [] \<Rightarrow> Inr (base\<lparr>oc_failure_reason := Some NO_MATCHING_EDGE\<rparr>)
              | Inr [next] \<Rightarrow> Inr (base\<lparr>oc_status := ADVANCE, oc_next_node_id := Some next,
                  oc_context := advance_context plan c node_type r new_state next\<rparr>)
              | Inr _ \<Rightarrow> Inr (base\<lparr>oc_failure_reason := Some MULTIPLE_MATCHING_EDGES\<rparr>),
              (d, cnt)))"

text \<open>
  What follows a node that returned: its row is updated; then come usage, event and checkpoint, and where
  to go.
\<close>

definition settle_node ::
    "runtime \<Rightarrow> execution_plan \<Rightarrow> ExecutionContext \<Rightarrow> string \<Rightarrow> pydict \<Rightarrow> uuid \<Rightarrow> NodeResult \<Rightarrow> int
     \<Rightarrow> (db \<times> counters, NodeStepOutcome) comp" where
  "settle_node rt plan c node_type cfg nid r loop_limit =
     (let resume = resume_to c cfg r in
      bind (on_db (record_usage c nid r)) (\<lambda>_.
      bind (lift_res (next_state c r)) (\<lambda>new_state.
      bind (on_db (emit_node_completed rt c r)) (\<lambda>_.
      bind (on_db (upsert_graph_state (cx_flow_run_id c)
          [(''current_node_id'', PStr (cx_current_node_id c)), (''state'', PDict new_state),
           (''memory'', PList (map PDict (next_memory c r))), (''resume_to_node_id'', resume),
           (''metadata'', PDict (cx_metadata c))] (Some nid))) (\<lambda>_.
        let done = (\<lambda>st. (outcome st c)\<lparr>oc_node_type := Some node_type, oc_node_run_id := Some nid,
              oc_node_data := nd_data r\<rparr>)
        in if nd_status r = NEEDS_INPUT
           then (case resume of
                   PStr n \<Rightarrow> ret ((done STEP_NEEDS_INPUT)\<lparr>oc_resume_to_node_id := Some n\<rparr>)
                 | _ \<Rightarrow> raise ValidationError)
           else if node_type \<in> set TERMINAL_NODE_TYPES then ret (done TERMINAL)
           else route rt plan c node_type nid r new_state loop_limit)))))"

definition finish_node ::
    "runtime \<Rightarrow> execution_plan \<Rightarrow> ExecutionContext \<Rightarrow> string \<Rightarrow> pydict \<Rightarrow> uuid \<Rightarrow> NodeResult \<Rightarrow> int
     \<Rightarrow> (db \<times> counters, NodeStepOutcome) comp" where
  "finish_node rt plan c node_type cfg nid r loop_limit =
     (let status = node_status (map_node_status (nd_status r)) in
      bind (on_db (update_node_run_result nid (dump_result rt r) status status)) (\<lambda>_.
        settle_node rt plan c node_type cfg nid r loop_limit))"

definition run_node ::
    "runtime \<Rightarrow> execution_plan \<Rightarrow> ExecutionContext \<Rightarrow> string \<Rightarrow> pydict \<Rightarrow> node \<Rightarrow> int
     \<Rightarrow> (db \<times> counters, NodeStepOutcome) comp" where
  "run_node rt plan c node_type cfg node loop_limit =
     bind (lift_res (parse_uuid (cx_current_node_id c))) (\<lambda>node_id.
     bind (on_db (create_node_run (cx_flow_run_id c) node_id (cx_correlation_id c)
         [(''input_payload'', opt_dict (cx_input_payload c)), (''state'', PDict (cx_state c)),
          (''memory'', PList (map PDict (cx_memory c))), (''metadata'', PDict (cx_metadata c))]
         [] (node_status N_RUNNING) (node_status N_RUNNING))) (\<lambda>nid.
     let c1 = c\<lparr>cx_current_node_run_id := Some nid\<rparr> in
     bind (on_db (emit_node_started rt c1)) (\<lambda>_.
     bind (catch (bind (on_db (node c1 cfg)) (\<lambda>x. ret (Inr x))) (\<lambda>e. ret (Inl e))) (\<lambda>result.
       case result of
         Inl e \<Rightarrow> ret ((outcome STEP_FAILED c1)\<lparr>oc_node_type := Some node_type, oc_node_run_id := Some nid,
             oc_failure_reason := Some STRUCTURAL_ERROR, oc_failure_exception := Some e\<rparr>)
       | Inr (r, tools) \<Rightarrow> finish_node rt plan (c1\<lparr>cx_available_tools := tools, cx_node_output := nd_data r\<rparr>)
           node_type cfg nid r loop_limit))))"

definition run_step ::
    "runtime \<Rightarrow> execution_plan \<Rightarrow> int \<Rightarrow> ExecutionContext \<Rightarrow> (db \<times> counters, NodeStepOutcome) comp" where
  "run_step rt plan loop_limit c =
     (case map_of (plan_nodes plan) (cx_current_node_id c) of
        None \<Rightarrow> ret ((outcome STEP_FAILED c)\<lparr>oc_failure_reason := Some NODE_NOT_FOUND\<rparr>)
      | Some spec \<Rightarrow>
          let node_type = type_of_node spec in
          case rt_registry rt node_type of
            None \<Rightarrow> ret ((outcome STEP_FAILED c)\<lparr>oc_node_type := Some node_type,
                oc_failure_reason := Some UNKNOWN_NODE_TYPE\<rparr>)
          | Some cls \<Rightarrow>
              let c0 = c\<lparr>cx_metadata := AList.update ''current_node_type'' (PStr node_type) (cx_metadata c)\<rparr> in
              (case cls of
                 Inl e \<Rightarrow> ret ((outcome STEP_FAILED c0)\<lparr>oc_node_type := Some node_type,
                   oc_failure_reason := Some STRUCTURAL_ERROR, oc_failure_exception := Some e\<rparr>)
               | Inr node \<Rightarrow> run_node rt plan c0 node_type (or_empty (config spec)) node loop_limit))"

subsection \<open>What a step keeps\<close>

text \<open>The event hook and every node of the registry keep a relation between database states.\<close>

definition hook_keeps :: "(db \<Rightarrow> db \<Rightarrow> bool) \<Rightarrow> db event_hook \<Rightarrow> bool" where
  "hook_keeps R h \<longleftrightarrow> (\<forall>a. keeps R (hk_flow_start h a)) \<and> (\<forall>a n. keeps R (hk_node_start h a n)) \<and>
     (\<forall>a n. keeps R (hk_node_complete h a n)) \<and> (\<forall>a n e. keeps R (hk_edge_evaluated h a n e)) \<and>
     (\<forall>a. keeps R (hk_flow_complete h a)) \<and> (\<forall>a. keeps R (hk_flow_failed h a))"

definition runtime_keeps :: "(db \<Rightarrow> db \<Rightarrow> bool) \<Rightarrow> runtime \<Rightarrow> bool" where
  "runtime_keeps R rt \<longleftrightarrow> (\<forall>h. rt_hook rt = Some h \<longrightarrow> hook_keeps R h) \<and>
     (\<forall>t node c cfg. rt_registry rt t = Some (Inr node) \<longrightarrow> keeps R (node c cfg))"

definition fst_rel :: "('d \<Rightarrow> 'd \<Rightarrow> bool) \<Rightarrow> 'd \<times> 'x \<Rightarrow> 'd \<times> 'x \<Rightarrow> bool" where
  "fst_rel R s s' = R (fst s) (fst s')"

definition same_runs :: "db \<Rightarrow> db \<Rightarrow> bool" where
  "same_runs s s' \<longleftrightarrow> flow_runs s' = flow_runs s"

text \<open>Methods that touch neither the events nor the flow runs.\<close>

definition quiet :: "(db, 'a) comp \<Rightarrow> bool" where
  "quiet m \<longleftrightarrow> (\<forall>s. events (snd (m s)) = events s \<and> flow_runs (snd (m s)) = flow_runs s)"

text \<open>The writes of a step other than those to its node run leave the node runs alone.\<close>

definition same_node_runs :: "db \<Rightarrow> db \<Rightarrow> bool" where
  "same_node_runs s s' \<longleftrightarrow> node_runs s' = node_runs s"

text \<open>The edges of a node that are true of an output.\<close>

definition matching_edges :: "runtime \<Rightarrow> execution_plan \<Rightarrow> string \<Rightarrow> pydict \<Rightarrow> compiled_edge list" where
  "matching_edges rt plan n out =
     filter (\<lambda>e. from_node e = n \<and> edge_is_true rt e out = Inr True) (edges_from (adjacency_map plan) n)"

text \<open>
  The loop counters never go down; a key that was counted is within the limit if the evaluation returned,
  and every loop edge of the node is counted.
\<close>

definition count_of :: "counters \<Rightarrow> string \<Rightarrow> int" where
  "count_of cnt k = dict_get cnt k 0"

definition loop_key :: "compiled_edge \<Rightarrow> string" where
  "loop_key e = from_node e @ ''->'' @ to_node e"

definition node_runs_wf :: "db \<Rightarrow> bool" where
  "node_runs_wf s \<longleftrightarrow> (\<forall>r \<in> set (node_runs s). nr_id r < fresh s)"

text \<open>What became of the node run of a step that got so far.\<close>

definition settled :: "db \<Rightarrow> ExecutionContext \<Rightarrow> NodeStepOutcome \<Rightarrow> uuid \<Rightarrow> db \<Rightarrow> bool" where
  "settled d c oc nid d' \<longleftrightarrow> (\<exists>row. node_runs d' = node_runs d @ [row] \<and> nr_id row = nid \<and>
     nr_flow_run_id row = cx_flow_run_id c \<and> parse_uuid (cx_current_node_id c) = Inr (nr_node_id row) \<and>
     (if oc_failure_reason oc = Some STRUCTURAL_ERROR
      then nr_status row = node_status N_RUNNING \<and> nr_finished_at row = None
      else nr_finished_at row \<noteq> None \<and>
        nr_status row \<in> {node_status N_COMPLETED, node_status N_FAILED, node_status N_PENDING} \<and>
        (oc_status oc = STEP_NEEDS_INPUT \<longleftrightarrow> nr_status row = node_status N_PENDING)))"

text \<open>A two-node graph: a classifier whose output selects the edge to the response builder.\<close>

definition demo_n1 :: string where
  "demo_n1 = ''00000000-0000-0000-0000-000000000001''"

definition demo_n2 :: string where
  "demo_n2 = ''00000000-0000-0000-0000-000000000002''"

definition demo_result :: "string \<Rightarrow> NodeResult" where
  "demo_result ty = \<lparr>nd_node = ty, nd_status = SUCCESS, nd_data = [(''ok'', PBool True)], nd_error = None,
     nd_metrics = None, nd_next_state = None, nd_memory = None, nd_usage = None\<rparr>"

definition demo_runtime :: runtime where
  "demo_runtime = \<lparr>rt_registry = (\<lambda>ty.
       if ty \<in> {''IntentClassifier'', ''ResponseBuilder''} then Some (Inr (\<lambda>c cfg. ret (demo_result ty, [])))
       else if ty = ''ToolExecutor'' then Some (Inr (\<lambda>c cfg. raise (Py ValueError)))
       else None),
     rt_hook = Some DbExecutionEventHook, rt_same = (\<lambda>x y. x = y), rt_dump_usage = (\<lambda>u. PNone),
     rt_message = py_class_name, rt_repr = (\<lambda>v. [])\<rparr>"

definition demo_step_plan :: "string \<Rightarrow> execution_plan" where
  "demo_step_plan ty = \<lparr>start_node_id = demo_n1, ordered_nodes = [demo_n1, demo_n2],
     adjacency_map = [(demo_n1, [\<lparr>from_node = demo_n1, to_node = demo_n2, edge_kind = NORMAL,
       compiled_condition = [PBool True], order = 0\<rparr>])],
     terminal_nodes = {demo_n2}, structural_hash = [],
     plan_nodes = [(demo_n1, \<lparr>type_of_node = ty, config = None\<rparr>),
       (demo_n2, \<lparr>type_of_node = ''ResponseBuilder'', config = None\<rparr>)], available_tools = []\<rparr>"

definition demo_context :: ExecutionContext where
  "demo_context = \<lparr>cx_tenant_id = 1, cx_interaction_id = 4, cx_user_id = ''u'', cx_session_id = 1, cx_input_payload = None,
     cx_flow_id = 5, cx_flow_version_id = 2, cx_flow_run_id = 100, cx_correlation_id = 3, cx_trace_id = None,
     cx_current_node_id = demo_n1, cx_current_node_run_id = None, cx_available_tools = [], cx_state = [],
     cx_memory = [], cx_metadata = [], cx_node_output = [], cx_system_prompt = None, cx_system_context = None\<rparr>"

definition demo_db :: db where
  "demo_db = snd (create_flow_run demo_args empty_db)"

lemma on_db_iff: "on_db m s = (r, t) \<longleftrightarrow> (\<exists>d. m (fst s) = (r, d) \<and> t = (d, snd s))"
  by (auto simp: on_db_def split: prod.splits)

lemma fst_refl: "reflp R \<Longrightarrow> reflp (fst_rel R)"
  by (simp add: reflp_def fst_rel_def)

lemma fst_trans: "transp R \<Longrightarrow> transp (fst_rel R)"
  unfolding transp_def fst_rel_def by blast

lemma keeps_on_db: "keeps R m \<Longrightarrow> keeps (fst_rel R) (on_db m)"
  by (simp add: keeps_def on_db_def fst_rel_def split: prod.splits) (metis snd_conv)

text \<open>
  The interface between a step and the repository: a relation on database states that the repository
  methods a step calls keep, first without those that write node runs.  When the nodes and the hook keep
  it, so does the whole step.
\<close>

locale step_writes =
  fixes R :: "db \<Rightarrow> db \<Rightarrow> bool"
  assumes R_refl: "reflp R" and R_trans: "transp R"
    and create_agent_run_keeps: "keeps R (create_agent_run a)"
    and update_agent_run_keeps: "keeps R (update_agent_run_result aid st cst out' err it ot cost)"
    and record_llm_usage_keeps: "keeps R (record_llm_usage t f n' a' sid p pm tt il it' ot' cost' lat)"
    and append_event_keeps: "keeps R (append_execution_event f' ea)"
    and graph_state_keeps: "keeps R (upsert_graph_state fid' gst lnr)"
begin

lemmas R_intros = keeps_ret [OF R_refl] keeps_raise [OF R_refl] keeps_get [OF R_refl] keeps_lift_res [OF R_refl]
  keeps_bind [OF R_trans] keeps_catch [OF R_trans]
  create_agent_run_keeps update_agent_run_keeps record_llm_usage_keeps append_event_keeps graph_state_keeps

lemmas fst_intros = keeps_ret [OF fst_refl [OF R_refl]] keeps_raise [OF fst_refl [OF R_refl]]
  keeps_lift_res [OF fst_refl [OF R_refl]] keeps_bind [OF fst_trans [OF R_trans]]
  keeps_catch [OF fst_trans [OF R_trans]] keeps_on_db

lemma direct_event_keeps: "keeps R (direct_event t s f k ty p)"
  unfolding direct_event_def by (intro R_intros)

lemma current_node_uuid_keeps: "keeps R (current_node_uuid c)"
  unfolding current_node_uuid_def by (auto intro!: R_intros)

lemma emit_node_started_keeps: "runtime_keeps R rt \<Longrightarrow> keeps R (emit_node_started rt c)"
  unfolding emit_node_started_def context_event_def Let_def
  by (auto simp: runtime_keeps_def hook_keeps_def split: option.splits
      intro!: R_intros direct_event_keeps current_node_uuid_keeps)

lemma emit_node_completed_keeps: "runtime_keeps R rt \<Longrightarrow> keeps R (emit_node_completed rt c r)"
  unfolding emit_node_completed_def context_event_def Let_def
  by (auto simp: runtime_keeps_def hook_keeps_def split: option.splits
      intro!: R_intros direct_event_keeps current_node_uuid_keeps)

lemma emit_edge_evaluated_keeps: "runtime_keeps R rt \<Longrightarrow> keeps R (emit_edge_evaluated rt c to b)"
  unfolding emit_edge_evaluated_def context_event_def Let_def
  by (auto simp: runtime_keeps_def hook_keeps_def split: option.splits
      intro!: R_intros direct_event_keeps current_node_uuid_keeps)

lemma record_usage_keeps: "keeps R (record_usage c nid r)"
  unfolding record_usage_def by (auto split: option.splits intro!: R_intros)

lemma count_loop_keeps: "keeps (fst_rel R) (count_loop lmt e)"
  using R_refl by (simp add: keeps_def count_loop_def fst_rel_def Let_def reflp_def)

lemma evaluate_edges_keeps: "runtime_keeps R rt \<Longrightarrow> keeps (fst_rel R) (evaluate_edges rt c out lmt es)"
  by (induction es) (auto intro!: fst_intros count_loop_keeps emit_edge_evaluated_keeps)

lemma route_keeps:
  assumes "runtime_keeps R rt"
  shows "keeps (fst_rel R) (route rt plan c ty nid r ns lmt)"
proof -
  have *: "R (fst s) (fst (snd (evaluate_edges rt c out lmt es (fst s, snd s, []))))" for s :: "db \<times> counters" and out es
    using evaluate_edges_keeps [OF assms] by (force simp: keeps_def fst_rel_def)
  have "fst (snd (route rt plan c ty nid r ns lmt s)) = fst (snd (evaluate_edges rt c (nd_data r) lmt
      (edges_from (adjacency_map plan) (cx_current_node_id c)) (fst s, snd s, [])))" for s
    by (simp add: route_def Let_def split: prod.splits)
  then show ?thesis using * by (simp add: keeps_def fst_rel_def)
qed

lemma settle_node_keeps: "runtime_keeps R rt \<Longrightarrow> keeps (fst_rel R) (settle_node rt plan c ty cfg nid r lmt)"
  unfolding settle_node_def Let_def
  by (auto split: pyval.splits intro!: fst_intros record_usage_keeps
      emit_node_completed_keeps graph_state_keeps route_keeps)

end

locale step_relation = step_writes +
  assumes create_node_run_keeps: "keeps R (create_node_run fid n k i out st cst)"
    and update_node_run_keeps: "keeps R (update_node_run_result nid out st cst)"
begin

lemma finish_node_keeps: "runtime_keeps R rt \<Longrightarrow> keeps (fst_rel R) (finish_node rt plan c ty cfg nid r lmt)"
  unfolding finish_node_def Let_def by (intro fst_intros update_node_run_keeps settle_node_keeps)

lemma run_node_keeps:
  assumes "runtime_keeps R rt" "\<And>c cfg. keeps R (node c cfg)"
  shows "keeps (fst_rel R) (run_node rt plan c ty cfg node lmt)"
  unfolding run_node_def Let_def
  using assms by (auto split: sum.splits intro!: fst_intros create_node_run_keeps emit_node_started_keeps
      finish_node_keeps)

lemma run_step_keeps: "runtime_keeps R rt \<Longrightarrow> keeps (fst_rel R) (run_step rt plan lmt c)"
  unfolding run_step_def Let_def
  by (auto simp: runtime_keeps_def split: option.splits sum.splits intro!: fst_intros run_node_keeps)

end

lemma same_runs_refl: "reflp same_runs"
  by (simp add: reflp_def same_runs_def)

lemma same_runs_trans: "transp same_runs"
  by (simp add: transp_def same_runs_def)

lemma quiet_keeps: "quiet m \<Longrightarrow> keeps events_grow m" "quiet m \<Longrightarrow> keeps same_runs m"
  by (simp_all add: quiet_def keeps_def events_grow_same same_runs_def)

lemma quiet_create_node_run: "quiet (create_node_run fid n k i out st cst)"
  by (auto simp: quiet_def create_node_run_def new_uuid_def comp_simps)

lemma quiet_update_node_run: "quiet (update_node_run_result nid out st cst)"
  by (auto simp: quiet_def update_node_run_result_def get_node_run_def comp_simps
      split: option.splits sum.splits)

lemma quiet_create_agent_run: "quiet (create_agent_run a)"
  by (auto simp: quiet_def create_agent_run_def new_uuid_def comp_simps split: option.splits sum.splits)

lemma quiet_update_agent_run: "quiet (update_agent_run_result aid st cst out err it ot cost)"
  by (auto simp: quiet_def update_agent_run_result_def update_agent_run_def get_agent_run_def
      comp_simps split: option.splits sum.splits)

lemma quiet_record_llm_usage: "quiet (record_llm_usage t f n a sid p pm tt il it ot cost lat)"
  by (auto simp: quiet_def record_llm_usage_def new_uuid_def comp_simps)

lemma quiet_upsert_graph_state: "quiet (upsert_graph_state fid st lnr)"
  by (auto simp: quiet_def upsert_graph_state_def comp_simps split: option.splits sum.splits)

lemmas quiet_methods = quiet_create_node_run quiet_update_node_run quiet_create_agent_run
  quiet_update_agent_run quiet_record_llm_usage quiet_upsert_graph_state

lemma same_runs_persist: "keeps same_runs (persist_execution_events_batch fid evs)"
  unfolding persist_execution_events_batch_def
  by (auto simp: keeps_def same_runs_def comp_simps event_user_def run_user_def get_flow_run_def
      split: list.splits option.splits sum.splits prod.splits)

lemma same_runs_event_user: "keeps same_runs (event_user u fid)"
  by (simp add: keeps_def same_runs_def)

lemma same_runs_modify: "(\<And>s. flow_runs (f s) = flow_runs s) \<Longrightarrow> keeps same_runs (modify f)"
  by (simp add: keeps_def same_runs_def modify_def)

lemma same_runs_append: "keeps same_runs (append_execution_event fid a)"
proof -
  note kr = keeps_ret [OF same_runs_refl] keeps_get [OF same_runs_refl] keeps_bind [OF same_runs_trans]
    same_runs_persist same_runs_event_user same_runs_modify
  have "keeps same_runs new_uuid" "\<And>f e. keeps same_runs (buffer_event f e)"
    by (simp_all add: keeps_def same_runs_def new_uuid_def buffer_event_def Let_def)
  then show ?thesis
    unfolding append_execution_event_def by (auto split: option.splits intro!: kr)
qed

interpretation growing_step: step_relation events_grow
  by unfold_locales (rule events_grow_reflp events_grow_transp growing_append quiet_keeps quiet_methods)+

interpretation runs_step: step_relation same_runs
  by unfold_locales (rule same_runs_refl same_runs_trans same_runs_append quiet_keeps quiet_methods)+

lemma same_node_runs_refl: "reflp same_node_runs"
  by (simp add: reflp_def same_node_runs_def)

lemma same_node_runs_trans: "transp same_node_runs"
  by (simp add: transp_def same_node_runs_def)

lemma same_node_runs_append: "keeps same_node_runs (append_execution_event fid a)"
  by (auto simp: keeps_def same_node_runs_def append_execution_event_def new_uuid_def buffer_event_def Let_def
      persist_execution_events_batch_def event_user_def run_user_def get_flow_run_def comp_simps
      split: option.splits sum.splits list.splits)

interpretation node_run_writes: step_writes same_node_runs
proof unfold_locales
  show "keeps same_node_runs (create_agent_run a)" for a
    by (auto simp: keeps_def same_node_runs_def create_agent_run_def new_uuid_def comp_simps split: option.splits sum.splits)
  show "keeps same_node_runs (update_agent_run_result aid st cst out err it ot cost)" for aid st cst out err it ot cost
    by (auto simp: keeps_def same_node_runs_def update_agent_run_result_def update_agent_run_def get_agent_run_def
        comp_simps split: option.splits sum.splits)
  show "keeps same_node_runs (record_llm_usage t f n a sid p pm tt il it ot cost lat)"
    for t f n a sid p pm tt il it ot cost lat
    by (auto simp: keeps_def same_node_runs_def record_llm_usage_def new_uuid_def comp_simps)
  show "keeps same_node_runs (upsert_graph_state fid st lnr)" for fid st lnr
    by (auto simp: keeps_def same_node_runs_def upsert_graph_state_def comp_simps split: option.splits sum.splits)
qed (rule same_node_runs_refl same_node_runs_trans same_node_runs_append)+

lemma safe_emit_same_runs: "keeps same_runs (safe_emit t fid a)"
  unfolding safe_emit_def
  by (intro keeps_catch [OF same_runs_trans] keeps_bind [OF same_runs_trans] same_runs_append
      keeps_ret [OF same_runs_refl])

lemma db_hook_keeps: "hook_keeps events_grow DbExecutionEventHook" "hook_keeps same_runs DbExecutionEventHook"
  by (simp_all add: hook_keeps_def DbExecutionEventHook_def on_flow_start_def on_node_start_def
      on_node_complete_def on_edge_evaluated_def on_flow_complete_def on_flow_failed_def
      growing_safe_emit safe_emit_same_runs)

subsection \<open>Routing\<close>

lemma evaluate_edges_result:
  assumes "evaluate_edges rt c out lmt es s = (Inr cs, s')"
  shows "cs = map to_node (filter (\<lambda>e. from_node e = cx_current_node_id c \<and> edge_is_true rt e out = Inr True) es)"
  using assms
proof (induction es arbitrary: s cs)
  case Nil
  then show ?case by (simp add: ret_def)
next
  case (Cons e es)
  show ?case
  proof (cases "from_node e = cx_current_node_id c")
    case False
    then show ?thesis using Cons by simp
  next
    case True
    then obtain b ds t where "edge_is_true rt e out = Inr b" "evaluate_edges rt c out lmt es t = (Inr ds, s')"
        "cs = (if b then to_node e # ds else ds)"
      using Cons.prems by (auto simp: bind_eq_Inr lift_res_def ret_def split: if_splits)
    then show ?thesis using Cons.IH [of t ds] True by simp
  qed
qed

lemma count_loop_effect:
  assumes "count_loop lmt e (d, cnt, keys) = (r, (d', cnt', keys'))"
  shows "count_of cnt k \<le> count_of cnt' k"
    and "r = Inr () \<Longrightarrow> count_of cnt' k = count_of cnt k \<or> count_of cnt' k \<le> lmt"
    and "r = Inr () \<Longrightarrow> edge_kind e = LOOP \<Longrightarrow> count_of cnt (loop_key e) < count_of cnt' (loop_key e)"
  using assms
  by (auto simp: count_loop_def count_of_def dict_get_def update_conv loop_key_def Let_def split: if_splits option.splits)

lemma evaluate_edges_counters:
  assumes "evaluate_edges rt c out lmt es (d, cnt, keys) = (Inr cs, (d', cnt', keys'))"
  shows "count_of cnt k \<le> count_of cnt' k"
    and "count_of cnt' k = count_of cnt k \<or> count_of cnt' k \<le> lmt"
    and "e \<in> set es \<Longrightarrow> from_node e = cx_current_node_id c \<Longrightarrow> edge_kind e = LOOP \<Longrightarrow>
         count_of cnt (loop_key e) < count_of cnt' (loop_key e)"
proof -
  have "count_of cnt k \<le> count_of cnt' k \<and> (count_of cnt' k = count_of cnt k \<or> count_of cnt' k \<le> lmt) \<and>
      (e \<in> set es \<longrightarrow> from_node e = cx_current_node_id c \<longrightarrow> edge_kind e = LOOP \<longrightarrow>
         count_of cnt (loop_key e) < count_of cnt' (loop_key e))" for e k
    using assms
  proof (induction es arbitrary: d cnt keys cs e k)
    case Nil
    then show ?case by (simp add: ret_def)
  next
    case (Cons f es)
    show ?case
    proof (cases "from_node f = cx_current_node_id c")
      case False
      then show ?thesis using Cons.IH [of d cnt keys cs k e] Cons.prems by auto
    next
      case True
      then obtain b ds d1 cnt1 keys1 d2 where
        1: "count_loop lmt f (d, cnt, keys) = (Inr (), (d1, cnt1, keys1))" and
        2: "evaluate_edges rt c out lmt es (d2, cnt1, keys1) = (Inr ds, (d', cnt', keys'))"
        using Cons.prems by (auto simp: bind_eq_Inr lift_res_def on_db_iff ret_def)
      have "count_of cnt1 k \<le> count_of cnt' k \<and> (count_of cnt' k = count_of cnt1 k \<or> count_of cnt' k \<le> lmt)" for k
        using Cons.IH [OF 2] by blast
      moreover have "e \<in> set es \<longrightarrow> from_node e = cx_current_node_id c \<longrightarrow> edge_kind e = LOOP \<longrightarrow>
         count_of cnt1 (loop_key e) < count_of cnt' (loop_key e)"
        using Cons.IH [OF 2] by blast
      ultimately show ?thesis
        using count_loop_effect [OF 1] by (smt (verit) set_ConsD)
    qed
  qed
  then show "count_of cnt k \<le> count_of cnt' k" "count_of cnt' k = count_of cnt k \<or> count_of cnt' k \<le> lmt"
    "e \<in> set es \<Longrightarrow> from_node e = cx_current_node_id c \<Longrightarrow> edge_kind e = LOOP \<Longrightarrow>
         count_of cnt (loop_key e) < count_of cnt' (loop_key e)"
    by blast+
qed

lemma route_cases:
  assumes "route rt plan c ty nid r ns lmt s = (Inr oc, s')"
  shows "oc_node_data oc = nd_data r \<and> oc_node_run_id oc = Some nid \<and>
    (case oc_status oc of
       ADVANCE \<Rightarrow> (\<exists>e. matching_edges rt plan (cx_current_node_id c) (nd_data r) = [e] \<and>
         oc_next_node_id oc = Some (to_node e) \<and> oc_context oc = advance_context plan c ty r ns (to_node e) \<and>
         oc_failure_reason oc = None)
     | STEP_FAILED \<Rightarrow> (case oc_failure_reason oc of
         Some NO_MATCHING_EDGE \<Rightarrow> matching_edges rt plan (cx_current_node_id c) (nd_data r) = []
       | Some MULTIPLE_MATCHING_EDGES \<Rightarrow> 2 \<le> length (matching_edges rt plan (cx_current_node_id c) (nd_data r))
       | Some EDGE_EVALUATION_ERROR \<Rightarrow> \<exists>e. oc_failure_exception oc = Some e \<and> is_domain_validation e
       | _ \<Rightarrow> False)
     | _ \<Rightarrow> False)"
proof -
  let ?n = "cx_current_node_id c"
  let ?ev = "evaluate_edges rt c (nd_data r) lmt (edges_from (adjacency_map plan) ?n) (fst s, snd s, [])"
  obtain x d cnt keys where ev: "?ev = (x, (d, cnt, keys))" by (metis prod.exhaust)
  show ?thesis
  proof (cases x)
    case (Inl e)
    then show ?thesis using assms ev
      by (auto simp: route_def outcome_def split: if_splits)
  next
    case (Inr cs)
    then have cs: "cs = map to_node (matching_edges rt plan ?n (nd_data r))"
      using evaluate_edges_result [of rt c "nd_data r" lmt _ _ cs] ev by (simp add: matching_edges_def)
    show ?thesis
    proof (cases "matching_edges rt plan ?n (nd_data r)")
      case Nil
      then show ?thesis using assms ev Inr cs by (auto simp: route_def outcome_def)
    next
      case (Cons e es)
      then show ?thesis using assms ev Inr cs
        by (cases es) (auto simp: route_def outcome_def)
    qed
  qed
qed

lemma finish_node_cases:
  assumes "finish_node rt plan c ty cfg nid r lmt s = (Inr oc, s')"
  obtains (needs_input) n where "nd_status r = NEEDS_INPUT"
      "oc = (outcome STEP_NEEDS_INPUT c)\<lparr>oc_node_type := Some ty, oc_node_run_id := Some nid, oc_node_data := nd_data r,
        oc_resume_to_node_id := Some n\<rparr>"
  | (terminal) "nd_status r \<noteq> NEEDS_INPUT" "ty \<in> set TERMINAL_NODE_TYPES"
      "oc = (outcome TERMINAL c)\<lparr>oc_node_type := Some ty, oc_node_run_id := Some nid, oc_node_data := nd_data r\<rparr>"
  | (routed) ns d where "nd_status r \<noteq> NEEDS_INPUT" "ty \<notin> set TERMINAL_NODE_TYPES"
      "next_state c r = Inr ns" "route rt plan c ty nid r ns lmt (d, snd s) = (Inr oc, s')"
proof -
  obtain ns d where t: "next_state c r = Inr ns"
    "(let done = (\<lambda>st. (outcome st c)\<lparr>oc_node_type := Some ty, oc_node_run_id := Some nid, oc_node_data := nd_data r\<rparr>)
      in if nd_status r = NEEDS_INPUT
         then (case resume_to c cfg r of
                 PStr n \<Rightarrow> ret ((done STEP_NEEDS_INPUT)\<lparr>oc_resume_to_node_id := Some n\<rparr>)
               | _ \<Rightarrow> raise ValidationError)
         else if ty \<in> set TERMINAL_NODE_TYPES then ret (done TERMINAL)
         else route rt plan c ty nid r ns lmt) (d, snd s) = (Inr oc, s')"
    using assms unfolding finish_node_def settle_node_def Let_def
    by (auto simp: bind_eq_Inr lift_res_def on_db_iff)
  show thesis
  proof (cases "nd_status r = NEEDS_INPUT")
    case True
    then show thesis using t by (auto simp: Let_def ret_def raise_def split: pyval.splits intro: needs_input)
  next
    case False
    then show thesis using t
      by (cases "ty \<in> set TERMINAL_NODE_TYPES") (auto simp: Let_def ret_def intro: terminal routed)
  qed
qed

lemma run_node_cases:
  assumes "run_node rt plan c ty cfg node lmt s = (Inr oc, s')"
  obtains (raised) nid e where "oc = (outcome STEP_FAILED (c\<lparr>cx_current_node_run_id := Some nid\<rparr>))\<lparr>oc_node_type := Some ty,
      oc_node_run_id := Some nid, oc_failure_reason := Some STRUCTURAL_ERROR, oc_failure_exception := Some e\<rparr>"
  | (returned) nid r tools d d' where
      "node (c\<lparr>cx_current_node_run_id := Some nid\<rparr>) cfg d = (Inr (r, tools), d')"
      "finish_node rt plan (c\<lparr>cx_current_node_run_id := Some nid, cx_available_tools := tools, cx_node_output := nd_data r\<rparr>)
         ty cfg nid r lmt (d', snd s) = (Inr oc, s')"
proof -
  obtain nid d x d' where
    node: "node (c\<lparr>cx_current_node_run_id := Some nid\<rparr>) cfg d = (x, d')"
    and x: "(case x of
         Inl e \<Rightarrow> ret ((outcome STEP_FAILED (c\<lparr>cx_current_node_run_id := Some nid\<rparr>))\<lparr>oc_node_type := Some ty, oc_node_run_id := Some nid,
             oc_failure_reason := Some STRUCTURAL_ERROR, oc_failure_exception := Some e\<rparr>)
       | Inr (r, tools) \<Rightarrow> finish_node rt plan (c\<lparr>cx_current_node_run_id := Some nid, cx_available_tools := tools, cx_node_output := nd_data r\<rparr>)
           ty cfg nid r lmt) (d', snd s) = (Inr oc, s')"
    using assms unfolding run_node_def Let_def
    by (auto simp: bind_eq_Inr lift_res_def catch_def bind_def ret_def on_db_def split: prod.splits sum.splits)
  show thesis
  proof (cases x)
    case (Inl e)
    then show thesis using x by (auto simp: ret_def intro: raised)
  next
    case (Inr p)
    then show thesis using x node by (cases p) (auto intro: returned)
  qed
qed

lemma run_step_cases:
  assumes "run_step rt plan lmt c s = (r, s')"
  obtains (not_found) "map_of (plan_nodes plan) (cx_current_node_id c) = None" "s' = s"
      "r = Inr ((outcome STEP_FAILED c)\<lparr>oc_failure_reason := Some NODE_NOT_FOUND\<rparr>)"
  | (unknown_type) spec where "map_of (plan_nodes plan) (cx_current_node_id c) = Some spec"
      "rt_registry rt (type_of_node spec) = None" "s' = s"
      "r = Inr ((outcome STEP_FAILED c)\<lparr>oc_node_type := Some (type_of_node spec), oc_failure_reason := Some UNKNOWN_NODE_TYPE\<rparr>)"
  | (not_built) spec e where "map_of (plan_nodes plan) (cx_current_node_id c) = Some spec"
      "rt_registry rt (type_of_node spec) = Some (Inl e)" "s' = s"
      "r = Inr ((outcome STEP_FAILED (c\<lparr>cx_metadata := AList.update ''current_node_type'' (PStr (type_of_node spec)) (cx_metadata c)\<rparr>))\<lparr>oc_node_type := Some (type_of_node spec),
         oc_failure_reason := Some STRUCTURAL_ERROR, oc_failure_exception := Some e\<rparr>)"
  | (node) spec node where "map_of (plan_nodes plan) (cx_current_node_id c) = Some spec"
      "rt_registry rt (type_of_node spec) = Some (Inr node)"
      "run_node rt plan (c\<lparr>cx_metadata := AList.update ''current_node_type'' (PStr (type_of_node spec)) (cx_metadata c)\<rparr>)
         (type_of_node spec) (or_empty (config spec)) node lmt s = (r, s')"
proof (cases "map_of (plan_nodes plan) (cx_current_node_id c)")
  case None
  then show thesis using assms by (intro not_found) (auto simp: run_step_def ret_def)
next
  case spec: (Some spec)
  show thesis
  proof (cases "rt_registry rt (type_of_node spec)")
    case None
    then show thesis using assms spec by (intro unknown_type) (auto simp: run_step_def ret_def Let_def)
  next
    case cls: (Some cls)
    show thesis
    proof (cases cls)
      case (Inl e)
      then show thesis using assms spec cls
        by (intro not_built)
          (auto simp: run_step_def ret_def Let_def)
    next
      case (Inr n)
      then show thesis using assms spec cls by (intro node) (auto simp: run_step_def Let_def)
    qed
  qed
qed

text \<open>C3: A step goes where the graph says.  When a step advances, exactly one edge of the node is true of
  the node's output, and the step goes to that edge's target; it fails with \<open>NO_MATCHING_EDGE\<close> only
  when none is true and with \<open>MULTIPLE_MATCHING_EDGES\<close> only when at least two are.  It is terminal
  exactly for a node of a terminal type, it asks for input only with a node to resume at, and it fails with
  \<open>NODE_NOT_FOUND\<close>, \<open>UNKNOWN_NODE_TYPE\<close>, \<open>EDGE_EVALUATION_ERROR\<close> and \<open>STRUCTURAL_ERROR\<close> only for
  their causes.  There is no other outcome.\<close>

theorem step_routing:
  assumes "run_step rt plan lmt c s = (Inr oc, s')"
  defines "n \<equiv> cx_current_node_id c"
  shows "case oc_status oc of
      ADVANCE \<Rightarrow> (\<exists>spec e. map_of (plan_nodes plan) n = Some spec \<and> type_of_node spec \<notin> set TERMINAL_NODE_TYPES \<and>
        matching_edges rt plan n (oc_node_data oc) = [e] \<and> oc_next_node_id oc = Some (to_node e) \<and>
        cx_current_node_id (oc_context oc) = to_node e)
    | TERMINAL \<Rightarrow> (\<exists>spec. map_of (plan_nodes plan) n = Some spec \<and> type_of_node spec \<in> set TERMINAL_NODE_TYPES)
    | STEP_NEEDS_INPUT \<Rightarrow> oc_resume_to_node_id oc \<noteq> None
    | STEP_FAILED \<Rightarrow> (case oc_failure_reason oc of
        Some NODE_NOT_FOUND \<Rightarrow> map_of (plan_nodes plan) n = None
      | Some UNKNOWN_NODE_TYPE \<Rightarrow> (\<exists>spec. map_of (plan_nodes plan) n = Some spec \<and> rt_registry rt (type_of_node spec) = None)
      | Some NO_MATCHING_EDGE \<Rightarrow> matching_edges rt plan n (oc_node_data oc) = []
      | Some MULTIPLE_MATCHING_EDGES \<Rightarrow> 2 \<le> length (matching_edges rt plan n (oc_node_data oc))
      | Some EDGE_EVALUATION_ERROR \<Rightarrow> (\<exists>e. oc_failure_exception oc = Some e \<and> is_domain_validation e)
      | Some STRUCTURAL_ERROR \<Rightarrow> oc_failure_exception oc \<noteq> None
      | _ \<Rightarrow> False)"
proof -
  show ?thesis
    using assms(1)
  proof (cases rule: run_step_cases)
    case (node spec node)
    from node(3) show ?thesis
    proof (cases rule: run_node_cases)
      case (raised nid e)
      then show ?thesis by (simp add: outcome_def)
    next
      case (returned nid r tools d d')
      from returned(2) show ?thesis
      proof (cases rule: finish_node_cases)
        case (needs_input k)
        then show ?thesis by (simp add: outcome_def)
      next
        case terminal
        then show ?thesis using node(1) by (simp add: outcome_def n_def)
      next
        case (routed ns u)
        then show ?thesis using route_cases [OF routed(4)] node(1)
          by (auto simp: n_def advance_context_def Let_def split: NodeStepStatus.splits option.splits FlowFailureReason.splits)
      qed
    qed
  qed (auto simp: outcome_def n_def)
qed

subsection \<open>The node run of a step\<close>

lemma on_db_eq: "on_db m (d, x) = (r, (d', y)) \<longleftrightarrow> m d = (r, d') \<and> y = x"
  by (auto simp: on_db_def split: prod.splits)

lemma create_node_run_effect:
  assumes "create_node_run fid n k i out st cst d = (Inr nid, d')"
  shows "nid = fresh d \<and> node_runs d' = node_runs d @ [\<lparr>nr_id = nid, nr_flow_run_id = fid, nr_node_id = n, nr_status = st,
       nr_canonical_status = cst, nr_correlation_id = k, nr_finished_at = None,
       nr_input = i, nr_output = out, nr_created_at = clock d\<rparr>]"
  using assms by (auto simp: create_node_run_def new_uuid_def comp_simps split: if_splits)

lemma update_node_run_effect:
  assumes "update_node_run_result nid out st cst d = (Inr u, d')" "node_runs d = rs @ [row]" "nr_id row = nid"
    "\<forall>r \<in> set rs. nr_id r \<noteq> nid"
  shows "node_runs d' = rs @ [row\<lparr>nr_output := out, nr_status := st, nr_canonical_status := cst,
     nr_finished_at := Some (clock d)\<rparr>]"
proof -
  have "map (\<lambda>r. if nr_id r = nid then f r else r) rs = rs" for f
    using assms(4) by (intro map_idI) auto
  then show ?thesis
    using assms(1-3)
    by (auto simp: update_node_run_result_def get_node_run_def comp_simps update_where_def split: option.splits sum.splits)
qed

lemma finish_not_structural:
  assumes "finish_node rt plan c ty cfg nid r lmt s = (Inr oc, s')"
  shows "oc_failure_reason oc \<noteq> Some STRUCTURAL_ERROR \<and> oc_node_run_id oc = Some nid \<and>
    (oc_status oc = STEP_NEEDS_INPUT \<longleftrightarrow> nd_status r = NEEDS_INPUT)"
  using assms
proof (cases rule: finish_node_cases)
  case (routed ns t)
  then show ?thesis using route_cases [OF routed(4)] by (auto split: NodeStepStatus.splits option.splits)
qed (simp_all add: outcome_def)

lemma run_node_settles:
  assumes wf: "node_runs_wf d" and rt: "runtime_keeps same_node_runs rt" "\<And>c cfg. keeps same_node_runs (node c cfg)"
    and run: "run_node rt plan c ty cfg node lmt (d, cnt) = (Inr oc, (d', cnt'))"
  shows "oc_node_run_id oc = Some (fresh d) \<and> settled d c oc (fresh d) d'"
proof -
  let ?input = "[(''input_payload'', opt_dict (cx_input_payload c)), (''state'', PDict (cx_state c)),
          (''memory'', PList (map PDict (cx_memory c))), (''metadata'', PDict (cx_metadata c))]"
  obtain u nid d1 d2 x d3 where
    u: "parse_uuid (cx_current_node_id c) = Inr u" and
    1: "create_node_run (cx_flow_run_id c) u (cx_correlation_id c) ?input [] (node_status N_RUNNING) (node_status N_RUNNING) d = (Inr nid, d1)" and
    2: "emit_node_started rt (c\<lparr>cx_current_node_run_id := Some nid\<rparr>) d1 = (Inr (), d2)" and
    3: "node (c\<lparr>cx_current_node_run_id := Some nid\<rparr>) cfg d2 = (x, d3)" and
    4: "(case x of
         Inl e \<Rightarrow> ret ((outcome STEP_FAILED (c\<lparr>cx_current_node_run_id := Some nid\<rparr>))\<lparr>oc_node_type := Some ty, oc_node_run_id := Some nid,
             oc_failure_reason := Some STRUCTURAL_ERROR, oc_failure_exception := Some e\<rparr>)
       | Inr (r, tools) \<Rightarrow> finish_node rt plan (c\<lparr>cx_current_node_run_id := Some nid, cx_available_tools := tools, cx_node_output := nd_data r\<rparr>)
           ty cfg nid r lmt) (d3, cnt) = (Inr oc, (d', cnt'))"
    using run unfolding run_node_def Let_def
    by (auto simp: bind_eq_Inr lift_res_def catch_def bind_def ret_def on_db_def split: prod.splits sum.splits)
  note row = create_node_run_effect [OF 1]
  have "node_runs d2 = node_runs d1"
    using keepsD [OF node_run_writes.emit_node_started_keeps [OF rt(1)] 2] by (simp add: same_node_runs_def)
  moreover have "node_runs d3 = node_runs d2" using keepsD [OF rt(2) 3] by (simp add: same_node_runs_def)
  ultimately have d3: "node_runs d3 = node_runs d1" by simp
  have old: "\<forall>r \<in> set (node_runs d). nr_id r \<noteq> nid" using wf row by (auto simp: node_runs_wf_def)
  show ?thesis
  proof (cases x)
    case (Inl e)
    then show ?thesis using 4 row d3 u by (auto simp: ret_def outcome_def settled_def)
  next
    case (Inr p)
    obtain r tools where p: "p = (r, tools)" by fastforce
    let ?c = "c\<lparr>cx_current_node_run_id := Some nid, cx_available_tools := tools, cx_node_output := nd_data r\<rparr>"
    let ?st = "node_status (map_node_status (nd_status r))"
    have fin: "finish_node rt plan ?c ty cfg nid r lmt (d3, cnt) = (Inr oc, (d', cnt'))" using 4 Inr p by simp
    then obtain v d4 where 5: "update_node_run_result nid (dump_result rt r) ?st ?st d3 = (Inr v, d4)"
        "settle_node rt plan ?c ty cfg nid r lmt (d4, cnt) = (Inr oc, (d', cnt'))"
      unfolding finish_node_def Let_def by (auto simp: bind_eq_Inr on_db_def split: prod.splits)
    have "node_runs d' = node_runs d4"
      using keepsD [OF node_run_writes.settle_node_keeps [OF rt(1)] 5(2)] by (simp add: same_node_runs_def fst_rel_def)
    then show ?thesis
      using update_node_run_effect [OF 5(1)] row d3 old u finish_not_structural [OF fin]
      by (cases "nd_status r") (auto simp: settled_def map_node_status_def)
  qed
qed

text \<open>C14: Every node a step starts leaves exactly one node run.  When the nodes and the hook do not write node
  runs themselves, a step either starts no node and leaves the node runs alone, or appends one row for the
  flow run and the current node, under the id it reports.  A node that returned has a finished row, COMPLETED,
  FAILED or, when it asks for input, PENDING.  A node that raised leaves its row RUNNING and unfinished: the
  step fails with \<open>STRUCTURAL_ERROR\<close> and nobody closes the node run.\<close>

theorem step_node_run:
  assumes "node_runs_wf d" "runtime_keeps same_node_runs rt"
    and "run_step rt plan lmt c (d, cnt) = (Inr oc, (d', cnt'))"
  shows "case oc_node_run_id oc of None \<Rightarrow> d' = d | Some nid \<Rightarrow> settled d c oc nid d'"
  using assms(3)
proof (cases rule: run_step_cases)
  case (node spec node)
  have "keeps same_node_runs (node c cfg)" for c cfg
    using assms(2) node(2) by (auto simp: runtime_keeps_def)
  from run_node_settles [OF assms(1,2) this node(3)] show ?thesis
    by (simp add: settled_def)
qed (auto simp: outcome_def)

subsection \<open>An example\<close>

lemma demo_runtime_keeps: "reflp R \<Longrightarrow> hook_keeps R DbExecutionEventHook \<Longrightarrow> runtime_keeps R demo_runtime"
  by (auto simp: runtime_keeps_def demo_runtime_def keeps_ret keeps_raise split: if_splits)

lemma same_node_runs_hook: "hook_keeps same_node_runs DbExecutionEventHook"
proof -
  have "keeps same_node_runs (safe_emit t fid a)" for t fid a
    unfolding safe_emit_def by (intro node_run_writes.R_intros)
  then show ?thesis
    by (simp add: hook_keeps_def DbExecutionEventHook_def on_flow_start_def on_node_start_def
      on_node_complete_def on_edge_evaluated_def on_flow_complete_def on_flow_failed_def)
qed

theorem step_routing_witness:
  "(let x = run_step demo_runtime (demo_step_plan ''IntentClassifier'') 10 demo_context (demo_db, []);
        oc = projr (fst x)
    in oc_status oc = ADVANCE \<and> oc_next_node_id oc = Some demo_n2
       \<and> length (matching_edges demo_runtime (demo_step_plan ''IntentClassifier'') demo_n1 (oc_node_data oc)) = 1)"
proof -
  define x where "x = run_step demo_runtime (demo_step_plan ''IntentClassifier'') 10 demo_context (demo_db, [])"
  define oc where "oc = projr (fst x)"
  have "\<not> isl (fst x)" and st: "oc_status oc = ADVANCE" and nx: "oc_next_node_id oc = Some demo_n2"
    unfolding oc_def x_def by code_simp+
  then have "run_step demo_runtime (demo_step_plan ''IntentClassifier'') 10 demo_context (demo_db, []) = (Inr oc, snd x)"
    unfolding oc_def x_def by (metis prod.collapse sum.collapse(2))
  moreover have "cx_current_node_id demo_context = demo_n1" by (simp add: demo_context_def)
  ultimately have "length (matching_edges demo_runtime (demo_step_plan ''IntentClassifier'') demo_n1 (oc_node_data oc)) = 1"
    using step_routing st by fastforce
  with st nx show ?thesis by (simp add: Let_def x_def [symmetric] oc_def [symmetric])
qed

theorem step_node_run_witness:
  "(let x = run_step demo_runtime (demo_step_plan ''ToolExecutor'') 10 demo_context (demo_db, [])
    in settled demo_db demo_context (projr (fst x)) (fresh demo_db) (fst (snd x))
       \<and> map nr_status (node_runs (fst (snd x))) = [''RUNNING''])"
proof -
  define x where "x = run_step demo_runtime (demo_step_plan ''ToolExecutor'') 10 demo_context (demo_db, [])"
  define oc where "oc = projr (fst x)"
  have "\<not> isl (fst x)" and nid: "oc_node_run_id oc = Some (fresh demo_db)"
    and st: "map nr_status (node_runs (fst (snd x))) = [''RUNNING'']"
    unfolding oc_def x_def by code_simp+
  then have run: "run_step demo_runtime (demo_step_plan ''ToolExecutor'') 10 demo_context (demo_db, []) =
      (Inr oc, (fst (snd x), snd (snd x)))"
    unfolding oc_def x_def by (metis prod.collapse sum.collapse(2))
  have "node_runs_wf demo_db" by code_simp
  from step_node_run [OF this demo_runtime_keeps [OF same_node_runs_refl same_node_runs_hook] run] nid st
  show ?thesis by (simp add: Let_def x_def [symmetric] oc_def [symmetric])
qed



end
