(* ===== verification/RuntimeExecutor.thy ===== *)
theory RuntimeExecutor
  imports NodeStepRunner
begin

text \<open>
  A whole flow run: \<open>RuntimeExecutor\<close> of
  \<^verbatim>\<open>src/src/domain/execution/services/graph_runtime/executor.py\<close>, which drives the step runner
  along the plan and writes the outcome of the run.  The loop is bounded by \<open>max_steps\<close>, as in the code.

  What is shown: a run that returns leaves its flow run COMPLETED, FAILED or WAITING and no other run
  touched; under the conditions of \<open>sound_runtime\<close> it always returns; a node with a loop edge is
  entered at most once more than the loop limit; events are only appended.
\<close>

subsection \<open>Failing and completing a run\<close>

text \<open>\<open>format_exception\<close>; the exceptions of the model carry no further errors and no input data.\<close>

definition format_exception :: "runtime \<Rightarrow> string \<Rightarrow> string \<Rightarrow> exn \<Rightarrow> pydict" where
  "format_exception rt reason correlation_id e =
     [(''correlation_id'', PStr correlation_id), (''reason'', PStr reason),
      (''code'', PStr (case e of Service k m \<Rightarrow> exn_name k | Py k \<Rightarrow> py_class_name k)),
      (''message'', PStr (case e of Service k m \<Rightarrow> m | Py k \<Rightarrow> rt_message rt k)),
      (''errors'', PList []), (''input_data'', PDict [])]"

definition fail_flow ::
    "runtime \<Rightarrow> uuid \<Rightarrow> string \<Rightarrow> uuid \<Rightarrow> uuid \<Rightarrow> uuid \<Rightarrow> FlowFailureReason \<Rightarrow> exn option \<Rightarrow> (db, unit) comp" where
  "fail_flow rt tenant user session fid correlation reason exc =
     (let value = failure_reason_value reason;
          e = (case exc of Some e \<Rightarrow> e | None \<Rightarrow> domain_validation value);
          payload = [(''reason'', PStr value)]
      in bind (fail_flow_run fid value (Some (format_exception rt value (uuid_str correlation) e))) (\<lambda>_.
           case rt_hook rt of
             Some hook \<Rightarrow> hk_flow_failed hook \<lparr>ha_tenant_id = tenant, ha_user_id = Some user, ha_session_id = session,
               ha_flow_run_id = fid, ha_correlation_id = correlation, ha_payload = payload, ha_causation_id = None,
               ha_schema_version = 1\<rparr>
           | None \<Rightarrow> direct_event tenant session fid correlation FlowFailed payload))"

definition memory_extraction_config :: "ExecutionContext \<Rightarrow> pyval" where
  "memory_extraction_config c =
     (case map_of (cx_metadata c) ''runtime_policy'' of
        Some (PDict policy) \<Rightarrow> (case map_of policy ''memory_extraction'' of Some (PDict d) \<Rightarrow> PDict d | _ \<Rightarrow> PNone)
      | _ \<Rightarrow> PNone)"

definition complete_flow :: "runtime \<Rightarrow> ExecutionContext \<Rightarrow> uuid option \<Rightarrow> pydict \<Rightarrow> string \<Rightarrow> (db, unit) comp" where
  "complete_flow rt c nid data user =
     (let payload = [(''terminated_at'', PStr (cx_current_node_id c)), (''payload'', PDict data),
            (''memory_extraction_config'', memory_extraction_config c)]
      in bind (complete_flow_run (cx_flow_run_id c) (flow_status F_COMPLETED) data) (\<lambda>_.
         bind (set_current_interaction_result_for_flow_run (cx_flow_run_id c) data nid) (\<lambda>_.
           case rt_hook rt of
             Some hook \<Rightarrow> hk_flow_complete hook ((hook_call c payload)\<lparr>ha_user_id := Some user\<rparr>)
           | None \<Rightarrow> context_event c FlowCompleted payload)))"

definition wait_for_input :: "uuid \<Rightarrow> pydict \<Rightarrow> uuid option \<Rightarrow> (db, unit) comp" where
  "wait_for_input fid data nid =
     bind (set_flow_run_output fid data) (\<lambda>_.
     bind (set_current_interaction_result_for_flow_run fid data nid) (\<lambda>_.
       set_flow_run_status fid (run_status R_WAITING_INPUT) (flow_status F_WAITING)))"

subsection \<open>Running\<close>

record run_args =
  xr_tenant_id :: uuid
  xr_interaction_id :: uuid
  xr_session_id :: uuid
  xr_input_payload :: pydict
  xr_flow_id :: uuid
  xr_flow_version_id :: uuid
  xr_flow_run_id :: uuid
  xr_correlation_id :: uuid
  xr_trace_id :: "uuid option"
  xr_plan :: execution_plan
  xr_policy :: "pydict option"
  xr_trace_user_id :: "string option"
  xr_start_node_id :: "string option"
  xr_initial_state :: "pydict option"
  xr_initial_memory :: "pydict list option"

definition default_loop_limit :: int where
  "default_loop_limit = 10"

text \<open>\<open>xr_policy\<close> is the dump of the runtime policy's definition; an empty one counts as none.\<close>

definition loop_limit_of :: "pydict \<Rightarrow> int" where
  "loop_limit_of definition_dump =
     (if definition_dump = [] then default_loop_limit
      else let limits = (case map_of definition_dump ''limits'' of Some (PDict d) \<Rightarrow> d | _ \<Rightarrow> []) in
        (case dict_get limits ''max_loop_iterations'' PNone of
           PNone \<Rightarrow> default_loop_limit
         | v \<Rightarrow> (case py_int v of
               Inr n \<Rightarrow> if n < 1 then default_loop_limit else n
             | Inl _ \<Rightarrow> default_loop_limit)))"

definition user_context_gate :: "runtime \<Rightarrow> pydict \<Rightarrow> pydict \<Rightarrow> pydict" where
  "user_context_gate rt definition_dump state =
     (case map_of definition_dump ''user_context_enrichment'' of
        Some (PDict policy) \<Rightarrow>
          if truthy (dict_get policy ''enabled'' PNone) then
            let key = ''user_context_enrichment'';
                handle = (case map_of state key of Some (PDict h) \<Rightarrow> h | _ \<Rightarrow> []);
                mode = (if truthy (dict_get policy ''gating'' PNone) then ''GATED'' else ''LEGACY'');
                old_mode = dict_get handle ''mode'' PNone
            in AList.update key (PDict [(''enabled'', PBool True),
                 (''published'', PBool (truthy (dict_get handle ''published'' (PBool False)))),
                 (''published_by_node_id'', dict_get handle ''published_by_node_id'' PNone),
                 (''published_at'', dict_get handle ''published_at'' PNone),
                 (''layers'', (case map_of handle ''layers'' of Some (PDict l) \<Rightarrow> PDict l | _ \<Rightarrow> PDict [])),
                 (''mode'', PStr (if truthy old_mode then py_str (rt_repr rt) old_mode else mode))]) state
          else state
      | _ \<Rightarrow> state)"

definition max_steps :: "execution_plan \<Rightarrow> int \<Rightarrow> nat" where
  "max_steps plan loop_limit =
     (let adj = adjacency_map plan;
          total = sum_list (map (length \<circ> snd) adj);
          edge_count = (if total = 0 then 1 else total)
      in nat (max (int (length (ordered_nodes plan) + edge_count + 2))
                  (loop_limit * int (max (length adj) 1) + 2)))"

definition start_context :: "runtime \<Rightarrow> run_args \<Rightarrow> string \<Rightarrow> ExecutionContext" where
  "start_context rt a user =
     (let dump = or_empty (xr_policy a) in
      \<lparr>cx_tenant_id = xr_tenant_id a, cx_interaction_id = xr_interaction_id a, cx_user_id = user,
       cx_session_id = xr_session_id a, cx_input_payload = Some (xr_input_payload a), cx_flow_id = xr_flow_id a,
       cx_flow_version_id = xr_flow_version_id a, cx_flow_run_id = xr_flow_run_id a,
       cx_correlation_id = xr_correlation_id a, cx_trace_id = xr_trace_id a,
       cx_current_node_id = (case xr_start_node_id a of
           Some n \<Rightarrow> if n = [] then start_node_id (xr_plan a) else n
         | None \<Rightarrow> start_node_id (xr_plan a)),
       cx_current_node_run_id = None, cx_available_tools = available_tools (xr_plan a),
       cx_state = user_context_gate rt dump (or_empty (xr_initial_state a)),
       cx_memory = (case xr_initial_memory a of Some m \<Rightarrow> m | None \<Rightarrow> []),
       cx_metadata = (if dump = [] then [] else [(''runtime_policy'', PDict dump)]),
       cx_node_output = [], cx_system_prompt = None, cx_system_context = None\<rparr>)"

text \<open>What a step that does not advance does to the run; a failed step always has a reason.\<close>

definition finish_run :: "runtime \<Rightarrow> run_args \<Rightarrow> string \<Rightarrow> NodeStepOutcome \<Rightarrow> (db, unit) comp" where
  "finish_run rt a user oc =
     (case oc_status oc of
        STEP_NEEDS_INPUT \<Rightarrow> wait_for_input (xr_flow_run_id a) (oc_node_data oc) (oc_node_run_id oc)
      | TERMINAL \<Rightarrow> complete_flow rt (oc_context oc) (oc_node_run_id oc) (oc_node_data oc) user
      | _ \<Rightarrow> (case oc_failure_reason oc of
            Some reason \<Rightarrow> fail_flow rt (xr_tenant_id a) (cx_user_id (oc_context oc)) (xr_session_id a)
              (xr_flow_run_id a) (xr_correlation_id a) reason (oc_failure_exception oc)
          | None \<Rightarrow> raise (Py AttributeError)))"

text \<open>The \<open>for\<close> loop, with the number of steps left.\<close>

fun run_loop :: "runtime \<Rightarrow> run_args \<Rightarrow> string \<Rightarrow> int \<Rightarrow> nat \<Rightarrow> ExecutionContext \<Rightarrow> (db \<times> counters, unit) comp" where
  "run_loop rt a user loop_limit 0 c =
     on_db (fail_flow rt (xr_tenant_id a) (cx_user_id c) (xr_session_id a) (xr_flow_run_id a)
       (xr_correlation_id a) MAX_STEPS_EXCEEDED None)"
| "run_loop rt a user loop_limit (Suc n) c =
     bind (run_step rt (xr_plan a) loop_limit c) (\<lambda>oc.
       if oc_status oc = ADVANCE
       then run_loop rt a user loop_limit n (case oc_next_node_id oc of
           Some k \<Rightarrow> (oc_context oc)\<lparr>cx_current_node_id := k\<rparr> | None \<Rightarrow> oc_context oc)
       else on_db (finish_run rt a user oc))"

definition run :: "runtime \<Rightarrow> run_args \<Rightarrow> (db, unit) comp" where
  "run rt a d =
     (let loop_limit = loop_limit_of (or_empty (xr_policy a)) in
      case xr_trace_user_id a of
        None \<Rightarrow> (Inl (domain_validation ''user_id_required''), d)
      | Some user \<Rightarrow>
          (case run_loop rt a user loop_limit (max_steps (xr_plan a) loop_limit) (start_context rt a user) (d, []) of
             (r, (d', _)) \<Rightarrow> (r, d')))"

subsection \<open>How a run ends\<close>

text \<open>The statuses a run can be left in, and a write that leaves exactly one run in one of them.\<close>

definition final_statuses :: "(string \<times> string) list" where
  "final_statuses = [(''COMPLETED'', ''COMPLETED''), (''FAILED'', ''FAILED''), (''WAITING_INPUT'', ''WAITING'')]"

definition settles_run :: "uuid \<Rightarrow> db \<Rightarrow> db \<Rightarrow> bool" where
  "settles_run fid d d' \<longleftrightarrow> (\<exists>f. flow_runs d' = update_where (\<lambda>r. fr_id r = fid) f (flow_runs d) \<and>
     (\<forall>r. fr_id (f r) = fr_id r \<and> (fr_status (f r), fr_canonical_status (f r)) \<in> set final_statuses))"

text \<open>
  What the executor needs in order never to raise: observability is on, the ids of node runs are unique and
  the graph state of a run is one row.
\<close>

definition store_ok :: "db \<Rightarrow> bool" where
  "store_ok d \<longleftrightarrow> tracing d \<and> node_runs_wf d \<and> distinct (map nr_id (node_runs d)) \<and>
     distinct (map gs_flow_run_id (graph_states d))"

definition keeps_ok :: "db \<Rightarrow> db \<Rightarrow> bool" where
  "keeps_ok d d' \<longleftrightarrow> (store_ok d \<longrightarrow> store_ok d')"

definition returns :: "('s, 'a) comp \<Rightarrow> 's \<Rightarrow> bool" where
  "returns m s \<longleftrightarrow> \<not> isl (fst (m s))"

definition hook_returns :: "db event_hook \<Rightarrow> bool" where
  "hook_returns h \<longleftrightarrow> (\<forall>a s. returns (hk_flow_start h a) s) \<and> (\<forall>a n s. returns (hk_node_start h a n) s) \<and>
     (\<forall>a n s. returns (hk_node_complete h a n) s) \<and> (\<forall>a n e s. returns (hk_edge_evaluated h a n e) s) \<and>
     (\<forall>a s. returns (hk_flow_complete h a) s) \<and> (\<forall>a s. returns (hk_flow_failed h a) s)"

text \<open>The outputs filed in the state are a dictionary, or absent.\<close>

definition outputs_ok :: "pydict \<Rightarrow> bool" where
  "outputs_ok st \<longleftrightarrow> (case dict_get st NODE_OUTPUTS_BY_NODE_ID_KEY PNone of PDict _ \<Rightarrow> True | v \<Rightarrow> \<not> truthy v)"

definition sound_node :: "node \<Rightarrow> bool" where
  "sound_node node \<longleftrightarrow> (\<forall>c cfg d r tools d' st. node c cfg d = (Inr (r, tools), d') \<longrightarrow>
     nd_next_state r = Some st \<longrightarrow> outputs_ok st)"

definition sound_runtime :: "runtime \<Rightarrow> bool" where
  "sound_runtime rt \<longleftrightarrow> runtime_keeps same_node_runs rt \<and> runtime_keeps keeps_ok rt \<and>
     (\<exists>h. rt_hook rt = Some h \<and> hook_returns h) \<and>
     (\<forall>t node. rt_registry rt t = Some (Inr node) \<longrightarrow> sound_node node)"

text \<open>The ids of the plan are UUIDs and the configured node to resume at is a string.\<close>

definition sound_plan :: "execution_plan \<Rightarrow> bool" where
  "sound_plan plan \<longleftrightarrow> (\<forall>(n, spec) \<in> set (plan_nodes plan). \<not> isl (parse_uuid n) \<and>
     (case dict_get (or_empty (config spec)) ''resume_to_node_id'' PNone of PStr _ \<Rightarrow> True | v \<Rightarrow> \<not> truthy v))"

text \<open>Methods that leave the node runs, the graph states and the switch alone and only draw new ids.\<close>

definition framed :: "db \<Rightarrow> db \<Rightarrow> bool" where
  "framed s s' \<longleftrightarrow> tracing s' = tracing s \<and> node_runs s' = node_runs s \<and> graph_states s' = graph_states s \<and> fresh s \<le> fresh s'"

definition node_ids :: "db \<Rightarrow> uuid list" where
  "node_ids d = map nr_node_id (node_runs d)"

definition same_node_ids :: "db \<Rightarrow> db \<Rightarrow> bool" where
  "same_node_ids d d' \<longleftrightarrow> node_ids d' = node_ids d"

text \<open>How often a flow run entered a node.\<close>

definition visits :: "uuid \<Rightarrow> db \<Rightarrow> nat" where
  "visits u d = count_list (node_ids d) u"

definition demo_run :: "string \<Rightarrow> run_args" where
  "demo_run ty = \<lparr>xr_tenant_id = 1, xr_interaction_id = 4, xr_session_id = 1, xr_input_payload = [], xr_flow_id = 5,
     xr_flow_version_id = 2, xr_flow_run_id = 100, xr_correlation_id = 3, xr_trace_id = None,
     xr_plan = demo_step_plan ty, xr_policy = None, xr_trace_user_id = Some ''u'', xr_start_node_id = None,
     xr_initial_state = None, xr_initial_memory = None\<rparr>"

text \<open>A node whose loop edge leads back to itself and is always true.\<close>

definition demo_loop_plan :: execution_plan where
  "demo_loop_plan = (demo_step_plan ''IntentClassifier'')\<lparr>adjacency_map := [(demo_n1, [\<lparr>from_node = demo_n1,
     to_node = demo_n1, edge_kind = LOOP, compiled_condition = [PBool True], order = 0\<rparr>])]\<rparr>"

lemma settles_then_same: "settles_run fid d d1 \<Longrightarrow> same_runs d1 d' \<Longrightarrow> settles_run fid d d'"
  by (simp add: settles_run_def same_runs_def)

lemma same_then_settles: "same_runs d d1 \<Longrightarrow> settles_run fid d1 d' \<Longrightarrow> settles_run fid d d'"
  by (simp add: settles_run_def same_runs_def)

lemma settles_runI:
  "flow_runs d' = update_where (\<lambda>r. fr_id r = fid) f (flow_runs d) \<Longrightarrow>
   (\<And>r. fr_id (f r) = fr_id r \<and> (fr_status (f r), fr_canonical_status (f r)) \<in> set final_statuses) \<Longrightarrow>
   settles_run fid d d'"
  by (auto simp: settles_run_def)

lemma same_runs_interaction: "keeps same_runs (set_current_interaction_result_for_flow_run fid out nid)"
  by (auto simp: keeps_def same_runs_def set_current_interaction_result_for_flow_run_def modify_def
      update_interaction_def split: list.splits option.splits)

lemma bind_settles:
  assumes "m d = (Inr x, d1)" "settles_run fid d d1" "keeps same_runs (f x)" "bind m f d = (r, d')"
  shows "settles_run fid d d'"
  using assms settles_then_same [OF assms(2) keepsD [OF assms(3)]] by (simp add: bind_step)

lemma fail_flow_settles:
  assumes "runtime_keeps same_runs rt" "fail_flow rt t u s fid k reason exc d = (r, d')"
  shows "settles_run fid d d'"
proof -
  have "keeps same_runs (case rt_hook rt of Some hook \<Rightarrow> hk_flow_failed hook h | None \<Rightarrow> direct_event t s fid k FlowFailed p)" for h p
    using assms(1) by (auto simp: runtime_keeps_def hook_keeps_def runs_step.direct_event_keeps split: option.splits)
  moreover have "settles_run fid d (snd (fail_flow_run fid v (Some e) d))" for v e
    by (rule settles_runI) (auto simp: fail_flow_run_def modify_def update_flow_run_def final_statuses_def)
  ultimately show ?thesis
    using assms(2) unfolding fail_flow_def Let_def
    by (elim bind_settles [rotated 3]) (auto simp: fail_flow_run_def modify_def)
qed

lemma complete_flow_settles:
  assumes "runtime_keeps same_runs rt" "complete_flow rt c nid data user d = (r, d')"
  shows "settles_run (cx_flow_run_id c) d d'"
proof -
  have "keeps same_runs (case rt_hook rt of Some hook \<Rightarrow> hk_flow_complete hook h | None \<Rightarrow> context_event c FlowCompleted p)" for h p
    using assms(1) by (auto simp: runtime_keeps_def hook_keeps_def context_event_def runs_step.direct_event_keeps split: option.splits)
  then have "keeps same_runs (bind (set_current_interaction_result_for_flow_run fid data nid)
      (\<lambda>_. case rt_hook rt of Some hook \<Rightarrow> hk_flow_complete hook h | None \<Rightarrow> context_event c FlowCompleted p))" for fid h p
    by (intro runs_step.R_intros same_runs_interaction)
  moreover have "settles_run fid d (snd (complete_flow_run fid (flow_status F_COMPLETED) data d))" for fid
    by (rule settles_runI) (auto simp: complete_flow_run_def modify_def update_flow_run_def final_statuses_def)
  ultimately show ?thesis
    using assms(2) unfolding complete_flow_def Let_def
    by (elim bind_settles [rotated 3]) (auto simp: complete_flow_run_def modify_def)
qed

lemma wait_settles:
  assumes "wait_for_input fid data nid d = (r, d')"
  shows "settles_run fid d d'"
proof -
  obtain d2 where d2: "same_runs (snd (set_flow_run_output fid data d)) d2" "d' = snd (set_flow_run_status fid ''WAITING_INPUT'' ''WAITING'' d2)"
    using assms same_runs_interaction [of fid data nid]
    by (auto simp: wait_for_input_def comp_simps keeps_def set_current_interaction_result_for_flow_run_def
        set_flow_run_output_def set_flow_run_status_def split: prod.splits)
  show ?thesis
    by (rule settles_runI [where f = "\<lambda>r. r\<lparr>fr_output := data, fr_status := ''WAITING_INPUT'', fr_canonical_status := ''WAITING'',
      fr_updated_at := clock d2\<rparr>"])
      (use d2 in \<open>auto simp: same_runs_def set_flow_run_output_def set_flow_run_status_def modify_def update_flow_run_def
        update_where_def final_statuses_def\<close>)
qed

text \<open>Steps keep the identity of their run.\<close>

lemma advance_context_ids [simp]:
  "cx_flow_run_id (advance_context plan c ty r ns n) = cx_flow_run_id c"
  "cx_user_id (advance_context plan c ty r ns n) = cx_user_id c"
  "cx_current_node_id (advance_context plan c ty r ns n) = n"
  by (simp_all add: advance_context_def Let_def split: option.split)

lemma route_context:
  assumes "route rt plan c ty nid r ns lmt s = (Inr oc, s')"
  shows "oc_context oc = c \<or> (\<exists>n. oc_context oc = advance_context plan c ty r ns n)"
proof -
  obtain x d cnt keys where ev: "evaluate_edges rt c (nd_data r) lmt
      (edges_from (adjacency_map plan) (cx_current_node_id c)) (fst s, snd s, []) = (x, (d, cnt, keys))"
    by (metis prod.exhaust)
  show ?thesis
  proof (cases x)
    case (Inl e)
    then show ?thesis using assms ev by (auto simp: route_def outcome_def split: if_splits)
  next
    case (Inr cs)
    show ?thesis
    proof (cases cs)
      case Nil
      then show ?thesis using assms ev Inr by (auto simp: route_def outcome_def)
    next
      case (Cons k ks)
      then show ?thesis using assms ev Inr by (cases ks) (auto simp: route_def outcome_def)
    qed
  qed
qed

lemma step_context:
  assumes "run_step rt plan lmt c s = (Inr oc, s')"
  shows "cx_flow_run_id (oc_context oc) = cx_flow_run_id c \<and>
    (oc_status oc = STEP_FAILED \<longrightarrow> oc_failure_reason oc \<noteq> None) \<and>
    (oc_status oc = ADVANCE \<longrightarrow> oc_next_node_id oc = Some (cx_current_node_id (oc_context oc)))"
  using assms
proof (cases rule: run_step_cases)
  case (node spec node)
  from node(3) show ?thesis
  proof (cases rule: run_node_cases)
    case (returned nid r tools d d')
    from returned(2) show ?thesis
    proof (cases rule: finish_node_cases)
      case (routed ns u)
      have "cx_flow_run_id (oc_context oc) = cx_flow_run_id c" using route_context [OF routed(4)] by auto
      then show ?thesis using route_cases [OF routed(4)] by (auto split: option.splits)
    qed (simp_all add: outcome_def)
  qed (simp add: outcome_def)
qed (auto simp: outcome_def)

lemma finish_run_settles:
  assumes "runtime_keeps same_runs rt" "run_step rt plan lmt c s = (Inr oc, s')" "oc_status oc \<noteq> ADVANCE"
    and "cx_flow_run_id c = xr_flow_run_id a" "finish_run rt a user oc d = (r, d')"
  shows "settles_run (xr_flow_run_id a) d d'"
  using step_context [OF assms(2)] assms(3-5) fail_flow_settles [OF assms(1)] wait_settles
    complete_flow_settles [OF assms(1), of "oc_context oc"]
  by (auto simp: finish_run_def split: NodeStepStatus.splits)

lemma run_loop_ends:
  assumes "runtime_keeps same_runs rt" "cx_flow_run_id c = xr_flow_run_id a"
    and "run_loop rt a user lmt n c (d, cnt) = (r, (d', cnt'))"
  shows "settles_run (xr_flow_run_id a) d d' \<or> same_runs d d' \<and> isl r"
  using assms(2,3)
proof (induction n arbitrary: c d cnt)
  case 0
  then show ?case using fail_flow_settles [OF assms(1)] by (auto simp: on_db_iff)
next
  case (Suc n)
  obtain x d1 cnt1 where step: "run_step rt (xr_plan a) lmt c (d, cnt) = (x, (d1, cnt1))" by (metis prod.exhaust)
  have same: "same_runs d d1"
    using keepsD [OF runs_step.run_step_keeps [OF assms(1)] step] by (simp add: fst_rel_def)
  show ?case
  proof (cases x)
    case (Inl e)
    then show ?thesis using Suc.prems step same by (auto simp: bind_stop)
  next
    case (Inr oc)
    note oc = step_context [OF step [unfolded Inr]]
    show ?thesis
    proof (cases "oc_status oc = ADVANCE")
      case True
      let ?c = "case oc_next_node_id oc of Some k \<Rightarrow> (oc_context oc)\<lparr>cx_current_node_id := k\<rparr> | None \<Rightarrow> oc_context oc"
      have "run_loop rt a user lmt n ?c (d1, cnt1) = (r, (d', cnt'))"
        using Suc.prems(2) step Inr True by (simp add: bind_step)
      moreover have "cx_flow_run_id ?c = xr_flow_run_id a" using oc Suc.prems(1) by (simp split: option.splits)
      ultimately have "settles_run (xr_flow_run_id a) d1 d' \<or> same_runs d1 d' \<and> isl r" using Suc.IH by blast
      then show ?thesis using same same_then_settles transpD [OF same_runs_trans] by blast
    next
      case False
      then have "finish_run rt a user oc d1 = (r, d')"
        using Suc.prems step Inr by (auto simp: bind_step on_db_iff)
      then show ?thesis
        using finish_run_settles [OF assms(1) step [unfolded Inr] False Suc.prems(1)] same_then_settles [OF same] by blast
    qed
  qed
qed

subsection \<open>What a run keeps\<close>

text \<open>The interfaces of a step, extended with the writes to the flow run.\<close>

locale flow_writes = step_writes +
  assumes complete_flow_run_keeps: "keeps R (complete_flow_run fid st out)"
    and fail_flow_run_keeps: "keeps R (fail_flow_run fid reason err)"
    and set_flow_run_output_keeps: "keeps R (set_flow_run_output fid out)"
    and set_flow_run_status_keeps: "keeps R (set_flow_run_status fid st cst)"
    and set_interaction_result_keeps: "keeps R (set_current_interaction_result_for_flow_run fid out nid')"
begin

lemma fail_flow_keeps: "runtime_keeps R rt \<Longrightarrow> keeps R (fail_flow rt t u s fid k reason exc)"
  unfolding fail_flow_def Let_def
  by (auto simp: runtime_keeps_def hook_keeps_def split: option.splits
      intro!: R_intros direct_event_keeps fail_flow_run_keeps)

lemma complete_flow_keeps: "runtime_keeps R rt \<Longrightarrow> keeps R (complete_flow rt c nid data user)"
  unfolding complete_flow_def Let_def context_event_def
  by (auto simp: runtime_keeps_def hook_keeps_def split: option.splits
      intro!: R_intros direct_event_keeps complete_flow_run_keeps set_interaction_result_keeps)

lemma wait_for_input_keeps: "keeps R (wait_for_input fid data nid)"
  unfolding wait_for_input_def
  by (intro R_intros set_flow_run_output_keeps set_flow_run_status_keeps set_interaction_result_keeps)

lemma finish_run_keeps: "runtime_keeps R rt \<Longrightarrow> keeps R (finish_run rt a user oc)"
  unfolding finish_run_def
  by (auto split: NodeStepStatus.splits option.splits
      intro!: fail_flow_keeps complete_flow_keeps wait_for_input_keeps R_intros)

end

locale run_relation = step_relation + flow_writes
begin

lemma run_loop_keeps: "runtime_keeps R rt \<Longrightarrow> keeps (fst_rel R) (run_loop rt a user lmt n c)"
proof (induction n arbitrary: c)
  case 0
  then show ?case by (simp add: keeps_on_db fail_flow_keeps)
next
  case (Suc n)
  show ?case
    unfolding run_loop.simps
    by (intro fst_intros run_step_keeps Suc.prems) (simp add: Suc keeps_on_db finish_run_keeps)
qed

lemma run_keeps: "runtime_keeps R rt \<Longrightarrow> keeps R (run rt a)"
  unfolding keeps_def
proof
  fix d
  assume rt: "runtime_keeps R rt"
  have "R d d'" if "run_loop rt a user lmt n c (d, cnt) = (r, (d', cnt'))" for user lmt n c cnt r d' cnt'
    using keepsD [OF run_loop_keeps [OF rt] that] by (simp add: fst_rel_def)
  then show "R d (snd (run rt a d))"
    using reflpD [OF R_refl] by (auto simp: run_def Let_def split: option.splits prod.splits)
qed

end

interpretation growing_run: run_relation events_grow
  by unfold_locales
    (auto simp: complete_flow_run_def fail_flow_run_def set_flow_run_output_def set_flow_run_status_def
      set_current_interaction_result_for_flow_run_def update_flow_run_def update_interaction_def
      split: list.splits option.splits intro!: growing_modify)

text \<open>C1: A run that returns leaves its flow run in exactly one of the statuses COMPLETED, FAILED or WAITING
  (waiting for input) and touches no other flow run.  If it raises instead, it has either settled the run
  the same way or not touched any flow run at all.  The nodes and the hook must not write flow runs
  themselves.\<close>

theorem run_ends_final:
  assumes "runtime_keeps same_runs rt" "run rt a d = (r, d')"
  shows "if r = Inr () then settles_run (xr_flow_run_id a) d d'
    else settles_run (xr_flow_run_id a) d d' \<or> same_runs d d'"
proof (cases "xr_trace_user_id a")
  case None
  then show ?thesis using assms by (auto simp: run_def same_runs_def)
next
  case (Some user)
  let ?l = "loop_limit_of (or_empty (xr_policy a))"
  obtain cnt where "run_loop rt a user ?l (max_steps (xr_plan a) ?l) (start_context rt a user) (d, []) = (r, (d', cnt))"
    using assms(2) Some by (auto simp: run_def Let_def split: prod.splits)
  moreover have "cx_flow_run_id (start_context rt a user) = xr_flow_run_id a"
    by (simp add: start_context_def Let_def)
  ultimately show ?thesis using run_loop_ends [OF assms(1)] by fastforce
qed

text \<open>C28: Events are only appended during a run and stay numbered without gaps, whatever the nodes do with the
  rest of the database and however the run ends.\<close>

theorem run_events_append_only:
  assumes "runtime_keeps events_grow rt" "run rt a d = (r, d')" "seq_wf d"
  shows "prefix (events d) (events d') \<and> seq_wf d'"
  using keepsD [OF growing_run.run_keeps [OF assms(1)] assms(2)] assms(3) by (simp add: events_grow_def)

subsection \<open>A run returns\<close>

lemma returns_ret [intro!, simp]: "returns (ret x) s"
  by (simp add: returns_def ret_def)

lemma returns_bind:
  "returns m s \<Longrightarrow> (\<And>x t. m s = (Inr x, t) \<Longrightarrow> returns (f x) t) \<Longrightarrow> returns (bind m f) s"
  by (cases "m s"; cases "fst (m s)") (auto simp: returns_def bind_def)

lemma returns_on_db [intro!]: "returns m (fst s) \<Longrightarrow> returns (on_db m) s"
  by (cases "m (fst s)") (simp add: returns_def on_db_def)

lemma returns_lift_res: "\<not> isl r \<Longrightarrow> returns (lift_res r) s"
  by (simp add: returns_def lift_res_def)

lemma returns_modify [simp]: "returns (modify f) s"
  by (simp add: returns_def modify_def)

lemma returns_catch: "(\<And>e t. returns (h e) t) \<Longrightarrow> returns (catch m h) s"
  by (cases "m s"; cases "fst (m s)") (auto simp: returns_def catch_def)

lemma keeps_ok_refl: "reflp keeps_ok"
  by (simp add: reflp_def keeps_ok_def)

lemma keeps_ok_trans: "transp keeps_ok"
  by (auto simp: transp_def keeps_ok_def)

lemma store_ok_frame:
  "store_ok s \<Longrightarrow> tracing s' = tracing s \<Longrightarrow> node_runs s' = node_runs s \<Longrightarrow> graph_states s' = graph_states s \<Longrightarrow>
   fresh s \<le> fresh s' \<Longrightarrow> store_ok s'"
  by (force simp: store_ok_def node_runs_wf_def)

lemma framed_refl: "reflp framed"
  by (simp add: reflp_def framed_def)

lemma framed_trans: "transp framed"
  by (auto simp: transp_def framed_def)

lemma framed_keeps_ok: "keeps framed m \<Longrightarrow> keeps keeps_ok m"
  unfolding keeps_def framed_def keeps_ok_def using store_ok_frame by blast

lemma framed_modify: "(\<And>s. framed s (f s)) \<Longrightarrow> keeps framed (modify f)"
  by (simp add: keeps_def modify_def)

lemmas framed_intros = keeps_ret [OF framed_refl] keeps_raise [OF framed_refl] keeps_get [OF framed_refl]
  keeps_lift_res [OF framed_refl] keeps_bind [OF framed_trans] keeps_catch [OF framed_trans]

lemma framed_new_uuid: "keeps framed new_uuid"
  by (simp add: keeps_def framed_def new_uuid_def)

lemma framed_event_user: "keeps framed (event_user u fid)"
  by (simp add: keeps_def framed_def)

lemma framed_append: "keeps framed (append_execution_event fid a)"
proof -
  have "keeps framed (buffer_event f b)" for f b
    by (simp add: keeps_def framed_def buffer_event_def Let_def)
  moreover have "keeps framed (persist_execution_events_batch f evs)" for f evs
    unfolding persist_execution_events_batch_def
    by (auto split: list.splits intro!: framed_intros framed_event_user framed_modify simp: framed_def)
  ultimately show ?thesis
    unfolding append_execution_event_def
    by (auto split: option.splits intro!: framed_intros framed_new_uuid framed_event_user framed_modify simp: framed_def)
qed

lemma keeps_ok_create_node_run: "keeps keeps_ok (create_node_run fid n k i out st cst)"
  by (auto simp: keeps_def keeps_ok_def store_ok_def node_runs_wf_def create_node_run_def new_uuid_def comp_simps)

lemma keeps_ok_update_node_run: "keeps keeps_ok (update_node_run_result nid out st cst)"
proof -
  have ids: "map nr_id (update_where (\<lambda>r. nr_id r = nid) (\<lambda>r. r\<lparr>nr_output := out, nr_status := st,
      nr_canonical_status := cst, nr_finished_at := t\<rparr>) rs) = map nr_id rs" for t rs
    by (auto simp: update_where_def)
  have wf: "(\<forall>r \<in> set rs. nr_id r < k) \<longleftrightarrow> (\<forall>i \<in> set (map nr_id rs). i < k)" for rs k by simp
  show ?thesis
    unfolding keeps_def keeps_ok_def store_ok_def node_runs_wf_def wf update_node_run_result_def get_node_run_def
    by (auto simp: comp_simps ids simp del: set_map split: option.splits sum.splits)
qed

lemma keeps_ok_upsert: "keeps keeps_ok (upsert_graph_state fid st lnr)"
proof -
  have ids: "map gs_flow_run_id (update_where (\<lambda>g. gs_flow_run_id g = fid) (\<lambda>g. g\<lparr>gs_state := st, gs_last_node_run_id := lnr\<rparr>) gs)
     = map gs_flow_run_id gs" for gs
    by (auto simp: update_where_def)
  have none: "one_or_none (\<lambda>g. gs_flow_run_id g = fid) gs = Inr None \<Longrightarrow> fid \<notin> set (map gs_flow_run_id gs)" for gs
    by (auto simp: one_or_none_def filter_empty_conv split: list.splits)
  show ?thesis
    unfolding keeps_def keeps_ok_def store_ok_def node_runs_wf_def upsert_graph_state_def
    by (auto simp: comp_simps ids none [simplified] split: option.splits sum.splits dest!: none)
qed

lemma framed_create_agent_run: "keeps framed (create_agent_run a)"
  by (auto simp: keeps_def framed_def create_agent_run_def new_uuid_def comp_simps split: option.splits sum.splits)

lemma framed_update_agent_run: "keeps framed (update_agent_run_result aid st cst out err it ot cost)"
  by (auto simp: keeps_def framed_def update_agent_run_result_def update_agent_run_def get_agent_run_def comp_simps
      split: option.splits sum.splits)

lemma framed_record_llm_usage: "keeps framed (record_llm_usage t f n a sid p pm tt il it ot cost lat)"
  by (auto simp: keeps_def framed_def record_llm_usage_def new_uuid_def comp_simps)

lemma framed_flow_writes:
  "keeps framed (complete_flow_run fid st out)" "keeps framed (fail_flow_run fid reason err)"
  "keeps framed (set_flow_run_output fid out)" "keeps framed (set_flow_run_status fid st' cst)"
  "keeps framed (set_current_interaction_result_for_flow_run fid out nid)"
  by (auto simp: keeps_def framed_def comp_simps complete_flow_run_def fail_flow_run_def set_flow_run_output_def
      set_flow_run_status_def set_current_interaction_result_for_flow_run_def update_flow_run_def
      update_interaction_def split: list.splits option.splits)

interpretation ok_run: run_relation keeps_ok
  by unfold_locales
    (rule keeps_ok_refl keeps_ok_trans keeps_ok_create_node_run keeps_ok_update_node_run keeps_ok_upsert
      framed_keeps_ok [OF framed_create_agent_run] framed_keeps_ok [OF framed_update_agent_run]
      framed_keeps_ok [OF framed_record_llm_usage] framed_keeps_ok [OF framed_append]
      framed_keeps_ok [OF framed_flow_writes(1)] framed_keeps_ok [OF framed_flow_writes(2)]
      framed_keeps_ok [OF framed_flow_writes(3)] framed_keeps_ok [OF framed_flow_writes(4)]
      framed_keeps_ok [OF framed_flow_writes(5)])+

lemma is_true_domain: "edge_is_true rt e out = Inl x \<Longrightarrow> is_domain_validation x"
  by (auto simp: edge_is_true_def is_true_def Let_def edge_evaluation_error_def split: sum.splits if_splits)

lemma current_node_uuid_returns: "\<not> isl (parse_uuid (cx_current_node_id c)) \<Longrightarrow> returns (current_node_uuid c) s"
  by (auto simp: current_node_uuid_def returns_def comp_simps split: sum.splits)

lemma emit_returns:
  assumes "rt_hook rt = Some h" "hook_returns h" "\<not> isl (parse_uuid (cx_current_node_id c))"
  shows "returns (emit_node_started rt c) s" "returns (emit_node_completed rt c r) s"
    "returns (emit_edge_evaluated rt c to b) s"
  using assms
  by (auto simp: emit_node_started_def emit_node_completed_def emit_edge_evaluated_def hook_returns_def Let_def
      intro!: returns_bind current_node_uuid_returns)

lemma record_usage_returns: "returns (record_usage c nid r) s"
  unfolding record_usage_def by (auto split: option.splits intro!: returns_catch)

lemma evaluate_edges_error:
  assumes "rt_hook rt = Some h" "hook_returns h" "\<not> isl (parse_uuid (cx_current_node_id c))"
    and "evaluate_edges rt c out lmt es s = (Inl e, s')"
  shows "is_domain_validation e"
  using assms(4)
proof (induction es arbitrary: s)
  case Nil
  then show ?case by (simp add: ret_def)
next
  case (Cons f es)
  show ?case
  proof (cases "from_node f = cx_current_node_id c")
    case False
    then show ?thesis using Cons by simp
  next
    case True
    have emit: "fst (emit_edge_evaluated rt c (to_node f) b d) \<noteq> Inl e" for b d
      using emit_returns(3) [OF assms(1-3), of "to_node f" b d] by (auto simp: returns_def isl_def)
    from Cons.prems True show ?thesis
      using Cons.IH emit is_true_domain
      by (auto simp: bind_eq_Inl on_db_iff lift_res_def ret_def count_loop_def Let_def split: if_splits)
        (metis fst_conv)+
  qed
qed

lemma route_returns:
  assumes "rt_hook rt = Some h" "hook_returns h" "\<not> isl (parse_uuid (cx_current_node_id c))"
  shows "returns (route rt plan c ty nid r ns lmt) s"
proof -
  obtain x d cnt keys where ev: "evaluate_edges rt c (nd_data r) lmt
      (edges_from (adjacency_map plan) (cx_current_node_id c)) (fst s, snd s, []) = (x, (d, cnt, keys))"
    by (metis prod.exhaust)
  have "is_domain_validation e" if "x = Inl e" for e
    using evaluate_edges_error [OF assms] ev that by blast
  then show ?thesis
    using ev by (auto simp: returns_def route_def Let_def split: sum.splits list.splits)
qed

lemma next_state_ok:
  assumes "outputs_ok (cx_state c)" "\<And>st. nd_next_state r = Some st \<Longrightarrow> outputs_ok st"
  shows "\<exists>ns. next_state c r = Inr ns \<and> outputs_ok ns"
proof -
  let ?base = "case nd_next_state r of Some d \<Rightarrow> if d = [] then cx_state c else d | None \<Rightarrow> cx_state c"
  have "outputs_ok ?base" using assms by (auto split: option.splits)
  then have "\<exists>snap. (if truthy (dict_get ?base NODE_OUTPUTS_BY_NODE_ID_KEY PNone)
      then py_dict (dict_get ?base NODE_OUTPUTS_BY_NODE_ID_KEY PNone) else Inr []) = Inr snap"
    by (auto simp: outputs_ok_def py_dict_def split: pyval.splits)
  then show ?thesis
    by (auto simp: next_state_def Let_def outputs_ok_def dict_get_def)
qed

lemma update_node_run_returns:
  assumes "distinct (map nr_id (node_runs d))" "nid \<in> nr_id ` set (node_runs d)"
  shows "returns (update_node_run_result nid out st cst) d"
proof -
  obtain xs r ys where rs: "node_runs d = xs @ r # ys" "nr_id r = nid"
    using assms(2) by (auto dest!: split_list)
  then have "filter (\<lambda>r. nr_id r = nid) xs = []" "filter (\<lambda>r. nr_id r = nid) ys = []"
    using assms(1) by (auto simp: filter_empty_conv intro: rev_image_eqI)
  then show ?thesis
    using rs by (simp add: returns_def update_node_run_result_def get_node_run_def one_or_none_def comp_simps)
qed

lemma upsert_returns:
  assumes "distinct (map gs_flow_run_id (graph_states d))"
  shows "returns (upsert_graph_state fid st lnr) d"
proof -
  have "length (filter (\<lambda>g. gs_flow_run_id g = fid) gs) \<le> 1" if "distinct (map gs_flow_run_id gs)" for gs
    using that by (induction gs) (auto simp: filter_empty_conv intro: rev_image_eqI)
  from this [OF assms] show ?thesis
    by (auto simp: returns_def upsert_graph_state_def one_or_none_def comp_simps split: list.splits)
qed

lemma settle_returns:
  assumes rt: "rt_hook rt = Some h" "hook_returns h" "runtime_keeps keeps_ok rt"
    and c: "\<not> isl (parse_uuid (cx_current_node_id c))" "store_ok d"
    and ns: "next_state c r = Inr ns"
    and cfg: "case dict_get cfg ''resume_to_node_id'' PNone of PStr _ \<Rightarrow> True | v \<Rightarrow> \<not> truthy v"
  shows "returns (settle_node rt plan c ty cfg nid r lmt) (d, cnt)"
proof -
  have "returns (upsert_graph_state fid st lnr) d3"
    if "record_usage c nid r d = (x1, d1)" "emit_node_completed rt c r d1 = (x3, d3)" for fid st lnr x1 d1 x3 d3
  proof -
    have "store_ok d3"
      using keepsD [OF ok_run.record_usage_keeps that(1)] keepsD [OF ok_run.emit_node_completed_keeps [OF rt(3)] that(2)] c(2)
      by (simp add: keeps_ok_def)
    then show ?thesis by (intro upsert_returns) (simp add: store_ok_def)
  qed
  moreover have "\<exists>n. resume_to c cfg r = PStr n" if "nd_status r = NEEDS_INPUT"
    using that cfg by (auto simp: resume_to_def Let_def split: pyval.splits)
  ultimately show ?thesis
    unfolding settle_node_def Let_def
    by (intro returns_bind returns_on_db returns_lift_res)
      (auto simp: record_usage_returns emit_returns [OF rt(1,2) c(1)] ns on_db_iff lift_res_def
        route_returns [OF rt(1,2) c(1)])
qed

lemma run_node_returns:
  assumes rt: "rt_hook rt = Some h" "hook_returns h" "runtime_keeps keeps_ok rt" "runtime_keeps same_node_runs rt"
    and node: "sound_node node" "\<And>c cfg. keeps keeps_ok (node c cfg)" "\<And>c cfg. keeps same_node_runs (node c cfg)"
    and c: "\<not> isl (parse_uuid (cx_current_node_id c))" "store_ok d" "outputs_ok (cx_state c)"
    and cfg: "case dict_get cfg ''resume_to_node_id'' PNone of PStr _ \<Rightarrow> True | v \<Rightarrow> \<not> truthy v"
  shows "returns (run_node rt plan c ty cfg node lmt) (d, cnt)"
proof -
  have fin: "returns (finish_node rt plan c' ty cfg nid r lmt) (d3, cnt)"
    if create: "create_node_run fid n k i out st cst d = (Inr nid, d1)"
      and emit: "emit_node_started rt c1 d1 = (Inr (), d2)" and run: "node c1 cfg d2 = (Inr (r, tools), d3)"
      and c': "cx_current_node_id c' = cx_current_node_id c" "cx_state c' = cx_state c" for fid n k i out st cst nid d1 c1 d2 r tools d3 c'
  proof -
    have "store_ok d1" using keepsD [OF ok_run.create_node_run_keeps create] c(2) by (simp add: keeps_ok_def)
    then have ok: "store_ok d3"
      using keepsD [OF ok_run.emit_node_started_keeps [OF rt(3)] emit] keepsD [OF node(2) run] by (simp add: keeps_ok_def)
    have "node_runs d3 = node_runs d1"
      using keepsD [OF node_run_writes.emit_node_started_keeps [OF rt(4)] emit] keepsD [OF node(3) run]
      by (simp add: same_node_runs_def)
    then have "returns (update_node_run_result nid o' s' s'') d3" for o' s' s''
      using create_node_run_effect [OF create] ok by (intro update_node_run_returns) (auto simp: store_ok_def)
    moreover obtain ns where ns: "next_state c' r = Inr ns"
      using next_state_ok [of c' r] c(3) c'(2) node(1) run unfolding sound_node_def by (metis (no_types))
    moreover have "returns (settle_node rt plan c' ty cfg nid r lmt) (d4, cnt)"
      if "update_node_run_result nid o' s' s'' d3 = (x, d4)" for o' s' s'' x d4
      using keepsD [OF ok_run.update_node_run_keeps that] ok c(1) c'(1)
      by (intro settle_returns [OF rt(1-3) _ _ ns cfg]) (simp_all add: keeps_ok_def)
    ultimately show ?thesis
      unfolding finish_node_def Let_def by (auto simp: on_db_iff intro!: returns_bind)
  qed
  have "returns (create_node_run fid n k i out st cst) d" for fid n k i out st cst
    using c(2) by (simp add: returns_def create_node_run_def new_uuid_def comp_simps store_ok_def)
  then show ?thesis
    unfolding run_node_def Let_def using c(1)
    by (auto simp: on_db_iff catch_def bind_def ret_def lift_res_def emit_returns [OF rt(1,2)]
        intro!: returns_bind returns_lift_res fin returns_catch split: sum.splits prod.splits)
qed

lemma step_returns:
  assumes "sound_runtime rt" "sound_plan plan" "store_ok d" "outputs_ok (cx_state c)"
  shows "returns (run_step rt plan lmt c) (d, cnt)"
proof (cases "map_of (plan_nodes plan) (cx_current_node_id c)")
  case None
  then show ?thesis by (simp add: run_step_def)
next
  case spec: (Some spec)
  obtain h where h: "rt_hook rt = Some h" "hook_returns h" using assms(1) by (auto simp: sound_runtime_def)
  have rt: "runtime_keeps keeps_ok rt" "runtime_keeps same_node_runs rt" using assms(1) by (auto simp: sound_runtime_def)
  have plan: "\<not> isl (parse_uuid (cx_current_node_id c))"
    "case dict_get (or_empty (config spec)) ''resume_to_node_id'' PNone of PStr _ \<Rightarrow> True | v \<Rightarrow> \<not> truthy v"
    using assms(2) map_of_SomeD [OF spec] by (auto simp: sound_plan_def)
  show ?thesis
  proof (cases "rt_registry rt (type_of_node spec)")
    case None
    then show ?thesis using spec by (simp add: run_step_def Let_def)
  next
    case cls: (Some cls)
    show ?thesis
    proof (cases cls)
      case (Inl e)
      then show ?thesis using spec cls by (simp add: run_step_def Let_def)
    next
      case (Inr node)
      then have "sound_node node" "\<And>c cfg. keeps keeps_ok (node c cfg)" "\<And>c cfg. keeps same_node_runs (node c cfg)"
        using assms(1) rt cls by (auto simp: sound_runtime_def runtime_keeps_def)
      then show ?thesis
        using spec cls Inr run_node_returns [OF h rt _ _ _ _ assms(3) _ plan(2)] plan(1) assms(4)
        by (simp add: run_step_def Let_def)
    qed
  qed
qed

lemma step_state:
  assumes "sound_runtime rt" "outputs_ok (cx_state c)"
    and "run_step rt plan lmt c s = (Inr oc, s')" "oc_status oc = ADVANCE"
  shows "outputs_ok (cx_state (oc_context oc))"
  using assms(3)
proof (cases rule: run_step_cases)
  case (node spec node)
  from node(3) show ?thesis
  proof (cases rule: run_node_cases)
    case (returned nid r tools d d')
    from returned(2) show ?thesis
    proof (cases rule: finish_node_cases)
      case (routed ns u)
      have "outputs_ok st" if "nd_next_state r = Some st" for st
        using assms(1) node(2) returned(1) that unfolding sound_runtime_def sound_node_def by blast
      then have "outputs_ok ns"
        using next_state_ok [of "c\<lparr>cx_metadata := AList.update ''current_node_type'' (PStr (type_of_node spec)) (cx_metadata c),
          cx_current_node_run_id := Some nid, cx_available_tools := tools, cx_node_output := nd_data r\<rparr>" r] assms(2) routed(3)
        by simp
      moreover have "\<exists>n. oc_context oc = advance_context plan (c\<lparr>cx_metadata := AList.update ''current_node_type''
          (PStr (type_of_node spec)) (cx_metadata c), cx_current_node_run_id := Some nid, cx_available_tools := tools,
          cx_node_output := nd_data r\<rparr>) (type_of_node spec) r ns n"
        using route_cases [OF routed(4)] assms(4) by auto
      ultimately show ?thesis by (auto simp: advance_context_def Let_def split: option.splits)
    qed (use assms(4) in \<open>simp_all add: outcome_def\<close>)
  qed (use assms(4) in \<open>simp add: outcome_def\<close>)
qed (use assms(4) in \<open>auto simp: outcome_def\<close>)

lemma flow_writes_return:
  assumes "rt_hook rt = Some h" "hook_returns h"
  shows "returns (fail_flow rt t u s fid k reason exc) d" "returns (complete_flow rt c nid data user) d"
    "returns (wait_for_input fid data nid) d"
  using assms
  by (auto simp: fail_flow_def complete_flow_def wait_for_input_def hook_returns_def Let_def fail_flow_run_def
      complete_flow_run_def set_flow_run_output_def set_flow_run_status_def
      set_current_interaction_result_for_flow_run_def intro!: returns_bind)

lemma finish_run_returns:
  assumes "rt_hook rt = Some h" "hook_returns h" "run_step rt plan lmt c s = (Inr oc, s')" "oc_status oc \<noteq> ADVANCE"
  shows "returns (finish_run rt a user oc) d"
  using step_context [OF assms(3)] assms(4) flow_writes_return [OF assms(1,2)]
  by (auto simp: finish_run_def split: NodeStepStatus.splits)

lemma run_loop_returns:
  assumes "sound_runtime rt" "sound_plan (xr_plan a)" "store_ok d" "outputs_ok (cx_state c)"
  shows "returns (run_loop rt a user lmt n c) (d, cnt)"
  using assms(3,4)
proof (induction n arbitrary: c d cnt)
  case 0
  then show ?case using assms(1) flow_writes_return by (auto simp: sound_runtime_def)
next
  case (Suc n)
  obtain h where h: "rt_hook rt = Some h" "hook_returns h" using assms(1) by (auto simp: sound_runtime_def)
  have rt: "runtime_keeps keeps_ok rt" using assms(1) by (simp add: sound_runtime_def)
  show ?case
    unfolding run_loop.simps
  proof (intro returns_bind step_returns [OF assms(1,2) Suc.prems])
    fix oc t
    assume step: "run_step rt (xr_plan a) lmt c (d, cnt) = (Inr oc, t)"
    obtain d' cnt' where t: "t = (d', cnt')" by fastforce
    have ok: "store_ok d'"
      using keepsD [OF ok_run.run_step_keeps [OF rt] step] Suc.prems(1) t by (simp add: fst_rel_def keeps_ok_def)
    show "returns (if oc_status oc = ADVANCE
       then run_loop rt a user lmt n (case oc_next_node_id oc of
           Some k \<Rightarrow> oc_context oc\<lparr>cx_current_node_id := k\<rparr> | None \<Rightarrow> oc_context oc)
       else on_db (finish_run rt a user oc)) t"
      using step_state [OF assms(1) Suc.prems(2) step] ok t Suc.IH finish_run_returns [OF h step]
      by (auto split: option.split)
  qed
qed


subsection \<open>Loops\<close>

lemma same_node_runs_ids: "keeps same_node_runs m \<Longrightarrow> keeps same_node_ids m"
  by (simp add: keeps_def same_node_runs_def same_node_ids_def node_ids_def)

lemma same_node_ids_refl: "reflp same_node_ids"
  by (simp add: reflp_def same_node_ids_def)

lemma same_node_ids_trans: "transp same_node_ids"
  by (simp add: transp_def same_node_ids_def)

lemma same_node_ids_flow:
  "keeps same_node_ids (complete_flow_run fid st out)" "keeps same_node_ids (fail_flow_run fid reason err)"
  "keeps same_node_ids (set_flow_run_output fid out)" "keeps same_node_ids (set_flow_run_status fid st' cst)"
  "keeps same_node_ids (set_current_interaction_result_for_flow_run fid out nid)"
  by (auto simp: keeps_def same_node_ids_def node_ids_def comp_simps complete_flow_run_def fail_flow_run_def
      set_flow_run_output_def set_flow_run_status_def set_current_interaction_result_for_flow_run_def
      update_flow_run_def update_interaction_def split: list.splits option.splits)

interpretation visit_writes: flow_writes same_node_ids
  by unfold_locales
    (rule same_node_ids_refl same_node_ids_trans same_node_ids_flow
      same_node_runs_ids [OF node_run_writes.create_agent_run_keeps]
      same_node_runs_ids [OF node_run_writes.update_agent_run_keeps]
      same_node_runs_ids [OF node_run_writes.record_llm_usage_keeps]
      same_node_runs_ids [OF node_run_writes.append_event_keeps]
      same_node_runs_ids [OF node_run_writes.graph_state_keeps])+

lemma same_node_ids_update: "keeps same_node_ids (update_node_run_result nid out st cst)"
proof -
  have "map nr_node_id (update_where (\<lambda>r. nr_id r = nid) (\<lambda>r. r\<lparr>nr_output := out, nr_status := st,
      nr_canonical_status := cst, nr_finished_at := t\<rparr>) rs) = map nr_node_id rs" for t rs
    by (auto simp: update_where_def)
  then show ?thesis
    by (auto simp: keeps_def same_node_ids_def node_ids_def update_node_run_result_def get_node_run_def comp_simps
        split: option.splits sum.splits)
qed

lemma create_node_run_ids: "node_ids (snd (create_node_run fid u k i out st cst d)) = node_ids d @ [u]"
  by (simp add: node_ids_def create_node_run_def new_uuid_def comp_simps)

lemma run_node_ids:
  assumes rt: "runtime_keeps same_node_ids rt" "\<And>c cfg. keeps same_node_ids (node c cfg)"
    and "run_node rt plan c ty cfg node lmt (d, cnt) = (x, (d', cnt'))"
  shows "node_ids d' = node_ids d \<or> (\<exists>u. parse_uuid (cx_current_node_id c) = Inr u \<and> node_ids d' = node_ids d @ [u])"
proof (cases "parse_uuid (cx_current_node_id c)")
  case (Inl e)
  then show ?thesis using assms(3) by (simp add: run_node_def comp_simps)
next
  case (Inr u)
  let ?create = "create_node_run (cx_flow_run_id c) u (cx_correlation_id c)
         [(''input_payload'', opt_dict (cx_input_payload c)), (''state'', PDict (cx_state c)),
          (''memory'', PList (map PDict (cx_memory c))), (''metadata'', PDict (cx_metadata c))]
         [] (node_status N_RUNNING) (node_status N_RUNNING)"
  define rest where "rest = (\<lambda>nid. let c1 = c\<lparr>cx_current_node_run_id := Some nid\<rparr> in
     bind (on_db (emit_node_started rt c1)) (\<lambda>_.
     bind (catch (bind (on_db (node c1 cfg)) (\<lambda>x. ret (Inr x))) (\<lambda>e. ret (Inl e))) (\<lambda>result.
       case result of
         Inl e \<Rightarrow> ret ((outcome STEP_FAILED c1)\<lparr>oc_node_type := Some ty, oc_node_run_id := Some nid,
             oc_failure_reason := Some STRUCTURAL_ERROR, oc_failure_exception := Some e\<rparr>)
       | Inr (r, tools) \<Rightarrow> finish_node rt plan (c1\<lparr>cx_available_tools := tools, cx_node_output := nd_data r\<rparr>)
           ty cfg nid r lmt)))"
  have rest: "keeps (fst_rel same_node_ids) (rest nid)" for nid
    unfolding rest_def finish_node_def Let_def
    using rt by (auto split: sum.splits intro!: visit_writes.fst_intros visit_writes.emit_node_started_keeps
        same_node_ids_update visit_writes.settle_node_keeps)
  have keep: "node_ids t' = node_ids t" if "rest nid (t, cnt) = (x, (t', cnt'))" for nid t t'
    using keepsD [OF rest that] by (simp add: fst_rel_def same_node_ids_def)
  have "run_node rt plan c ty cfg node lmt (d, cnt) = bind (on_db ?create) rest (d, cnt)"
    by (simp add: run_node_def Inr rest_def lift_res_def bind_step)
  then have "bind (on_db ?create) rest (d, cnt) = (x, (d', cnt'))" using assms(3) by simp
  then show ?thesis
    using create_node_run_ids Inr keep
    by (cases x) (auto simp: bind_eq_Inr bind_eq_Inl on_db_iff, (metis snd_conv)+)
qed

lemma route_counters:
  assumes "route rt plan c ty nid r ns lmt (d, cnt) = (Inr oc, (d', cnt'))" "oc_status oc = ADVANCE"
  shows "count_of cnt k \<le> count_of cnt' k" "count_of cnt' k = count_of cnt k \<or> count_of cnt' k \<le> lmt"
    "e \<in> set (edges_from (adjacency_map plan) (cx_current_node_id c)) \<Longrightarrow> from_node e = cx_current_node_id c \<Longrightarrow>
       edge_kind e = LOOP \<Longrightarrow> count_of cnt (loop_key e) < count_of cnt' (loop_key e)"
proof -
  let ?es = "edges_from (adjacency_map plan) (cx_current_node_id c)"
  obtain x d1 cnt1 keys where ev: "evaluate_edges rt c (nd_data r) lmt ?es (d, cnt, []) = (x, (d1, cnt1, keys))"
    by (metis prod.exhaust)
  then have cnt: "cnt1 = cnt'" using assms(1) by (simp add: route_def Let_def)
  obtain cs where "x = Inr cs"
    using assms ev by (cases x) (auto simp: route_def outcome_def split: if_splits)
  with ev cnt have "evaluate_edges rt c (nd_data r) lmt ?es (d, cnt, []) = (Inr cs, (d1, cnt', keys))" by simp
  from evaluate_edges_counters [OF this]
  show "count_of cnt k \<le> count_of cnt' k" "count_of cnt' k = count_of cnt k \<or> count_of cnt' k \<le> lmt"
    "e \<in> set ?es \<Longrightarrow> from_node e = cx_current_node_id c \<Longrightarrow> edge_kind e = LOOP \<Longrightarrow>
       count_of cnt (loop_key e) < count_of cnt' (loop_key e)" by blast+
qed

lemma step_counters:
  assumes "run_step rt plan lmt c (d, cnt) = (Inr oc, (d', cnt'))" "oc_status oc = ADVANCE"
  shows "(count_of cnt k \<le> count_of cnt' k) \<and> (count_of cnt' k = count_of cnt k \<or> count_of cnt' k \<le> lmt) \<and>
    (e \<in> set (edges_from (adjacency_map plan) (cx_current_node_id c)) \<longrightarrow> from_node e = cx_current_node_id c \<longrightarrow>
       edge_kind e = LOOP \<longrightarrow> count_of cnt (loop_key e) < count_of cnt' (loop_key e))"
  using assms(1)
proof (cases rule: run_step_cases)
  case (node spec node)
  from node(3) show ?thesis
  proof (cases rule: run_node_cases)
    case (returned nid r tools d1 d2)
    from returned(2) show ?thesis
    proof (cases rule: finish_node_cases)
      case (routed ns d3)
      then have "route rt plan (c\<lparr>cx_metadata := AList.update ''current_node_type'' (PStr (type_of_node spec)) (cx_metadata c),
          cx_current_node_run_id := Some nid, cx_available_tools := tools, cx_node_output := nd_data r\<rparr>)
          (type_of_node spec) nid r ns lmt (d3, cnt) = (Inr oc, (d', cnt'))" by simp
      from route_counters [OF this assms(2)] show ?thesis by simp
    qed (use assms(2) in \<open>simp_all add: outcome_def\<close>)
  qed (use assms(2) in \<open>simp add: outcome_def\<close>)
qed (use assms(2) in \<open>auto simp: outcome_def\<close>)

lemma step_visits:
  assumes "runtime_keeps same_node_ids rt" "run_step rt plan lmt c (d, cnt) = (x, (d', cnt'))"
    and "\<forall>k \<in> fst ` set (plan_nodes plan). parse_uuid k = Inr u \<longrightarrow> k = n"
  shows "visits u d' \<le> visits u d + (if cx_current_node_id c = n then 1 else 0)"
  using assms(2)
proof (cases rule: run_step_cases)
  case (node spec node)
  have in_plan: "cx_current_node_id c \<in> fst ` set (plan_nodes plan)" using map_of_SomeD [OF node(1)] by force
  have "keeps same_node_ids (node c cfg)" for c cfg
    using assms(1) node(2) by (auto simp: runtime_keeps_def)
  from run_node_ids [OF assms(1) this node(3)]
  have "node_ids d' = node_ids d \<or> (\<exists>u. parse_uuid (cx_current_node_id c) = Inr u \<and> node_ids d' = node_ids d @ [u])" by simp
  then show ?thesis using assms(3) in_plan by (auto simp: visits_def)
qed (auto simp: visits_def)

lemma run_loop_visits:
  assumes rt: "runtime_keeps same_node_ids rt"
    and plan: "\<forall>k \<in> fst ` set (plan_nodes (xr_plan a)). parse_uuid k = Inr u \<longrightarrow> k = n"
    and e: "e \<in> set (edges_from (adjacency_map (xr_plan a)) n)" "from_node e = n" "edge_kind e = LOOP"
    and run: "count_of cnt (loop_key e) \<le> lmt" "run_loop rt a user lmt m c (d, cnt) = (x, (d', cnt'))"
  shows "int (visits u d') \<le> int (visits u d) + (lmt - count_of cnt (loop_key e)) + 1"
  using run
proof (induction m arbitrary: c d cnt)
  case 0
  then have "same_node_ids d d'"
    using keepsD [OF visit_writes.fail_flow_keeps [OF rt]] by (auto simp: on_db_iff)
  then show ?case using 0(1) by (simp add: same_node_ids_def visits_def)
next
  case (Suc m)
  obtain y d1 cnt1 where step: "run_step rt (xr_plan a) lmt c (d, cnt) = (y, (d1, cnt1))" by (metis prod.exhaust)
  note v = step_visits [OF rt step plan]
  show ?case
  proof (cases "\<exists>oc. y = Inr oc \<and> oc_status oc = ADVANCE")
    case True
    then obtain oc where oc: "y = Inr oc" "oc_status oc = ADVANCE" by blast
    let ?c = "case oc_next_node_id oc of Some k \<Rightarrow> (oc_context oc)\<lparr>cx_current_node_id := k\<rparr> | None \<Rightarrow> oc_context oc"
    note cnts = step_counters [OF step [unfolded oc(1)] oc(2)]
    have "count_of cnt1 (loop_key e) \<le> lmt" using cnts Suc.prems(1) by force
    moreover have "run_loop rt a user lmt m ?c (d1, cnt1) = (x, (d', cnt'))"
      using Suc.prems(2) step oc by (simp add: bind_step Let_def)
    ultimately have "int (visits u d') \<le> int (visits u d1) + (lmt - count_of cnt1 (loop_key e)) + 1"
      using Suc.IH by blast
    moreover have "count_of cnt (loop_key e) \<le> count_of cnt1 (loop_key e)" using cnts by blast
    moreover have "count_of cnt (loop_key e) < count_of cnt1 (loop_key e)" if "cx_current_node_id c = n"
      using cnts [of _ e] e that by simp
    ultimately show ?thesis using v by (simp split: if_splits)
  next
    case False
    have "same_node_ids d1 d'"
    proof (cases y)
      case (Inl e)
      then show ?thesis using Suc.prems(2) step by (simp add: bind_stop same_node_ids_def)
    next
      case (Inr oc)
      then have "finish_run rt a user oc d1 = (x, d')"
        using Suc.prems(2) step False by (auto simp: bind_step on_db_iff split: if_splits)
      then show ?thesis by (rule keepsD [OF visit_writes.finish_run_keeps [OF rt]])
    qed
    then show ?thesis using v Suc.prems(1) by (simp add: same_node_ids_def visits_def split: if_splits)
  qed
qed

text \<open>C4: The loop limit bounds the work of a run.  A run enters a node that has an outgoing loop edge at most
  once more than the loop limit allows, however its nodes behave and however long the run would otherwise be.
  No other node of the plan has the same UUID, and the nodes and the hook do not create node runs.\<close>

theorem loop_limit_bounds_visits:
  assumes "runtime_keeps same_node_ids rt"
    and "e \<in> set (edges_from (adjacency_map (xr_plan a)) n)" "from_node e = n" "edge_kind e = LOOP"
    and "\<forall>k \<in> fst ` set (plan_nodes (xr_plan a)). parse_uuid k = Inr u \<longrightarrow> k = n"
    and "run rt a d = (r, d')"
  shows "int (visits u d') \<le> int (visits u d) + loop_limit_of (or_empty (xr_policy a)) + 1"
proof -
  let ?l = "loop_limit_of (or_empty (xr_policy a))"
  have pos: "0 \<le> ?l"
    by (auto simp: loop_limit_of_def default_loop_limit_def Let_def split: pyval.splits sum.splits)
  show ?thesis
  proof (cases "xr_trace_user_id a")
    case None
    then show ?thesis using assms(6) pos by (simp add: run_def)
  next
    case (Some user)
    then obtain cnt where "run_loop rt a user ?l (max_steps (xr_plan a) ?l) (start_context rt a user) (d, []) = (r, (d', cnt))"
      using assms(6) by (auto simp: run_def Let_def split: prod.splits)
    from run_loop_visits [OF assms(1,5,2,3,4) _ this] pos show ?thesis
      by (simp add: count_of_def dict_get_def)
  qed
qed

subsection \<open>An example\<close>

lemma hook_keeps_safe:
  assumes "\<And>t fid a. keeps R (safe_emit t fid a)"
  shows "hook_keeps R DbExecutionEventHook"
  using assms by (simp add: hook_keeps_def DbExecutionEventHook_def on_flow_start_def on_node_start_def
      on_node_complete_def on_edge_evaluated_def on_flow_complete_def on_flow_failed_def)

lemma demo_hook:
  "hook_keeps keeps_ok DbExecutionEventHook" "hook_keeps same_node_ids DbExecutionEventHook"
  by (rule hook_keeps_safe, simp add: safe_emit_def, intro ok_run.R_intros visit_writes.R_intros)+

lemma db_hook_returns: "hook_returns DbExecutionEventHook"
  by (auto simp: hook_returns_def DbExecutionEventHook_def on_flow_start_def on_node_start_def
      on_node_complete_def on_edge_evaluated_def on_flow_complete_def on_flow_failed_def safe_emit_def intro!: returns_catch)

lemma demo_runtime_sound: "sound_runtime demo_runtime"
proof -
  have "sound_node (\<lambda>c cfg. ret (demo_result t, []))" "sound_node (\<lambda>c cfg. raise e)" for t e
    by (auto simp: sound_node_def ret_def raise_def demo_result_def)
  then have "\<forall>t node. rt_registry demo_runtime t = Some (Inr node) \<longrightarrow> sound_node node"
    by (auto simp: demo_runtime_def split: if_splits)
  moreover have "rt_hook demo_runtime = Some DbExecutionEventHook" by (simp add: demo_runtime_def)
  ultimately show ?thesis
    using demo_runtime_keeps [OF same_node_runs_refl same_node_runs_hook] demo_runtime_keeps [OF keeps_ok_refl demo_hook(1)]
      db_hook_returns by (auto simp: sound_runtime_def)
qed

theorem run_ends_final_witness:
  "settles_run 100 demo_db (snd (run demo_runtime (demo_run ''IntentClassifier'') demo_db)) \<and>
   map fr_status (flow_runs (snd (run demo_runtime (demo_run ''IntentClassifier'') demo_db))) = [''COMPLETED'']"
proof -
  have "fst (run demo_runtime (demo_run ''IntentClassifier'') demo_db) = Inr ()"
    "map fr_status (flow_runs (snd (run demo_runtime (demo_run ''IntentClassifier'') demo_db))) = [''COMPLETED'']"
    by code_simp+
  then show ?thesis
    using run_ends_final [OF demo_runtime_keeps [OF same_runs_refl db_hook_keeps(2)] prod.collapse [symmetric],
        of "demo_run ''IntentClassifier''" demo_db]
    by (simp add: demo_run_def)
qed

theorem run_events_append_only_witness:
  "prefix (events demo_db) (events (snd (run demo_runtime (demo_run ''ToolExecutor'') demo_db))) \<and>
   map ev_sequence (events (snd (run demo_runtime (demo_run ''ToolExecutor'') demo_db))) = [1, 2]"
proof -
  have "events demo_db = []" by code_simp
  then have "seq_wf demo_db" by (simp add: seq_wf_def events_of_def)
  moreover have "map ev_sequence (events (snd (run demo_runtime (demo_run ''ToolExecutor'') demo_db))) = [1, 2]"
    by code_simp
  ultimately show ?thesis
    using run_events_append_only [OF demo_runtime_keeps [OF events_grow_reflp db_hook_keeps(1)] prod.collapse [symmetric]]
    by simp
qed


theorem loop_limit_bounds_visits_witness:
  "int (visits 1 (snd (run demo_runtime ((demo_run ''x'')\<lparr>xr_plan := demo_loop_plan\<rparr>) demo_db))) \<le> 11"
proof -
  let ?a = "(demo_run ''x'')\<lparr>xr_plan := demo_loop_plan\<rparr>"
  let ?e = "\<lparr>from_node = demo_n1, to_node = demo_n1, edge_kind = LOOP, compiled_condition = [PBool True], order = 0\<rparr>"
  have "?e \<in> set (edges_from (adjacency_map (xr_plan ?a)) demo_n1)" "visits 1 demo_db = 0"
    "\<forall>k \<in> fst ` set (plan_nodes (xr_plan ?a)). parse_uuid k = Inr 1 \<longrightarrow> k = demo_n1"
    "loop_limit_of (or_empty (xr_policy ?a)) = 10" by code_simp+
  then show ?thesis
    using loop_limit_bounds_visits [OF demo_runtime_keeps [OF same_node_ids_refl demo_hook(2)], of ?e ?a demo_n1 1 demo_db]
    by (metis (no_types) add.commute add_0 compiled_edge.select_convs(1,3) of_nat_0 one_plus_numeral prod.collapse semiring_norm(3,4))
qed

end
