(* ===== verification/ConfigCache.thy ===== *)
theory ConfigCache
  imports ExecutionStore
begin

text \<open>
  The Redis adapter (\<^verbatim>\<open>src/src/adapters/cache/redis_adapter.py\<close>) and the cached reads of
  configuration rows in \<^verbatim>\<open>execution_repository.py\<close> and \<^verbatim>\<open>rag_repository.py\<close>.

  An adapter call on a server that does not answer raises, or returns \<open>False\<close> in silent mode, which every
  caller reads as a miss.  Values are the rows themselves: a row written as JSON and rebuilt by
  \<open>from_dict\<close> has the same columns.  The locale \<open>cached_rows\<close> is the contract of one key space and the
  query behind it; it is interpreted on every cached read below.
\<close>

subsection \<open>The Redis adapter\<close>

definition ConnectionError :: exn where
  "ConnectionError = Py (OtherException ''ConnectionError'')"

definition cache_lookup :: "time \<Rightarrow> ('k, 'v) cache \<Rightarrow> 'k \<Rightarrow> 'v option" where
  "cache_lookup now c k =
     (case map_of c k of None \<Rightarrow> None | Some (v, expiry) \<Rightarrow> if now < expiry then Some v else None)"

definition cache_put :: "time \<Rightarrow> int \<Rightarrow> 'k \<Rightarrow> 'v \<Rightarrow> ('k, 'v) cache \<Rightarrow> ('k, 'v) cache" where
  "cache_put now ttl k v c = AList.update k (v, now + ttl) c"

text \<open>\<open>silent_mode_wrapper\<close>; the fallback is what the callers make of \<open>False\<close>.\<close>

definition silent_mode_wrapper :: "'a \<Rightarrow> (db, 'a) comp \<Rightarrow> (db, 'a) comp" where
  "silent_mode_wrapper fallback call =
     bind (get redis_db) (\<lambda>r. if rd_up r then call else if rd_silent r then ret fallback else raise ConnectionError)"

definition redis_get :: "(redis_store \<Rightarrow> ('k, 'v) cache) \<Rightarrow> 'k \<Rightarrow> (db, 'v option) comp" where
  "redis_get space k = silent_mode_wrapper None (get (\<lambda>s. cache_lookup (clock s) (space (redis_db s)) k))"

definition redis_set ::
    "((('k, 'v) cache \<Rightarrow> ('k, 'v) cache) \<Rightarrow> redis_store \<Rightarrow> redis_store) \<Rightarrow> 'k \<Rightarrow> 'v \<Rightarrow> int \<Rightarrow> (db, unit) comp" where
  "redis_set upd k v ttl = silent_mode_wrapper ()
     (modify (\<lambda>s. s\<lparr>redis_db := upd (cache_put (clock s) ttl k v) (redis_db s)\<rparr>))"

definition set_if_not_exists ::
    "(redis_store \<Rightarrow> ('k, 'v) cache) \<Rightarrow> ((('k, 'v) cache \<Rightarrow> ('k, 'v) cache) \<Rightarrow> redis_store \<Rightarrow> redis_store)
     \<Rightarrow> 'k \<Rightarrow> 'v \<Rightarrow> int \<Rightarrow> (db, bool) comp" where
  "set_if_not_exists space upd k v ttl = silent_mode_wrapper False
     (bind (get (\<lambda>s. cache_lookup (clock s) (space (redis_db s)) k)) (\<lambda>present.
        case present of
          Some _ \<Rightarrow> ret False
        | None \<Rightarrow> bind (modify (\<lambda>s. s\<lparr>redis_db := upd (cache_put (clock s) ttl k v) (redis_db s)\<rparr>)) (\<lambda>_. ret True)))"

definition redis_delete ::
    "((('k, 'v) cache \<Rightarrow> ('k, 'v) cache) \<Rightarrow> redis_store \<Rightarrow> redis_store) \<Rightarrow> 'k \<Rightarrow> (db, unit) comp" where
  "redis_delete upd k = silent_mode_wrapper () (modify (\<lambda>s. s\<lparr>redis_db := upd (AList.delete k) (redis_db s)\<rparr>))"

text \<open>\<open>INCR\<close> keeps the expiry of a live counter and starts an absent one at 1; \<open>int(False)\<close> is 0.\<close>

definition incr_with_ttl :: "string \<Rightarrow> int \<Rightarrow> (db, int) comp" where
  "incr_with_ttl k ttl = silent_mode_wrapper 0
     (bind (get (\<lambda>s. (clock s, map_of (rd_counters (redis_db s)) k))) (\<lambda>(now, entry).
        let (v, expiry) = (case entry of
              Some (v, expiry) \<Rightarrow> if now < expiry then (v + 1, expiry) else (1, now + ttl)
            | None \<Rightarrow> (1, now + ttl)) in
        bind (modify (\<lambda>s. s\<lparr>redis_db := rd_counters_update (AList.update k (v, expiry)) (redis_db s)\<rparr>))
        (\<lambda>_. ret v)))"

subsection \<open>Cached reads\<close>

text \<open>The body shared by the cached reads: the entry of the key, or the query, whose row is written back.\<close>

definition cached_read ::
    "(redis_store \<Rightarrow> (uuid, 'r) cache) \<Rightarrow> (((uuid, 'r) cache \<Rightarrow> (uuid, 'r) cache) \<Rightarrow> redis_store \<Rightarrow> redis_store)
     \<Rightarrow> int \<Rightarrow> (uuid \<Rightarrow> db \<Rightarrow> exn + 'r option) \<Rightarrow> uuid \<Rightarrow> (db, 'r option) comp" where
  "cached_read space upd ttl fetch i =
     bind (redis_get space i) (\<lambda>cached.
       case cached of
         Some r \<Rightarrow> ret (Some r)
       | None \<Rightarrow> bind (\<lambda>s. (fetch i s, s)) (\<lambda>row.
           case row of
             None \<Rightarrow> ret None
           | Some r \<Rightarrow> bind (redis_set upd i r ttl) (\<lambda>_. ret (Some r))))"

definition cache_ttl :: int where
  "cache_ttl = 300"

text \<open>The queries: the row of an id, and the id of the active row of an owner.\<close>

definition row_of_id :: "(config_tables \<Rightarrow> 'r list) \<Rightarrow> ('r \<Rightarrow> uuid) \<Rightarrow> uuid \<Rightarrow> db \<Rightarrow> exn + 'r option" where
  "row_of_id tbl key i s = one_or_none (\<lambda>r. key r = i) (tbl (config_db s))"

definition active_id_of :: "('r \<Rightarrow> bool) \<Rightarrow> ('r \<Rightarrow> uuid) \<Rightarrow> 'r list \<Rightarrow> exn + uuid option" where
  "active_id_of active key rows = rbind (one_or_none active rows) (\<lambda>r. Inr (map_option key r))"

definition active_flow_version :: "uuid \<Rightarrow> db \<Rightarrow> exn + uuid option" where
  "active_flow_version i s =
     active_id_of (\<lambda>v. fv_flow_id v = i \<and> fv_is_active v) fv_id (flow_versions (config_db s))"

definition active_agent_version :: "uuid \<Rightarrow> db \<Rightarrow> exn + uuid option" where
  "active_agent_version i s = active_id_of (\<lambda>v. av_agent_id v = i \<and> av_is_active v) av_id (agent_versions s)"

definition active_policy_version ::
    "(config_tables \<Rightarrow> 'a activated_version_scheme list) \<Rightarrow> uuid \<Rightarrow> db \<Rightarrow> exn + uuid option" where
  "active_policy_version tbl tenant s =
     active_id_of (\<lambda>v. va_tenant_id v = Some tenant \<and> va_is_active v) vr_id (tbl (config_db s))"

definition get_flow_version :: "uuid \<Rightarrow> (db, flow_version option) comp" where
  "get_flow_version = cached_read rd_flow_version rd_flow_version_update cache_ttl (row_of_id flow_versions fv_id)"

definition get_active_flow_version_id :: "uuid \<Rightarrow> (db, uuid option) comp" where
  "get_active_flow_version_id =
     cached_read rd_flow_active_version rd_flow_active_version_update cache_ttl active_flow_version"

definition get_flow_graph_by_flow_version :: "uuid \<Rightarrow> (db, flow_graph_row option) comp" where
  "get_flow_graph_by_flow_version =
     cached_read rd_flow_graph rd_flow_graph_update cache_ttl (row_of_id flow_graphs fg_flow_version_id)"

definition get_flow_graph_snapshot_by_flow_version :: "uuid \<Rightarrow> (db, graph_snapshot_row option) comp" where
  "get_flow_graph_snapshot_by_flow_version =
     cached_read rd_flow_snapshot rd_flow_snapshot_update cache_ttl
       (row_of_id flow_graph_snapshots sg_flow_version_id)"

definition get_tool_config :: "uuid \<Rightarrow> (db, tool_config option) comp" where
  "get_tool_config = cached_read rd_tool_config rd_tool_config_update cache_ttl (row_of_id tool_configs tc_id)"

definition get_agent_version :: "uuid \<Rightarrow> (db, agent_version option) comp" where
  "get_agent_version =
     cached_read rd_agent_version rd_agent_version_update cache_ttl
       (\<lambda>i s. one_or_none (\<lambda>v. av_id v = i) (agent_versions s))"

definition get_active_agent_version_id :: "uuid \<Rightarrow> (db, uuid option) comp" where
  "get_active_agent_version_id =
     cached_read rd_agent_active_version rd_agent_active_version_update cache_ttl active_agent_version"

definition get_ai_execution_policy_version :: "uuid \<Rightarrow> (db, ai_policy_version option) comp" where
  "get_ai_execution_policy_version =
     cached_read rd_ai_policy_version rd_ai_policy_version_update cache_ttl (row_of_id ai_policy_versions pv_id)"

definition get_model :: "uuid \<Rightarrow> (db, model_row option) comp" where
  "get_model = cached_read rd_model rd_model_update cache_ttl (row_of_id models mo_id)"

definition get_node :: "uuid \<Rightarrow> (db, node_row option) comp" where
  "get_node = cached_read rd_node rd_node_update cache_ttl (row_of_id node_rows no_id)"

definition get_active_billing_policy_version_id :: "uuid \<Rightarrow> (db, uuid option) comp" where
  "get_active_billing_policy_version_id =
     cached_read rd_active_billing_version rd_active_billing_version_update cache_ttl
       (active_policy_version billing_policy_versions)"

definition get_billing_policy_version :: "uuid \<Rightarrow> (db, billing_policy_version option) comp" where
  "get_billing_policy_version =
     cached_read rd_billing_policy_version rd_billing_policy_version_update cache_ttl
       (row_of_id billing_policy_versions vr_id)"

definition get_active_memory_policy_version_id :: "uuid \<Rightarrow> (db, uuid option) comp" where
  "get_active_memory_policy_version_id =
     cached_read rd_active_memory_version rd_active_memory_version_update cache_ttl
       (active_policy_version memory_policy_versions)"

definition get_memory_policy_version :: "uuid \<Rightarrow> (db, memory_policy_version option) comp" where
  "get_memory_policy_version =
     cached_read rd_memory_policy_version rd_memory_policy_version_update cache_ttl
       (row_of_id memory_policy_versions vr_id)"

definition get_active_rag_policy_version_id :: "uuid \<Rightarrow> (db, uuid option) comp" where
  "get_active_rag_policy_version_id =
     cached_read rd_active_rag_version rd_active_rag_version_update cache_ttl
       (active_policy_version rag_policy_versions)"

definition get_rag_policy_version :: "uuid \<Rightarrow> (db, rag_policy_version option) comp" where
  "get_rag_policy_version =
     cached_read rd_rag_policy_version rd_rag_policy_version_update cache_ttl
       (row_of_id rag_policy_versions vr_id)"

definition get_rag_config :: "uuid \<Rightarrow> (db, rag_config option) comp" where
  "get_rag_config = cached_read rd_rag_config rd_rag_config_update 60 (row_of_id rag_configs rc_id)"

text \<open>The reads that go to the database directly.\<close>

definition get_flow :: "uuid \<Rightarrow> (db, flow_row option) comp" where
  "get_flow i = (\<lambda>s. (row_of_id flows fl_id i s, s))"

definition get_flow_graph_snapshot :: "uuid \<Rightarrow> (db, graph_snapshot_row option) comp" where
  "get_flow_graph_snapshot i = (\<lambda>s. (row_of_id flow_graph_snapshots sg_id i s, s))"

definition get_flow_snapshot_by_id :: "uuid \<Rightarrow> (db, flow_snapshot option) comp" where
  "get_flow_snapshot_by_id i = (\<lambda>s. (row_of_id flow_snapshots ss_id i s, s))"

definition get_flow_snapshot_by_flow_version :: "uuid \<Rightarrow> (db, flow_snapshot option) comp" where
  "get_flow_snapshot_by_flow_version i = (\<lambda>s. (row_of_id flow_snapshots ss_flow_version_id i s, s))"

subsection \<open>Coherence\<close>

text \<open>Every live entry of a key space is what its query returns.\<close>

definition coherent ::
    "(redis_store \<Rightarrow> (uuid, 'r) cache) \<Rightarrow> (uuid \<Rightarrow> db \<Rightarrow> exn + 'r option) \<Rightarrow> db \<Rightarrow> bool" where
  "coherent space fetch s \<longleftrightarrow>
     (\<forall>i v. cache_lookup (clock s) (space (redis_db s)) i = Some v \<longrightarrow> fetch i s = Inr (Some v))"

definition reachable :: "db \<Rightarrow> bool" where
  "reachable s \<longleftrightarrow> rd_up (redis_db s) \<or> rd_silent (redis_db s)"

text \<open>A cached read changes nothing but the Redis keys, and never the server's state.\<close>

definition only_redis :: "db \<Rightarrow> db \<Rightarrow> bool" where
  "only_redis s s' \<longleftrightarrow> (\<exists>x. s' = s\<lparr>redis_db := x\<rparr> \<and> rd_up x = rd_up (redis_db s) \<and>
     rd_silent x = rd_silent (redis_db s))"

definition versions_coherent :: "db \<Rightarrow> bool" where
  "versions_coherent s \<longleftrightarrow> coherent rd_flow_version (row_of_id flow_versions fv_id) s \<and>
     coherent rd_flow_active_version active_flow_version s \<and>
     coherent rd_flow_snapshot (row_of_id flow_graph_snapshots sg_flow_version_id) s \<and>
     coherent rd_agent_version (\<lambda>i s. one_or_none (\<lambda>v. av_id v = i) (agent_versions s)) s \<and>
     coherent rd_agent_active_version active_agent_version s \<and>
     coherent rd_tool_config (row_of_id tool_configs tc_id) s"

lemma cache_lookup_put [simp]:
  "cache_lookup now (cache_put now ttl k v c) k' = (if k' = k then (if 0 < ttl then Some v else None) else cache_lookup now c k')"
  by (simp add: cache_lookup_def cache_put_def)

lemma redis_get_eq:
  "redis_get space k s =
     (if rd_up (redis_db s) then (Inr (cache_lookup (clock s) (space (redis_db s)) k), s)
      else if rd_silent (redis_db s) then (Inr None, s) else (Inl ConnectionError, s))"
  by (simp add: redis_get_def silent_mode_wrapper_def comp_simps)

lemma redis_set_eq:
  "redis_set upd k v ttl s =
     (if rd_up (redis_db s) then (Inr (), s\<lparr>redis_db := upd (cache_put (clock s) ttl k v) (redis_db s)\<rparr>)
      else if rd_silent (redis_db s) then (Inr (), s) else (Inl ConnectionError, s))"
  by (simp add: redis_set_def silent_mode_wrapper_def comp_simps)

lemma cached_read_eq:
  "cached_read space upd ttl fetch i s =
     (if \<not> reachable s then (Inl ConnectionError, s)
      else case (if rd_up (redis_db s) then cache_lookup (clock s) (space (redis_db s)) i else None) of
        Some r \<Rightarrow> (Inr (Some r), s)
      | None \<Rightarrow> (fetch i s,
          case fetch i s of
            Inr (Some r) \<Rightarrow> if rd_up (redis_db s)
              then s\<lparr>redis_db := upd (cache_put (clock s) ttl i r) (redis_db s)\<rparr> else s
          | _ \<Rightarrow> s))"
proof (cases "fetch i s")
  case (Inl e)
  then show ?thesis
    by (cases "cache_lookup (clock s) (space (redis_db s)) i")
       (simp_all add: cached_read_def redis_get_eq comp_simps reachable_def)
next
  case (Inr row)
  then show ?thesis
    by (cases "cache_lookup (clock s) (space (redis_db s)) i"; cases row)
       (simp_all add: cached_read_def redis_get_eq redis_set_eq comp_simps reachable_def)
qed

lemma incr_with_ttl_up:
  assumes "rd_up (redis_db s)"
  shows "\<exists>v expiry. incr_with_ttl k ttl s =
     (Inr v, s\<lparr>redis_db := rd_counters_update (AList.update k (v, expiry)) (redis_db s)\<rparr>) \<and>
     (v, expiry) = (case map_of (rd_counters (redis_db s)) k of
        Some (v, expiry) \<Rightarrow> if clock s < expiry then (v + 1, expiry) else (1, clock s + ttl)
      | None \<Rightarrow> (1, clock s + ttl))"
  using assms
  by (cases "map_of (rd_counters (redis_db s)) k")
     (auto simp: incr_with_ttl_def silent_mode_wrapper_def comp_simps split: prod.splits)

lemma only_redis_refl: "reflp only_redis"
proof (rule reflpI)
  show "only_redis s s" for s
    unfolding only_redis_def by (rule exI [of _ "redis_db s"]) simp
qed

lemma only_redis_trans: "transp only_redis"
proof (rule transpI)
  fix a b c assume "only_redis a b" and "only_redis b c"
  then obtain x y where "b = a\<lparr>redis_db := x\<rparr>" "rd_up x = rd_up (redis_db a)" "rd_silent x = rd_silent (redis_db a)"
    and "c = b\<lparr>redis_db := y\<rparr>" "rd_up y = rd_up (redis_db b)" "rd_silent y = rd_silent (redis_db b)"
    unfolding only_redis_def by blast
  then have "c = a\<lparr>redis_db := y\<rparr>" "rd_up y = rd_up (redis_db a)" "rd_silent y = rd_silent (redis_db a)"
    by simp_all
  then show "only_redis a c"
    unfolding only_redis_def by blast
qed

text \<open>
  The contract of a key space over a query: writing the space is read back from it, and neither the server
  nor the query notices.
\<close>

locale cached_rows =
  fixes space :: "redis_store \<Rightarrow> (uuid, 'r) cache"
    and upd :: "((uuid, 'r) cache \<Rightarrow> (uuid, 'r) cache) \<Rightarrow> redis_store \<Rightarrow> redis_store"
    and ttl :: int
    and fetch :: "uuid \<Rightarrow> db \<Rightarrow> exn + 'r option"
  assumes read_back: "space (upd f r) = f (space r)"
    and same_server: "rd_up (upd f r) = rd_up r" "rd_silent (upd f r) = rd_silent r"
    and same_rows: "fetch i (s\<lparr>redis_db := x\<rparr>) = fetch i s"
    and lives: "0 < ttl"
begin

lemma read_transparent:
  assumes "coherent space fetch s" and "reachable s"
  shows "fst (cached_read space upd ttl fetch i s) = fetch i s"
proof (cases "if rd_up (redis_db s) then cache_lookup (clock s) (space (redis_db s)) i else None")
  case (Some v)
  then have "fetch i s = Inr (Some v)"
    using assms(1) unfolding coherent_def by (metis option.discI)
  with Some show ?thesis
    using assms(2) by (simp add: cached_read_eq)
qed (use assms(2) in \<open>simp add: cached_read_eq\<close>)

lemma read_cases:
  obtains (same) r where "cached_read space upd ttl fetch i s = (r, s)"
  | (stored) v where "fetch i s = Inr (Some v)" and "cached_read space upd ttl fetch i s =
      (Inr (Some v), s\<lparr>redis_db := upd (cache_put (clock s) ttl i v) (redis_db s)\<rparr>)"
proof (cases "reachable s")
  case False
  then show thesis by (intro same) (simp add: cached_read_eq)
next
  case True
  show thesis
  proof (cases "if rd_up (redis_db s) then cache_lookup (clock s) (space (redis_db s)) i else None")
    case (Some v)
    with True show thesis by (intro same) (simp add: cached_read_eq)
  next
    case None
    show thesis
    proof (cases "rd_up (redis_db s) \<and> (\<exists>v. fetch i s = Inr (Some v))")
      case True
      then obtain v where v: "fetch i s = Inr (Some v)" by blast
      show thesis
        by (rule stored [OF v]) (use \<open>reachable s\<close> None True v in \<open>simp add: cached_read_eq\<close>)
    next
      case False
      then have "(case fetch i s of Inl a \<Rightarrow> s | Inr None \<Rightarrow> s | Inr (Some r) \<Rightarrow>
          if rd_up (redis_db s) then s\<lparr>redis_db := upd (cache_put (clock s) ttl i r) (redis_db s)\<rparr> else s) = s"
        by (cases "fetch i s"; cases "projr (fetch i s)"; simp)
      then show thesis
        by (intro same) (use \<open>reachable s\<close> None in \<open>simp add: cached_read_eq\<close>)
    qed
  qed
qed

lemma read_keeps_coherent:
  assumes "coherent space fetch s"
  shows "coherent space fetch (snd (cached_read space upd ttl fetch i s))"
proof (cases rule: read_cases [of i s])
  case (stored v)
  then show ?thesis
    using assms lives unfolding coherent_def stored(2) by (simp add: read_back same_rows)
qed (simp add: assms)

lemma read_keeps_other:
  assumes "coherent space' fetch' s" and "\<And>f r. space' (upd f r) = space' r"
    and "\<And>j s x. fetch' j (s\<lparr>redis_db := x\<rparr>) = fetch' j s"
  shows "coherent space' fetch' (snd (cached_read space upd ttl fetch i s))"
proof (cases rule: read_cases [of i s])
  case (stored v)
  then show ?thesis
    using assms(1) unfolding coherent_def stored(2) by (simp add: assms(2,3))
qed (simp add: assms(1))

lemma read_only_redis: "keeps only_redis (cached_read space upd ttl fetch i)"
  unfolding keeps_def
proof
  fix s
  show "only_redis s (snd (cached_read space upd ttl fetch i s))"
  proof (cases rule: read_cases [of i s])
    case (same r)
    then show ?thesis using only_redis_refl by (simp add: reflp_def)
  next
    case (stored v)
    then show ?thesis
      unfolding only_redis_def stored(2) snd_conv using same_server by blast
  qed
qed

lemma read_stale:
  "rd_up (redis_db s) \<Longrightarrow> cache_lookup (clock s) (space (redis_db s)) i = Some v
   \<Longrightarrow> cached_read space upd ttl fetch i s = (Inr (Some v), s)"
  by (simp add: cached_read_eq reachable_def)

lemma read_then_cached:
  assumes "cached_read space upd ttl fetch i s = (Inr (Some v), s')" and "rd_up (redis_db s)"
  shows "cache_lookup (clock s) (space (redis_db s')) i = Some v"
  using assms lives
  by (auto simp: cached_read_eq reachable_def read_back split: option.splits)

end

interpretation flow_version_cache:
  cached_rows rd_flow_version rd_flow_version_update cache_ttl "row_of_id flow_versions fv_id"
  by unfold_locales (simp_all add: row_of_id_def cache_ttl_def)

interpretation active_flow_cache:
  cached_rows rd_flow_active_version rd_flow_active_version_update cache_ttl active_flow_version
  by unfold_locales (simp_all add: active_flow_version_def cache_ttl_def)

interpretation flow_graph_cache:
  cached_rows rd_flow_graph rd_flow_graph_update cache_ttl "row_of_id flow_graphs fg_flow_version_id"
  by unfold_locales (simp_all add: row_of_id_def cache_ttl_def)

interpretation flow_snapshot_cache:
  cached_rows rd_flow_snapshot rd_flow_snapshot_update cache_ttl "row_of_id flow_graph_snapshots sg_flow_version_id"
  by unfold_locales (simp_all add: row_of_id_def cache_ttl_def)

interpretation tool_config_cache:
  cached_rows rd_tool_config rd_tool_config_update cache_ttl "row_of_id tool_configs tc_id"
  by unfold_locales (simp_all add: row_of_id_def cache_ttl_def)

interpretation agent_version_cache:
  cached_rows rd_agent_version rd_agent_version_update cache_ttl
    "\<lambda>i s. one_or_none (\<lambda>v. av_id v = i) (agent_versions s)"
  by unfold_locales (simp_all add: cache_ttl_def)

interpretation active_agent_cache:
  cached_rows rd_agent_active_version rd_agent_active_version_update cache_ttl active_agent_version
  by unfold_locales (simp_all add: active_agent_version_def cache_ttl_def)

interpretation ai_policy_cache:
  cached_rows rd_ai_policy_version rd_ai_policy_version_update cache_ttl "row_of_id ai_policy_versions pv_id"
  by unfold_locales (simp_all add: row_of_id_def cache_ttl_def)

interpretation model_cache: cached_rows rd_model rd_model_update cache_ttl "row_of_id models mo_id"
  by unfold_locales (simp_all add: row_of_id_def cache_ttl_def)

interpretation node_cache: cached_rows rd_node rd_node_update cache_ttl "row_of_id node_rows no_id"
  by unfold_locales (simp_all add: row_of_id_def cache_ttl_def)

interpretation rag_config_cache: cached_rows rd_rag_config rd_rag_config_update 60 "row_of_id rag_configs rc_id"
  by unfold_locales (simp_all add: row_of_id_def)

interpretation active_billing_cache:
  cached_rows rd_active_billing_version rd_active_billing_version_update cache_ttl
    "active_policy_version billing_policy_versions"
  by unfold_locales (simp_all add: active_policy_version_def cache_ttl_def)

interpretation billing_cache:
  cached_rows rd_billing_policy_version rd_billing_policy_version_update cache_ttl
    "row_of_id billing_policy_versions vr_id"
  by unfold_locales (simp_all add: row_of_id_def cache_ttl_def)

interpretation active_memory_cache:
  cached_rows rd_active_memory_version rd_active_memory_version_update cache_ttl
    "active_policy_version memory_policy_versions"
  by unfold_locales (simp_all add: active_policy_version_def cache_ttl_def)

interpretation memory_cache:
  cached_rows rd_memory_policy_version rd_memory_policy_version_update cache_ttl
    "row_of_id memory_policy_versions vr_id"
  by unfold_locales (simp_all add: row_of_id_def cache_ttl_def)

interpretation active_rag_cache:
  cached_rows rd_active_rag_version rd_active_rag_version_update cache_ttl
    "active_policy_version rag_policy_versions"
  by unfold_locales (simp_all add: active_policy_version_def cache_ttl_def)

interpretation rag_cache:
  cached_rows rd_rag_policy_version rd_rag_policy_version_update cache_ttl
    "row_of_id rag_policy_versions vr_id"
  by unfold_locales (simp_all add: row_of_id_def cache_ttl_def)

subsection \<open>Reads in a coherent store\<close>

lemmas active_fetch_defs = active_flow_version_def active_agent_version_def row_of_id_def

lemma version_reads_transparent:
  assumes "versions_coherent s" and "reachable s"
  shows "fst (get_flow_version i s) = row_of_id flow_versions fv_id i s"
    and "fst (get_active_flow_version_id i s) = active_flow_version i s"
    and "fst (get_flow_graph_snapshot_by_flow_version i s) = row_of_id flow_graph_snapshots sg_flow_version_id i s"
    and "fst (get_agent_version i s) = one_or_none (\<lambda>v. av_id v = i) (agent_versions s)"
    and "fst (get_active_agent_version_id i s) = active_agent_version i s"
    and "fst (get_tool_config i s) = row_of_id tool_configs tc_id i s"
  using assms unfolding versions_coherent_def
  by (simp_all add: get_flow_version_def get_active_flow_version_id_def
      get_flow_graph_snapshot_by_flow_version_def get_agent_version_def get_active_agent_version_id_def
      get_tool_config_def flow_version_cache.read_transparent active_flow_cache.read_transparent
      flow_snapshot_cache.read_transparent agent_version_cache.read_transparent
      active_agent_cache.read_transparent tool_config_cache.read_transparent)

lemma get_flow_version_keeps_coherent:
  "versions_coherent s \<Longrightarrow> versions_coherent (snd (get_flow_version i s))"
  unfolding versions_coherent_def get_flow_version_def
  by (intro conjI flow_version_cache.read_keeps_coherent flow_version_cache.read_keeps_other)
     (auto simp: active_fetch_defs)

lemma get_active_flow_version_id_keeps_coherent:
  "versions_coherent s \<Longrightarrow> versions_coherent (snd (get_active_flow_version_id i s))"
  unfolding versions_coherent_def get_active_flow_version_id_def
  by (intro conjI active_flow_cache.read_keeps_coherent active_flow_cache.read_keeps_other)
     (auto simp: active_fetch_defs)

end
