(* ===== verification/Governance.thy ===== *)
theory Governance
  imports ConfigCache PyConv
begin

text \<open>
  The governance plane: the policy repositories (\<^verbatim>\<open>src/src/domain/governance/repositories/\<close>), the
  administration service (\<^verbatim>\<open>governance_policies_service.py\<close>), the access-policy, rate-limit and
  execution-limit services that guard the execution plane, and the runtime policy resolver
  (\<^verbatim>\<open>src/src/domain/execution/services/runtime_policy_resolver.py\<close>).

  Access, rate-limit, billing, memory and RAG policies share one repository shape, which is written once
  over the table it works on.  A response carries the columns of its row, so the services return rows;
  the pydantic models that a definition must satisfy are the argument \<open>pydantic\<close>.  A repository method
  that returns normally commits what it changed, also when it returns \<open>None\<close>
  (\<^verbatim>\<open>DatabaseConnection.get_session\<close>).
\<close>

record pydantic =
  pd_runtime :: "pydict \<Rightarrow> exn + pydict"
  pd_access_rules :: "pydict \<Rightarrow> exn + pydict"
  pd_billing_rules :: "pydict \<Rightarrow> exn + pydict"
  pd_memory :: "memory_policy_version \<Rightarrow> exn + unit"
  pd_rag :: "pydict \<Rightarrow> exn + pydict"

definition VersionStatus_PUBLISHED :: string where
  "VersionStatus_PUBLISHED = ''PUBLISHED''"

subsection \<open>Policies and their versions\<close>

definition config_update :: "(config_tables \<Rightarrow> config_tables) \<Rightarrow> (db, unit) comp" where
  "config_update f = modify (\<lambda>s. s\<lparr>config_db := f (config_db s)\<rparr>)"

definition create_policy_row ::
    "((policy_row list \<Rightarrow> policy_row list) \<Rightarrow> config_tables \<Rightarrow> config_tables) \<Rightarrow> uuid \<Rightarrow> string \<Rightarrow> (db, policy_row) comp" where
  "create_policy_row upd tenant name =
     bind new_uuid (\<lambda>pid. bind (get clock) (\<lambda>now.
       let row = \<lparr>po_id = pid, po_tenant_id = tenant, po_name = name, po_created_at = now\<rparr> in
       bind (config_update (upd (\<lambda>rows. rows @ [row]))) (\<lambda>_. ret row)))"

text \<open>\<open>ORDER BY created_at DESC\<close>; rows created at one time keep their insertion order.\<close>

definition list_policy_rows :: "(config_tables \<Rightarrow> policy_row list) \<Rightarrow> uuid \<Rightarrow> (db, policy_row list) comp" where
  "list_policy_rows tbl tenant =
     get (\<lambda>s. sort_key (\<lambda>p. - po_created_at p) (filter (\<lambda>p. po_tenant_id p = tenant) (tbl (config_db s))))"

definition get_policy_row :: "(config_tables \<Rightarrow> policy_row list) \<Rightarrow> uuid \<Rightarrow> (db, policy_row option) comp" where
  "get_policy_row tbl i = (\<lambda>s. (row_of_id tbl po_id i s, s))"

text \<open>\<open>scalars().first()\<close> of the policies of a tenant.\<close>

definition get_default_policy_for_tenant ::
    "(config_tables \<Rightarrow> policy_row list) \<Rightarrow> uuid \<Rightarrow> (db, policy_row option) comp" where
  "get_default_policy_for_tenant tbl tenant =
     get (\<lambda>s. List.find (\<lambda>p. po_tenant_id p = tenant) (tbl (config_db s)))"

definition get_version_row ::
    "(config_tables \<Rightarrow> 'a version_row_scheme list) \<Rightarrow> uuid \<Rightarrow> (db, 'a version_row_scheme option) comp" where
  "get_version_row tbl i = (\<lambda>s. (row_of_id tbl vr_id i s, s))"

definition create_version_row ::
    "(('a version_row_scheme list \<Rightarrow> 'a version_row_scheme list) \<Rightarrow> config_tables \<Rightarrow> config_tables)
     \<Rightarrow> (uuid \<Rightarrow> time \<Rightarrow> 'a version_row_scheme) \<Rightarrow> (db, 'a version_row_scheme) comp" where
  "create_version_row upd row =
     bind new_uuid (\<lambda>vid. bind (get clock) (\<lambda>now.
       bind (config_update (upd (\<lambda>rows. rows @ [row vid now]))) (\<lambda>_. ret (row vid now))))"

definition set_version_status ::
    "(config_tables \<Rightarrow> 'a version_row_scheme list)
     \<Rightarrow> (('a version_row_scheme list \<Rightarrow> 'a version_row_scheme list) \<Rightarrow> config_tables \<Rightarrow> config_tables)
     \<Rightarrow> uuid \<Rightarrow> string \<Rightarrow> (db, unit) comp" where
  "set_version_status tbl upd i status =
     bind (get_version_row tbl i) (\<lambda>row.
       case row of
         None \<Rightarrow> ret ()
       | Some _ \<Rightarrow> config_update (upd (update_where (\<lambda>v. vr_id v = i) (\<lambda>v. v\<lparr>vr_status := status\<rparr>))))"

text \<open>
  The published versions of a policy, the highest semantic version first and the newest first among equals.
\<close>

definition newest_first :: "'a version_row_scheme list \<Rightarrow> 'a version_row_scheme list" where
  "newest_first rows =
     sort_key (\<lambda>v. - vr_major v) (sort_key (\<lambda>v. - vr_minor v) (sort_key (\<lambda>v. - vr_patch v)
       (sort_key (\<lambda>v. - vr_created_at v) rows)))"

definition first_row :: "'r list \<Rightarrow> 'r option" where
  "first_row rows = (case rows of [] \<Rightarrow> None | r # _ \<Rightarrow> Some r)"

definition published_version ::
    "('a version_row_scheme \<Rightarrow> bool) \<Rightarrow> uuid \<Rightarrow> 'a version_row_scheme list \<Rightarrow> 'a version_row_scheme option" where
  "published_version P pid rows =
     first_row (newest_first (filter (\<lambda>v. vr_policy_id v = pid \<and> vr_status v = VersionStatus_PUBLISHED \<and> P v) rows))"

text \<open>
  \<open>set_active_version\<close>: the active versions of the tenant are switched off, then the chosen one is given to
  the tenant and switched on.
\<close>

definition set_active_version ::
    "(config_tables \<Rightarrow> 'a activated_version_scheme list)
     \<Rightarrow> (('a activated_version_scheme list \<Rightarrow> 'a activated_version_scheme list) \<Rightarrow> config_tables \<Rightarrow> config_tables)
     \<Rightarrow> uuid \<Rightarrow> uuid \<Rightarrow> string \<Rightarrow> string \<Rightarrow> (db, 'a activated_version_scheme option) comp" where
  "set_active_version tbl upd tenant i actor justification =
     bind (get_version_row tbl i) (\<lambda>target.
     bind (get clock) (\<lambda>now.
       let off = update_where (\<lambda>v. va_tenant_id v = Some tenant \<and> va_is_active v) (\<lambda>v. v\<lparr>va_is_active := False\<rparr>);
           activate = (\<lambda>v. v\<lparr>va_tenant_id := Some tenant, va_is_active := True, va_activated_at := Some now,
             va_activated_by := Some actor, va_justification := Some justification\<rparr>) in
       case target of
         None \<Rightarrow> bind (config_update (upd off)) (\<lambda>_. ret None)
       | Some v \<Rightarrow> bind (config_update (upd (update_where (\<lambda>v. vr_id v = i) activate \<circ> off)))
           (\<lambda>_. ret (Some (activate v)))))"

subsection \<open>Administration\<close>

record version_payload =
  vp_status :: string
  vp_major :: int
  vp_minor :: int
  vp_patch :: int

definition new_version :: "version_payload \<Rightarrow> uuid \<Rightarrow> uuid \<Rightarrow> time \<Rightarrow> version_row" where
  "new_version p pid vid now = \<lparr>vr_id = vid, vr_policy_id = pid, vr_status = vp_status p, vr_major = vp_major p,
     vr_minor = vp_minor p, vr_patch = vp_patch p, vr_created_at = now\<rparr>"

definition new_activated :: "version_payload \<Rightarrow> uuid \<Rightarrow> uuid \<Rightarrow> time \<Rightarrow> activated_version" where
  "new_activated p pid vid now = \<lparr>vr_id = vid, vr_policy_id = pid, vr_status = vp_status p, vr_major = vp_major p,
     vr_minor = vp_minor p, vr_patch = vp_patch p, vr_created_at = now, va_tenant_id = None,
     va_is_active = False, va_activated_at = None, va_activated_by = None, va_justification = None\<rparr>"

text \<open>The policy of the tenant, or \<open>NotFound\<close>; also the guard of every operation on a version.\<close>

definition owned_policy ::
    "(config_tables \<Rightarrow> policy_row list) \<Rightarrow> uuid \<Rightarrow> uuid \<Rightarrow> string \<Rightarrow> (db, policy_row) comp" where
  "owned_policy tbl tenant pid msg =
     bind (get_policy_row tbl pid) (\<lambda>policy.
       case policy of
         None \<Rightarrow> raise (not_found msg)
       | Some p \<Rightarrow> if po_tenant_id p \<noteq> tenant then raise (not_found msg) else ret p)"

definition owned_version ::
    "(config_tables \<Rightarrow> policy_row list) \<Rightarrow> (config_tables \<Rightarrow> 'a version_row_scheme list) \<Rightarrow> uuid \<Rightarrow> uuid \<Rightarrow> string
     \<Rightarrow> (db, 'a version_row_scheme) comp" where
  "owned_version policies versions tenant vid msg =
     bind (get_version_row versions vid) (\<lambda>version.
       case version of
         None \<Rightarrow> raise (not_found msg)
       | Some v \<Rightarrow> bind (owned_policy policies tenant (vr_policy_id v) msg) (\<lambda>_. ret v))"

text \<open>Publishing: the guard, the status, and the row read again.\<close>

definition publish_version ::
    "(config_tables \<Rightarrow> policy_row list) \<Rightarrow> (config_tables \<Rightarrow> 'a version_row_scheme list)
     \<Rightarrow> (('a version_row_scheme list \<Rightarrow> 'a version_row_scheme list) \<Rightarrow> config_tables \<Rightarrow> config_tables)
     \<Rightarrow> uuid \<Rightarrow> uuid \<Rightarrow> string \<Rightarrow> (db, 'a version_row_scheme) comp" where
  "publish_version policies versions upd tenant vid msg =
     bind (owned_version policies versions tenant vid msg) (\<lambda>_.
     bind (set_version_status versions upd vid ''PUBLISHED'') (\<lambda>_.
     bind (get_version_row versions vid) (\<lambda>version.
       case version of None \<Rightarrow> raise (not_found msg) | Some v \<Rightarrow> ret v)))"

definition activate_version ::
    "(config_tables \<Rightarrow> policy_row list) \<Rightarrow> (config_tables \<Rightarrow> 'a activated_version_scheme list)
     \<Rightarrow> (('a activated_version_scheme list \<Rightarrow> 'a activated_version_scheme list) \<Rightarrow> config_tables \<Rightarrow> config_tables)
     \<Rightarrow> uuid \<Rightarrow> uuid \<Rightarrow> string \<Rightarrow> string \<Rightarrow> string \<Rightarrow> (db, 'a activated_version_scheme) comp" where
  "activate_version policies versions upd tenant vid actor justification msg =
     (if py_strip justification = '''' then raise (domain_validation ''justification_required'')
      else bind (owned_version policies versions tenant vid msg) (\<lambda>v.
        bind (set_active_version versions upd tenant vid actor justification) (\<lambda>_. ret v)))"

definition validated :: "('r \<Rightarrow> exn + 'x) \<Rightarrow> (db, 'r) comp \<Rightarrow> (db, 'r) comp" where
  "validated check m = bind m (\<lambda>row. bind (lift_res (check row)) (\<lambda>_. ret row))"

paragraph \<open>Access policies\<close>

definition create_access_policy :: "uuid \<Rightarrow> string \<Rightarrow> (db, policy_row) comp" where
  "create_access_policy = create_policy_row access_policies_update"

definition list_access_policies :: "uuid \<Rightarrow> (db, policy_row list) comp" where
  "list_access_policies = list_policy_rows access_policies"

definition get_access_policy :: "uuid \<Rightarrow> uuid \<Rightarrow> (db, policy_row) comp" where
  "get_access_policy tenant pid = owned_policy access_policies tenant pid ''access_policy_not_found''"

definition create_access_policy_version ::
    "pydantic \<Rightarrow> uuid \<Rightarrow> uuid \<Rightarrow> version_payload \<Rightarrow> pydict \<Rightarrow> (db, access_policy_version) comp" where
  "create_access_policy_version pd tenant pid p rules = validated (\<lambda>v. pd_access_rules pd (ap_rules v))
     (bind (owned_policy access_policies tenant pid ''access_policy_not_found'') (\<lambda>_.
        create_version_row access_policy_versions_update
          (\<lambda>vid now. version_row.extend (new_version p pid vid now) (access_policy_version.fields rules))))"

definition publish_access_policy_version :: "pydantic \<Rightarrow> uuid \<Rightarrow> uuid \<Rightarrow> (db, access_policy_version) comp" where
  "publish_access_policy_version pd tenant vid = validated (\<lambda>v. pd_access_rules pd (ap_rules v))
     (publish_version access_policies access_policy_versions access_policy_versions_update tenant vid
        ''access_policy_version_not_found'')"

paragraph \<open>Rate-limit policies\<close>

definition create_rate_limit_policy :: "uuid \<Rightarrow> string \<Rightarrow> (db, policy_row) comp" where
  "create_rate_limit_policy = create_policy_row rate_limit_policies_update"

definition list_rate_limit_policies :: "uuid \<Rightarrow> (db, policy_row list) comp" where
  "list_rate_limit_policies = list_policy_rows rate_limit_policies"

definition get_rate_limit_policy :: "uuid \<Rightarrow> uuid \<Rightarrow> (db, policy_row) comp" where
  "get_rate_limit_policy tenant pid = owned_policy rate_limit_policies tenant pid ''rate_limit_policy_not_found''"

definition create_rate_limit_policy_version ::
    "uuid \<Rightarrow> uuid \<Rightarrow> version_payload \<Rightarrow> string \<Rightarrow> string \<Rightarrow> int \<Rightarrow> int \<Rightarrow> (db, rate_limit_policy_version) comp" where
  "create_rate_limit_policy_version tenant pid p action principal_type lmt window =
     bind (owned_policy rate_limit_policies tenant pid ''rate_limit_policy_not_found'') (\<lambda>_.
       create_version_row rate_limit_policy_versions_update
         (\<lambda>vid now. version_row.extend (new_version p pid vid now)
           (rate_limit_policy_version.fields action principal_type lmt window)))"

definition publish_rate_limit_policy_version :: "uuid \<Rightarrow> uuid \<Rightarrow> (db, rate_limit_policy_version) comp" where
  "publish_rate_limit_policy_version tenant vid =
     publish_version rate_limit_policies rate_limit_policy_versions rate_limit_policy_versions_update tenant vid
       ''rate_limit_policy_version_not_found''"

paragraph \<open>Billing policies\<close>

definition create_billing_policy :: "uuid \<Rightarrow> string \<Rightarrow> (db, policy_row) comp" where
  "create_billing_policy = create_policy_row billing_policies_update"

definition list_billing_policies :: "uuid \<Rightarrow> (db, policy_row list) comp" where
  "list_billing_policies = list_policy_rows billing_policies"

definition get_billing_policy :: "uuid \<Rightarrow> uuid \<Rightarrow> (db, policy_row) comp" where
  "get_billing_policy tenant pid = owned_policy billing_policies tenant pid ''billing_policy_not_found''"

definition create_billing_policy_version ::
    "pydantic \<Rightarrow> uuid \<Rightarrow> uuid \<Rightarrow> version_payload \<Rightarrow> pydict \<Rightarrow> (db, billing_policy_version) comp" where
  "create_billing_policy_version pd tenant pid p rules = validated (\<lambda>v. pd_billing_rules pd (bv_rules v))
     (bind (owned_policy billing_policies tenant pid ''billing_policy_not_found'') (\<lambda>_.
        create_version_row billing_policy_versions_update
          (\<lambda>vid now. activated_version.extend (new_activated p pid vid now) (billing_policy_version.fields rules))))"

definition publish_billing_policy_version :: "pydantic \<Rightarrow> uuid \<Rightarrow> uuid \<Rightarrow> (db, billing_policy_version) comp" where
  "publish_billing_policy_version pd tenant vid = validated (\<lambda>v. pd_billing_rules pd (bv_rules v))
     (publish_version billing_policies billing_policy_versions billing_policy_versions_update tenant vid
        ''billing_policy_version_not_found'')"

definition activate_billing_policy_version ::
    "pydantic \<Rightarrow> uuid \<Rightarrow> uuid \<Rightarrow> string \<Rightarrow> string \<Rightarrow> (db, billing_policy_version) comp" where
  "activate_billing_policy_version pd tenant vid actor justification = validated (\<lambda>v. pd_billing_rules pd (bv_rules v))
     (activate_version billing_policies billing_policy_versions billing_policy_versions_update tenant vid actor
        justification ''billing_policy_version_not_found'')"

paragraph \<open>Memory policies\<close>

definition create_memory_policy :: "uuid \<Rightarrow> string \<Rightarrow> (db, policy_row) comp" where
  "create_memory_policy = create_policy_row memory_policies_update"

definition list_memory_policies :: "uuid \<Rightarrow> (db, policy_row list) comp" where
  "list_memory_policies = list_policy_rows memory_policies"

definition get_memory_policy :: "uuid \<Rightarrow> uuid \<Rightarrow> (db, policy_row) comp" where
  "get_memory_policy tenant pid = owned_policy memory_policies tenant pid ''memory_policy_not_found''"

definition create_memory_policy_version ::
    "uuid \<Rightarrow> uuid \<Rightarrow> version_payload \<Rightarrow> int \<Rightarrow> pydict \<Rightarrow> pyval list \<Rightarrow> pyval list
     \<Rightarrow> (db, memory_policy_version) comp" where
  "create_memory_policy_version tenant pid p ttl consent sources schemas =
     bind (owned_policy memory_policies tenant pid ''memory_policy_not_found'') (\<lambda>_.
       create_version_row memory_policy_versions_update
         (\<lambda>vid now. activated_version.extend (new_activated p pid vid now)
           (memory_policy_version.fields ttl consent sources schemas)))"

definition publish_memory_policy_version :: "pydantic \<Rightarrow> uuid \<Rightarrow> uuid \<Rightarrow> (db, memory_policy_version) comp" where
  "publish_memory_policy_version pd tenant vid = validated (pd_memory pd)
     (publish_version memory_policies memory_policy_versions memory_policy_versions_update tenant vid
        ''memory_policy_version_not_found'')"

definition activate_memory_policy_version ::
    "pydantic \<Rightarrow> uuid \<Rightarrow> uuid \<Rightarrow> string \<Rightarrow> string \<Rightarrow> (db, memory_policy_version) comp" where
  "activate_memory_policy_version pd tenant vid actor justification = validated (pd_memory pd)
     (activate_version memory_policies memory_policy_versions memory_policy_versions_update tenant vid actor
        justification ''memory_policy_version_not_found'')"

paragraph \<open>RAG policies\<close>

definition create_rag_policy :: "uuid \<Rightarrow> string \<Rightarrow> (db, policy_row) comp" where
  "create_rag_policy = create_policy_row rag_policies_update"

definition list_rag_policies :: "uuid \<Rightarrow> (db, policy_row list) comp" where
  "list_rag_policies = list_policy_rows rag_policies"

definition get_rag_policy :: "uuid \<Rightarrow> uuid \<Rightarrow> (db, policy_row) comp" where
  "get_rag_policy tenant pid = owned_policy rag_policies tenant pid ''rag_policy_not_found''"

definition create_rag_policy_version ::
    "uuid \<Rightarrow> uuid \<Rightarrow> version_payload \<Rightarrow> pydict \<Rightarrow> (db, rag_policy_version) comp" where
  "create_rag_policy_version tenant pid p rag_definition =
     bind (owned_policy rag_policies tenant pid ''rag_policy_not_found'') (\<lambda>_.
       create_version_row rag_policy_versions_update
         (\<lambda>vid now. activated_version.extend (new_activated p pid vid now) (rag_policy_version.fields rag_definition)))"

definition publish_rag_policy_version :: "pydantic \<Rightarrow> uuid \<Rightarrow> uuid \<Rightarrow> (db, rag_policy_version) comp" where
  "publish_rag_policy_version pd tenant vid = validated (\<lambda>v. pd_rag pd (rv_definition v))
     (publish_version rag_policies rag_policy_versions rag_policy_versions_update tenant vid
        ''rag_policy_version_not_found'')"

definition activate_rag_policy_version ::
    "pydantic \<Rightarrow> uuid \<Rightarrow> uuid \<Rightarrow> string \<Rightarrow> string \<Rightarrow> (db, rag_policy_version) comp" where
  "activate_rag_policy_version pd tenant vid actor justification = validated (\<lambda>v. pd_rag pd (rv_definition v))
     (activate_version rag_policies rag_policy_versions rag_policy_versions_update tenant vid actor
        justification ''rag_policy_version_not_found'')"

subsection \<open>Runtime policies\<close>

definition create_policy :: "uuid \<Rightarrow> string \<Rightarrow> uuid option \<Rightarrow> pydict \<Rightarrow> string \<Rightarrow> string \<Rightarrow> string \<Rightarrow> (db, runtime_policy) comp" where
  "create_policy tenant scope flow_id policy_definition created_by version status =
     bind new_uuid (\<lambda>rid.
       let row = \<lparr>rp_id = rid, rp_tenant_id = tenant, rp_scope = scope, rp_flow_id = flow_id, rp_version = version,
         rp_status = status, rp_definition = policy_definition, rp_created_by = created_by\<rparr> in
       bind (config_update (runtime_policies_update (\<lambda>rows. rows @ [row]))) (\<lambda>_. ret row))"

definition get_policy :: "uuid \<Rightarrow> (db, runtime_policy option) comp" where
  "get_policy i = (\<lambda>s. (row_of_id runtime_policies rp_id i s, s))"

definition list_policies :: "uuid \<Rightarrow> (db, runtime_policy list) comp" where
  "list_policies tenant = get (\<lambda>s. filter (\<lambda>p. rp_tenant_id p = tenant) (runtime_policies (config_db s)))"

definition update_policy :: "uuid \<Rightarrow> pydict option \<Rightarrow> string option \<Rightarrow> (db, runtime_policy option) comp" where
  "update_policy i policy_definition status =
     bind (get_policy i) (\<lambda>row.
       case row of
         None \<Rightarrow> ret None
       | Some p \<Rightarrow>
           let change = (\<lambda>p. p\<lparr>
             rp_definition := (case policy_definition of None \<Rightarrow> rp_definition p | Some d \<Rightarrow> d),
             rp_status := (case status of None \<Rightarrow> rp_status p | Some st \<Rightarrow> st)\<rparr>) in
           bind (config_update (runtime_policies_update (update_where (\<lambda>p. rp_id p = i) change)))
           (\<lambda>_. ret (Some (change p))))"

definition activate_policy :: "uuid \<Rightarrow> (db, runtime_policy) comp" where
  "activate_policy i =
     bind (get_policy i) (\<lambda>row.
       case row of
         None \<Rightarrow> raise (not_found ''runtime_policy_not_found'')
       | Some p \<Rightarrow>
           bind (config_update (runtime_policies_update
             (update_where (\<lambda>q. rp_id q = i) (\<lambda>q. q\<lparr>rp_status := ''ACTIVE''\<rparr>) \<circ>
              update_where (\<lambda>q. rp_tenant_id q = rp_tenant_id p \<and> rp_scope q = rp_scope p \<and>
                  rp_flow_id q = rp_flow_id p \<and> rp_status q = ''ACTIVE'')
                (\<lambda>q. q\<lparr>rp_status := ''DRAFT''\<rparr>))))
           (\<lambda>_. ret (p\<lparr>rp_status := ''ACTIVE''\<rparr>)))"

definition get_active_flow_policy :: "uuid \<Rightarrow> uuid \<Rightarrow> (db, runtime_policy option) comp" where
  "get_active_flow_policy tenant flow_id = (\<lambda>s. (one_or_none (\<lambda>p. rp_tenant_id p = tenant \<and> rp_scope p = ''FLOW'' \<and>
     rp_flow_id p = Some flow_id \<and> rp_status p = ''ACTIVE'') (runtime_policies (config_db s)), s))"

definition get_active_tenant_policy :: "uuid \<Rightarrow> (db, runtime_policy option) comp" where
  "get_active_tenant_policy tenant = (\<lambda>s. (one_or_none (\<lambda>p. rp_tenant_id p = tenant \<and> rp_scope p = ''TENANT'' \<and>
     rp_status p = ''ACTIVE'') (runtime_policies (config_db s)), s))"

paragraph \<open>Administration of runtime policies\<close>

definition owned_runtime_policy :: "uuid \<Rightarrow> uuid \<Rightarrow> (db, runtime_policy) comp" where
  "owned_runtime_policy tenant i =
     bind (get_policy i) (\<lambda>row.
       case row of
         None \<Rightarrow> raise (not_found ''runtime_policy_not_found'')
       | Some p \<Rightarrow> if rp_tenant_id p \<noteq> tenant then raise (not_found ''runtime_policy_not_found'') else ret p)"

definition create_runtime_policy ::
    "pydantic \<Rightarrow> uuid \<Rightarrow> string \<Rightarrow> uuid option \<Rightarrow> string \<Rightarrow> pydict \<Rightarrow> string \<Rightarrow> (db, runtime_policy) comp" where
  "create_runtime_policy pd tenant scope flow_id version payload actor =
     validated (\<lambda>p. pd_runtime pd (rp_definition p))
       (bind (lift_res (pd_runtime pd payload)) (\<lambda>d. create_policy tenant scope flow_id d actor version ''DRAFT''))"

definition list_runtime_policies :: "pydantic \<Rightarrow> uuid \<Rightarrow> (db, runtime_policy list) comp" where
  "list_runtime_policies pd tenant =
     bind (list_policies tenant) (run_all (\<lambda>p. validated (\<lambda>p. pd_runtime pd (rp_definition p)) (ret p)))"

definition get_runtime_policy :: "pydantic \<Rightarrow> uuid \<Rightarrow> uuid \<Rightarrow> (db, runtime_policy) comp" where
  "get_runtime_policy pd tenant i = validated (\<lambda>p. pd_runtime pd (rp_definition p)) (owned_runtime_policy tenant i)"

definition update_runtime_policy ::
    "pydantic \<Rightarrow> uuid \<Rightarrow> uuid \<Rightarrow> pydict option \<Rightarrow> string option \<Rightarrow> (db, runtime_policy) comp" where
  "update_runtime_policy pd tenant i payload status =
     bind (owned_runtime_policy tenant i) (\<lambda>_.
     bind (lift_res (case payload of None \<Rightarrow> Inr None | Some d \<Rightarrow> rbind (pd_runtime pd d) (\<lambda>x. Inr (Some x)))) (\<lambda>d.
     bind (update_policy i d status) (\<lambda>updated.
       case updated of
         None \<Rightarrow> raise (not_found ''runtime_policy_not_found'')
       | Some p \<Rightarrow> validated (\<lambda>p. pd_runtime pd (rp_definition p)) (ret p))))"

definition activate_runtime_policy :: "pydantic \<Rightarrow> uuid \<Rightarrow> uuid \<Rightarrow> string \<Rightarrow> (db, runtime_policy) comp" where
  "activate_runtime_policy pd tenant i justification =
     (if py_strip justification = '''' then raise (domain_validation ''justification_required'')
      else bind (owned_runtime_policy tenant i) (\<lambda>p.
        bind (lift_res (pd_runtime pd (rp_definition p))) (\<lambda>_.
          validated (\<lambda>p. pd_runtime pd (rp_definition p)) (activate_policy i))))"

paragraph \<open>Resolution: flow, tenant, default\<close>

datatype RuntimePolicySource = FLOW_POLICY | TENANT_POLICY | DEFAULT_POLICY

record ResolvedRuntimePolicy =
  rq_source :: RuntimePolicySource
  rq_runtime_policy_id :: "uuid option"
  rq_version :: string
  rq_definition :: pydict
  rq_scope :: string
  rq_flow_id :: "uuid option"

definition resolved_row ::
    "pydantic \<Rightarrow> RuntimePolicySource \<Rightarrow> string \<Rightarrow> uuid option \<Rightarrow> runtime_policy \<Rightarrow> exn + ResolvedRuntimePolicy" where
  "resolved_row pd source scope flow_id p =
     rbind (pd_runtime pd (rp_definition p)) (\<lambda>d. Inr \<lparr>rq_source = source, rq_runtime_policy_id = Some (rp_id p),
       rq_version = rp_version p, rq_definition = d, rq_scope = scope, rq_flow_id = flow_id\<rparr>)"

text \<open>\<open>default_version\<close> and \<open>default_definition\<close> are the two entries of \<open>default_policy\<close> the resolver reads.\<close>

definition resolve_runtime_policy ::
    "pydantic \<Rightarrow> string \<Rightarrow> pydict \<Rightarrow> uuid \<Rightarrow> uuid option \<Rightarrow> (db, ResolvedRuntimePolicy) comp" where
  "resolve_runtime_policy pd default_version default_definition tenant flow_id =
     bind (case flow_id of None \<Rightarrow> ret None | Some f \<Rightarrow> get_active_flow_policy tenant f) (\<lambda>flow_policy.
       case flow_policy of
         Some p \<Rightarrow> lift_res (resolved_row pd FLOW_POLICY ''FLOW'' flow_id p)
       | None \<Rightarrow> bind (get_active_tenant_policy tenant) (\<lambda>tenant_policy.
           case tenant_policy of
             Some p \<Rightarrow> lift_res (resolved_row pd TENANT_POLICY ''TENANT'' (rp_flow_id p) p)
           | None \<Rightarrow> lift_res (rbind (pd_runtime pd default_definition) (\<lambda>d. Inr \<lparr>rq_source = DEFAULT_POLICY,
               rq_runtime_policy_id = None, rq_version = default_version, rq_definition = d, rq_scope = ''TENANT'',
               rq_flow_id = None\<rparr>))))"

subsection \<open>Execution limits\<close>

definition get_limits :: "uuid \<Rightarrow> (db, limit_policy_version) comp" where
  "get_limits tenant =
     bind (get_default_policy_for_tenant limit_policies tenant) (\<lambda>policy.
       case policy of
         None \<Rightarrow> raise (Service AuthorizationDenied ''execution_limit_policy_not_configured'')
       | Some p \<Rightarrow> bind (get (\<lambda>s. published_version (\<lambda>_. True) (po_id p) (limit_policy_versions (config_db s)))) (\<lambda>version.
           case version of
             None \<Rightarrow> raise (Service AuthorizationDenied ''execution_limit_policy_not_published'')
           | Some v \<Rightarrow> ret v))"

definition assert_can_create_agent_run :: "uuid \<Rightarrow> uuid \<Rightarrow> (db, unit) comp" where
  "assert_can_create_agent_run tenant flow_run_id =
     bind (get_limits tenant) (\<lambda>limits.
     bind (count_agent_runs_for_flow_run flow_run_id) (\<lambda>current.
       if lv_max_agent_runs_per_interaction limits \<le> int current
       then raise (Service service_kind.LimitExceeded ''max_agent_runs_exceeded'') else ret ()))"

definition assert_can_create_tool_run :: "uuid \<Rightarrow> uuid \<Rightarrow> (db, unit) comp" where
  "assert_can_create_tool_run tenant flow_run_id =
     bind (get_limits tenant) (\<lambda>limits.
     bind (count_tool_runs_for_flow_run flow_run_id) (\<lambda>current.
       if lv_max_tool_runs_per_flow_run limits \<le> int current
       then raise (Service service_kind.LimitExceeded ''max_tool_runs_exceeded'') else ret ()))"

definition list_policies_for_tenant :: "uuid \<Rightarrow> int \<Rightarrow> (db, policy_row list) comp" where
  "list_policies_for_tenant tenant lmt =
     bind (list_policy_rows limit_policies tenant) (\<lambda>rows. ret (take (nat lmt) rows))"

text \<open>The defaults of the version are the server defaults of its columns.\<close>

definition ensure_default_published_policy_for_tenant :: "uuid \<Rightarrow> (db, unit) comp" where
  "ensure_default_published_policy_for_tenant tenant =
     bind (get (\<lambda>s. first_row (sort_key po_created_at
        (filter (\<lambda>p. po_tenant_id p = tenant) (limit_policies (config_db s)))))) (\<lambda>found.
     bind (case found of Some p \<Rightarrow> ret p
         | None \<Rightarrow> create_policy_row limit_policies_update tenant ''Default execution limits'') (\<lambda>policy.
     bind (get (\<lambda>s. List.find (\<lambda>v. vr_policy_id v = po_id policy \<and> vr_status v = VersionStatus_PUBLISHED)
        (limit_policy_versions (config_db s)))) (\<lambda>version.
       case version of
         Some _ \<Rightarrow> ret ()
       | None \<Rightarrow> bind (create_version_row limit_policy_versions_update
           (\<lambda>vid now. version_row.extend (new_version \<lparr>vp_status = VersionStatus_PUBLISHED, vp_major = 1,
              vp_minor = 0, vp_patch = 0\<rparr> (po_id policy) vid now) (limit_policy_version.fields 100 200)))
           (\<lambda>_. ret ()))))"

subsection \<open>Access control and rate limits\<close>

text \<open>\<open>rp\<close> is \<open>repr\<close> of the values \<open>str\<close> has no other text for.\<close>

definition allowed_actions :: "(pyval \<Rightarrow> string) \<Rightarrow> pydict \<Rightarrow> exn + string list" where
  "allowed_actions rp rules =
     (let allow = dict_get rules ''allow'' PNone in
      if truthy allow then rbind (py_iter allow) (\<lambda>items. Inr (map (py_str rp) items)) else Inr [])"

definition authorize :: "(pyval \<Rightarrow> string) \<Rightarrow> uuid \<Rightarrow> string set \<Rightarrow> string \<Rightarrow> (db, unit) comp" where
  "authorize rp tenant scopes action =
     bind (get_default_policy_for_tenant access_policies tenant) (\<lambda>policy.
       case policy of
         None \<Rightarrow> raise (Service AuthorizationDenied ''access_policy_not_configured'')
       | Some p \<Rightarrow> bind (get (\<lambda>s. published_version (\<lambda>_. True) (po_id p) (access_policy_versions (config_db s)))) (\<lambda>version.
           case version of
             None \<Rightarrow> raise (Service AuthorizationDenied ''access_policy_version_not_published'')
           | Some v \<Rightarrow> bind (lift_res (allowed_actions rp (ap_rules v))) (\<lambda>allowed.
               if action \<notin> set allowed then raise (Service AuthorizationDenied ''action_not_allowed'')
               else if action \<notin> scopes then raise (Service AuthorizationDenied ''missing_required_scope'')
               else ret ())))"

definition rate_key :: "uuid \<Rightarrow> string \<Rightarrow> string \<Rightarrow> string \<Rightarrow> string" where
  "rate_key tenant principal_type principal_id action =
     ''rate:'' @ uuid_str tenant @ '':'' @ principal_type @ '':'' @ principal_id @ '':'' @ action"

definition enforce :: "uuid \<Rightarrow> string \<Rightarrow> string \<Rightarrow> string \<Rightarrow> (db, unit) comp" where
  "enforce tenant principal_type principal_id action =
     bind (get_default_policy_for_tenant rate_limit_policies tenant) (\<lambda>policy.
       case policy of
         None \<Rightarrow> raise (Service AuthorizationDenied ''rate_limit_policy_not_configured'')
       | Some p \<Rightarrow> bind (get (\<lambda>s. published_version (\<lambda>v. rl_action v = action \<and> rl_principal_type v = principal_type)
             (po_id p) (rate_limit_policy_versions (config_db s)))) (\<lambda>version.
           case version of
             None \<Rightarrow> raise (Service AuthorizationDenied ''rate_limit_policy_not_published'')
           | Some v \<Rightarrow> bind (incr_with_ttl (rate_key tenant principal_type principal_id action) (rl_window_seconds v)) (\<lambda>n.
               if rl_limit v < n then raise (Service RateLimitExceeded ''rate_limit_exceeded'') else ret ())))"

subsection \<open>Sequences of requests\<close>

text \<open>The verdicts of one guard called at given times.\<close>

fun calls_at :: "(db, unit) comp \<Rightarrow> time list \<Rightarrow> db \<Rightarrow> bool list" where
  "calls_at m [] s = []"
| "calls_at m (t # ts) s =
     (case m (s\<lparr>clock := t\<rparr>) of (r, s') \<Rightarrow> (case r of Inr _ \<Rightarrow> True | Inl _ \<Rightarrow> False) # calls_at m ts s')"

text \<open>The version that rules the requests of a principal type.\<close>

definition rate_rule :: "uuid \<Rightarrow> string \<Rightarrow> string \<Rightarrow> config_tables \<Rightarrow> rate_limit_policy_version option" where
  "rate_rule tenant principal_type action c =
     (case List.find (\<lambda>p. po_tenant_id p = tenant) (rate_limit_policies c) of
        None \<Rightarrow> None
      | Some p \<Rightarrow> published_version (\<lambda>v. rl_action v = action \<and> rl_principal_type v = principal_type) (po_id p)
          (rate_limit_policy_versions c))"

definition drop_deny :: "db \<Rightarrow> db" where
  "drop_deny s = s\<lparr>config_db := access_policy_versions_update
     (map (\<lambda>v. v\<lparr>ap_rules := AList.delete ''deny'' (ap_rules v)\<rparr>)) (config_db s)\<rparr>"

definition demo_rate_version :: rate_limit_policy_version where
  "demo_rate_version = \<lparr>vr_id = 6, vr_policy_id = 5, vr_status = ''PUBLISHED'', vr_major = 1, vr_minor = 0,
     vr_patch = 0, vr_created_at = 0, rl_action = ''a'', rl_principal_type = ''human'', rl_limit = 2,
     rl_window_seconds = 60\<rparr>"

definition demo_rate_db :: db where
  "demo_rate_db = empty_db\<lparr>config_db := empty_config\<lparr>
     rate_limit_policies := [\<lparr>po_id = 5, po_tenant_id = 7, po_name = ''p'', po_created_at = 0\<rparr>],
     rate_limit_policy_versions := [demo_rate_version]\<rparr>\<rparr>"

lemma enforce_ruled:
  assumes "rate_rule tenant principal_type action (config_db s) = Some v"
  shows "enforce tenant principal_type principal_id action s =
     bind (incr_with_ttl (rate_key tenant principal_type principal_id action) (rl_window_seconds v)) (\<lambda>n.
       if rl_limit v < n then raise (Service RateLimitExceeded ''rate_limit_exceeded'') else ret ()) s"
  using assms
  by (auto simp: rate_rule_def enforce_def get_default_policy_for_tenant_def comp_simps split: option.splits)

lemma incr_live:
  assumes "rd_up (redis_db s)" and "map_of (rd_counters (redis_db s)) k = Some (n, expiry)" and "clock s < expiry"
  shows "incr_with_ttl k ttl s =
    (Inr (n + 1), s\<lparr>redis_db := rd_counters_update (AList.update k (n + 1, expiry)) (redis_db s)\<rparr>)"
  unfolding incr_with_ttl_def silent_mode_wrapper_def using assms by (simp add: comp_simps)

lemma incr_starts:
  assumes "rd_up (redis_db s)" and "cache_lookup (clock s) (rd_counters (redis_db s)) k = None"
  shows "incr_with_ttl k ttl s =
    (Inr 1, s\<lparr>redis_db := rd_counters_update (AList.update k (1, clock s + ttl)) (redis_db s)\<rparr>)"
proof -
  have "(case map_of (rd_counters (redis_db s)) k of
      Some (v, expiry) \<Rightarrow> if clock s < expiry then (v + 1, expiry) else (1, clock s + ttl)
    | None \<Rightarrow> (1, clock s + ttl)) = (1, clock s + ttl)"
    using assms(2) by (auto simp: cache_lookup_def split: option.splits if_splits)
  then show ?thesis
    unfolding incr_with_ttl_def silent_mode_wrapper_def using assms(1) by (simp add: comp_simps)
qed

lemma enforce_verdict:
  assumes "rate_rule tenant principal_type action (config_db s) = Some v"
    and "incr_with_ttl (rate_key tenant principal_type principal_id action) (rl_window_seconds v) s = (Inr n, s')"
  shows "enforce tenant principal_type principal_id action s =
    (if rl_limit v < n then Inl (Service RateLimitExceeded ''rate_limit_exceeded'') else Inr (), s')"
  unfolding enforce_ruled [OF assms(1)] bind_def assms(2) by (simp add: ret_def raise_def)

lemma calls_counted:
  assumes "rate_rule tenant principal_type action (config_db s) = Some v" and "rd_up (redis_db s)"
    and "map_of (rd_counters (redis_db s)) (rate_key tenant principal_type principal_id action) = Some (n, expiry)"
    and "\<And>u. u \<in> set ts \<Longrightarrow> u < expiry"
  shows "calls_at (enforce tenant principal_type principal_id action) ts s =
     map (\<lambda>i. n + int i < rl_limit v) [0..<length ts]"
  using assms
proof (induction ts arbitrary: s n)
  case (Cons t ts)
  let ?s = "s\<lparr>clock := t, redis_db := rd_counters_update
      (AList.update (rate_key tenant principal_type principal_id action) (n + 1, expiry)) (redis_db s)\<rparr>"
  have step: "enforce tenant principal_type principal_id action (s\<lparr>clock := t\<rparr>) =
      (if rl_limit v < n + 1 then Inl (Service RateLimitExceeded ''rate_limit_exceeded'') else Inr (), ?s)"
    using Cons.prems
    by (intro enforce_verdict [where n = "n + 1"]) (simp_all add: incr_live [where n = n and expiry = expiry])
  have "calls_at (enforce tenant principal_type principal_id action) ts ?s =
      map (\<lambda>i. n + 1 + int i < rl_limit v) [0..<length ts]"
    using Cons.prems by (intro Cons.IH) simp_all
  then show ?case
    by (simp add: step upt_conv_Cons map_Suc_upt [symmetric] del: upt_Suc) (auto simp: algebra_simps)
qed simp

lemma below_prefix:
  "map (\<lambda>i. int i < l) [0..<n] = replicate (min (nat l) n) True @ replicate (n - nat l) False"
proof (rule nth_equalityI)
  fix i assume "i < length (map (\<lambda>i. int i < l) [0..<n])"
  then show "map (\<lambda>i. int i < l) [0..<n] ! i = (replicate (min (nat l) n) True @ replicate (n - nat l) False) ! i"
    by (cases "i < nat l") (auto simp: nth_append)
qed auto

lemma demo_rate_rule: "rate_rule 7 ''human'' ''a'' (config_db demo_rate_db) = Some demo_rate_version"
  by (simp add: demo_rate_db_def demo_rate_version_def rate_rule_def published_version_def
      VersionStatus_PUBLISHED_def newest_first_def first_row_def)

lemma demo_rate_redis: "redis_db demo_rate_db = empty_redis"
  by (simp add: demo_rate_db_def empty_db_def)

text \<open>
  C29: Within one window of a published rate-limit rule, exactly the first \<open>limit\<close> requests of a principal are
  granted and every later one is refused, whatever the moments of the requests.
\<close>

theorem rate_limit_window:
  assumes "rate_rule tenant principal_type action (config_db s) = Some v" and "rd_up (redis_db s)"
    and "cache_lookup t (rd_counters (redis_db s)) (rate_key tenant principal_type principal_id action) = None"
    and "\<And>u. u \<in> set ts \<Longrightarrow> u < t + rl_window_seconds v"
  shows "calls_at (enforce tenant principal_type principal_id action) (t # ts) s =
    replicate (min (nat (rl_limit v)) (Suc (length ts))) True @ replicate (Suc (length ts) - nat (rl_limit v)) False"
proof -
  let ?key = "rate_key tenant principal_type principal_id action"
  let ?s = "s\<lparr>clock := t, redis_db := rd_counters_update
      (AList.update ?key (1, t + rl_window_seconds v)) (redis_db s)\<rparr>"
  have "enforce tenant principal_type principal_id action (s\<lparr>clock := t\<rparr>) =
      (if rl_limit v < 1 then Inl (Service RateLimitExceeded ''rate_limit_exceeded'') else Inr (), ?s)"
    using assms by (intro enforce_verdict [where n = 1]) (simp_all add: incr_starts)
  moreover have "calls_at (enforce tenant principal_type principal_id action) ts ?s =
      map (\<lambda>i. 1 + int i < rl_limit v) [0..<length ts]"
    using assms by (intro calls_counted [where expiry = "t + rl_window_seconds v"]) simp_all
  ultimately have "calls_at (enforce tenant principal_type principal_id action) (t # ts) s =
      map (\<lambda>i. int i < rl_limit v) [0..<Suc (length ts)]"
    by (simp add: upt_conv_Cons map_Suc_upt [symmetric] del: upt_Suc)
  then show ?thesis by (simp only: below_prefix)
qed

theorem rate_limit_window_witness:
  "calls_at (enforce 7 ''human'' ''u'' ''a'') [10, 20, 30, 69] demo_rate_db = [True, True, False, False]"
proof -
  have "calls_at (enforce 7 ''human'' ''u'' ''a'') (10 # [20, 30, 69]) demo_rate_db =
      replicate (min (nat (rl_limit demo_rate_version)) (Suc (length [20, 30, 69::int]))) True @
      replicate (Suc (length [20, 30, 69::int]) - nat (rl_limit demo_rate_version)) False"
    by (rule rate_limit_window [OF demo_rate_rule])
       (auto simp: demo_rate_redis empty_redis_def cache_lookup_def demo_rate_version_def)
  then show ?thesis by (simp only:) (simp add: demo_rate_version_def eval_nat_numeral)
qed

text \<open>
  C30: The rate limit fails open: while Redis does not answer and the adapter is silent, every request of a ruled
  action is granted, whatever its limit of at least 0.
\<close>

theorem rate_limit_outage_grants:
  assumes "rate_rule tenant principal_type action (config_db s) = Some v" and "0 \<le> rl_limit v"
    and "\<not> rd_up (redis_db s)" and "rd_silent (redis_db s)"
  shows "enforce tenant principal_type principal_id action s = (Inr (), s)"
  using assms(2-)
  by (subst enforce_verdict [OF assms(1), where n = 0])
     (simp_all add: incr_with_ttl_def silent_mode_wrapper_def comp_simps)

theorem rate_limit_outage_grants_witness:
  "enforce 7 ''human'' ''u'' ''a'' (demo_rate_db\<lparr>redis_db := empty_redis\<lparr>rd_up := False\<rparr>\<rparr>) =
     (Inr (), demo_rate_db\<lparr>redis_db := empty_redis\<lparr>rd_up := False\<rparr>\<rparr>)"
  by (rule rate_limit_outage_grants [where v = demo_rate_version])
     (simp_all add: demo_rate_rule, simp_all add: demo_rate_version_def empty_redis_def)

subsection \<open>Deny rules\<close>

lemma insort_key_map: "(\<And>x. f (g x) = f x) \<Longrightarrow> insort_key f (g x) (map g xs) = map g (insort_key f x xs)"
  by (induction xs) auto

lemma sort_key_map: "(\<And>x. f (g x) = f x) \<Longrightarrow> sort_key f (map g xs) = map g (sort_key f xs)"
  by (induction xs) (simp_all add: insort_key_map)

lemma first_row_map: "first_row (map g xs) = map_option g (first_row xs)"
  by (cases xs) (simp_all add: first_row_def)

text \<open>
  C31: Deny rules are not enforced: an authorization has the same outcome with every \<open>deny\<close> list removed from the
  access policies.
\<close>

theorem deny_rules_ignored:
  "fst (authorize rp tenant scopes action (drop_deny s)) = fst (authorize rp tenant scopes action s)"
proof -
  let ?g = "\<lambda>v::access_policy_version. v\<lparr>ap_rules := AList.delete ''deny'' (ap_rules v)\<rparr>"
  have published: "published_version (\<lambda>_. True) pid (map ?g rows) = map_option ?g (published_version (\<lambda>_. True) pid rows)"
    for pid rows
    by (simp add: published_version_def newest_first_def filter_map o_def sort_key_map first_row_map)
  have allowed: "allowed_actions rp (AList.delete ''deny'' r) = allowed_actions rp r" for r
    by (simp add: allowed_actions_def dict_get_def delete_conv')
  show ?thesis
    by (auto simp: authorize_def get_default_policy_for_tenant_def drop_deny_def comp_simps published allowed
        split: option.split sum.split)
qed

end
