(* ===== verification/PolicyAdmin.thy ===== *)
theory PolicyAdmin
  imports Governance
begin

text \<open>
  What the policy administration of \<open>Governance\<close> guarantees across tenants: its operations as a step relation, the
  invariant of the tables with activated versions (the locale \<open>activated_table\<close>, interpreted on the billing, memory
  and RAG tables), and two cases in which an operation breaks what the readers of a table rely on.
\<close>

subsection \<open>Every tenant has one active version and only its own policies\<close>

definition one_active :: "'a activated_version_scheme list \<Rightarrow> bool" where
  "one_active vs \<longleftrightarrow> (\<forall>t. length (filter (\<lambda>v. va_tenant_id v = Some t \<and> va_is_active v) vs) \<le> 1)"

text \<open>A version of another tenant's policy.\<close>

definition foreign :: "uuid \<Rightarrow> policy_row list \<Rightarrow> 'a version_row_scheme \<Rightarrow> bool" where
  "foreign t ps v \<longleftrightarrow> (\<exists>p\<in>set ps. po_id p = vr_policy_id v \<and> po_tenant_id p \<noteq> t)"

definition versions_wf :: "policy_row list \<Rightarrow> 'a activated_version_scheme list \<Rightarrow> uuid \<Rightarrow> bool" where
  "versions_wf ps vs n \<longleftrightarrow> list_all (\<lambda>p. po_id p < n) ps \<and> list_all (\<lambda>v. vr_policy_id v < n) vs \<and> one_active vs \<and>
     list_all (\<lambda>v. case va_tenant_id v of None \<Rightarrow> True | Some t \<Rightarrow> \<not> foreign t ps v) vs"

definition isolated ::
    "uuid \<Rightarrow> policy_row list \<Rightarrow> 'a version_row_scheme list \<Rightarrow> policy_row list \<Rightarrow> 'a version_row_scheme list \<Rightarrow> bool" where
  "isolated t ps vs ps' vs' \<longleftrightarrow>
     filter (\<lambda>p. po_tenant_id p \<noteq> t) ps' = filter (\<lambda>p. po_tenant_id p \<noteq> t) ps \<and>
     filter (foreign t ps) vs' = filter (foreign t ps) vs"

definition table_step ::
    "(config_tables \<Rightarrow> policy_row list) \<Rightarrow> (config_tables \<Rightarrow> 'a activated_version_scheme list) \<Rightarrow> uuid \<Rightarrow> db \<Rightarrow> db \<Rightarrow> bool" where
  "table_step policies versions t s s' \<longleftrightarrow>
     (versions_wf (policies (config_db s)) (versions (config_db s)) (fresh s) \<longrightarrow>
      versions_wf (policies (config_db s')) (versions (config_db s')) (fresh s') \<and>
      isolated t (policies (config_db s)) (versions (config_db s)) (policies (config_db s')) (versions (config_db s')))"

abbreviation (input) switch_off :: "uuid \<Rightarrow> 'a activated_version_scheme list \<Rightarrow> 'a activated_version_scheme list" where
  "switch_off t \<equiv> update_where (\<lambda>v. va_tenant_id v = Some t \<and> va_is_active v) (\<lambda>v. v\<lparr>va_is_active := False\<rparr>)"

text \<open>One operation of the administration service on behalf of a tenant, whether it succeeds or raises.\<close>

inductive admin_step :: "pydantic \<Rightarrow> uuid \<Rightarrow> db \<Rightarrow> db \<Rightarrow> bool" for pd tenant where
  "admin_step pd tenant s (snd (create_access_policy tenant name s))"
| "admin_step pd tenant s (snd (create_access_policy_version pd tenant pid p rules s))"
| "admin_step pd tenant s (snd (publish_access_policy_version pd tenant vid s))"
| "admin_step pd tenant s (snd (create_rate_limit_policy tenant name s))"
| "admin_step pd tenant s (snd (create_rate_limit_policy_version tenant pid p action ptype lmt window s))"
| "admin_step pd tenant s (snd (publish_rate_limit_policy_version tenant vid s))"
| "admin_step pd tenant s (snd (create_billing_policy tenant name s))"
| "admin_step pd tenant s (snd (create_billing_policy_version pd tenant pid p rules s))"
| "admin_step pd tenant s (snd (publish_billing_policy_version pd tenant vid s))"
| "admin_step pd tenant s (snd (activate_billing_policy_version pd tenant vid actor justification s))"
| "admin_step pd tenant s (snd (create_memory_policy tenant name s))"
| "admin_step pd tenant s (snd (create_memory_policy_version tenant pid p ttl consent sources schemas s))"
| "admin_step pd tenant s (snd (publish_memory_policy_version pd tenant vid s))"
| "admin_step pd tenant s (snd (activate_memory_policy_version pd tenant vid actor justification s))"
| "admin_step pd tenant s (snd (create_rag_policy tenant name s))"
| "admin_step pd tenant s (snd (create_rag_policy_version tenant pid p d s))"
| "admin_step pd tenant s (snd (publish_rag_policy_version pd tenant vid s))"
| "admin_step pd tenant s (snd (activate_rag_policy_version pd tenant vid actor justification s))"
| "admin_step pd tenant s (snd (create_runtime_policy pd tenant scope flow_id version payload actor s))"
| "admin_step pd tenant s (snd (update_runtime_policy pd tenant rid change status s))"
| "admin_step pd tenant s (snd (activate_runtime_policy pd tenant rid justification s))"
| "admin_step pd tenant s (snd (ensure_default_published_policy_for_tenant tenant s))"

inductive administered :: "pydantic \<Rightarrow> db \<Rightarrow> db \<Rightarrow> bool" for pd where
  start: "administered pd s s"
| step: "administered pd s s' \<Longrightarrow> admin_step pd tenant s' s'' \<Longrightarrow> administered pd s s''"

definition activations_wf :: "db \<Rightarrow> bool" where
  "activations_wf s \<longleftrightarrow>
     versions_wf (billing_policies (config_db s)) (billing_policy_versions (config_db s)) (fresh s) \<and>
     versions_wf (memory_policies (config_db s)) (memory_policy_versions (config_db s)) (fresh s) \<and>
     versions_wf (rag_policies (config_db s)) (rag_policy_versions (config_db s)) (fresh s)"

text \<open>What an operation on another table leaves alone.\<close>

definition spares :: "(config_tables \<Rightarrow> 'x) \<Rightarrow> db \<Rightarrow> db \<Rightarrow> bool" where
  "spares obs s s' \<longleftrightarrow> obs (config_db s') = obs (config_db s) \<and> fresh s \<le> fresh s'"

definition demo_policy_db :: db where
  "demo_policy_db = empty_db\<lparr>config_db := empty_config\<lparr>
     memory_policies := [\<lparr>po_id = 5, po_tenant_id = 7, po_name = ''p'', po_created_at = 0\<rparr>,
                         \<lparr>po_id = 6, po_tenant_id = 8, po_name = ''q'', po_created_at = 0\<rparr>],
     memory_policy_versions := [\<lparr>vr_id = 50, vr_policy_id = 5, vr_status = ''PUBLISHED'', vr_major = 1, vr_minor = 0,
       vr_patch = 0, vr_created_at = 0, va_tenant_id = Some 7, va_is_active = True, va_activated_at = None,
       va_activated_by = None, va_justification = None, mv_retention_ttl_seconds = 60, mv_consent_definition = [],
       mv_allowed_sources = [], mv_allowed_schemas = []\<rparr>]\<rparr>\<rparr>"

definition demo_pydantic :: pydantic where
  "demo_pydantic = \<lparr>pd_runtime = Inr, pd_access_rules = Inr, pd_billing_rules = Inr, pd_memory = (\<lambda>_. Inr ()), pd_rag = Inr\<rparr>"

lemma filter_update_where:
  "(\<And>x. x \<in> set xs \<Longrightarrow> P x \<Longrightarrow> \<not> Q x \<and> \<not> Q (f x)) \<Longrightarrow> filter Q (update_where P f xs) = filter Q xs"
  by (induction xs) (auto simp: update_where_def)

lemma one_or_none_unique:
  assumes "one_or_none P xs = Inr (Some x)" and "y \<in> set xs" and "P y"
  shows "y = x"
proof -
  have "filter P xs = [x]"
    using assms(1) by (auto simp: one_or_none_def split: list.splits)
  moreover have "y \<in> set (filter P xs)" using assms(2,3) by simp
  ultimately show ?thesis by simp
qed

lemma one_or_none_in:
  "one_or_none P xs = Inr (Some x) \<Longrightarrow> x \<in> set xs \<and> P x"
  by (auto simp: one_or_none_def split: list.splits dest: filter_eq_ConsD)

lemma one_or_none_length: "one_or_none P xs = Inr r \<Longrightarrow> length (filter P xs) \<le> 1"
  by (auto simp: one_or_none_def split: list.splits)

lemma length_filter_map_le: "(\<And>x. P (h x) \<Longrightarrow> Q x) \<Longrightarrow> length (filter P (map h xs)) \<le> length (filter Q xs)"
  by (induction xs) (auto intro: le_SucI)

lemma one_active_switch:
  assumes "one_active vs" and "length (filter (\<lambda>v. vr_id v = i) vs) \<le> 1"
    and act: "\<And>v. va_tenant_id (act v) = Some t"
  shows "one_active (update_where (\<lambda>v. vr_id v = i) act (switch_off t vs))"
  unfolding one_active_def
proof
  fix t'
  let ?P = "\<lambda>v. va_tenant_id v = Some t' \<and> va_is_active v"
  let ?h = "\<lambda>v. if vr_id v = i then act (if va_tenant_id v = Some t \<and> va_is_active v then v\<lparr>va_is_active := False\<rparr> else v)
      else if va_tenant_id v = Some t \<and> va_is_active v then v\<lparr>va_is_active := False\<rparr> else v"
  have h: "update_where (\<lambda>v. vr_id v = i) act (switch_off t vs) = map ?h vs"
    unfolding update_where_def map_map by (rule map_cong [OF refl]) simp
  show "length (filter ?P (update_where (\<lambda>v. vr_id v = i) act (switch_off t vs))) \<le> 1"
  proof (cases "t' = t")
    case True
    have "length (filter ?P (map ?h vs)) \<le> length (filter (\<lambda>v. vr_id v = i) vs)"
      by (rule length_filter_map_le) (auto simp: True split: if_splits)
    then show ?thesis using assms(2) h by simp
  next
    case False
    have "length (filter ?P (map ?h vs)) \<le> length (filter ?P vs)"
      by (rule length_filter_map_le) (simp add: act False [symmetric] split: if_splits)
    moreover have "length (filter ?P vs) \<le> 1"
      using assms(1) unfolding one_active_def by blast
    ultimately show ?thesis unfolding h by (rule order.trans)
  qed
qed

lemma one_active_off: "one_active vs \<Longrightarrow> one_active (switch_off t vs)"
  unfolding one_active_def
proof
  fix t' assume all: "\<forall>t. length (filter (\<lambda>v. va_tenant_id v = Some t \<and> va_is_active v) vs) \<le> 1"
  have "length (filter (\<lambda>v. va_tenant_id v = Some t' \<and> va_is_active v) (switch_off t vs))
      \<le> length (filter (\<lambda>v. va_tenant_id v = Some t' \<and> va_is_active v) vs)"
    unfolding update_where_def by (rule length_filter_map_le) (simp split: if_splits)
  with all show "length (filter (\<lambda>v. va_tenant_id v = Some t' \<and> va_is_active v) (switch_off t vs)) \<le> 1"
    by (meson order.trans)
qed

lemma one_active_append:
  "one_active vs \<Longrightarrow> \<not> va_is_active v \<Longrightarrow> one_active (vs @ [v])"
  by (simp add: one_active_def)

lemma one_active_status:
  "one_active vs \<Longrightarrow> one_active (update_where P (\<lambda>v. v\<lparr>vr_status := x\<rparr>) vs)"
proof -
  assume "one_active vs"
  moreover have "filter (\<lambda>v. va_tenant_id v = Some t \<and> va_is_active v) (update_where P (\<lambda>v. v\<lparr>vr_status := x\<rparr>) vs) =
      update_where P (\<lambda>v. v\<lparr>vr_status := x\<rparr>) (filter (\<lambda>v. va_tenant_id v = Some t \<and> va_is_active v) vs)" for t
    by (induction vs) (simp_all add: update_where_def)
  ultimately show ?thesis by (simp add: one_active_def update_where_def)
qed

lemma foreign_cong [simp]:
  "foreign t ps (v\<lparr>vr_status := x\<rparr>) = foreign t ps v"
  "foreign t ps (w\<lparr>va_is_active := b\<rparr>) = foreign t ps w"
  by (simp_all add: foreign_def)

text \<open>
  The contract of a policy table with activated versions: the two fields are read back as written and neither
  disturbs the other.
\<close>

locale activated_table =
  fixes policies :: "config_tables \<Rightarrow> policy_row list"
    and policies_upd :: "(policy_row list \<Rightarrow> policy_row list) \<Rightarrow> config_tables \<Rightarrow> config_tables"
    and versions :: "config_tables \<Rightarrow> 'a activated_version_scheme list"
    and versions_upd :: "('a activated_version_scheme list \<Rightarrow> 'a activated_version_scheme list)
      \<Rightarrow> config_tables \<Rightarrow> config_tables"
  assumes policies_upd: "policies (policies_upd f c) = f (policies c)" "versions (policies_upd f c) = versions c"
    and versions_upd: "versions (versions_upd g c) = g (versions c)" "policies (versions_upd g c) = policies c"
begin

lemma owned_version_Inr:
  assumes "owned_version policies versions t i msg s = (Inr v, s')"
  obtains p where "s' = s" and "one_or_none (\<lambda>v. vr_id v = i) (versions (config_db s)) = Inr (Some v)"
    and "one_or_none (\<lambda>p. po_id p = vr_policy_id v) (policies (config_db s)) = Inr (Some p)" and "po_tenant_id p = t"
  using assms
  by (auto simp: owned_version_def owned_policy_def get_version_row_def get_policy_row_def row_of_id_def
      comp_simps split: sum.splits option.splits if_splits)

lemma table_step_same:
  assumes "policies (config_db s') = policies (config_db s)" and "versions (config_db s') = versions (config_db s)"
    and "fresh s \<le> fresh s'"
  shows "table_step policies versions t s s'"
  using assms
  by (auto simp: table_step_def versions_wf_def isolated_def list_all_iff)

lemma table_step_create_policy: "table_step policies versions t s (snd (create_policy_row policies_upd t name s))"
proof -
  have "\<not> foreign t' (ps @ [p]) v" if "\<not> foreign t' ps v" "vr_policy_id v < fresh s" "po_id p = fresh s"
    for t' ps p and v :: "'a activated_version_scheme"
    using that by (auto simp: foreign_def)
  moreover have "snd (create_policy_row policies_upd t name s) = s\<lparr>fresh := Suc (fresh s), config_db := policies_upd
      (\<lambda>rows. rows @ [\<lparr>po_id = fresh s, po_tenant_id = t, po_name = name, po_created_at = clock s\<rparr>]) (config_db s)\<rparr>"
    by (simp add: create_policy_row_def new_uuid_def config_update_def Let_def comp_simps)
  ultimately show ?thesis
    by (auto simp: table_step_def versions_wf_def isolated_def list_all_iff policies_upd less_SucI split: option.splits)
qed

lemma table_step_create_version:
  assumes "\<And>vid now. vr_policy_id (row vid now) = pid \<and> va_tenant_id (row vid now) = None \<and> \<not> va_is_active (row vid now)"
  shows "table_step policies versions t s
    (snd (bind (owned_policy policies t pid msg) (\<lambda>_. create_version_row versions_upd row) s))"
proof (cases "owned_policy policies t pid msg s")
  case (Pair r s')
  then have s': "s' = s"
    by (auto simp: owned_policy_def get_policy_row_def row_of_id_def comp_simps split: sum.splits option.splits if_splits)
  show ?thesis
  proof (cases r)
    case (Inl e)
    then show ?thesis
      using Pair s' by (intro table_step_same) (simp_all add: bind_def)
  next
    case (Inr p)
    then have p: "one_or_none (\<lambda>p. po_id p = pid) (policies (config_db s)) = Inr (Some p)" "po_tenant_id p = t"
      using Pair by (auto simp: owned_policy_def get_policy_row_def row_of_id_def comp_simps
          split: sum.splits option.splits if_splits)
    then have mine: "\<not> foreign t (policies (config_db s)) (row vid now)" for vid now
      using assms one_or_none_unique [OF p(1)] by (auto simp: foreign_def)
    have "pid < fresh s" if "list_all (\<lambda>p. po_id p < fresh s) (policies (config_db s))"
      using that one_or_none_in [OF p(1)] by (auto simp: list_all_iff)
    moreover have "snd (bind (owned_policy policies t pid msg) (\<lambda>_. create_version_row versions_upd row) s) =
        s\<lparr>fresh := Suc (fresh s), config_db := versions_upd (\<lambda>rows. rows @ [row (fresh s) (clock s)]) (config_db s)\<rparr>"
      using Pair Inr s' by (simp add: create_version_row_def new_uuid_def config_update_def comp_simps)
    ultimately show ?thesis
      using assms mine
      by (auto simp: table_step_def versions_wf_def isolated_def list_all_iff versions_upd one_active_append less_SucI)
  qed
qed

lemma table_step_publish:
  "table_step policies versions t s (snd (publish_version policies versions versions_upd t i msg s))"
proof (cases "owned_version policies versions t i msg s")
  case (Pair r s0)
  show ?thesis
  proof (cases r)
    case (Inl e)
    then have "s0 = s"
      using Pair by (auto simp: owned_version_def owned_policy_def get_version_row_def get_policy_row_def row_of_id_def
          comp_simps split: sum.splits option.splits if_splits)
    with Inl Pair show ?thesis
      by (intro table_step_same) (simp_all add: publish_version_def bind_def)
  next
    case (Inr v)
    obtain p where s0: "s0 = s" and v: "one_or_none (\<lambda>v. vr_id v = i) (versions (config_db s)) = Inr (Some v)"
      and p: "one_or_none (\<lambda>p. po_id p = vr_policy_id v) (policies (config_db s)) = Inr (Some p)" "po_tenant_id p = t"
      using owned_version_Inr [OF Pair [unfolded Inr]] by blast
    let ?f = "update_where (\<lambda>v. vr_id v = i) (\<lambda>v. v\<lparr>vr_status := ''PUBLISHED''\<rparr>)"
    have s1: "snd (publish_version policies versions versions_upd t i msg s) =
        s\<lparr>config_db := versions_upd ?f (config_db s)\<rparr>"
      using Pair Inr s0 v
      by (auto simp: publish_version_def set_version_status_def get_version_row_def row_of_id_def config_update_def
          comp_simps split: sum.splits option.splits)
    have "\<not> foreign t (policies (config_db s)) w" if "w \<in> set (versions (config_db s))" "vr_id w = i" for w
      using one_or_none_unique [OF v that] one_or_none_unique [OF p(1)] p(2) by (auto simp: foreign_def)
    then have "filter (foreign t (policies (config_db s))) (?f (versions (config_db s))) =
        filter (foreign t (policies (config_db s))) (versions (config_db s))"
      by (intro filter_update_where) simp
    moreover have "list_all (\<lambda>v. vr_policy_id v < n) (?f vs) = list_all (\<lambda>v. vr_policy_id v < n) vs"
      "list_all (\<lambda>v. case va_tenant_id v of None \<Rightarrow> True | Some t \<Rightarrow> \<not> foreign t ps v) (?f vs) =
       list_all (\<lambda>v. case va_tenant_id v of None \<Rightarrow> True | Some t \<Rightarrow> \<not> foreign t ps v) vs"
      for n ps and vs :: "'a activated_version_scheme list"
      by (induction vs) (simp_all add: update_where_def split: option.split)
    ultimately show ?thesis
      unfolding s1 table_step_def by (simp add: versions_wf_def isolated_def versions_upd one_active_status)
  qed
qed

lemma table_step_switch:
  assumes mine: "\<And>w. w \<in> set (versions (config_db s)) \<Longrightarrow> vr_id w = i \<Longrightarrow> \<not> foreign t (policies (config_db s)) w"
    and single: "length (filter (\<lambda>v. vr_id v = i) (versions (config_db s))) \<le> 1"
    and act: "\<And>v. va_tenant_id (act v) = Some t" "\<And>v. vr_policy_id (act v) = vr_policy_id v"
  shows "table_step policies versions t s
    (s\<lparr>config_db := versions_upd (update_where (\<lambda>v. vr_id v = i) act \<circ> switch_off t) (config_db s)\<rparr>)"
proof -
  let ?ps = "policies (config_db s)" and ?vs = "versions (config_db s)"
  let ?vs' = "update_where (\<lambda>v. vr_id v = i) act (switch_off t ?vs)"
  have same: "vr_policy_id v' = vr_policy_id v \<and> (va_tenant_id v' = va_tenant_id v \<or> vr_id v = i \<and> va_tenant_id v' = Some t)"
    if "v' = (let w = if va_tenant_id v = Some t \<and> va_is_active v then v\<lparr>va_is_active := False\<rparr> else v
      in if vr_id w = i then act w else w)" for v v'
    unfolding that Let_def by (simp add: act)
  have from_old: "\<exists>v \<in> set ?vs. vr_policy_id v' = vr_policy_id v \<and>
      (va_tenant_id v' = va_tenant_id v \<or> vr_id v = i \<and> va_tenant_id v' = Some t)" if "v' \<in> set ?vs'" for v'
    using that same unfolding update_where_def set_map image_iff Let_def by blast
  have foreign_id: "foreign t' ps v' = foreign t' ps v" if "vr_policy_id v' = vr_policy_id v"
    for t' ps and v v' :: "'a activated_version_scheme"
    using that by (simp add: foreign_def)
  have unmoved: "filter (foreign t ?ps) ?vs' = filter (foreign t ?ps) ?vs" if wf: "versions_wf ?ps ?vs (fresh s)"
  proof (subst filter_update_where)
    fix x assume x: "x \<in> set (switch_off t ?vs)" "vr_id x = i"
    then obtain v where "v \<in> set ?vs" "vr_id v = i" "vr_policy_id x = vr_policy_id v"
      by (auto simp: update_where_def split: if_splits)
    then show "\<not> foreign t ?ps x \<and> \<not> foreign t ?ps (act x)"
      using mine foreign_id [of x v] foreign_id [of "act x" v] act by simp
  next
    show "filter (foreign t ?ps) (switch_off t ?vs) = filter (foreign t ?ps) ?vs"
      using wf by (intro filter_update_where) (auto simp: versions_wf_def list_all_iff split: option.splits)
  qed
  have "versions_wf ?ps ?vs' (fresh s)" if wf: "versions_wf ?ps ?vs (fresh s)"
    unfolding versions_wf_def list_all_iff
  proof (intro conjI ballI)
    show "one_active ?vs'"
      using wf by (intro one_active_switch single act) (simp add: versions_wf_def)
    fix v' assume "v' \<in> set ?vs'"
    then obtain v where v: "v \<in> set ?vs" "vr_policy_id v' = vr_policy_id v"
        "va_tenant_id v' = va_tenant_id v \<or> vr_id v = i \<and> va_tenant_id v' = Some t"
      using from_old by blast
    then show "vr_policy_id v' < fresh s" and "case va_tenant_id v' of None \<Rightarrow> True | Some t \<Rightarrow> \<not> foreign t ?ps v'"
      using wf mine [OF v(1)] foreign_id [OF v(2)]
      by (auto simp: versions_wf_def list_all_iff split: option.splits)
  qed (use wf in \<open>auto simp: versions_wf_def list_all_iff\<close>)
  with unmoved show ?thesis
    by (simp add: table_step_def versions_upd isolated_def)
qed

lemma table_step_activate:
  "table_step policies versions t s
    (snd (activate_version policies versions versions_upd t i actor justification msg s))"
proof (cases "py_strip justification = [] \<or> (\<exists>e s0. owned_version policies versions t i msg s = (Inl e, s0))")
  case True
  moreover have "s0 = s" if "owned_version policies versions t i msg s = (Inl e, s0)" for e s0
    using that by (auto simp: owned_version_def owned_policy_def get_version_row_def get_policy_row_def row_of_id_def
        comp_simps split: sum.splits option.splits if_splits)
  ultimately show ?thesis
    by (intro table_step_same) (auto simp: activate_version_def raise_def bind_def)
next
  case False
  then obtain v s0 where nonempty: "py_strip justification \<noteq> []"
    and owned: "owned_version policies versions t i msg s = (Inr v, s0)"
    by (metis old.sum.exhaust surj_pair)
  from owned obtain p where s0: "s0 = s" and v: "one_or_none (\<lambda>v. vr_id v = i) (versions (config_db s)) = Inr (Some v)"
    and p: "one_or_none (\<lambda>p. po_id p = vr_policy_id v) (policies (config_db s)) = Inr (Some p)" "po_tenant_id p = t"
    by (rule owned_version_Inr)
  let ?act = "\<lambda>v. v\<lparr>va_tenant_id := Some t, va_is_active := True, va_activated_at := Some (clock s),
      va_activated_by := Some actor, va_justification := Some justification\<rparr>"
  have s1: "snd (activate_version policies versions versions_upd t i actor justification msg s) =
      s\<lparr>config_db := versions_upd (update_where (\<lambda>v. vr_id v = i) ?act \<circ> switch_off t) (config_db s)\<rparr>"
    using owned s0 v nonempty
    by (simp add: activate_version_def set_active_version_def get_version_row_def row_of_id_def config_update_def
        Let_def comp_simps)
  have mine: "\<not> foreign t (policies (config_db s)) w" if "w \<in> set (versions (config_db s))" "vr_id w = i" for w
    using one_or_none_unique [OF v that] one_or_none_unique [OF p(1)] p(2) by (auto simp: foreign_def)
  show ?thesis
    unfolding s1 by (rule table_step_switch) (use mine one_or_none_length [OF v] in simp_all)
qed

end

interpretation billing_table:
  activated_table billing_policies billing_policies_update billing_policy_versions billing_policy_versions_update
  by unfold_locales simp_all

interpretation memory_table:
  activated_table memory_policies memory_policies_update memory_policy_versions memory_policy_versions_update
  by unfold_locales simp_all

interpretation rag_table:
  activated_table rag_policies rag_policies_update rag_policy_versions rag_policy_versions_update
  by unfold_locales simp_all

lemma snd_validated [simp]: "snd (validated check m s) = snd (m s)"
  by (cases "m s"; cases "fst (m s)") (auto simp: validated_def comp_simps split: sum.splits)

lemma spares_refl: "reflp (spares obs)" and spares_trans: "transp (spares obs)"
  by (auto simp: reflp_def transp_def spares_def)

lemma spares_config: "(\<And>c. obs (f c) = obs c) \<Longrightarrow> keeps (spares obs) (config_update f)"
  by (simp add: config_update_def keeps_def modify_def spares_def)

lemma spares_new_uuid: "keeps (spares obs) new_uuid"
  by (simp add: keeps_def new_uuid_def spares_def)

lemma spares_read: "(\<And>s. snd (m s) = s) \<Longrightarrow> keeps (spares obs) m"
  by (simp add: keeps_def spares_def)

lemmas spares_rules = keeps_ret [OF spares_refl] keeps_raise [OF spares_refl] keeps_get [OF spares_refl]
  keeps_lift_res [OF spares_refl] keeps_bind [OF spares_trans] spares_new_uuid

lemma spares_rows:
  "keeps (spares obs) (get_policy_row tbl i)" "keeps (spares obs) (get_version_row versions i)"
  "keeps (spares obs) (get_policy i)"
  by (auto intro!: spares_read simp: get_policy_row_def get_version_row_def get_policy_def)

lemma spares_owned:
  "keeps (spares obs) (owned_policy policies tenant pid msg)"
  "keeps (spares obs) (owned_version policies versions tenant vid msg)"
  "keeps (spares obs) (owned_runtime_policy tenant rid)"
  unfolding owned_policy_def owned_version_def owned_runtime_policy_def
  by (auto intro!: spares_rules spares_rows split: option.split)

lemma spares_create_policy:
  "(\<And>f c. obs (upd f c) = obs c) \<Longrightarrow> keeps (spares obs) (create_policy_row upd tenant name)"
  unfolding create_policy_row_def Let_def by (intro spares_rules spares_config) simp

lemma spares_create_version:
  "(\<And>f c. obs (upd f c) = obs c) \<Longrightarrow> keeps (spares obs) (create_version_row upd row)"
  unfolding create_version_row_def by (intro spares_rules spares_config) simp

lemma spares_publish:
  assumes "\<And>f c. obs (upd f c) = obs c"
  shows "keeps (spares obs) (publish_version policies versions upd tenant vid msg)"
  unfolding publish_version_def set_version_status_def
  by (intro spares_rules spares_owned spares_rows) (auto split: option.split intro!: spares_rules spares_config simp: assms)

lemma spares_activate:
  assumes "\<And>f c. obs (upd f c) = obs c"
  shows "keeps (spares obs) (activate_version policies versions upd tenant vid actor justification msg)"
  unfolding activate_version_def set_active_version_def Let_def
  by (auto intro!: spares_rules spares_owned spares_rows spares_config simp: assms split: option.split)

lemma spares_runtime:
  assumes "\<And>f c. obs (runtime_policies_update f c) = obs c"
  shows "keeps (spares obs) (create_policy tenant scope flow_id d actor version status)"
    and "keeps (spares obs) (update_policy rid change st)"
    and "keeps (spares obs) (activate_policy rid)"
  unfolding create_policy_def update_policy_def activate_policy_def Let_def
  by (auto intro!: spares_rules spares_rows spares_config simp: assms split: option.split)

lemma spares_validated: "keeps (spares obs) m \<Longrightarrow> keeps (spares obs) (validated check m)"
  by (simp add: keeps_def)

lemma table_step_spared:
  assumes "spares (\<lambda>c. (policies c, versions c)) s s'"
  shows "table_step policies versions t s s'"
  using assms
  by (auto simp: spares_def table_step_def versions_wf_def isolated_def list_all_iff)

lemma table_step_keeps:
  "keeps (spares (\<lambda>c. (policies c, versions c))) m \<Longrightarrow> table_step policies versions t s (snd (m s))"
  by (simp add: table_step_spared keeps_def)

lemmas admin_ops = create_access_policy_def create_access_policy_version_def publish_access_policy_version_def
  create_rate_limit_policy_def create_rate_limit_policy_version_def publish_rate_limit_policy_version_def
  create_billing_policy_def create_billing_policy_version_def publish_billing_policy_version_def
  activate_billing_policy_version_def create_memory_policy_def create_memory_policy_version_def
  publish_memory_policy_version_def activate_memory_policy_version_def create_rag_policy_def
  create_rag_policy_version_def publish_rag_policy_version_def activate_rag_policy_version_def

lemma spares_limits:
  assumes "\<And>f c. obs (limit_policies_update f c) = obs c" "\<And>f c. obs (limit_policy_versions_update f c) = obs c"
  shows "keeps (spares obs) (ensure_default_published_policy_for_tenant tenant)"
  unfolding ensure_default_published_policy_for_tenant_def
  by (auto intro!: spares_rules spares_create_policy spares_create_version simp: assms split: option.split)

lemma spares_runtime_admin:
  assumes "\<And>f c. obs (runtime_policies_update f c) = obs c"
  shows "keeps (spares obs) (create_runtime_policy pd tenant scope flow_id version payload actor)"
    and "keeps (spares obs) (update_runtime_policy pd tenant rid change status)"
    and "keeps (spares obs) (activate_runtime_policy pd tenant rid justification)"
  unfolding create_runtime_policy_def update_runtime_policy_def activate_runtime_policy_def
  by (auto intro!: spares_rules spares_owned spares_validated spares_runtime simp: assms split: option.split)

lemmas spared_ops = spares_rules spares_owned spares_validated spares_create_policy spares_create_version
  spares_publish spares_activate spares_limits spares_runtime_admin

lemma admin_step_billing:
  assumes "admin_step pd t s s'"
  shows "table_step billing_policies billing_policy_versions t s s'"
  using assms
proof cases
  case 7
  then show ?thesis by (simp only: create_billing_policy_def billing_table.table_step_create_policy)
next
  case 8
  then show ?thesis
    by (simp only: create_billing_policy_version_def snd_validated)
       (intro billing_table.table_step_create_version, simp add: new_activated_def activated_version.defs billing_policy_version.defs)
next
  case 9
  then show ?thesis by (simp only: publish_billing_policy_version_def snd_validated billing_table.table_step_publish)
next
  case 10
  then show ?thesis by (simp only: activate_billing_policy_version_def snd_validated billing_table.table_step_activate)
qed (simp only:, intro table_step_keeps, (simp only: admin_ops)?, (intro spared_ops; simp))+

lemma admin_step_memory:
  assumes "admin_step pd t s s'"
  shows "table_step memory_policies memory_policy_versions t s s'"
  using assms
proof cases
  case 11
  then show ?thesis by (simp only: create_memory_policy_def memory_table.table_step_create_policy)
next
  case 12
  then show ?thesis
    by (simp only: create_memory_policy_version_def)
       (intro memory_table.table_step_create_version, simp add: new_activated_def activated_version.defs memory_policy_version.defs)
next
  case 13
  then show ?thesis by (simp only: publish_memory_policy_version_def snd_validated memory_table.table_step_publish)
next
  case 14
  then show ?thesis by (simp only: activate_memory_policy_version_def snd_validated memory_table.table_step_activate)
qed (simp only:, intro table_step_keeps, (simp only: admin_ops)?, (intro spared_ops; simp))+


lemma admin_step_rag:
  assumes "admin_step pd t s s'"
  shows "table_step rag_policies rag_policy_versions t s s'"
  using assms
proof cases
  case 15
  then show ?thesis by (simp only: create_rag_policy_def rag_table.table_step_create_policy)
next
  case 16
  then show ?thesis
    by (simp only: create_rag_policy_version_def)
       (intro rag_table.table_step_create_version, simp add: new_activated_def activated_version.defs rag_policy_version.defs)
next
  case 17
  then show ?thesis by (simp only: publish_rag_policy_version_def snd_validated rag_table.table_step_publish)
next
  case 18
  then show ?thesis by (simp only: activate_rag_policy_version_def snd_validated rag_table.table_step_activate)
qed (simp only:, intro table_step_keeps, (simp only: admin_ops)?, (intro spared_ops; simp))+


lemma administered_wf:
  assumes "administered pd s s'" and "activations_wf s"
  shows "activations_wf s'"
  using assms
proof (induction rule: administered.induct)
  case (step s s' tenant s'')
  then show ?case
    using admin_step_billing [OF step.hyps(2)] admin_step_memory [OF step.hyps(2)] admin_step_rag [OF step.hyps(2)]
    by (simp add: activations_wf_def table_step_def)
qed simp



text \<open>
  Activating a version that does not exist reports \<open>None\<close> and still switches off the tenant's active version.
\<close>

lemma activation_of_unknown_version:
  assumes "one_or_none (\<lambda>v. vr_id v = i) (memory_policy_versions (config_db s)) = Inr None"
  shows "fst (set_active_version memory_policy_versions memory_policy_versions_update tenant i actor j s) = Inr None"
    and "active_policy_version memory_policy_versions tenant
      (snd (set_active_version memory_policy_versions memory_policy_versions_update tenant i actor j s)) = Inr None"
proof -
  have "filter (\<lambda>v. va_tenant_id v = Some tenant \<and> va_is_active v) (switch_off tenant vs) = []"
    for vs :: "memory_policy_version list"
    by (auto simp: update_where_def filter_empty_conv)
  with assms show "fst (set_active_version memory_policy_versions memory_policy_versions_update tenant i actor j s) = Inr None"
    and "active_policy_version memory_policy_versions tenant
      (snd (set_active_version memory_policy_versions memory_policy_versions_update tenant i actor j s)) = Inr None"
    by (simp_all add: set_active_version_def get_version_row_def row_of_id_def config_update_def Let_def comp_simps
        active_policy_version_def active_id_of_def one_or_none_def)
qed

lemma filter_key_single: "distinct (map k xs) \<Longrightarrow> q \<in> set xs \<Longrightarrow> filter (\<lambda>x. k x = k q) xs = [q]"
  by (induction xs) (auto simp: filter_empty_conv rev_image_eqI)

lemma one_or_none_two:
  assumes "x \<in> set xs" "y \<in> set xs" "x \<noteq> y" "P x" "P y"
  shows "one_or_none P xs = Inl MultipleResultsFound"
proof -
  obtain a b cs where "filter P xs = a # b # cs"
  proof (cases "filter P xs")
    case Nil
    with assms(1,4) show thesis by (simp add: filter_empty_conv)
  next
    case (Cons a as)
    have "{x, y} \<subseteq> set (filter P xs)" using assms by simp
    with Cons assms(3) have "as \<noteq> []" by auto
    with Cons that show thesis by (cases as) auto
  qed
  then show ?thesis by (simp add: one_or_none_def)
qed



end
