(* ===== verification/PyHash.thy ===== *)
theory PyHash
  imports PyConv PyUuid "HOL-Library.Word"
begin

text \<open>
  The two library functions behind the content hashes of the services: \<open>json.dumps\<close> of a JSON value and
  \<open>hashlib.sha256(...).hexdigest()\<close>, over the bytes of the UTF-8 strings of the model.  The text of a float
  (\<open>float.__repr__\<close>) is the argument \<open>fr\<close>; a value that is not JSON is a \<open>TypeError\<close>.
\<close>

subsection \<open>JSON text\<close>

text \<open>The code point of one encoded character.\<close>

fun code_point :: "string \<Rightarrow> nat" where
  "code_point [] = 0"
| "code_point [a] = of_char a"
| "code_point [a, b] = (of_char a mod 32) * 64 + of_char b mod 64"
| "code_point [a, b, c] = ((of_char a mod 16) * 64 + of_char b mod 64) * 64 + of_char c mod 64"
| "code_point (a # b # c # d # _) =
     (((of_char a mod 8) * 64 + of_char b mod 64) * 64 + of_char c mod 64) * 64 + of_char d mod 64"

definition unicode_escape :: "nat \<Rightarrow> string" where
  "unicode_escape n = [CHR 0x5C, CHR ''u''] @ hex_string 4 n"

text \<open>The escapes of \<open>ensure_ascii\<close>; code points above the basic plane become a surrogate pair.\<close>

definition json_char :: "string \<Rightarrow> string" where
  "json_char ch =
     (let n = code_point ch in
      if n = 34 then [CHR 0x5C, CHR 0x22]
      else if n = 92 then [CHR 0x5C, CHR 0x5C]
      else if n = 10 then [CHR 0x5C, CHR ''n'']
      else if n = 13 then [CHR 0x5C, CHR ''r'']
      else if n = 9 then [CHR 0x5C, CHR ''t'']
      else if n = 12 then [CHR 0x5C, CHR ''f'']
      else if n = 8 then [CHR 0x5C, CHR ''b'']
      else if 32 \<le> n \<and> n \<le> 126 then ch
      else if n < 65536 then unicode_escape n
      else unicode_escape (55296 + (n - 65536) div 1024) @ unicode_escape (56320 + (n - 65536) mod 1024))"

definition json_string :: "string \<Rightarrow> string" where
  "json_string s = [CHR 0x22] @ concat (map json_char (utf8_chars s)) @ [CHR 0x22]"

fun join :: "string \<Rightarrow> string list \<Rightarrow> string" where
  "join sep [] = []"
| "join sep [x] = x"
| "join sep (x # y # zs) = x @ sep @ join sep (y # zs)"

definition join_members :: "string \<Rightarrow> string \<Rightarrow> (string \<times> string) list \<Rightarrow> string" where
  "join_members isep ksep ms = ''{'' @ join isep (map (\<lambda>(k, v). json_string k @ ksep @ v) ms) @ ''}''"

fun json_dumps :: "(rat \<Rightarrow> string) \<Rightarrow> bool \<Rightarrow> string \<Rightarrow> string \<Rightarrow> pyval \<Rightarrow> exn + string"
  and json_items :: "(rat \<Rightarrow> string) \<Rightarrow> bool \<Rightarrow> string \<Rightarrow> string \<Rightarrow> pyval list \<Rightarrow> exn + string list"
  and json_members :: "(rat \<Rightarrow> string) \<Rightarrow> bool \<Rightarrow> string \<Rightarrow> string \<Rightarrow> (string \<times> pyval) list \<Rightarrow> exn + (string \<times> string) list" where
  "json_dumps fr sk isep ksep PNone = Inr ''null''"
| "json_dumps fr sk isep ksep (PBool b) = Inr (if b then ''true'' else ''false'')"
| "json_dumps fr sk isep ksep (PInt i) = Inr (int_str i)"
| "json_dumps fr sk isep ksep (PFloat r) = Inr (fr r)"
| "json_dumps fr sk isep ksep (PStr s) = Inr (json_string s)"
| "json_dumps fr sk isep ksep (PList xs) =
     rbind (json_items fr sk isep ksep xs) (\<lambda>ts. Inr (''['' @ join isep ts @ '']''))"
| "json_dumps fr sk isep ksep (PDict d) =
     rbind (json_members fr sk isep ksep d) (\<lambda>ms.
       Inr (join_members isep ksep (if sk then sort_key fst ms else ms)))"
| "json_dumps fr sk isep ksep _ = Inl (Py TypeError)"
| "json_items fr sk isep ksep [] = Inr []"
| "json_items fr sk isep ksep (x # xs) =
     rbind (json_dumps fr sk isep ksep x) (\<lambda>t. rbind (json_items fr sk isep ksep xs) (\<lambda>ts. Inr (t # ts)))"
| "json_members fr sk isep ksep [] = Inr []"
| "json_members fr sk isep ksep ((k, v) # d) =
     rbind (json_dumps fr sk isep ksep v) (\<lambda>t.
       rbind (json_members fr sk isep ksep d) (\<lambda>ms. Inr ((k, t) # ms)))"

subsection \<open>SHA-256\<close>

unbundle bit_operations_syntax

type_synonym word32 = "32 word"

text \<open>
  The constants of the hash are the first 32 bits of the fractional parts of the square and cube roots of the
  first primes.  \<open>root_bits\<close> finds the integer part of a root bit by bit, from the highest bit down.
\<close>

fun root_bits :: "nat \<Rightarrow> nat \<Rightarrow> nat \<Rightarrow> nat \<Rightarrow> nat" where
  "root_bits k n 0 r = r"
| "root_bits k n (Suc b) r = root_bits k n b (if (r + 2 ^ b) ^ k \<le> n then r + 2 ^ b else r)"

definition small_primes :: "nat list" where
  "small_primes = filter (\<lambda>p. \<forall>d \<in> set [2..<p]. p mod d \<noteq> 0) [2..<312]"

definition root_fraction :: "nat \<Rightarrow> nat \<Rightarrow> word32" where
  "root_fraction k p = of_nat (root_bits k (p * 2 ^ (32 * k)) 40 0)"

definition sha256_k :: "word32 list" where
  "sha256_k = map (root_fraction 3) small_primes"

definition rotr :: "nat \<Rightarrow> word32 \<Rightarrow> word32" where
  "rotr n x = drop_bit n x OR push_bit (32 - n) x"

definition message_bytes :: "string \<Rightarrow> nat list" where
  "message_bytes s =
     (let bytes = map of_char s; n = length bytes; zeros = (119 - n mod 64) mod 64 in
      bytes @ [128] @ replicate zeros 0 @ map (\<lambda>i. (8 * n) div 256 ^ (7 - i) mod 256) [0..<8])"

fun be_words :: "nat list \<Rightarrow> word32 list" where
  "be_words (a # b # c # d # rest) = of_nat (((a * 256 + b) * 256 + c) * 256 + d) # be_words rest"
| "be_words _ = []"

fun blocks :: "nat \<Rightarrow> word32 list \<Rightarrow> word32 list list" where
  "blocks 0 ws = []"
| "blocks (Suc n) ws = take 16 ws # blocks n (drop 16 ws)"

text \<open>The message schedule, newest word first.\<close>

fun schedule :: "nat \<Rightarrow> word32 list \<Rightarrow> word32 list" where
  "schedule 0 ws = ws"
| "schedule (Suc n) ws =
     (let w2 = ws ! 1; w7 = ws ! 6; w15 = ws ! 14; w16 = ws ! 15;
          s0 = rotr 7 w15 XOR rotr 18 w15 XOR drop_bit 3 w15;
          s1 = rotr 17 w2 XOR rotr 19 w2 XOR drop_bit 10 w2 in
      schedule n ((w16 + s0 + w7 + s1) # ws))"

type_synonym digest = "word32 \<times> word32 \<times> word32 \<times> word32 \<times> word32 \<times> word32 \<times> word32 \<times> word32"

definition sha256_round :: "word32 \<times> word32 \<Rightarrow> digest \<Rightarrow> digest" where
  "sha256_round = (\<lambda>(k, w) (a, b, c, d, e, f, g, h).
     let s1 = rotr 6 e XOR rotr 11 e XOR rotr 25 e;
         ch = (e AND f) XOR (NOT e AND g);
         t1 = h + s1 + ch + k + w;
         s0 = rotr 2 a XOR rotr 13 a XOR rotr 22 a;
         maj = (a AND b) XOR (a AND c) XOR (b AND c);
         t2 = s0 + maj in
     (t1 + t2, a, b, c, d + t1, e, f, g))"

definition sha256_h :: digest where
  "sha256_h = (root_fraction 2 2, root_fraction 2 3, root_fraction 2 5, root_fraction 2 7,
     root_fraction 2 11, root_fraction 2 13, root_fraction 2 17, root_fraction 2 19)"

definition compress :: "digest \<Rightarrow> word32 list \<Rightarrow> digest" where
  "compress st block =
     (let (a, b, c, d, e, f, g, h) = st;
          (a', b', c', d', e', f', g', h') = fold sha256_round (zip sha256_k (rev (schedule 48 (rev block)))) st in
      (a + a', b + b', c + c', d + d', e + e', f + f', g + g', h + h'))"

definition sha256_hex :: "string \<Rightarrow> string" where
  "sha256_hex s =
     (let bytes = message_bytes s in
      case foldl compress sha256_h (blocks (length bytes div 64) (be_words bytes)) of
        (a, b, c, d, e, f, g, h) \<Rightarrow> concat (map (\<lambda>w. hex_string 8 (unat w)) [a, b, c, d, e, f, g, h]))"

subsection \<open>Content hashes\<close>

text \<open>\<open>_hash_dict\<close>: compact JSON with sorted keys.\<close>

definition hash_dict :: "(rat \<Rightarrow> string) \<Rightarrow> pydict \<Rightarrow> exn + string" where
  "hash_dict fr payload = rbind (json_dumps fr True '','' '':'' (PDict payload)) (\<lambda>text. Inr (sha256_hex text))"

subsection \<open>Facts\<close>

text \<open>The bits found are those of the integer root.\<close>

lemma root_bits_root:
  assumes "r ^ k \<le> n" and "n < (r + 2 ^ b) ^ k"
  shows "root_bits k n b r ^ k \<le> n \<and> n < Suc (root_bits k n b r) ^ k"
  using assms
proof (induction b arbitrary: r)
  case (Suc b)
  show ?case
  proof (cases "(r + 2 ^ b) ^ k \<le> n")
    case True
    then show ?thesis
      using Suc.IH [of "r + 2 ^ b"] Suc.prems(2) by (simp add: mult_2 add.assoc)
  next
    case False
    then show ?thesis
      using Suc.IH [of r] Suc.prems(1) by simp
  qed
qed simp

lemma json_error_TypeError:
  "json_dumps fr sk isep ksep v = Inl e \<Longrightarrow> e = Py TypeError"
  "json_items fr sk isep ksep vs = Inl e \<Longrightarrow> e = Py TypeError"
  "json_members fr sk isep ksep d = Inl e \<Longrightarrow> e = Py TypeError"
  by (induction fr sk isep ksep v and fr sk isep ksep vs and fr sk isep ksep d arbitrary: e and e and e
      rule: json_dumps_json_items_json_members.induct)
     (auto simp: rbind_eq_Inl)

text \<open>The text of every member, when all of them have one.\<close>

lemma json_members_alt:
  "json_members fr sk isep ksep d =
     (if \<forall>(k, v) \<in> set d. \<exists>t. json_dumps fr sk isep ksep v = Inr t
      then Inr (map (\<lambda>(k, v). (k, projr (json_dumps fr sk isep ksep v))) d) else Inl (Py TypeError))"
proof (induction d)
  case (Cons kv d)
  obtain k v where kv: "kv = (k, v)" by (cases kv)
  show ?case
  proof (cases "json_dumps fr sk isep ksep v")
    case (Inl e)
    then show ?thesis using json_error_TypeError(1) [OF Inl] by (simp add: kv)
  next
    case (Inr t)
    then show ?thesis by (simp add: kv Cons)
  qed
qed simp

lemma sort_key_fst_unique:
  assumes "set xs = set ys" and "distinct (map fst xs)" and "distinct (map fst ys)"
  shows "sort_key fst xs = sort_key fst ys"
  by (rule map_sorted_distinct_set_unique [where f = fst])
     (use assms in \<open>auto simp: distinct_map distinct_sort inj_on_Un\<close>)

text \<open>
  The content hash of a dictionary does not depend on the order of its keys: two dictionaries with the same
  items hash alike, or fail alike.
\<close>

theorem hash_dict_key_order:
  assumes "set d = set d'" and "distinct (map fst d)" and "distinct (map fst d')"
  shows "hash_dict fr d = hash_dict fr d'"
proof -
  let ?text = "\<lambda>(k, v). (k, projr (json_dumps fr True '','' '':'' v))"
  have keys: "map fst (map ?text x) = map fst x" for x :: pydict
    by (induction x) auto
  have "sort_key fst (map ?text d) = sort_key fst (map ?text d')"
    by (rule sort_key_fst_unique) (unfold keys set_map, use assms in simp_all)
  then show ?thesis
    using assms(1) by (simp add: hash_dict_def json_members_alt)
qed

theorem hash_dict_key_order_witness:
  "hash_dict (\<lambda>_. ''0.5'') [(''b'', PInt 1), (''a'', PNone)] = hash_dict (\<lambda>_. ''0.5'') [(''a'', PNone), (''b'', PInt 1)]"
  by (rule hash_dict_key_order) auto

lemma length_hex_string [simp]: "length (hex_string k n) = k"
  by (induction k arbitrary: n) simp_all

lemma length_sha256_hex: "length (sha256_hex s) = 64"
  by (simp add: sha256_hex_def Let_def split: prod.split)

end
