(* ===== verification/ExecutionService.thy ===== *)
theory ExecutionService
  imports RuntimeExecutor Governance PyHash
begin

text \<open>
  The execution service: \<^verbatim>\<open>src/src/domain/execution/services/execution_service.py\<close> with the idempotency
  service (\<^verbatim>\<open>adapters/idempotency_service.py\<close>) and the user input normalizer
  (\<^verbatim>\<open>src/src/domain/user_input/normalizer.py\<close>).

  What the service is built from is the record \<open>service_env\<close>: the node runtime and the event hook of
  \<open>RuntimeExecutor\<close>, the settings it reads, the workflow engine behind the Temporal port, the blob store and
  document reader behind the normalizer, the root observation id of a trace when it is started and inside
  \<open>tracer.flow\<close>, and the pydantic models of runtime policies.  Tracer spans have no effect on results and are
  left out.  The service's methods carry the prefix \<open>svc\<close>, the repository's methods of the same name none.
\<close>

subsection \<open>Idempotency\<close>

definition build_key :: "uuid \<Rightarrow> string \<Rightarrow> string \<Rightarrow> string" where
  "build_key tenant endpoint key = ''idempotency:'' @ uuid_str tenant @ '':'' @ endpoint @ '':'' @ key"

text \<open>The handle of the span is used without a check once the key is acquired.\<close>

definition try_acquire :: "int \<Rightarrow> string \<Rightarrow> (db, bool) comp" where
  "try_acquire ttl key =
     bind (set_if_not_exists rd_idempotency rd_idempotency_update key PROCESSING ttl) (\<lambda>acquired.
     bind (get tracing) (\<lambda>handle. if acquired \<and> \<not> handle then raise (Py AttributeError) else ret acquired))"

definition idempotency_get :: "string \<Rightarrow> (db, idempotency_entry option) comp" where
  "idempotency_get key = redis_get rd_idempotency key"

definition set_result :: "int \<Rightarrow> string \<Rightarrow> response \<Rightarrow> (db, unit) comp" where
  "set_result ttl key r = redis_set rd_idempotency_update key (RESPONSE r) ttl"

text \<open>The start of every idempotent request: \<open>None\<close> to go on, or the stored response.\<close>

definition begin_request :: "int \<Rightarrow> string \<Rightarrow> (db, response option) comp" where
  "begin_request ttl key =
     bind (try_acquire ttl key) (\<lambda>acquired.
       if acquired then ret None
       else bind (idempotency_get key) (\<lambda>existing.
         case existing of
           Some (RESPONSE r) \<Rightarrow> ret (Some r)
         | _ \<Rightarrow> raise (Service IdempotencyInProgress ''Idempotent request in progress.'')))"

subsection \<open>User input\<close>

datatype UserInputPart = TextUserInputPart string | MediaRefUserInputPart string string "string option"

record input_ports =
  ip_get_bytes :: "uuid \<Rightarrow> string \<Rightarrow> exn + string"
  ip_to_text :: "string \<Rightarrow> string \<Rightarrow> string option \<Rightarrow> exn + string"
  ip_max_composed_chars :: nat

definition SUPPORTED_MEDIA :: "string list" where
  "SUPPORTED_MEDIA = [''application/pdf'', ''text/plain'']"

definition input_chunk :: "input_ports \<Rightarrow> uuid \<Rightarrow> UserInputPart \<Rightarrow> exn + string list" where
  "input_chunk ports tenant part =
     (case part of
        TextUserInputPart t \<Rightarrow> Inr (if py_strip t = [] then [] else [t])
      | MediaRefUserInputPart ref mime filename \<Rightarrow>
          if mime \<notin> set SUPPORTED_MEDIA then Inl (domain_validation ''unsupported_media_mime_type'')
          else rbind (ip_get_bytes ports tenant ref) (\<lambda>data.
            rbind (ip_to_text ports data mime filename) (\<lambda>t.
              let label = (case filename of None \<Rightarrow> ref | Some f \<Rightarrow> if f = [] then ref else f) in
              Inr [''[Documento: '' @ label @ '']'' @ [CHR 0x0A] @ ''---'' @ [CHR 0x0A] @ t @ [CHR 0x0A] @ ''---''])))"

fun input_chunks :: "input_ports \<Rightarrow> uuid \<Rightarrow> UserInputPart list \<Rightarrow> exn + string list" where
  "input_chunks ports tenant [] = Inr []"
| "input_chunks ports tenant (p # ps) =
     rbind (input_chunk ports tenant p) (\<lambda>c. rbind (input_chunks ports tenant ps) (\<lambda>cs. Inr (c @ cs)))"

definition blank_line :: string where
  "blank_line = [CHR 0x0A, CHR 0x0A]"

definition compose_input :: "string list \<Rightarrow> string option \<Rightarrow> string" where
  "compose_input chunks user_input =
     (let composed = py_strip (join blank_line chunks);
          extra = py_strip (case user_input of None \<Rightarrow> [] | Some u \<Rightarrow> u) in
      if extra = [] \<or> sublist extra composed then composed
      else if composed = [] then extra else py_strip (composed @ blank_line @ extra))"

definition normalize :: "input_ports \<Rightarrow> uuid \<Rightarrow> string option \<Rightarrow> UserInputPart list option \<Rightarrow> exn + string option" where
  "normalize ports tenant user_input parts =
     (case parts of
        None \<Rightarrow> Inr user_input
      | Some ps \<Rightarrow> if ps = [] then Inr user_input
          else rbind (input_chunks ports tenant ps) (\<lambda>chunks.
            let composed = compose_input chunks user_input in
            if ip_max_composed_chars ports < length (utf8_chars composed)
            then Inl (domain_validation ''user_input_composed_too_large'')
            else Inr (if composed = [] then None else Some composed)))"

subsection \<open>The service\<close>

record dispatch_request =
  dq_flow_run_id :: uuid
  dq_tenant_id :: uuid
  dq_session_id :: uuid
  dq_user_id :: string
  dq_flow_id :: uuid
  dq_flow_version_id :: uuid
  dq_interaction_id :: uuid
  dq_correlation_id :: uuid
  dq_trace_id :: "uuid option"
  dq_root_observation_id :: "string option"
  dq_start_node_id :: "string option"
  dq_channel :: string
  dq_idempotency_key :: "string option"
  dq_run_timeout_ms :: "int option"
  dq_turn_index :: int

text \<open>The workflow engine: the ids of the dispatched workflow and run, and the wait for its turn.\<close>

record workflow_engine =
  we_start_flow_run :: "dispatch_request \<Rightarrow> (db, string \<times> string) comp"
  we_start_resume_turn :: "dispatch_request \<Rightarrow> (db, string \<times> string) comp"
  we_await_flow_run_turn :: "string \<times> string \<Rightarrow> int \<Rightarrow> (db, unit) comp"

record service_env =
  sv_runtime :: runtime
  sv_hook :: "db event_hook"
  sv_pydantic :: pydantic
  sv_float_repr :: "rat \<Rightarrow> string"
  sv_depth :: nat
  sv_normalizer :: "input_ports option"
  sv_engine :: "workflow_engine option"
  sv_trace_observation :: "uuid \<Rightarrow> string option"
  sv_flow_observation :: "uuid \<Rightarrow> string option"
  sv_temporal_enabled :: bool
  sv_legacy_contract :: bool
  sv_idempotency_ttl :: int
  sv_run_timeout_ms :: int
  sv_turn_wait_ms :: int
  sv_moderation_model :: string

record FlowRunCreate =
  fc_flow_id :: "uuid option"
  fc_flow_version_id :: "uuid option"
  fc_session_id :: uuid
  fc_user_id :: string
  fc_origin_flow_run_id :: "uuid option"
  fc_correlation_id :: "uuid option"
  fc_input :: "string option option"
  fc_input_parts :: "UserInputPart list option"
  fc_metadata :: pydict

text \<open>The request around a \<open>FlowRunCreate\<close>.\<close>

record create_request =
  cq_tenant_id :: uuid
  cq_endpoint :: string
  cq_idempotency_key :: string
  cq_channel :: string
  cq_headers :: pydict
  cq_external_message_id :: "string option"
  cq_request_id :: "string option"
  cq_trace_id :: "string option"
  cq_wait :: bool

definition opt_uuid :: "uuid option \<Rightarrow> pyval" where
  "opt_uuid u = (case u of None \<Rightarrow> PNone | Some i \<Rightarrow> PStr (uuid_str i))"

definition opt_str :: "string option \<Rightarrow> pyval" where
  "opt_str t = (case t of None \<Rightarrow> PNone | Some x \<Rightarrow> PStr x)"

definition dump_input :: "string option \<Rightarrow> pydict" where
  "dump_input user_input = [(''user_input'', opt_str user_input)]"

text \<open>\<open>model_dump(mode=\<dblquote>json\<dblquote>)\<close> of a request whose parts have been normalized away.\<close>

definition dump_create :: "FlowRunCreate \<Rightarrow> pydict" where
  "dump_create c = [(''flow_id'', opt_uuid (fc_flow_id c)), (''flow_version_id'', opt_uuid (fc_flow_version_id c)),
     (''session_id'', PStr (uuid_str (fc_session_id c))), (''user_id'', PStr (fc_user_id c)),
     (''origin_flow_run_id'', opt_uuid (fc_origin_flow_run_id c)), (''correlation_id'', opt_uuid (fc_correlation_id c)),
     (''input'', (case fc_input c of None \<Rightarrow> PNone | Some u \<Rightarrow> PDict (dump_input u))),
     (''input_parts'', PNone), (''metadata'', PDict (fc_metadata c))]"

definition normalize_flow_run_input :: "service_env \<Rightarrow> uuid \<Rightarrow> FlowRunCreate \<Rightarrow> exn + FlowRunCreate" where
  "normalize_flow_run_input e tenant c =
     (case fc_input_parts c of
        Some (p # ps) \<Rightarrow>
          (case sv_normalizer e of
             None \<Rightarrow> Inl (domain_validation ''user_input_normalizer_required'')
           | Some ports \<Rightarrow> rbind (normalize ports tenant (case fc_input c of None \<Rightarrow> None | Some u \<Rightarrow> u) (Some (p # ps)))
               (\<lambda>merged. Inr (c\<lparr>fc_input := Some merged, fc_input_parts := None\<rparr>)))
      | _ \<Rightarrow> Inr (c\<lparr>fc_input_parts := None\<rparr>))"

record FlowRunResumeInput =
  fu_user_id :: string
  fu_user_input :: "string option"
  fu_input_parts :: "UserInputPart list option"

definition normalize_resume_input ::
    "service_env \<Rightarrow> uuid \<Rightarrow> FlowRunResumeInput \<Rightarrow> exn + FlowRunResumeInput" where
  "normalize_resume_input e tenant i =
     (case fu_input_parts i of
        Some (p # ps) \<Rightarrow>
          (case sv_normalizer e of
             None \<Rightarrow> Inl (domain_validation ''user_input_normalizer_required'')
           | Some ports \<Rightarrow> rbind (normalize ports tenant (fu_user_input i) (Some (p # ps)))
               (\<lambda>merged. Inr \<lparr>fu_user_id = fu_user_id i, fu_user_input = merged, fu_input_parts = None\<rparr>))
      | _ \<Rightarrow> Inr (i\<lparr>fu_input_parts := None\<rparr>))"

subsection \<open>The default runtime policy\<close>

definition default_policy_definition :: "string \<Rightarrow> pydict" where
  "default_policy_definition moderation_model = [
     (''limits'', PDict [(''max_nodes'', PInt 100), (''max_depth'', PInt 50), (''max_edges_per_node'', PInt 5),
        (''max_total_duration_ms'', PInt 120000), (''max_node_duration_ms'', PInt 30000)]),
     (''execution'', PDict [(''fail_on_multiple_true_edges'', PBool True), (''fail_on_missing_graph'', PBool True),
        (''allow_parallel_nodes'', PBool False)]),
     (''tools'', PDict [(''max_retries'', PInt 2),
        (''circuit_breaker'', PDict [(''failure_threshold'', PInt 5), (''window_seconds'', PInt 60)])]),
     (''llm'', PDict [(''max_tokens'', PInt 2048), (''max_latency_ms'', PInt 10000), (''max_cost_usd'', PFloat 1),
        (''retry_limit'', PInt 0), (''max_cost_usd_per_flow_run'', PFloat 5),
        (''max_cost_usd_per_tenant_window'', PFloat 50), (''tenant_cost_window_seconds'', PInt 86400),
        (''max_llm_calls_per_flow_run'', PInt 50), (''max_llm_calls_per_tenant_window'', PInt 500),
        (''tenant_llm_calls_window_seconds'', PInt 3600), (''max_latency_ms_hard'', PInt 15000)]),
     (''moderation'', PDict [
        (''primary'', PDict [(''provider'', PStr ''SLM_LOCAL''), (''model_alias'', PStr ''slm-local-moderation''),
           (''timeout_ms'', PInt 300)]),
        (''fallback'', PDict [(''provider'', PStr ''OPENAI''), (''model_alias'', PStr moderation_model),
           (''timeout_ms'', PInt 1000)]),
        (''fallback_enabled'', PBool True), (''prompt_key'', PStr ''ContentModeration''),
        (''temperature'', PFloat 0), (''max_tokens'', PInt 18)]),
     (''memory_extraction'', PDict []), (''memory_retrieval'', PDict [])]"

definition resolve_policy :: "service_env \<Rightarrow> uuid \<Rightarrow> uuid \<Rightarrow> (db, ResolvedRuntimePolicy) comp" where
  "resolve_policy e tenant flow_id =
     resolve_runtime_policy (sv_pydantic e) ''1'' (default_policy_definition (sv_moderation_model e)) tenant (Some flow_id)"

definition snapshot_policy :: "service_env \<Rightarrow> uuid \<Rightarrow> flow_snapshot \<Rightarrow> exn + ResolvedRuntimePolicy" where
  "snapshot_policy e flow_id fs =
     rbind (pd_runtime (sv_pydantic e) (ss_runtime_policy fs)) (\<lambda>d. Inr \<lparr>rq_source = FLOW_POLICY,
       rq_runtime_policy_id = None, rq_version = ''snapshot'', rq_definition = d, rq_scope = ''FLOW'',
       rq_flow_id = Some flow_id\<rparr>)"

subsection \<open>The graph state a run goes on from\<close>

record GraphStateSnapshot =
  sp_current_node_id :: "string option"
  sp_resume_to_node_id :: "string option"
  sp_state :: pydict
  sp_memory :: "pydict list"
  sp_metadata :: pydict

definition str_field :: "pydict \<Rightarrow> string \<Rightarrow> exn + string option" where
  "str_field d k = (case dict_get d k PNone of
       PNone \<Rightarrow> Inr None | PStr t \<Rightarrow> Inr (Some t) | _ \<Rightarrow> Inl ValidationError)"

definition dict_field :: "pydict \<Rightarrow> string \<Rightarrow> exn + pydict" where
  "dict_field d k = (case dict_get d k (PDict []) of PDict x \<Rightarrow> Inr x | _ \<Rightarrow> Inl ValidationError)"

fun dict_list :: "pyval list \<Rightarrow> exn + pydict list" where
  "dict_list [] = Inr []"
| "dict_list (v # vs) =
     (case v of PDict d \<Rightarrow> rbind (dict_list vs) (\<lambda>ds. Inr (d # ds)) | _ \<Rightarrow> Inl ValidationError)"

definition dict_list_field :: "pydict \<Rightarrow> string \<Rightarrow> exn + pydict list" where
  "dict_list_field d k = (case dict_get d k (PList []) of PList vs \<Rightarrow> dict_list vs | _ \<Rightarrow> Inl ValidationError)"

definition validate_snapshot :: "pydict \<Rightarrow> exn + GraphStateSnapshot" where
  "validate_snapshot d =
     rbind (str_field d ''current_node_id'') (\<lambda>current.
     rbind (str_field d ''resume_to_node_id'') (\<lambda>resume.
     rbind (dict_field d ''state'') (\<lambda>state.
     rbind (dict_list_field d ''memory'') (\<lambda>memory.
     rbind (dict_field d ''metadata'') (\<lambda>metadata.
       Inr \<lparr>sp_current_node_id = current, sp_resume_to_node_id = resume, sp_state = state, sp_memory = memory,
         sp_metadata = metadata\<rparr>)))))"

definition load_snapshot :: "graph_state \<Rightarrow> exn + GraphStateSnapshot" where
  "load_snapshot g = (case validate_snapshot (gs_state g) of
       Inl _ \<Rightarrow> Inl (domain_validation ''invalid_graph_state'') | Inr sp \<Rightarrow> Inr sp)"

definition resume_node :: "GraphStateSnapshot \<Rightarrow> string option" where
  "resume_node sp = (case sp_resume_to_node_id sp of
       None \<Rightarrow> sp_current_node_id sp
     | Some n \<Rightarrow> if n = [] then sp_current_node_id sp else Some n)"

subsection \<open>Creating a flow run\<close>

definition blocked :: "string \<Rightarrow> exn" where
  "blocked m = Service ResourceBlocked m"

definition requested_flow :: "FlowRunCreate \<Rightarrow> (db, uuid) comp" where
  "requested_flow c =
     (case fc_flow_version_id c of
        None \<Rightarrow> (case fc_flow_id c of
            None \<Rightarrow> raise (domain_validation ''flow_id_or_flow_version_id_required'') | Some f \<Rightarrow> ret f)
      | Some v \<Rightarrow> bind (get_flow_version v) (\<lambda>row.
          case row of
            None \<Rightarrow> raise (not_found ''flow_version_not_found'')
          | Some r \<Rightarrow> if fv_status r \<noteq> ''PUBLISHED'' then raise (blocked ''flow_version_not_published'')
              else ret (fv_flow_id r)))"

definition select_flow :: "uuid \<Rightarrow> FlowRunCreate \<Rightarrow> (db, uuid \<times> uuid) comp" where
  "select_flow tenant c =
     bind (requested_flow c) (\<lambda>flow_id.
       if py_strip (fc_user_id c) = [] then raise (domain_validation ''user_id_required'')
       else bind (get_flow flow_id) (\<lambda>flow.
         if (case flow of None \<Rightarrow> True | Some f \<Rightarrow> fl_tenant_id f \<noteq> tenant)
         then raise (not_found ''flow_not_found'')
         else bind (get_active_flow_version_id flow_id) (\<lambda>active.
           case active of
             None \<Rightarrow> raise (blocked ''flow_not_active'')
           | Some a \<Rightarrow> if fc_flow_version_id c \<noteq> None \<and> fc_flow_version_id c \<noteq> Some a
               then raise (blocked ''flow_version_not_active'') else ret (flow_id, a))))"

definition start_trace_id :: "string option \<Rightarrow> (db, uuid) comp" where
  "start_trace_id trace_id =
     (case trace_id of
        None \<Rightarrow> new_uuid
      | Some t \<Rightarrow> (case parse_uuid t of Inl _ \<Rightarrow> raise (domain_validation ''invalid_trace_id'') | Inr u \<Rightarrow> ret u))"

definition ensure_session :: "uuid \<Rightarrow> uuid \<Rightarrow> string \<Rightarrow> (db, unit) comp" where
  "ensure_session sid tenant user =
     bind (get_session sid) (\<lambda>existing.
       case existing of
         None \<Rightarrow> create_session sid tenant user
       | Some r \<Rightarrow> if sn_tenant_id r \<noteq> tenant \<or> sn_user_id r \<noteq> user
           then raise (Service DomainConflict ''session_user_mismatch'') else ret ())"

text \<open>\<open>x or uuid4()\<close>\<close>

definition or_new_uuid :: "uuid option \<Rightarrow> (db, uuid) comp" where
  "or_new_uuid u = (case u of Some i \<Rightarrow> ret i | None \<Rightarrow> new_uuid)"

definition origin_candidate :: "FlowRunCreate \<Rightarrow> uuid \<Rightarrow> uuid \<Rightarrow> (db, uuid option) comp" where
  "origin_candidate c correlation_id selected =
     (if fc_origin_flow_run_id c = None \<and> fc_correlation_id c \<noteq> None
      then bind (get_latest_waiting_flow_run_id (fc_session_id c) correlation_id selected (fc_user_id c))
             (\<lambda>(origin, _). ret origin)
      else ret (fc_origin_flow_run_id c))"

definition run_waiting :: "flow_run \<Rightarrow> bool" where
  "run_waiting r \<longleftrightarrow> fr_status r = run_status R_WAITING_INPUT \<or> fr_canonical_status r = flow_status F_WAITING"

definition load_origin :: "uuid option \<Rightarrow> uuid \<Rightarrow> (db, uuid option \<times> GraphStateSnapshot option) comp" where
  "load_origin origin correlation_id =
     (case origin of
        None \<Rightarrow> ret (None, None)
      | Some o' \<Rightarrow> bind (acquire_flow_run_lock o' None (Some correlation_id)) (\<lambda>_.
          bind (get_flow_run o') (\<lambda>row.
            if (case row of None \<Rightarrow> False | Some r \<Rightarrow> run_waiting r)
            then bind (get_graph_state o') (\<lambda>g.
              case g of
                None \<Rightarrow> ret (None, None)
              | Some g \<Rightarrow> bind (lift_res (load_snapshot g)) (\<lambda>sp. ret (Some o', Some sp)))
            else ret (None, None))))"

subsection \<open>The runtime contract\<close>

record contract =
  kt_graph :: graph_snapshot_row
  kt_flow_snapshot_id :: "uuid option"
  kt_deployment_id :: "uuid option"
  kt_policy :: ResolvedRuntimePolicy
  kt_plan_hash :: string
  kt_policy_hash :: string
  kt_catalog_hash :: string
  kt_llm_hash :: "string option"

text \<open>\<open>UUID(value)\<close> of a value that is not a string fails on \<open>hex.replace\<close>.\<close>

definition uuid_of_value :: "pyval \<Rightarrow> exn + uuid" where
  "uuid_of_value v = (case v of PStr t \<Rightarrow> parse_uuid t | _ \<Rightarrow> Inl (Py AttributeError))"

definition deployed_snapshot :: "uuid \<Rightarrow> uuid \<Rightarrow> (db, flow_deployment option \<times> flow_snapshot option) comp" where
  "deployed_snapshot flow_id selected =
     bind (get_active_flow_deployment flow_id ''default'') (\<lambda>deployment.
     bind (case deployment of None \<Rightarrow> ret None | Some d \<Rightarrow> get_flow_snapshot_by_id (fd_flow_snapshot_id d)) (\<lambda>found.
     bind (case found of None \<Rightarrow> get_flow_snapshot_by_flow_version selected | Some fs \<Rightarrow> ret (Some fs)) (\<lambda>fs.
       ret (deployment, fs))))"

definition snapshot_plan_hash :: "service_env \<Rightarrow> pydict \<Rightarrow> exn + string" where
  "snapshot_plan_hash e d =
     (let v = dict_get d ''graph_hash'' PNone in
      if truthy v then Inr (py_str (rt_repr (sv_runtime e)) v) else hash_dict (sv_float_repr e) d)"

definition snapshot_contract ::
    "service_env \<Rightarrow> uuid \<Rightarrow> flow_deployment option \<Rightarrow> flow_snapshot \<Rightarrow> graph_snapshot_row option \<Rightarrow> (db, contract) comp" where
  "snapshot_contract e flow_id deployment fs by_version =
     bind (let v = dict_get (ss_snapshot fs) ''flow_graph_snapshot_id'' PNone in
           if truthy v then bind (lift_res (uuid_of_value v)) get_flow_graph_snapshot else ret by_version) (\<lambda>graph.
     bind (lift_res (snapshot_policy e flow_id fs)) (\<lambda>policy.
     bind (lift_res (hash_dict (sv_float_repr e) (ss_runtime_policy fs))) (\<lambda>policy_hash.
     bind (lift_res (snapshot_plan_hash e (ss_snapshot fs))) (\<lambda>plan_hash.
     bind (lift_res (hash_dict (sv_float_repr e) (ss_tool_catalog fs))) (\<lambda>catalog_hash.
       case graph of
         None \<Rightarrow> raise (blocked ''flow_graph_snapshot_missing'')
       | Some g \<Rightarrow> ret \<lparr>kt_graph = g, kt_flow_snapshot_id = Some (ss_id fs),
           kt_deployment_id = map_option fd_id deployment, kt_policy = policy, kt_plan_hash = plan_hash,
           kt_policy_hash = policy_hash, kt_catalog_hash = catalog_hash,
           kt_llm_hash = ss_llm_provider_config_hash fs\<rparr>)))))"

definition legacy_contract ::
    "service_env \<Rightarrow> uuid \<Rightarrow> uuid \<Rightarrow> flow_deployment option \<Rightarrow> graph_snapshot_row option \<Rightarrow> (db, contract) comp" where
  "legacy_contract e tenant flow_id deployment by_version =
     (if \<not> sv_legacy_contract e then raise (blocked ''flow_snapshot_required'')
      else case by_version of
        None \<Rightarrow> raise (blocked ''flow_graph_snapshot_missing'')
      | Some g \<Rightarrow>
          bind (resolve_policy e tenant flow_id) (\<lambda>policy.
          bind (lift_res (hash_dict (sv_float_repr e) (rq_definition policy))) (\<lambda>policy_hash.
          bind (lift_res (hash_dict (sv_float_repr e)
                 [(''graph'', PStr (sg_graph_hash g)), (''runtime_policy'', PStr policy_hash)])) (\<lambda>catalog_hash.
            ret \<lparr>kt_graph = g, kt_flow_snapshot_id = None, kt_deployment_id = map_option fd_id deployment,
              kt_policy = policy, kt_plan_hash = sg_graph_hash g, kt_policy_hash = policy_hash,
              kt_catalog_hash = catalog_hash, kt_llm_hash = None\<rparr>))))"

definition resolve_contract :: "service_env \<Rightarrow> uuid \<Rightarrow> uuid \<Rightarrow> uuid \<Rightarrow> (db, contract) comp" where
  "resolve_contract e tenant flow_id selected =
     bind (deployed_snapshot flow_id selected) (\<lambda>(deployment, fs).
     bind (get_flow_graph_snapshot_by_flow_version selected) (\<lambda>by_version.
       case fs of
         Some f \<Rightarrow> snapshot_contract e flow_id deployment f by_version
       | None \<Rightarrow> legacy_contract e tenant flow_id deployment by_version))"

definition contract_dict :: "uuid \<Rightarrow> contract \<Rightarrow> pydict" where
  "contract_dict selected k = [(''flow_version_id'', PStr (uuid_str selected)),
     (''flow_graph_snapshot_id'', PStr (uuid_str (sg_id (kt_graph k)))),
     (''flow_snapshot_id'', opt_uuid (kt_flow_snapshot_id k)), (''flow_deployment_id'', opt_uuid (kt_deployment_id k)),
     (''execution_plan_hash'', PStr (kt_plan_hash k)), (''runtime_policy_hash'', PStr (kt_policy_hash k)),
     (''tool_catalog_hash'', PStr (kt_catalog_hash k)), (''llm_provider_config_hash'', opt_str (kt_llm_hash k))]"

subsection \<open>Opening, dispatching and running\<close>

text \<open>The local variables of \<open>create_flow_run\<close> once the runtime contract is known.\<close>

record run_frame =
  rf_tenant_id :: uuid
  rf_create :: FlowRunCreate
  rf_flow_id :: uuid
  rf_flow_version_id :: uuid
  rf_trace_id :: uuid
  rf_interaction_id :: uuid
  rf_correlation_id :: uuid
  rf_origin :: "uuid option"
  rf_snapshot :: "GraphStateSnapshot option"
  rf_contract :: contract

text \<open>The repository dumps the input of the request without a check for \<open>None\<close>.\<close>

definition open_row :: "run_frame \<Rightarrow> (db, uuid) comp" where
  "open_row f =
     (let c = rf_create f; k = rf_contract f in
      case fc_input c of
        None \<Rightarrow> bind new_uuid (\<lambda>_. raise (Py AttributeError))
      | Some user_input \<Rightarrow> create_flow_run \<lparr>fa_session_id = fc_session_id c,
          fa_flow_version_id = rf_flow_version_id f, fa_correlation_id = rf_correlation_id f,
          fa_origin_flow_run_id = rf_origin f, fa_user_id = fc_user_id c, fa_input = dump_input user_input,
          fa_interaction_id = Some (rf_interaction_id f), fa_flow_graph_snapshot_id = Some (sg_id (kt_graph k)),
          fa_flow_snapshot_id = kt_flow_snapshot_id k, fa_flow_deployment_id = kt_deployment_id k,
          fa_runtime_contract = Some (contract_dict (rf_flow_version_id f) k),
          fa_execution_plan_hash = Some (kt_plan_hash k), fa_runtime_policy_hash = Some (kt_policy_hash k),
          fa_tool_catalog_hash = Some (kt_catalog_hash k), fa_llm_provider_config_hash = kt_llm_hash k,
          fa_trace_id = Some (rf_trace_id f), fa_root_observation_id = None\<rparr>)"

definition observed :: "uuid \<Rightarrow> string option \<Rightarrow> (db, unit) comp" where
  "observed fid obs = (case obs of
       Some r \<Rightarrow> if r = [] then ret () else set_root_observation_id fid r
     | None \<Rightarrow> ret ())"

definition open_run :: "service_env \<Rightarrow> run_frame \<Rightarrow> (db, uuid) comp" where
  "open_run e f =
     bind (open_row f) (\<lambda>fid.
     bind (observed fid (sv_trace_observation e fid)) (\<lambda>_.
     bind (link_interaction_to_flow_run (rf_interaction_id f) fid) (\<lambda>_.
     bind (start_event_batching fid) (\<lambda>_. ret fid))))"

definition created_response :: "run_frame \<Rightarrow> uuid \<Rightarrow> FlowRun" where
  "created_response f fid =
     (let c = rf_create f; k = rf_contract f in \<lparr>
        fw_id = fid, fw_origin = rf_origin f, fw_flow_version_id = rf_flow_version_id f,
        fw_session_id = fc_session_id c, fw_user_id = fc_user_id c, fw_interaction_id = Some (rf_interaction_id f),
        fw_status = run_status R_CREATED, fw_canonical_status = flow_status F_CREATED,
        fw_correlation_id = rf_correlation_id f, fw_finished_at = None,
        fw_input = (case fc_input c of None \<Rightarrow> [] | Some u \<Rightarrow> dump_input u), fw_output = [], fw_error = [],
        fw_failure_reason = None, fw_trace_id = Some (rf_trace_id f), fw_root_observation_id = None,
        fw_flow_graph_snapshot_id = Some (sg_id (kt_graph k)), fw_flow_snapshot_id = kt_flow_snapshot_id k,
        fw_flow_deployment_id = kt_deployment_id k,
        fw_runtime_contract = contract_dict (rf_flow_version_id f) k,
        fw_execution_plan_hash = Some (kt_plan_hash k), fw_runtime_policy_hash = Some (kt_policy_hash k),
        fw_tool_catalog_hash = Some (kt_catalog_hash k), fw_llm_provider_config_hash = kt_llm_hash k,
        fw_temporal_workflow_id = None, fw_temporal_run_id = None\<rparr>)"

definition start_hook_args :: "string \<Rightarrow> run_frame \<Rightarrow> uuid \<Rightarrow> hook_args" where
  "start_hook_args channel f fid = \<lparr>ha_tenant_id = rf_tenant_id f, ha_user_id = Some (fc_user_id (rf_create f)),
     ha_session_id = fc_session_id (rf_create f), ha_flow_run_id = fid, ha_correlation_id = rf_correlation_id f,
     ha_payload = [(''interaction_id'', PStr (uuid_str (rf_interaction_id f))), (''channel'', PStr channel),
       (''trace_id'', PStr (uuid_str (rf_trace_id f))), (''user_id'', PStr (fc_user_id (rf_create f)))],
     ha_causation_id = None, ha_schema_version = 1\<rparr>"

definition flow_status_values :: "string list" where
  "flow_status_values = map flow_status [F_CREATED, F_RUNNING, F_WAITING, F_COMPLETED, F_FAILED, F_ESCALATED]"

definition merge_flow_run_result :: "FlowRun \<Rightarrow> flow_run option \<Rightarrow> exn + FlowRun" where
  "merge_flow_run_result response result =
     (case result of
        None \<Rightarrow> Inr response
      | Some r \<Rightarrow>
          if parse_run_status (fr_status r) = None \<or> fr_canonical_status r \<notin> set flow_status_values
          then Inl (Py ValueError)
          else Inr (response\<lparr>fw_status := fr_status r, fw_canonical_status := fr_canonical_status r,
            fw_finished_at := fr_finished_at r, fw_output := fr_output r, fw_error := fr_error r,
            fw_root_observation_id := fr_root_observation_id r,
            fw_temporal_workflow_id := fr_temporal_workflow_id r, fw_temporal_run_id := fr_temporal_run_id r\<rparr>))"

text \<open>\<open>_dispatch_flow_run\<close>; the request carries everything but the fields the method fills in itself.\<close>

definition dispatch_flow_run :: "service_env \<Rightarrow> dispatch_request \<Rightarrow> bool \<Rightarrow> (db, unit) comp" where
  "dispatch_flow_run e request wait =
     (case sv_engine e of
        None \<Rightarrow> raise (domain_validation ''workflow_engine_unavailable'')
      | Some engine \<Rightarrow>
          let fid = dq_flow_run_id request; obs = sv_trace_observation e fid;
              request = request\<lparr>dq_root_observation_id := obs, dq_run_timeout_ms := Some (sv_run_timeout_ms e)\<rparr>;
              resumed = 0 < dq_turn_index request in
          bind (observed fid obs) (\<lambda>_.
          bind (if resumed then we_start_resume_turn engine request else we_start_flow_run engine request)
            (\<lambda>(workflow_id, run_id).
          bind (set_flow_run_dispatch fid workflow_id run_id
                 (run_status (if resumed then R_RUNNING else R_QUEUED))
                 (flow_status (if resumed then F_RUNNING else F_CREATED))) (\<lambda>_.
            if wait then we_await_flow_run_turn engine (workflow_id, run_id) (sv_turn_wait_ms e) else ret ()))))"

text \<open>The plan cache is a Redis adapter that is always silent.\<close>

definition plan_get :: "string \<Rightarrow> (db, execution_plan option) comp" where
  "plan_get h = get (\<lambda>s. if rd_up (redis_db s) then cache_lookup (clock s) (rd_plan (redis_db s)) h else None)"

definition plan_set :: "string \<Rightarrow> execution_plan \<Rightarrow> (db, unit) comp" where
  "plan_set h p = modify (\<lambda>s. if rd_up (redis_db s)
     then s\<lparr>redis_db := rd_plan_update (cache_put (clock s) 300 h p) (redis_db s)\<rparr> else s)"

definition plan_for :: "service_env \<Rightarrow> graph_snapshot_row \<Rightarrow> (db, execution_plan) comp" where
  "plan_for e g =
     bind (plan_get (sg_graph_hash g)) (\<lambda>cached.
       case cached of
         Some p \<Rightarrow> ret p
       | None \<Rightarrow> bind (lift_res (graph_compile (sv_depth e) (sg_snapshot g) (sg_graph_hash g) (Some []))) (\<lambda>p.
           bind (plan_set (sg_graph_hash g) p) (\<lambda>_. ret p)))"

definition run_plan :: "service_env \<Rightarrow> run_args \<Rightarrow> (db, flow_run option) comp" where
  "run_plan e a =
     bind (run (sv_runtime e) a) (\<lambda>_.
     bind (observed (xr_flow_run_id a) (sv_flow_observation e (xr_flow_run_id a))) (\<lambda>_.
       get_flow_run (xr_flow_run_id a)))"

definition frame_args :: "run_frame \<Rightarrow> uuid \<Rightarrow> execution_plan \<Rightarrow> run_args" where
  "frame_args f fid plan = \<lparr>xr_tenant_id = rf_tenant_id f, xr_interaction_id = rf_interaction_id f,
     xr_session_id = fc_session_id (rf_create f),
     xr_input_payload = (case fc_input (rf_create f) of None \<Rightarrow> [] | Some u \<Rightarrow> dump_input u),
     xr_flow_id = rf_flow_id f, xr_flow_version_id = rf_flow_version_id f, xr_flow_run_id = fid,
     xr_correlation_id = rf_correlation_id f, xr_trace_id = Some (rf_trace_id f), xr_plan = plan,
     xr_policy = Some (rq_definition (kt_policy (rf_contract f))),
     xr_trace_user_id = Some (fc_user_id (rf_create f)),
     xr_start_node_id = Option.bind (rf_snapshot f) resume_node,
     xr_initial_state = map_option sp_state (rf_snapshot f),
     xr_initial_memory = map_option sp_memory (rf_snapshot f)\<rparr>"

definition frame_request :: "string \<Rightarrow> run_frame \<Rightarrow> uuid \<Rightarrow> dispatch_request" where
  "frame_request channel f fid = \<lparr>dq_flow_run_id = fid, dq_tenant_id = rf_tenant_id f,
     dq_session_id = fc_session_id (rf_create f), dq_user_id = fc_user_id (rf_create f), dq_flow_id = rf_flow_id f,
     dq_flow_version_id = rf_flow_version_id f, dq_interaction_id = rf_interaction_id f,
     dq_correlation_id = rf_correlation_id f, dq_trace_id = Some (rf_trace_id f), dq_root_observation_id = None,
     dq_start_node_id = Option.bind (rf_snapshot f) resume_node, dq_channel = channel, dq_idempotency_key = None,
     dq_run_timeout_ms = None, dq_turn_index = 0\<rparr>"

definition execute_run :: "service_env \<Rightarrow> string \<Rightarrow> bool \<Rightarrow> run_frame \<Rightarrow> uuid \<Rightarrow> (db, flow_run option) comp" where
  "execute_run e channel wait f fid =
     (if sv_temporal_enabled e
      then bind (dispatch_flow_run e (frame_request channel f fid) wait) (\<lambda>_. get_flow_run fid)
      else bind (plan_for e (kt_graph (rf_contract f))) (\<lambda>plan.
        with_finally (run_plan e (frame_args f fid plan)) (end_event_batching fid)))"

definition finish_request :: "int \<Rightarrow> string \<Rightarrow> FlowRun \<Rightarrow> flow_run option \<Rightarrow> (db, FlowRun) comp" where
  "finish_request ttl key response result =
     bind (lift_res (merge_flow_run_result response result)) (\<lambda>response.
     bind (set_result ttl key (FlowRunResponse response)) (\<lambda>_. ret response))"

definition run_frame_of :: "service_env \<Rightarrow> create_request \<Rightarrow> FlowRunCreate \<Rightarrow> uuid \<Rightarrow> uuid \<Rightarrow> (db, run_frame) comp" where
  "run_frame_of e q c flow_id selected =
     bind (start_trace_id (cq_trace_id q)) (\<lambda>trace.
     bind (ensure_session (fc_session_id c) (cq_tenant_id q) (fc_user_id c)) (\<lambda>_.
     bind (lift_res (normalize_flow_run_input e (cq_tenant_id q) c)) (\<lambda>c.
     bind (create_interaction (fc_session_id c) (cq_channel q) (dump_create c) (cq_headers q) (fc_metadata c)
            (cq_external_message_id q) (cq_request_id q) (Some (uuid_str trace))) (\<lambda>iid.
     bind (or_new_uuid (fc_correlation_id c)) (\<lambda>correlation_id.
     bind (origin_candidate c correlation_id selected) (\<lambda>candidate.
     bind (load_origin candidate correlation_id) (\<lambda>(origin, sp).
     bind (resolve_contract e (cq_tenant_id q) flow_id selected) (\<lambda>k.
       ret \<lparr>rf_tenant_id = cq_tenant_id q, rf_create = c, rf_flow_id = flow_id, rf_flow_version_id = selected,
         rf_trace_id = trace, rf_interaction_id = iid, rf_correlation_id = correlation_id, rf_origin = origin,
         rf_snapshot = sp, rf_contract = k\<rparr>))))))))"

definition start_flow_run :: "service_env \<Rightarrow> create_request \<Rightarrow> string \<Rightarrow> run_frame \<Rightarrow> (db, FlowRun) comp" where
  "start_flow_run e q key f =
     bind (open_run e f) (\<lambda>fid.
     bind (hk_flow_start (sv_hook e) (start_hook_args (cq_channel q) f fid)) (\<lambda>_.
     bind (execute_run e (cq_channel q) (cq_wait q) f fid) (\<lambda>result.
       finish_request (sv_idempotency_ttl e) key (created_response f fid) result)))"

text \<open>A stored response of another schema does not validate.\<close>

definition flow_run_of_response :: "response \<Rightarrow> exn + FlowRun" where
  "flow_run_of_response r = (case r of FlowRunResponse f \<Rightarrow> Inr f | _ \<Rightarrow> Inl ValidationError)"

definition svc_create_flow_run :: "service_env \<Rightarrow> create_request \<Rightarrow> FlowRunCreate \<Rightarrow> (db, FlowRun) comp" where
  "svc_create_flow_run e q c =
     bind (select_flow (cq_tenant_id q) c) (\<lambda>(flow_id, selected).
       let key = build_key (cq_tenant_id q) (cq_endpoint q) (cq_idempotency_key q) in
       bind (begin_request (sv_idempotency_ttl e) key) (\<lambda>prior.
         case prior of
           Some r \<Rightarrow> lift_res (flow_run_of_response r)
         | None \<Rightarrow> bind (run_frame_of e q c flow_id selected) (\<lambda>f. start_flow_run e q key f)))"

subsection \<open>Resuming a flow run\<close>

record resume_request =
  uq_channel :: string
  uq_headers :: pydict
  uq_external_message_id :: "string option"
  uq_request_id :: "string option"
  uq_trace_id :: "string option"

definition from_model :: "flow_run \<Rightarrow> string option \<Rightarrow> FlowRun" where
  "from_model r failure_reason = \<lparr>
     fw_id = fr_id r, fw_origin = fr_origin r, fw_flow_version_id = fr_flow_version_id r,
     fw_session_id = fr_session_id r, fw_user_id = fr_user_id r, fw_interaction_id = fr_interaction_id r,
     fw_status = fr_status r, fw_canonical_status = fr_canonical_status r,
     fw_correlation_id = fr_correlation_id r, fw_finished_at = fr_finished_at r, fw_input = fr_input r,
     fw_output = fr_output r, fw_error = fr_error r, fw_failure_reason = failure_reason,
     fw_trace_id = fr_trace_id r, fw_root_observation_id = fr_root_observation_id r,
     fw_flow_graph_snapshot_id = fr_flow_graph_snapshot_id r, fw_flow_snapshot_id = fr_flow_snapshot_id r,
     fw_flow_deployment_id = fr_flow_deployment_id r, fw_runtime_contract = fr_runtime_contract r,
     fw_execution_plan_hash = fr_execution_plan_hash r, fw_runtime_policy_hash = fr_runtime_policy_hash r,
     fw_tool_catalog_hash = fr_tool_catalog_hash r, fw_llm_provider_config_hash = fr_llm_provider_config_hash r,
     fw_temporal_workflow_id = fr_temporal_workflow_id r, fw_temporal_run_id = fr_temporal_run_id r\<rparr>"

definition uuid_of_str :: "service_env \<Rightarrow> pyval \<Rightarrow> exn + uuid" where
  "uuid_of_str e v = parse_uuid (py_str (rt_repr (sv_runtime e)) v)"

text \<open>The snapshot named by the run's contract with its policy, or the policy in force.\<close>

definition resume_policy ::
    "service_env \<Rightarrow> uuid \<Rightarrow> uuid \<Rightarrow> flow_run \<Rightarrow> (db, graph_snapshot_row option \<times> ResolvedRuntimePolicy) comp" where
  "resume_policy e tenant flow_id r =
     (let v = dict_get (fr_runtime_contract r) ''flow_snapshot_id'' PNone;
          in_force = bind (resolve_policy e tenant flow_id) (\<lambda>p. ret (None, p)) in
      if \<not> truthy v then in_force
      else bind (lift_res (uuid_of_str e v)) (\<lambda>sid.
        bind (get_flow_snapshot_by_id sid) (\<lambda>fs.
          case fs of
            None \<Rightarrow> in_force
          | Some f \<Rightarrow>
              let g = dict_get (ss_snapshot f) ''flow_graph_snapshot_id'' PNone in
              bind (if truthy g then bind (lift_res (uuid_of_str e g)) get_flow_graph_snapshot else ret None) (\<lambda>graph.
              bind (lift_res (snapshot_policy e flow_id f)) (\<lambda>p. ret (graph, p))))))"

record resume_frame =
  uf_run :: flow_run
  uf_session_id :: uuid
  uf_tenant_id :: uuid
  uf_input :: FlowRunResumeInput
  uf_graph_state :: graph_state
  uf_version :: flow_version
  uf_policy :: ResolvedRuntimePolicy
  uf_plan :: execution_plan

definition resume_frame_of :: "service_env \<Rightarrow> uuid \<Rightarrow> FlowRunResumeInput \<Rightarrow> (db, resume_frame) comp" where
  "resume_frame_of e fid i =
     bind (get_flow_run fid) (\<lambda>row. case row of None \<Rightarrow> raise (not_found ''flow_run_not_found'') | Some r \<Rightarrow>
       if fr_user_id r \<noteq> fu_user_id i then raise (Service DomainConflict ''session_user_mismatch'')
       else bind (get_flow_context fid) (\<lambda>(session, tenant).
       bind (lift_res (normalize_resume_input e tenant i)) (\<lambda>i.
       bind (get_graph_state fid) (\<lambda>state.
         case state of None \<Rightarrow> raise (not_found ''graph_state_not_found'') | Some g \<Rightarrow>
       bind (get_flow_version (fr_flow_version_id r)) (\<lambda>version.
         case version of None \<Rightarrow> raise (not_found ''flow_version_not_found'') | Some v \<Rightarrow>
       bind (resume_policy e tenant (fv_flow_id v) r) (\<lambda>(graph, policy).
       bind (case graph of None \<Rightarrow> get_flow_graph_snapshot_by_flow_version (fv_id v) | Some x \<Rightarrow> ret (Some x)) (\<lambda>graph.
         case graph of None \<Rightarrow> raise (not_found ''flow_graph_snapshot_not_found'') | Some x \<Rightarrow>
       bind (plan_for e x) (\<lambda>plan.
         ret \<lparr>uf_run = r, uf_session_id = session, uf_tenant_id = tenant, uf_input = i, uf_graph_state = g,
           uf_version = v, uf_policy = policy, uf_plan = plan\<rparr>))))))))"

definition dump_resume_input :: "FlowRunResumeInput \<Rightarrow> pydict" where
  "dump_resume_input i = [(''user_id'', PStr (fu_user_id i)), (''user_input'', opt_str (fu_user_input i)),
     (''input_parts'', PNone)]"

definition resume_trace_id :: "string option \<Rightarrow> uuid option \<Rightarrow> (db, uuid) comp" where
  "resume_trace_id trace_id known =
     (case trace_id of
        Some t \<Rightarrow> if t = [] then or_new_uuid known else lift_res (parse_uuid t)
      | None \<Rightarrow> or_new_uuid known)"

text \<open>Up to the point where the run is marked as running: the interaction and the trace of the resumed run.\<close>

definition reopen_run :: "service_env \<Rightarrow> uuid \<Rightarrow> resume_request \<Rightarrow> resume_frame \<Rightarrow> (db, uuid \<times> uuid) comp" where
  "reopen_run e fid q f =
     bind (create_interaction (uf_session_id f) (uq_channel q)
            [(''resume_input'', PDict (dump_resume_input (uf_input f)))] (uq_headers q) []
            (uq_external_message_id q) (uq_request_id q) (uq_trace_id q)) (\<lambda>iid.
     bind (link_interaction_to_flow_run iid fid) (\<lambda>_.
     bind (resume_trace_id (uq_trace_id q) (fr_trace_id (uf_run f))) (\<lambda>trace.
     bind (observed fid (sv_trace_observation e fid)) (\<lambda>_.
     bind (set_flow_run_status fid (run_status R_RUNNING) (flow_status F_RUNNING)) (\<lambda>_. ret (iid, trace))))))"

definition reload_run :: "uuid \<Rightarrow> (db, FlowRun) comp" where
  "reload_run fid = bind (get_flow_run fid) (\<lambda>row.
     case row of None \<Rightarrow> raise (not_found ''flow_run_not_found'') | Some r \<Rightarrow> ret (from_model r None))"

definition resume_args :: "uuid \<Rightarrow> resume_frame \<Rightarrow> uuid \<Rightarrow> uuid \<Rightarrow> GraphStateSnapshot \<Rightarrow> run_args" where
  "resume_args fid f iid trace sp = \<lparr>xr_tenant_id = uf_tenant_id f, xr_interaction_id = iid,
     xr_session_id = uf_session_id f, xr_input_payload = dump_input (fu_user_input (uf_input f)),
     xr_flow_id = fv_flow_id (uf_version f), xr_flow_version_id = fv_id (uf_version f), xr_flow_run_id = fid,
     xr_correlation_id = fr_correlation_id (uf_run f), xr_trace_id = Some trace, xr_plan = uf_plan f,
     xr_policy = Some (rq_definition (uf_policy f)), xr_trace_user_id = Some (fu_user_id (uf_input f)),
     xr_start_node_id = resume_node sp, xr_initial_state = Some (sp_state sp),
     xr_initial_memory = Some (sp_memory sp)\<rparr>"

definition resume_dispatch :: "string \<Rightarrow> uuid \<Rightarrow> resume_frame \<Rightarrow> uuid \<Rightarrow> uuid \<Rightarrow> GraphStateSnapshot \<Rightarrow> int \<Rightarrow> dispatch_request" where
  "resume_dispatch channel fid f iid trace sp turn_index = \<lparr>dq_flow_run_id = fid, dq_tenant_id = uf_tenant_id f,
     dq_session_id = uf_session_id f, dq_user_id = fu_user_id (uf_input f), dq_flow_id = fv_flow_id (uf_version f),
     dq_flow_version_id = fv_id (uf_version f), dq_interaction_id = iid,
     dq_correlation_id = fr_correlation_id (uf_run f), dq_trace_id = Some trace, dq_root_observation_id = None,
     dq_start_node_id = resume_node sp, dq_channel = channel, dq_idempotency_key = None,
     dq_run_timeout_ms = None, dq_turn_index = turn_index\<rparr>"

definition resume_run :: "service_env \<Rightarrow> uuid \<Rightarrow> string \<Rightarrow> resume_frame \<Rightarrow> uuid \<Rightarrow> uuid \<Rightarrow> GraphStateSnapshot \<Rightarrow> (db, FlowRun) comp" where
  "resume_run e fid channel f iid trace sp =
     (if sv_temporal_enabled e
      then bind (set_flow_run_input fid (dump_input (fu_user_input (uf_input f)))) (\<lambda>_.
        bind (next_flow_run_turn_index fid) (\<lambda>turn_index.
        bind (dispatch_flow_run e (resume_dispatch channel fid f iid trace sp turn_index) True) (\<lambda>_.
          reload_run fid)))
      else bind (start_event_batching fid) (\<lambda>_.
        with_finally (bind (run (sv_runtime e) (resume_args fid f iid trace sp)) (\<lambda>_. reload_run fid))
          (end_event_batching fid)))"

definition svc_resume_flow_run ::
    "service_env \<Rightarrow> uuid \<Rightarrow> FlowRunResumeInput option \<Rightarrow> resume_request \<Rightarrow> (db, FlowRun) comp" where
  "svc_resume_flow_run e fid input_payload q =
     (case input_payload of
        None \<Rightarrow> raise (domain_validation ''user_id_required'')
      | Some i \<Rightarrow> bind (resume_frame_of e fid i) (\<lambda>f.
          bind (reopen_run e fid q f) (\<lambda>(iid, trace).
          bind (lift_res (load_snapshot (uf_graph_state f))) (\<lambda>sp.
            resume_run e fid (uq_channel q) f iid trace sp))))"

subsection \<open>Agent runs\<close>

record AgentRunCreate =
  ac_node_run_id :: uuid
  ac_agent_version_id :: uuid
  ac_correlation_id :: "uuid option"
  ac_input :: pydict

definition service_event :: "uuid \<Rightarrow> uuid \<Rightarrow> ExecutionEventType \<Rightarrow> pydict \<Rightarrow> uuid \<Rightarrow> event_args" where
  "service_event tenant session t payload correlation_id = \<lparr>ea_tenant_id = tenant, ea_user_id = None,
     ea_session_id = session, ea_type = event_type_value t, ea_payload = payload,
     ea_correlation_id = correlation_id, ea_causation_id = None, ea_schema_version = 1, ea_node_id = None,
     ea_edge_id = None\<rparr>"

text \<open>A refused run is recorded as an event of its flow run before the refusal is passed on.\<close>

definition within_limits :: "(db, unit) comp \<Rightarrow> uuid \<Rightarrow> uuid \<Rightarrow> string \<Rightarrow> uuid option \<Rightarrow> (db, unit) comp" where
  "within_limits check tenant fid action correlation_id =
     catch check (\<lambda>x. case x of
         Service service_kind.LimitExceeded message \<Rightarrow>
           bind (get_flow_run fid) (\<lambda>row.
             case row of
               None \<Rightarrow> raise x
             | Some r \<Rightarrow> bind (or_new_uuid correlation_id) (\<lambda>corr.
                 bind (append_execution_event (Some fid) (service_event tenant (fr_session_id r)
                   ExecutionEventType.LimitExceeded [(''action'', PStr action), (''message'', PStr message)] corr))
                 (\<lambda>_. raise x)))
       | _ \<Rightarrow> raise x)"

definition usable_agent_version :: "uuid \<Rightarrow> (db, agent_version) comp" where
  "usable_agent_version vid =
     bind (get_agent_version vid) (\<lambda>row.
       case row of
         None \<Rightarrow> raise (not_found ''agent_version_not_found'')
       | Some v \<Rightarrow>
           if av_status v \<noteq> ''PUBLISHED'' then raise (blocked ''agent_version_blocked'')
           else bind (get_active_agent_version_id (av_agent_id v)) (\<lambda>active.
             if active \<noteq> Some vid then raise (blocked ''agent_version_not_active'') else ret v))"

definition usable_ai_policy :: "agent_version \<Rightarrow> (db, uuid \<times> ai_policy_version) comp" where
  "usable_ai_policy v =
     (case av_ai_execution_policy_version_id v of
        None \<Rightarrow> raise (blocked ''ai_execution_policy_not_active'')
      | Some pid \<Rightarrow> bind (get_ai_execution_policy_version pid) (\<lambda>row.
          case row of
            None \<Rightarrow> raise (not_found ''ai_execution_policy_version_not_found'')
          | Some p \<Rightarrow> if pv_status p \<noteq> ''PUBLISHED'' then raise (blocked ''ai_execution_policy_blocked'')
              else ret (pid, p)))"

definition rag_not_allowed :: exn where
  "rag_not_allowed = Service RagNotAllowed ''rag_not_allowed_for_task''"

definition check_rag :: "uuid \<Rightarrow> node_row \<Rightarrow> uuid option \<Rightarrow> (db, unit) comp" where
  "check_rag tenant node effective =
     (case effective of
        None \<Rightarrow> ret ()
      | Some rid \<Rightarrow> bind (get_rag_config rid) (\<lambda>row.
          case row of
            None \<Rightarrow> raise rag_not_allowed
          | Some rc \<Rightarrow>
              if rc_tenant_id rc \<noteq> tenant then raise rag_not_allowed
              else if rc_corpus_kind rc \<in> {''TENANT_KNOWLEDGE'', ''TOOL_CATALOG''}
                then (if no_allow_rag_tenant node then ret () else raise rag_not_allowed)
              else if rc_corpus_kind rc = ''USER_MEMORY''
                then (if no_allow_user_memory_structured node \<or> no_allow_user_memory_vector node
                      then ret () else raise rag_not_allowed)
              else ret ()))"

definition active_billing :: "uuid \<Rightarrow> (db, uuid) comp" where
  "active_billing tenant = bind (get_active_billing_policy_version_id tenant) (\<lambda>row.
     case row of None \<Rightarrow> raise (blocked ''billing_policy_not_active'') | Some b \<Rightarrow> ret b)"

definition prompt_hash :: "agent_version \<Rightarrow> string option" where
  "prompt_hash v = (let base = py_strip (case av_system_prompt v of None \<Rightarrow> [] | Some p \<Rightarrow> p) in
     if base = [] then None else Some (sha256_hex base))"

definition agent_snapshot :: "node_row \<Rightarrow> uuid option \<Rightarrow> uuid \<Rightarrow> uuid \<Rightarrow> uuid \<Rightarrow> pydict" where
  "agent_snapshot node effective version_id policy_id model_id = [
     (''node_id'', PStr (uuid_str (no_id node))), (''node_prompt_id'', PStr (uuid_str (no_node_prompt_id node))),
     (''allow_rag_tenant'', PBool (no_allow_rag_tenant node)),
     (''allow_user_memory_structured'', PBool (no_allow_user_memory_structured node)),
     (''allow_user_memory_vector'', PBool (no_allow_user_memory_vector node)),
     (''rag_config_id'', opt_uuid (no_rag_config_id node)), (''effective_rag_config_id'', opt_uuid effective),
     (''allow_session_context'', PBool (no_allow_session_context node)),
     (''allow_memory_write'', PBool (no_allow_memory_write node)),
     (''agent_version_id'', PStr (uuid_str version_id)),
     (''ai_execution_policy_version_id'', PStr (uuid_str policy_id)), (''model_id'', PStr (uuid_str model_id))]"

record agent_frame =
  af_tenant_id :: uuid
  af_create :: AgentRunCreate
  af_node_run :: node_run
  af_policy_id :: uuid
  af_model :: "string option"
  af_billing :: uuid
  af_prompt_hash :: "string option"
  af_snapshot :: pydict
  af_snapshot_hash :: string

text \<open>The checks before the idempotency key is looked at.\<close>

definition agent_frame_of :: "service_env \<Rightarrow> uuid \<Rightarrow> AgentRunCreate \<Rightarrow> (db, agent_frame) comp" where
  "agent_frame_of e tenant c =
     bind (get_node_run (ac_node_run_id c)) (\<lambda>row. case row of None \<Rightarrow> raise (not_found ''node_run_not_found'') | Some nr \<Rightarrow>
     bind (within_limits (assert_can_create_agent_run tenant (nr_flow_run_id nr)) tenant (nr_flow_run_id nr)
            ''agent_run:create'' (ac_correlation_id c)) (\<lambda>_.
     bind (get_node (nr_node_id nr)) (\<lambda>row. case row of None \<Rightarrow> raise (not_found ''node_not_found'') | Some node \<Rightarrow>
     bind (usable_agent_version (ac_agent_version_id c)) (\<lambda>v.
     bind (usable_ai_policy v) (\<lambda>(policy_id, policy).
     bind (get_model (pv_model_id policy)) (\<lambda>model.
       let effective = (case no_rag_config_id node of Some r \<Rightarrow> Some r | None \<Rightarrow> av_rag_config_id v);
           snap = agent_snapshot node effective (ac_agent_version_id c) policy_id (pv_model_id policy) in
     bind (check_rag tenant node effective) (\<lambda>_.
     bind (active_billing tenant) (\<lambda>billing.
     bind (lift_res (hash_dict (sv_float_repr e) snap)) (\<lambda>snap_hash.
       ret \<lparr>af_tenant_id = tenant, af_create = c, af_node_run = nr, af_policy_id = policy_id,
         af_model = map_option mo_name model, af_billing = billing, af_prompt_hash = prompt_hash v,
         af_snapshot = snap, af_snapshot_hash = snap_hash\<rparr>)))))))))"

definition created_agent_run :: "agent_frame \<Rightarrow> uuid \<Rightarrow> uuid \<Rightarrow> AgentRun" where
  "created_agent_run f correlation_id aid = \<lparr>aw_id = aid, aw_node_run_id = ac_node_run_id (af_create f),
     aw_agent_version_id = ac_agent_version_id (af_create f), aw_billing_policy_version_id = Some (af_billing f),
     aw_model = af_model f, aw_input_tokens = None, aw_output_tokens = None, aw_estimated_cost = None,
     aw_status = run_status R_CREATED, aw_canonical_status = agent_status A_CREATED,
     aw_correlation_id = correlation_id, aw_started_at = None, aw_finished_at = None,
     aw_input = ac_input (af_create f), aw_output = [], aw_error = [], aw_system_prompt_hash = af_prompt_hash f,
     aw_runtime_snapshot = af_snapshot f, aw_runtime_snapshot_hash = Some (af_snapshot_hash f)\<rparr>"

definition agent_started_payload :: "agent_frame \<Rightarrow> uuid \<Rightarrow> pydict" where
  "agent_started_payload f aid = [(''agent_run_id'', PStr (uuid_str aid)),
     (''node_run_id'', PStr (uuid_str (ac_node_run_id (af_create f)))),
     (''agent_version_id'', PStr (uuid_str (ac_agent_version_id (af_create f)))),
     (''policy_version_id'', PStr (uuid_str (af_policy_id f))),
     (''billing_policy_version_id'', PStr (uuid_str (af_billing f))), (''model'', opt_str (af_model f)),
     (''runtime_snapshot_hash'', PStr (af_snapshot_hash f))]"

definition start_agent_run :: "int \<Rightarrow> string \<Rightarrow> agent_frame \<Rightarrow> (db, AgentRun) comp" where
  "start_agent_run ttl key f =
     (let c = af_create f; fid = nr_flow_run_id (af_node_run f) in
      bind (or_new_uuid (ac_correlation_id c)) (\<lambda>correlation_id.
      bind (create_agent_run \<lparr>aa_tenant_id = af_tenant_id f, aa_node_run_id = ac_node_run_id c,
             aa_agent_version_id = ac_agent_version_id c, aa_correlation_id = correlation_id,
             aa_input = ac_input c, aa_model = af_model f, aa_billing_policy_version_id = Some (af_billing f),
             aa_system_prompt_hash = af_prompt_hash f, aa_runtime_snapshot = Some (af_snapshot f),
             aa_runtime_snapshot_hash = Some (af_snapshot_hash f), aa_policy_version_id = None,
             aa_status = agent_status A_CREATED, aa_canonical_status = agent_status A_CREATED\<rparr>) (\<lambda>aid.
      bind (get_flow_run fid) (\<lambda>row. case row of None \<Rightarrow> raise (not_found ''flow_run_not_found'') | Some r \<Rightarrow>
      bind (append_execution_event (Some fid) (service_event (af_tenant_id f) (fr_session_id r) AgentRunStarted
             (agent_started_payload f aid) correlation_id)) (\<lambda>_.
        let response = created_agent_run f correlation_id aid in
        bind (set_result ttl key (AgentRunResponse response)) (\<lambda>_. ret response))))))"

definition agent_run_of_response :: "response \<Rightarrow> exn + AgentRun" where
  "agent_run_of_response r = (case r of AgentRunResponse a \<Rightarrow> Inr a | _ \<Rightarrow> Inl ValidationError)"

definition svc_create_agent_run ::
    "service_env \<Rightarrow> uuid \<Rightarrow> string \<Rightarrow> string \<Rightarrow> AgentRunCreate \<Rightarrow> (db, AgentRun) comp" where
  "svc_create_agent_run e tenant endpoint idempotency_key c =
     bind (agent_frame_of e tenant c) (\<lambda>f.
       let key = build_key tenant endpoint idempotency_key in
       bind (begin_request (sv_idempotency_ttl e) key) (\<lambda>prior.
         case prior of
           Some r \<Rightarrow> lift_res (agent_run_of_response r)
         | None \<Rightarrow> start_agent_run (sv_idempotency_ttl e) key f))"

text \<open>
  Completing an agent run.  \<open>schema\<close> is the output model of the caller, if any: the validation errors or the
  dump of the validated output.  \<open>metrics\<close> holds the tokens and the cost the caller reports.
\<close>

record agent_metrics =
  am_input_tokens :: "int option"
  am_output_tokens :: "int option"
  am_estimated_cost :: "rat option"

definition no_metrics :: agent_metrics where
  "no_metrics = \<lparr>am_input_tokens = None, am_output_tokens = None, am_estimated_cost = None\<rparr>"

definition opt_int :: "int option \<Rightarrow> pyval" where
  "opt_int i = (case i of None \<Rightarrow> PNone | Some n \<Rightarrow> PInt n)"

definition opt_float :: "rat option \<Rightarrow> pyval" where
  "opt_float x = (case x of None \<Rightarrow> PNone | Some r \<Rightarrow> PFloat r)"

definition policy_version_entry :: "service_env \<Rightarrow> agent_run \<Rightarrow> pyval" where
  "policy_version_entry e a = PStr (py_str (rt_repr (sv_runtime e))
     (dict_get (ar_runtime_snapshot a) ''ai_execution_policy_version_id'' PNone))"

definition agent_node_run :: "agent_run \<Rightarrow> (db, node_run option) comp" where
  "agent_node_run a = (case ar_node_run_id a of None \<Rightarrow> ret None | Some n \<Rightarrow> get_node_run n)"

definition agent_event :: "agent_run \<Rightarrow> node_run option \<Rightarrow> ExecutionEventType \<Rightarrow> pydict \<Rightarrow> (db, unit) comp" where
  "agent_event a node_run t payload =
     (case node_run of
        None \<Rightarrow> raise (domain_validation ''node_run_not_found'')
      | Some nr \<Rightarrow> bind (get_flow_context (nr_flow_run_id nr)) (\<lambda>(session, tenant).
          bind (append_execution_event (Some (nr_flow_run_id nr))
                 (service_event tenant session t payload (ar_correlation_id a))) (\<lambda>_. ret ())))"

definition reject_output :: "service_env \<Rightarrow> agent_run \<Rightarrow> node_run option \<Rightarrow> pyval \<Rightarrow> (db, AgentRun) comp" where
  "reject_output e a node_run errors =
     bind (agent_event a node_run AgentRunFailed [(''agent_run_id'', PStr (uuid_str (ar_id a))),
            (''policy_version_id'', policy_version_entry e a), (''tokens_input'', PNone), (''tokens_output'', PNone),
            (''cost_estimated'', PNone), (''error_class'', PStr ''validation''), (''errors'', errors)]) (\<lambda>_.
     bind (update_agent_run_result (ar_id a) (run_status R_FAILED) (agent_status A_FAILED) (Some [])
            (Some [(''validation_errors'', errors)]) None None None) (\<lambda>_.
       raise (Service AIOutputValidation ''ai_output_validation_failed'')))"

definition completed_agent_run :: "agent_run \<Rightarrow> uuid \<Rightarrow> pydict \<Rightarrow> agent_metrics \<Rightarrow> string option \<Rightarrow> AgentRun" where
  "completed_agent_run a nid output m started_at = \<lparr>aw_id = ar_id a, aw_node_run_id = nid,
     aw_agent_version_id = ar_agent_version_id a, aw_billing_policy_version_id = None, aw_model = ar_model a,
     aw_input_tokens = am_input_tokens m, aw_output_tokens = am_output_tokens m,
     aw_estimated_cost = am_estimated_cost m, aw_status = run_status R_COMPLETED,
     aw_canonical_status = agent_status A_COMPLETED, aw_correlation_id = ar_correlation_id a,
     aw_started_at = started_at, aw_finished_at = None, aw_input = ar_input a, aw_output = output, aw_error = [],
     aw_system_prompt_hash = None, aw_runtime_snapshot = ar_runtime_snapshot a,
     aw_runtime_snapshot_hash = ar_runtime_snapshot_hash a\<rparr>"

definition accept_output ::
    "service_env \<Rightarrow> agent_run \<Rightarrow> node_run option \<Rightarrow> pydict \<Rightarrow> pydict \<Rightarrow> agent_metrics \<Rightarrow> (db, AgentRun) comp" where
  "accept_output e a node_run raw output m =
     bind (update_agent_run_result (ar_id a) (run_status R_COMPLETED) (agent_status A_COMPLETED) (Some output)
            (Some []) (am_input_tokens m) (am_output_tokens m) (am_estimated_cost m)) (\<lambda>_.
     bind (agent_event a node_run AgentRunCompleted [(''agent_run_id'', PStr (uuid_str (ar_id a))),
            (''agent_version_id'', PStr (uuid_str (ar_agent_version_id a))),
            (''policy_version_id'', policy_version_entry e a), (''model'', opt_str (ar_model a)),
            (''tokens_input'', opt_int (am_input_tokens m)), (''tokens_output'', opt_int (am_output_tokens m)),
            (''cost_estimated'', opt_float (am_estimated_cost m)),
            (''runtime_snapshot_hash'', opt_str (ar_runtime_snapshot_hash a))]) (\<lambda>_.
     bind (lift_res (str_field raw ''started_at'')) (\<lambda>started_at.
       case ar_node_run_id a of
         None \<Rightarrow> raise ValidationError
       | Some nid \<Rightarrow> ret (completed_agent_run a nid output m started_at))))"

definition svc_complete_agent_run ::
    "service_env \<Rightarrow> uuid \<Rightarrow> pydict \<Rightarrow> (pydict \<Rightarrow> pyval + pydict) option \<Rightarrow> agent_metrics option \<Rightarrow> (db, AgentRun) comp" where
  "svc_complete_agent_run e aid raw schema metrics =
     bind (get_agent_run aid) (\<lambda>row.
       case row of
         None \<Rightarrow> raise (not_found ''agent_run_not_found'')
       | Some a \<Rightarrow> bind (agent_node_run a) (\<lambda>node_run.
           case (case schema of None \<Rightarrow> Inr raw | Some validate \<Rightarrow> validate raw) of
             Inl errors \<Rightarrow> reject_output e a node_run errors
           | Inr output \<Rightarrow> accept_output e a node_run raw output (case metrics of None \<Rightarrow> no_metrics | Some m \<Rightarrow> m)))"

subsection \<open>Tool runs\<close>

record ToolRunCreate =
  tq_tool_config_id :: uuid
  tq_agent_run_id :: "uuid option"
  tq_node_run_id :: "uuid option"
  tq_correlation_id :: "uuid option"
  tq_input :: pydict
  tq_has_side_effect :: bool

text \<open>The node run whose flow run is charged with the tool run.\<close>

definition tool_parent :: "ToolRunCreate \<Rightarrow> (db, node_run) comp" where
  "tool_parent c =
     bind (case tq_node_run_id c of
             Some n \<Rightarrow> get_node_run n
           | None \<Rightarrow> (case tq_agent_run_id c of
               None \<Rightarrow> raise (domain_validation ''tool_run_missing_parent'')
             | Some a \<Rightarrow> bind (get_agent_run a) (\<lambda>ar. case ar of
                   None \<Rightarrow> raise (not_found ''agent_run_not_found'') | Some ar \<Rightarrow> agent_node_run ar))) (\<lambda>row.
       case row of None \<Rightarrow> raise (not_found ''node_run_not_found'') | Some nr \<Rightarrow> ret nr)"

definition check_compatible :: "agent_version \<Rightarrow> tool_config \<Rightarrow> exn + unit" where
  "check_compatible v t =
     (if av_supported_tool_schema_version v \<noteq> None \<and> tc_schema_version t \<noteq> None
         \<and> av_supported_tool_schema_version v \<noteq> tc_schema_version t
      then Inl (Service SchemaIncompatible ''tool_config_schema_incompatible'')
      else case (av_supported_tool_config_hash_prefix v, tc_config_hash t) of
        (Some p, Some h) \<Rightarrow>
          if p \<noteq> [] \<and> h \<noteq> [] \<and> \<not> prefix p h
          then Inl (Service HashIncompatible ''tool_config_hash_incompatible'') else Inr ()
      | _ \<Rightarrow> Inr ())"

definition check_agent_tool :: "uuid option \<Rightarrow> tool_config \<Rightarrow> (db, unit) comp" where
  "check_agent_tool aid t =
     (case aid of
        None \<Rightarrow> ret ()
      | Some a \<Rightarrow> bind (get_agent_run a) (\<lambda>ar. case ar of None \<Rightarrow> raise (not_found ''agent_run_not_found'') | Some ar \<Rightarrow>
          bind (get_agent_version (ar_agent_version_id ar)) (\<lambda>v.
            case v of None \<Rightarrow> raise (not_found ''agent_version_not_found'')
                    | Some v \<Rightarrow> lift_res (check_compatible v t))))"

definition tool_checks :: "uuid \<Rightarrow> ToolRunCreate \<Rightarrow> (db, uuid) comp" where
  "tool_checks tenant c =
     (if tq_node_run_id c = None \<and> tq_agent_run_id c = None
      then raise (domain_validation ''tool_run_missing_parent'')
      else bind (active_billing tenant) (\<lambda>billing.
        bind (tool_parent c) (\<lambda>nr.
        bind (within_limits (assert_can_create_tool_run tenant (nr_flow_run_id nr)) tenant (nr_flow_run_id nr)
               ''tool_run:create'' (tq_correlation_id c)) (\<lambda>_.
        bind (get_tool_config (tq_tool_config_id c)) (\<lambda>row.
          case row of
            None \<Rightarrow> raise (not_found ''tool_config_not_found'')
          | Some t \<Rightarrow> if tc_status t \<noteq> ''PUBLISHED'' then raise (blocked ''tool_config_blocked'')
              else bind (check_agent_tool (tq_agent_run_id c) t) (\<lambda>_. ret billing))))))"

definition created_tool_run :: "ToolRunCreate \<Rightarrow> string \<Rightarrow> uuid \<Rightarrow> uuid \<Rightarrow> uuid \<Rightarrow> ToolRun" where
  "created_tool_run c idempotency_key billing correlation_id tid = \<lparr>tw_id = tid,
     tw_tool_config_id = tq_tool_config_id c, tw_agent_run_id = tq_agent_run_id c, tw_node_run_id = tq_node_run_id c,
     tw_status = run_status R_CREATED, tw_canonical_status = tool_status T_CREATED,
     tw_correlation_id = correlation_id, tw_finished_at = None, tw_input = tq_input c, tw_output = [], tw_error = [],
     tw_idempotency_key = Some idempotency_key, tw_has_side_effect = tq_has_side_effect c,
     tw_estimated_cost = None, tw_billing_policy_version_id = Some billing\<rparr>"

definition start_tool_run :: "int \<Rightarrow> string \<Rightarrow> uuid \<Rightarrow> string \<Rightarrow> uuid \<Rightarrow> ToolRunCreate \<Rightarrow> (db, ToolRun) comp" where
  "start_tool_run ttl key tenant idempotency_key billing c =
     bind (or_new_uuid (tq_correlation_id c)) (\<lambda>correlation_id.
     bind (create_tool_run (tq_tool_config_id c) correlation_id (tq_agent_run_id c) (tq_node_run_id c)
            (Some idempotency_key) (tq_has_side_effect c) (tq_input c) None (Some billing) None) (\<lambda>tid.
     bind (get_flow_run_id_for_tool_run tid) (\<lambda>fid.
     bind (get_flow_run fid) (\<lambda>row. case row of None \<Rightarrow> raise (not_found ''flow_run_not_found'') | Some r \<Rightarrow>
     bind (append_execution_event (Some fid) (service_event tenant (fr_session_id r) ToolInvocationRequested
            [(''tool_run_id'', PStr (uuid_str tid)), (''tool_config_id'', PStr (uuid_str (tq_tool_config_id c))),
             (''executor_type'', PStr ''http'')] correlation_id)) (\<lambda>_.
       let response = created_tool_run c idempotency_key billing correlation_id tid in
       bind (set_result ttl key (ToolRunResponse response)) (\<lambda>_. ret response))))))"

definition tool_run_of_response :: "response \<Rightarrow> exn + ToolRun" where
  "tool_run_of_response r = (case r of ToolRunResponse t \<Rightarrow> Inr t | _ \<Rightarrow> Inl ValidationError)"

definition svc_create_tool_run ::
    "service_env \<Rightarrow> uuid \<Rightarrow> string \<Rightarrow> string \<Rightarrow> ToolRunCreate \<Rightarrow> (db, ToolRun) comp" where
  "svc_create_tool_run e tenant endpoint idempotency_key c =
     bind (tool_checks tenant c) (\<lambda>billing.
       let key = build_key tenant endpoint idempotency_key in
       bind (begin_request (sv_idempotency_ttl e) key) (\<lambda>prior.
         case prior of
           Some r \<Rightarrow> lift_res (tool_run_of_response r)
         | None \<Rightarrow> start_tool_run (sv_idempotency_ttl e) key tenant idempotency_key billing c))"

subsection \<open>Reads\<close>

definition failure_reason_values :: "string list" where
  "failure_reason_values = [''POLICY_VIOLATION'', ''TIMEOUT'', ''STRUCTURAL_ERROR'', ''CIRCUIT_BREAKER_OPEN'',
     ''MISSING_GRAPH'', ''MAX_STEPS_EXCEEDED'', ''NODE_NOT_FOUND'', ''UNKNOWN_NODE_TYPE'', ''NO_MATCHING_EDGE'',
     ''EDGE_EVALUATION_ERROR'', ''MULTIPLE_MATCHING_EDGES'']"

definition failure_reason_of :: "execution_event list \<Rightarrow> string option" where
  "failure_reason_of evs =
     (case List.find (\<lambda>x. ev_type x = event_type_value FlowFailed) (rev evs) of
        None \<Rightarrow> None
      | Some x \<Rightarrow> (case dict_get (ev_payload x) ''reason'' PNone of
          PStr r \<Rightarrow> if r \<in> set failure_reason_values then Some r else None
        | _ \<Rightarrow> None))"

text \<open>
  The signature of the repository's \<open>list_execution_events\<close>: \<open>tenant_id\<close> is a keyword argument without a
  default, so a call that leaves it out raises \<open>TypeError\<close> before the body runs.
\<close>

definition call_list_execution_events ::
    "uuid option \<Rightarrow> uuid option \<Rightarrow> uuid option \<Rightarrow> int \<Rightarrow> (db, execution_event list) comp" where
  "call_list_execution_events tenant_arg fid correlation_id lmt =
     (case tenant_arg of
        None \<Rightarrow> raise (Py TypeError)
      | Some tenant \<Rightarrow> list_execution_events tenant fid correlation_id lmt)"

definition svc_get_flow_run :: "string \<Rightarrow> (db, FlowRun) comp" where
  "svc_get_flow_run flow_run_id =
     bind (lift_res (parse_uuid flow_run_id)) (\<lambda>fid.
     bind (get_flow_run fid) (\<lambda>row. case row of None \<Rightarrow> raise (not_found ''flow_run_not_found'') | Some r \<Rightarrow>
     bind (call_list_execution_events None (Some fid) None 200) (\<lambda>evs.
       ret (from_model r (failure_reason_of evs)))))"

text \<open>The schema \<open>GraphState\<close> without the row's own id.\<close>

definition svc_get_graph_state :: "string \<Rightarrow> (db, graph_state) comp" where
  "svc_get_graph_state flow_run_id =
     bind (lift_res (parse_uuid flow_run_id)) (\<lambda>fid.
     bind (get_flow_run fid) (\<lambda>row. case row of None \<Rightarrow> raise (not_found ''flow_run_not_found'') | Some r \<Rightarrow>
     bind (get_graph_state fid) (\<lambda>g.
       case g of None \<Rightarrow> raise (not_found ''graph_state_not_found'') | Some g \<Rightarrow> ret g)))"

record NodeRun =
  nw_id :: uuid
  nw_flow_run_id :: uuid
  nw_node_id :: uuid
  nw_status :: string
  nw_canonical_status :: string
  nw_correlation_id :: uuid
  nw_finished_at :: "time option"
  nw_input :: pydict
  nw_output :: pydict

definition node_run_schema :: "node_run \<Rightarrow> NodeRun" where
  "node_run_schema r = \<lparr>nw_id = nr_id r, nw_flow_run_id = nr_flow_run_id r, nw_node_id = nr_node_id r,
     nw_status = nr_status r, nw_canonical_status = nr_canonical_status r, nw_correlation_id = nr_correlation_id r,
     nw_finished_at = nr_finished_at r, nw_input = nr_input r, nw_output = nr_output r\<rparr>"

definition svc_list_node_runs :: "uuid \<Rightarrow> uuid option \<Rightarrow> int \<Rightarrow> (db, NodeRun list) comp" where
  "svc_list_node_runs tenant fid lmt =
     bind (list_node_runs tenant fid lmt) (\<lambda>rows. ret (map node_run_schema rows))"

definition agent_run_schema :: "agent_run \<Rightarrow> exn + AgentRun" where
  "agent_run_schema r = (case ar_node_run_id r of
       None \<Rightarrow> Inl ValidationError
     | Some nid \<Rightarrow> Inr \<lparr>aw_id = ar_id r, aw_node_run_id = nid, aw_agent_version_id = ar_agent_version_id r,
         aw_billing_policy_version_id = ar_billing_policy_version_id r, aw_model = ar_model r,
         aw_input_tokens = ar_input_tokens r, aw_output_tokens = ar_output_tokens r,
         aw_estimated_cost = ar_estimated_cost r, aw_status = ar_status r,
         aw_canonical_status = ar_canonical_status r, aw_correlation_id = ar_correlation_id r,
         aw_started_at = None, aw_finished_at = ar_finished_at r, aw_input = ar_input r, aw_output = ar_output r,
         aw_error = ar_error r, aw_system_prompt_hash = None, aw_runtime_snapshot = ar_runtime_snapshot r,
         aw_runtime_snapshot_hash = ar_runtime_snapshot_hash r\<rparr>)"

definition svc_list_agent_runs :: "uuid \<Rightarrow> uuid option \<Rightarrow> int \<Rightarrow> (db, AgentRun list) comp" where
  "svc_list_agent_runs tenant fid lmt =
     bind (list_agent_runs tenant fid lmt) (run_all (\<lambda>r. lift_res (agent_run_schema r)))"

text \<open>The event schema has a node and an edge, which the service does not fill in.\<close>

definition event_schema :: "execution_event \<Rightarrow> execution_event" where
  "event_schema x = x\<lparr>ev_node_id := None, ev_edge_id := None\<rparr>"

definition svc_list_execution_events ::
    "uuid \<Rightarrow> uuid option \<Rightarrow> uuid option \<Rightarrow> int \<Rightarrow> (db, execution_event list) comp" where
  "svc_list_execution_events tenant fid correlation_id lmt =
     bind (call_list_execution_events (Some tenant) fid correlation_id lmt) (\<lambda>evs. ret (map event_schema evs))"

end
