(* ===== verification/ServiceGuarantees.thy ===== *)
theory ServiceGuarantees
  imports ExecutionService PolicyAdmin
begin

text \<open>
  What the execution service guarantees and what it does not: idempotent requests, the guards of a new run,
  dispatched runs, resuming, the reads, and the normalized user input.
\<close>

subsection \<open>States and instances\<close>

text \<open>The idempotency keys, the server and the clock are as before.\<close>

definition same_keys :: "db \<Rightarrow> db \<Rightarrow> bool" where
  "same_keys s s' \<longleftrightarrow> rd_idempotency (redis_db s') = rd_idempotency (redis_db s) \<and>
     rd_up (redis_db s') = rd_up (redis_db s) \<and> rd_silent (redis_db s') = rd_silent (redis_db s) \<and>
     clock s' = clock s \<and> tracing s' = tracing s"

abbreviation in_progress :: exn where
  "in_progress \<equiv> Service IdempotencyInProgress ''Idempotent request in progress.''"

definition request_key :: "create_request \<Rightarrow> string" where
  "request_key q = build_key (cq_tenant_id q) (cq_endpoint q) (cq_idempotency_key q)"

text \<open>The server answers and the key holds the given entry, or no live one.\<close>

definition key_holds :: "string \<Rightarrow> idempotency_entry option \<Rightarrow> db \<Rightarrow> bool" where
  "key_holds key x s \<longleftrightarrow>
     rd_up (redis_db s) \<and> cache_lookup (clock s) (rd_idempotency (redis_db s)) key = x"

definition take_key :: "int \<Rightarrow> string \<Rightarrow> db \<Rightarrow> db" where
  "take_key ttl key s = s\<lparr>redis_db := rd_idempotency_update (cache_put (clock s) ttl key PROCESSING) (redis_db s)\<rparr>"

text \<open>The statuses of the rows of one run.\<close>

definition statuses_of :: "uuid \<Rightarrow> db \<Rightarrow> (string \<times> string) set" where
  "statuses_of fid s = (\<lambda>r. (fr_status r, fr_canonical_status r)) ` {r \<in> set (flow_runs s). fr_id r = fid}"

text \<open>The steps of \<open>reopen_run\<close> before the status is written keep the ids of the flow runs.\<close>

definition same_run_ids :: "db \<Rightarrow> db \<Rightarrow> bool" where
  "same_run_ids s s' \<longleftrightarrow> map fr_id (flow_runs s') = map fr_id (flow_runs s)"

text \<open>The stored and the buffered events are as before.\<close>

definition same_log :: "db \<Rightarrow> db \<Rightarrow> bool" where
  "same_log s s' \<longleftrightarrow> events s' = events s \<and> event_batch_buffer s' = event_batch_buffer s \<and>
     batching_flow_runs s' = batching_flow_runs s \<and> event_batch_size s' = event_batch_size s"

definition engine_quiet :: "workflow_engine \<Rightarrow> bool" where
  "engine_quiet w \<longleftrightarrow> (\<forall>a. keeps same_log (we_start_flow_run w a)) \<and> (\<forall>a. keeps same_log (we_start_resume_turn w a)) \<and>
     (\<forall>a n. keeps same_log (we_await_flow_run_turn w a n))"

definition demo_engine :: workflow_engine where
  "demo_engine = \<lparr>we_start_flow_run = (\<lambda>_. ret (''w'', ''r'')), we_start_resume_turn = (\<lambda>_. ret (''w'', ''r'')),
     we_await_flow_run_turn = (\<lambda>_ _. ret ())\<rparr>"

definition demo_service :: service_env where
  "demo_service = \<lparr>sv_runtime = demo_runtime, sv_hook = DbExecutionEventHook, sv_pydantic = demo_pydantic,
     sv_float_repr = (\<lambda>_. ''0.5''), sv_depth = 1000, sv_normalizer = None, sv_engine = Some demo_engine,
     sv_trace_observation = (\<lambda>_. None), sv_flow_observation = (\<lambda>_. None), sv_temporal_enabled = True,
     sv_legacy_contract = True, sv_idempotency_ttl = 3600, sv_run_timeout_ms = 1000, sv_turn_wait_ms = 1000,
     sv_moderation_model = ''omni''\<rparr>"

definition demo_cached_plan :: execution_plan where
  "demo_cached_plan = demo_step_plan ''IntentClassifier''"

definition demo_graph_row :: graph_snapshot_row where
  "demo_graph_row = \<lparr>sg_id = 12, sg_flow_version_id = 11, sg_graph_hash = ''h'',
     sg_snapshot = \<lparr>snap_start = None, snap_nodes = [], snap_edges = []\<rparr>\<rparr>"

definition demo_service_db :: db where
  "demo_service_db = empty_db\<lparr>config_db := empty_config\<lparr>
     flows := [\<lparr>fl_id = 10, fl_tenant_id = 2, fl_name = ''f''\<rparr>],
     flow_versions := [\<lparr>fv_id = 11, fv_flow_id = 10, fv_status = ''PUBLISHED'', fv_is_active = True\<rparr>],
     flow_graph_snapshots := [demo_graph_row]\<rparr>,
     redis_db := empty_redis\<lparr>rd_plan := [(''h'', demo_cached_plan, 300)]\<rparr>\<rparr>"

definition demo_create :: FlowRunCreate where
  "demo_create = \<lparr>fc_flow_id = Some 10, fc_flow_version_id = Some 11, fc_session_id = 30, fc_user_id = ''u'',
     fc_origin_flow_run_id = None, fc_correlation_id = Some 31, fc_input = Some (Some ''hi''), fc_input_parts = None,
     fc_metadata = []\<rparr>"

definition demo_request :: "string option \<Rightarrow> create_request" where
  "demo_request trace = \<lparr>cq_tenant_id = 2, cq_endpoint = ''/runs'', cq_idempotency_key = ''k'', cq_channel = ''http'',
     cq_headers = [], cq_external_message_id = None, cq_request_id = None, cq_trace_id = trace, cq_wait = False\<rparr>"

definition demo_stored_run :: "string \<Rightarrow> flow_run" where
  "demo_stored_run st = (new_flow_run demo_args 40 0)\<lparr>fr_flow_version_id := 11, fr_session_id := 30, fr_status := st,
     fr_canonical_status := st\<rparr>"

definition demo_resume_db :: db where
  "demo_resume_db = demo_service_db\<lparr>flow_runs := [demo_stored_run ''COMPLETED''],
     sessions := [\<lparr>sn_id = 30, sn_tenant_id = 2, sn_user_id = ''u''\<rparr>],
     graph_states := [\<lparr>gs_flow_run_id = 40, gs_last_node_run_id = None, gs_state = [(''current_node_id'', PInt 7)]\<rparr>]\<rparr>"

definition demo_resume_request :: resume_request where
  "demo_resume_request = \<lparr>uq_channel = ''http'', uq_headers = [], uq_external_message_id = None, uq_request_id = None,
     uq_trace_id = None\<rparr>"

definition demo_resume_input :: FlowRunResumeInput where
  "demo_resume_input = \<lparr>fu_user_id = ''u'', fu_user_input = None, fu_input_parts = None\<rparr>"

definition demo_frame :: run_frame where
  "demo_frame = \<lparr>rf_tenant_id = 2, rf_create = demo_create, rf_flow_id = 10, rf_flow_version_id = 11,
     rf_trace_id = 32, rf_interaction_id = 33, rf_correlation_id = 31, rf_origin = None, rf_snapshot = None,
     rf_contract = \<lparr>kt_graph = demo_graph_row, kt_flow_snapshot_id = None, kt_deployment_id = None,
       kt_policy = \<lparr>rq_source = DEFAULT_POLICY, rq_runtime_policy_id = None, rq_version = ''1'', rq_definition = [],
         rq_scope = ''TENANT'', rq_flow_id = None\<rparr>,
       kt_plan_hash = ''h'', kt_policy_hash = ''p'', kt_catalog_hash = ''c'', kt_llm_hash = None\<rparr>\<rparr>"

definition demo_response :: FlowRun where
  "demo_response = created_response demo_frame 40"

definition demo_replay_db :: db where
  "demo_replay_db = demo_service_db\<lparr>redis_db := empty_redis\<lparr>rd_idempotency :=
     [(request_key (demo_request None), RESPONSE (FlowRunResponse demo_response), 50)]\<rparr>\<rparr>"


interpretation keys: kept_relation same_keys
  by unfold_locales (auto simp: same_keys_def reflp_def transp_def)

interpretation redis: kept_relation only_redis
  by unfold_locales (rule only_redis_refl, rule only_redis_trans)

lemma same_keysI:
  "redis_db s' = redis_db s \<Longrightarrow> clock s' = clock s \<Longrightarrow> tracing s' = tracing s \<Longrightarrow> same_keys s s'"
  by (simp add: same_keys_def)

lemma cached_read_same_keys:
  assumes "\<And>f r. rd_idempotency (upd f r) = rd_idempotency r" "\<And>f r. rd_up (upd f r) = rd_up r"
    "\<And>f r. rd_silent (upd f r) = rd_silent r"
  shows "keeps same_keys (cached_read space upd ttl fetch i)"
  unfolding keeps_def
proof
  fix s
  let ?f = "cached_read space upd ttl fetch i s"
  have put: "same_keys s (s\<lparr>redis_db := upd f (redis_db s)\<rparr>)" for f
    by (simp add: same_keys_def assms)
  have same: "same_keys s s" by (simp add: same_keys_def)
  show "same_keys s (snd ?f)"
    unfolding cached_read_eq
    by (cases "if rd_up (redis_db s) then cache_lookup (clock s) (space (redis_db s)) i else None";
        cases "fetch i s"; cases "projr (fetch i s)") (simp_all only: snd_conv if_split option.case sum.case sum.sel, simp_all add: put same)
qed

lemma reads_same_keys:
  "keeps same_keys (get_flow_version i)" "keeps same_keys (get_active_flow_version_id i)"
  "keeps same_keys (get_flow_graph_snapshot_by_flow_version i)"
  unfolding get_flow_version_def get_active_flow_version_id_def get_flow_graph_snapshot_by_flow_version_def
  by (rule cached_read_same_keys; simp)+

lemma reads_only_redis:
  "keeps only_redis (get_flow_version i)" "keeps only_redis (get_active_flow_version_id i)"
  unfolding get_flow_version_def get_active_flow_version_id_def
  by (rule flow_version_cache.read_only_redis, rule active_flow_cache.read_only_redis)

lemma direct_reads_pure:
  "snd (get_flow i s) = s" "snd (get_flow_graph_snapshot i s) = s" "snd (get_flow_snapshot_by_id i s) = s"
  "snd (get_flow_snapshot_by_flow_version i s) = s" "snd (get_active_flow_deployment i env s) = s"
  "snd (get_flow_run i s) = s" "snd (get_session i s) = s"
  "snd (get_latest_waiting_flow_run_id i corr v u s) = s"
  by (simp_all add: get_flow_def get_flow_graph_snapshot_def get_flow_snapshot_by_id_def
      get_flow_snapshot_by_flow_version_def get_active_flow_deployment_def get_flow_run_def get_session_def
      get_latest_waiting_flow_run_id_def get_def)

lemma select_flow_same_keys: "keeps same_keys (select_flow tenant c)"
  unfolding select_flow_def requested_flow_def
  by (intro keys.steps reads_same_keys keys.step_pure direct_reads_pure)

lemma select_flow_only_redis: "keeps only_redis (select_flow tenant c)"
  unfolding select_flow_def requested_flow_def
  by (intro redis.steps reads_only_redis redis.step_pure direct_reads_pure)

subsection \<open>Idempotency\<close>

lemma key_holds_same_keys: "same_keys s t \<Longrightarrow> key_holds key x t = key_holds key x s"
  by (simp add: same_keys_def key_holds_def)

lemma take_key_holds: "rd_up (redis_db s) \<Longrightarrow> 0 < ttl \<Longrightarrow> key_holds key (Some PROCESSING) (take_key ttl key s)"
  by (simp add: key_holds_def take_key_def)

lemma begin_request_free:
  "key_holds key None s \<Longrightarrow> begin_request ttl key s =
     (if tracing s then Inr None else Inl (Py AttributeError), take_key ttl key s)"
  by (simp add: begin_request_def try_acquire_def set_if_not_exists_def silent_mode_wrapper_def key_holds_def
      take_key_def comp_simps)

lemma begin_request_held:
  "key_holds key (Some x) s \<Longrightarrow> begin_request ttl key s =
     (case x of PROCESSING \<Rightarrow> Inl in_progress | RESPONSE r \<Rightarrow> Inr (Some r), s)"
  by (cases x) (simp_all add: begin_request_def try_acquire_def set_if_not_exists_def silent_mode_wrapper_def
      key_holds_def idempotency_get_def redis_get_eq comp_simps)

lemma begin_request_down:
  "\<not> rd_up (redis_db s) \<Longrightarrow> begin_request ttl key s =
     (Inl (if rd_silent (redis_db s) then in_progress else ConnectionError), s)"
  by (simp add: begin_request_def try_acquire_def set_if_not_exists_def silent_mode_wrapper_def
      idempotency_get_def redis_get_eq comp_simps)

lemma begin_request_cases:
  obtains (down) x where "begin_request ttl key s = (Inl x, s)"
  | (free) "key_holds key None s"
  | (processing) "key_holds key (Some PROCESSING) s"
  | (response) r where "key_holds key (Some (RESPONSE r)) s"
proof (cases "rd_up (redis_db s)")
  case True
  show thesis
  proof (cases "cache_lookup (clock s) (rd_idempotency (redis_db s)) key")
    case None
    with True show thesis by (intro free) (simp add: key_holds_def)
  next
    case (Some x)
    with True show thesis
      by (cases x) (use processing response in \<open>simp_all add: key_holds_def\<close>)
  qed
qed (rule down [OF begin_request_down])

lemma set_result_holds:
  assumes "set_result ttl key r s = (Inr (), s')" and "0 < ttl" and "rd_up (redis_db s')"
  shows "key_holds key (Some (RESPONSE r)) s'"
proof (cases "rd_up (redis_db s)")
  case True
  then have "s' = s\<lparr>redis_db := rd_idempotency_update (cache_put (clock s) ttl key (RESPONSE r)) (redis_db s)\<rparr>"
    using assms(1) by (simp add: set_result_def redis_set_eq)
  with True assms(2) show ?thesis by (simp add: key_holds_def)
next
  case False
  then have "s' = s"
    using assms(1) by (simp add: set_result_def redis_set_eq split: if_splits)
  with False assms(3) show ?thesis by simp
qed

text \<open>The request after its selection.\<close>

lemma create_after_selection:
  assumes "select_flow (cq_tenant_id q) c s = (Inr (flow_id, v), t)"
  shows "svc_create_flow_run e q c s = bind (begin_request (sv_idempotency_ttl e) (request_key q)) (\<lambda>prior.
     case prior of
       Some r \<Rightarrow> lift_res (flow_run_of_response r)
     | None \<Rightarrow> bind (run_frame_of e q c flow_id v) (\<lambda>f. start_flow_run e q (request_key q) f)) t"
  unfolding svc_create_flow_run_def
  by (subst bind_step [where m = "select_flow (cq_tenant_id q) c" and s = s, OF assms]) (simp add: request_key_def Let_def)

lemma create_held:
  assumes "select_flow (cq_tenant_id q) c s = (Inr (flow_id, v), t)" and "key_holds (request_key q) (Some x) s"
  shows "svc_create_flow_run e q c s =
    (case x of PROCESSING \<Rightarrow> Inl in_progress | RESPONSE r \<Rightarrow> flow_run_of_response r, t)"
proof -
  have "key_holds (request_key q) (Some x) t"
    using assms(2) keepsD [OF select_flow_same_keys assms(1)] by (simp add: key_holds_same_keys)
  then show ?thesis
    unfolding create_after_selection [OF assms(1)]
    by (cases x) (simp_all add: bind_def begin_request_held lift_res_def)
qed

lemma store_writes_same_keys:
  "keeps same_keys new_uuid" "keeps same_keys (create_session sid tenant user)"
  "keeps same_keys (create_interaction sid ch payload headers md ext rid tid)"
  "keeps same_keys (acquire_flow_run_lock fid owner corr)" "keeps same_keys (get_graph_state fid)"
  unfolding create_session_def create_interaction_def acquire_flow_run_lock_def get_graph_state_def
  by ((intro keys.steps keeps_modify)?; simp add: same_keys_def keeps_def new_uuid_def get_session_def)+

lemma policy_reads_pure:
  "snd (get_active_flow_policy tenant f s) = s" "snd (get_active_tenant_policy tenant s) = s"
  by (simp_all add: get_active_flow_policy_def get_active_tenant_policy_def)

lemma resolve_contract_same_keys: "keeps same_keys (resolve_contract e tenant flow_id v)"
  unfolding resolve_contract_def deployed_snapshot_def snapshot_contract_def legacy_contract_def
    resolve_policy_def resolve_runtime_policy_def Let_def
  by (intro keys.steps reads_same_keys; rule keys.step_pure; intro direct_reads_pure policy_reads_pure; simp)

lemma run_frame_same_keys: "keeps same_keys (run_frame_of e q c flow_id v)"
  unfolding run_frame_of_def start_trace_id_def ensure_session_def or_new_uuid_def origin_candidate_def load_origin_def
  by (intro keys.steps store_writes_same_keys resolve_contract_same_keys; rule keys.step_pure; rule direct_reads_pure)

lemma start_flow_run_stores:
  assumes "start_flow_run e q key f s = (Inr r, s')"
  shows "\<exists>t. set_result (sv_idempotency_ttl e) key (FlowRunResponse r) t = (Inr (), s')"
  using assms unfolding start_flow_run_def finish_request_def
  by (auto simp: bind_eq_Inr ret_def)

lemma created_response_held:
  assumes run: "svc_create_flow_run e q c s = (Inr r, s')"
    and up: "rd_up (redis_db s')" and ttl: "0 < sv_idempotency_ttl e"
  shows "key_holds (request_key q) (Some (RESPONSE (FlowRunResponse r))) s'"
proof -
  obtain flow_id v t where sel: "select_flow (cq_tenant_id q) c s = (Inr (flow_id, v), t)"
    using run unfolding svc_create_flow_run_def by (auto simp: bind_eq_Inr)
  note eq = run [unfolded create_after_selection [OF sel]]
  show ?thesis
  proof (cases rule: begin_request_cases [of "sv_idempotency_ttl e" "request_key q" t])
    case (down x)
    then show ?thesis using eq by (simp add: bind_def)
  next
    case free
    then show ?thesis
      using eq by (auto simp: bind_eq_Inr begin_request_free split: if_splits
        dest!: start_flow_run_stores intro: set_result_holds [OF _ ttl up])
  next
    case processing
    then show ?thesis using eq by (simp add: bind_def begin_request_held)
  next
    case (response x)
    then show ?thesis
      using eq by (cases x) (auto simp: bind_def begin_request_held lift_res_def flow_run_of_response_def)
  qed
qed



subsection \<open>Guards of a new run\<close>

lemma only_redisD:
  assumes "only_redis s s'"
  shows "config_db s' = config_db s" "reachable s' = reachable s" "clock s' = clock s"
  using assms unfolding only_redis_def reachable_def by auto

lemma requested_flow_facts:
  assumes "versions_coherent s" and "reachable s" and "requested_flow c s = (Inr flow_id, t)"
  shows "versions_coherent t \<and> only_redis s t \<and> (\<forall>w. fc_flow_version_id c = Some w \<longrightarrow>
    (\<exists>row. row_of_id flow_versions fv_id w s = Inr (Some row) \<and> fv_status row = ''PUBLISHED'' \<and> fv_flow_id row = flow_id))"
proof (cases "fc_flow_version_id c")
  case None
  then have "t = s"
    using assms(3) by (auto simp: requested_flow_def comp_simps split: option.splits)
  then show ?thesis
    using None assms(1) only_redis_refl by (simp add: reflp_def)
next
  case (Some w)
  obtain row where g: "get_flow_version w s = (Inr (Some row), t)" and row: "fv_status row = ''PUBLISHED''" "fv_flow_id row = flow_id"
    using assms(3) Some
    by (auto simp: requested_flow_def bind_eq_Inr ret_def raise_def split: option.splits if_splits)
  have "row_of_id flow_versions fv_id w s = Inr (Some row)"
    using version_reads_transparent(1) [OF assms(1,2), of w] g by simp
  moreover have "versions_coherent t"
    using get_flow_version_keeps_coherent [OF assms(1), of w] g by simp
  ultimately show ?thesis
    using Some row keepsD [OF reads_only_redis(1) g] by simp
qed

lemma select_flow_facts:
  assumes "versions_coherent s" and "reachable s"
    and sel: "select_flow tenant c s = (Inr (flow_id, v), u)"
  shows "(\<exists>f. row_of_id flows fl_id flow_id s = Inr (Some f) \<and> fl_tenant_id f = tenant) \<and>
    active_flow_version flow_id s = Inr (Some v) \<and> py_strip (fc_user_id c) \<noteq> [] \<and>
    (\<forall>w. fc_flow_version_id c = Some w \<longrightarrow> w = v \<and> (\<exists>row. row_of_id flow_versions fv_id v s = Inr (Some row) \<and>
       fv_status row = ''PUBLISHED'' \<and> fv_flow_id row = flow_id))"
proof -
  obtain fid t where r: "requested_flow c s = (Inr fid, t)"
    and rest: "(if py_strip (fc_user_id c) = [] then raise (domain_validation ''user_id_required'')
       else bind (get_flow fid) (\<lambda>flow.
         if (case flow of None \<Rightarrow> True | Some f \<Rightarrow> fl_tenant_id f \<noteq> tenant)
         then raise (not_found ''flow_not_found'')
         else bind (get_active_flow_version_id fid) (\<lambda>active.
           case active of
             None \<Rightarrow> raise (blocked ''flow_not_active'')
           | Some a \<Rightarrow> if fc_flow_version_id c \<noteq> None \<and> fc_flow_version_id c \<noteq> Some a
               then raise (blocked ''flow_version_not_active'') else ret (fid, a)))) t = (Inr (flow_id, v), u)"
    using sel unfolding select_flow_def bind_eq_Inr by blast
  note facts = requested_flow_facts [OF assms(1,2) r]
  have same: "config_db t = config_db s" "reachable t"
    using facts only_redisD [of s t] assms(2) by auto
  obtain f w where user: "py_strip (fc_user_id c) \<noteq> []"
    and f: "get_flow fid t = (Inr (Some f), w)" "fl_tenant_id f = tenant"
    and rest2: "bind (get_active_flow_version_id fid) (\<lambda>active.
           case active of
             None \<Rightarrow> raise (blocked ''flow_not_active'')
           | Some a \<Rightarrow> if fc_flow_version_id c \<noteq> None \<and> fc_flow_version_id c \<noteq> Some a
               then raise (blocked ''flow_version_not_active'') else ret (fid, a)) w = (Inr (flow_id, v), u)"
    using rest by (auto simp: bind_eq_Inr [of "get_flow fid"] raise_def split: if_splits option.splits)
  have [simp]: "w = t" using f(1) by (simp add: get_flow_def)
  obtain a where a: "get_active_flow_version_id fid t = (Inr (Some a), u)" "fid = flow_id" "a = v"
    and chosen: "fc_flow_version_id c = None \<or> fc_flow_version_id c = Some a"
    using rest2 by (auto simp: bind_eq_Inr raise_def ret_def split: if_splits option.splits)
  have "active_flow_version fid t = Inr (Some a)"
    using version_reads_transparent(2) [of t fid] facts same(2) a by simp
  then show ?thesis
    using a f facts chosen user by (auto simp: get_flow_def row_of_id_def active_flow_version_def same(1))
qed


text \<open>
  C35: While the Redis server is down and the cache is silent, every request to create a flow run that passes its
  guards is refused as already in progress, though no other request is.
\<close>

theorem redis_outage_refuses_runs:
  assumes sel: "select_flow (cq_tenant_id q) c s = (Inr (flow_id, v), u)"
    and "\<not> rd_up (redis_db s)" and "rd_silent (redis_db s)"
  shows "svc_create_flow_run e q c s = (Inl in_progress, u) \<and> only_redis s u"
proof -
  have "\<not> rd_up (redis_db u)" "rd_silent (redis_db u)"
    using keepsD [OF select_flow_same_keys sel] assms(2,3) by (simp_all add: same_keys_def)
  then show ?thesis
    using keepsD [OF select_flow_only_redis sel]
    by (simp add: create_after_selection [OF sel] bind_def begin_request_down)
qed


subsection \<open>Resuming\<close>

lemma set_flow_run_status_statuses:
  assumes "fid \<in> fr_id ` set (flow_runs s)"
  shows "statuses_of fid (snd (set_flow_run_status fid st ct s)) = {(st, ct)}"
proof
  let ?s = "snd (set_flow_run_status fid st ct s)"
  have rows: "set (flow_runs ?s) = (\<lambda>r. if fr_id r = fid
      then r\<lparr>fr_status := st, fr_canonical_status := ct, fr_updated_at := clock s\<rparr> else r) ` set (flow_runs s)"
    by (simp add: set_flow_run_status_def modify_def update_flow_run_def update_where_def)
  show "statuses_of fid ?s \<subseteq> {(st, ct)}"
  proof
    fix x assume "x \<in> statuses_of fid ?s"
    then obtain r where r: "r \<in> set (flow_runs ?s)" "fr_id r = fid" "x = (fr_status r, fr_canonical_status r)"
      unfolding statuses_of_def by blast
    obtain r' where "r = (if fr_id r' = fid
        then r'\<lparr>fr_status := st, fr_canonical_status := ct, fr_updated_at := clock s\<rparr> else r')"
      using r(1) unfolding rows by blast
    with r(2,3) show "x \<in> {(st, ct)}" by (cases "fr_id r' = fid") simp_all
  qed
  obtain r where r: "r \<in> set (flow_runs s)" "fr_id r = fid" using assms by blast
  let ?r = "r\<lparr>fr_status := st, fr_canonical_status := ct, fr_updated_at := clock s\<rparr>"
  have "?r \<in> set (flow_runs ?s)"
    unfolding rows by (rule image_eqI [OF _ r(1)]) (simp add: r(2))
  then show "{(st, ct)} \<subseteq> statuses_of fid ?s"
    unfolding statuses_of_def by (intro subsetI image_eqI [where x = ?r]) (simp_all add: r(2))
qed

interpretation runs: kept_relation same_run_ids
  by unfold_locales (auto simp: same_run_ids_def reflp_def transp_def)

lemma update_flow_run_same_runs: "(\<And>r. fr_id (f r) = fr_id r) \<Longrightarrow> same_run_ids s (update_flow_run fid f s)"
  by (simp add: same_run_ids_def update_flow_run_def update_where_def)

lemma writes_same_runs:
  "keeps same_run_ids new_uuid" "keeps same_run_ids (create_interaction sid ch payload headers md ext rid tid)"
  "keeps same_run_ids (link_interaction_to_flow_run iid fid)" "keeps same_run_ids (set_root_observation_id fid oid)"
proof -
  show new: "keeps same_run_ids new_uuid"
    by (simp add: keeps_def new_uuid_def same_run_ids_def)
  show "keeps same_run_ids (create_interaction sid ch payload headers md ext rid tid)"
    unfolding create_interaction_def
    by (intro runs.steps new keeps_modify) (simp add: same_run_ids_def)
  show "keeps same_run_ids (set_root_observation_id fid oid)"
    unfolding set_root_observation_id_def by (intro keeps_modify update_flow_run_same_runs) simp
  have "same_run_ids s (update_flow_run fid (\<lambda>r. r\<lparr>fr_interaction_id := Some iid\<rparr>)
      (update_interaction iid (\<lambda>r. r\<lparr>in_flow_run_id := Some fid\<rparr>) s))" for s
    using update_flow_run_same_runs [of "\<lambda>r. r\<lparr>fr_interaction_id := Some iid\<rparr>"
        "update_interaction iid (\<lambda>r. r\<lparr>in_flow_run_id := Some fid\<rparr>) s" fid]
    by (simp add: same_run_ids_def update_interaction_def)
  then show "keeps same_run_ids (link_interaction_to_flow_run iid fid)"
    unfolding link_interaction_to_flow_run_def
    by (intro runs.steps keeps_modify; (assumption | simp add: keeps_def get_interaction_def same_run_ids_def))
qed

lemma reopen_run_statuses:
  assumes "reopen_run e fid q f s = (Inr p, t)" and "fid \<in> fr_id ` set (flow_runs s)"
  shows "statuses_of fid t = {(''RUNNING'', ''RUNNING'')}"
proof -
  have before: "keeps same_run_ids (bind (create_interaction (uf_session_id f) (uq_channel q)
            [(''resume_input'', PDict (dump_resume_input (uf_input f)))] (uq_headers q) []
            (uq_external_message_id q) (uq_request_id q) (uq_trace_id q)) (\<lambda>iid.
     bind (link_interaction_to_flow_run iid fid) (\<lambda>_.
     bind (resume_trace_id (uq_trace_id q) (fr_trace_id (uf_run f))) (\<lambda>trace.
     bind (observed fid (sv_trace_observation e fid)) (\<lambda>_. ret (iid, trace))))))" (is "keeps _ ?m")
    unfolding resume_trace_id_def or_new_uuid_def observed_def by (intro runs.steps writes_same_runs)
  have "reopen_run e fid q f = bind ?m (\<lambda>p.
      bind (set_flow_run_status fid (run_status R_RUNNING) (flow_status F_RUNNING)) (\<lambda>_. ret p))"
    by (rule ext) (auto simp: reopen_run_def bind_def ret_def split: prod.splits sum.splits)
  then obtain u where u: "?m s = (Inr p, u)"
    and t: "bind (set_flow_run_status fid (run_status R_RUNNING) (flow_status F_RUNNING)) (\<lambda>_. ret p) u = (Inr p, t)"
    using assms(1) by (auto simp: bind_eq_Inr [of ?m] bind_eq_Inr [of "set_flow_run_status _ _ _"] ret_def)
  have "fid \<in> fr_id ` set (flow_runs u)"
    using keepsD [OF before u] assms(2) by (metis same_run_ids_def set_map)
  moreover have "t = snd (set_flow_run_status fid (run_status R_RUNNING) (flow_status F_RUNNING) u)"
    using t by (simp add: bind_def ret_def set_flow_run_status_def modify_def)
  ultimately show ?thesis by (simp add: set_flow_run_status_statuses)
qed

lemma same_run_ids_redis: "only_redis s s' \<Longrightarrow> same_run_ids s s'"
  unfolding only_redis_def same_run_ids_def by auto

lemma reads_same_runs:
  "keeps same_run_ids (get_flow_version i)" "keeps same_run_ids (get_flow_graph_snapshot_by_flow_version i)"
  "keeps same_run_ids (get_graph_state fid)"
proof -
  show "keeps same_run_ids (get_flow_version i)"
    using reads_only_redis(1) same_run_ids_redis unfolding keeps_def by blast
  show "keeps same_run_ids (get_flow_graph_snapshot_by_flow_version i)"
    using flow_snapshot_cache.read_only_redis [of i] same_run_ids_redis
    unfolding keeps_def get_flow_graph_snapshot_by_flow_version_def by blast
  show "keeps same_run_ids (get_graph_state fid)"
    unfolding get_graph_state_def by (intro runs.steps keeps_modify) (simp_all add: keeps_def same_run_ids_def)
qed

lemma plan_for_same_runs: "keeps same_run_ids (plan_for e g)"
  unfolding plan_for_def plan_get_def plan_set_def
  by (intro runs.steps keeps_modify) (simp add: same_run_ids_def)

lemma get_flow_context_pure: "snd (get_flow_context fid s) = s"
  by (auto simp: get_flow_context_def get_flow_run_def get_session_def comp_simps split: sum.split option.split)

lemma resume_frame_same_runs: "keeps same_run_ids (resume_frame_of e fid i)"
  unfolding resume_frame_of_def resume_policy_def resolve_policy_def resolve_runtime_policy_def Let_def
  by (intro runs.steps reads_same_runs plan_for_same_runs; rule runs.step_pure;
      intro direct_reads_pure policy_reads_pure get_flow_context_pure)

lemma resume_frame_run:
  assumes "resume_frame_of e fid i s = (Inr f, t)"
  shows "uf_run f \<in> set (flow_runs s) \<and> fr_id (uf_run f) = fid \<and> fr_user_id (uf_run f) = fu_user_id i"
proof -
  obtain row where row: "get_flow_run fid s = (Inr row, s)"
    using assms unfolding resume_frame_of_def bind_eq_Inr [of "get_flow_run fid"] by (auto simp: get_flow_run_def)
  then obtain r where r: "row = Some r" "fr_user_id r = fu_user_id i"
    using assms unfolding resume_frame_of_def
    by (auto simp: bind_def [of "get_flow_run fid"] raise_def split: option.splits if_splits)
  moreover have "uf_run f = r"
    using assms row r unfolding resume_frame_of_def
    by (auto simp: bind_def [of "get_flow_run fid"] bind_eq_Inr raise_def ret_def split: option.splits prod.splits)
  moreover have "r \<in> set (flow_runs s) \<and> fr_id r = fid"
    using row r by (auto simp: get_flow_run_def dest: one_or_none_in)
  ultimately show ?thesis by simp
qed

text \<open>
  C37: Resuming a run marks it as running before the stored graph state has been read and whatever its status
  was, a finished one included, which the state machine does not allow.  When the graph state turns out to be
  invalid the caller gets an error and the run stays marked as running.
\<close>

theorem resume_marks_running_first:
  assumes frame: "resume_frame_of e fid i s = (Inr f, t)" and reopen: "reopen_run e fid q f t = (Inr p, u)"
  shows "statuses_of fid u = {(run_status R_RUNNING, flow_status F_RUNNING)} \<and>
    (\<forall>st \<in> {F_COMPLETED, F_FAILED, F_ESCALATED}. \<exists>m. validate_flow st F_RUNNING = Inl m) \<and>
    (\<forall>x. load_snapshot (uf_graph_state f) = Inl x \<longrightarrow>
       svc_resume_flow_run e fid (Some i) q s = (Inl (domain_validation ''invalid_graph_state''), u))"
proof (intro conjI allI impI)
  have "fid \<in> fr_id ` set (flow_runs t)"
    using resume_frame_run [OF frame] keepsD [OF resume_frame_same_runs frame]
    by (metis same_run_ids_def set_map imageI)
  then show "statuses_of fid u = {(run_status R_RUNNING, flow_status F_RUNNING)}"
    using reopen_run_statuses [OF reopen] by simp
  show "\<forall>st \<in> {F_COMPLETED, F_FAILED, F_ESCALATED}. \<exists>m. validate_flow st F_RUNNING = Inl m"
    by (simp add: validate_flow_def)
next
  fix x assume "load_snapshot (uf_graph_state f) = Inl x"
  moreover from this have "x = domain_validation ''invalid_graph_state''"
    by (auto simp: load_snapshot_def split: sum.splits)
  ultimately show "svc_resume_flow_run e fid (Some i) q s = (Inl (domain_validation ''invalid_graph_state''), u)"
    using frame reopen by (simp add: svc_resume_flow_run_def bind_def lift_res_def split: prod.split)
qed

subsection \<open>Dispatched runs\<close>

interpretation log: kept_relation same_log
  by unfold_locales (auto simp: same_log_def reflp_def transp_def)

lemma modify_same_log:
  "(\<And>s. events (f s) = events s) \<Longrightarrow> (\<And>s. event_batch_buffer (f s) = event_batch_buffer s) \<Longrightarrow>
   (\<And>s. batching_flow_runs (f s) = batching_flow_runs s) \<Longrightarrow> (\<And>s. event_batch_size (f s) = event_batch_size s) \<Longrightarrow>
   keeps same_log (modify f)"
  by (simp add: keeps_def modify_def same_log_def)

lemma writes_same_log:
  "keeps same_log new_uuid" "keeps same_log (create_flow_run a)" "keeps same_log (set_root_observation_id fid oid)"
  "keeps same_log (link_interaction_to_flow_run iid fid)" "keeps same_log (set_flow_run_dispatch fid w r st ct)"
  "keeps same_log (set_result ttl key x)"
proof -
  show new: "keeps same_log new_uuid"
    by (simp add: keeps_def new_uuid_def same_log_def)
  show "keeps same_log (create_flow_run a)"
    unfolding create_flow_run_def by (intro log.steps new modify_same_log) simp_all
  show "keeps same_log (set_root_observation_id fid oid)" "keeps same_log (set_flow_run_dispatch fid w r st ct)"
    unfolding set_root_observation_id_def set_flow_run_dispatch_def
    by (intro modify_same_log; simp add: update_flow_run_def)+
  show "keeps same_log (link_interaction_to_flow_run iid fid)"
    unfolding link_interaction_to_flow_run_def
    by (intro log.steps modify_same_log; simp add: update_flow_run_def update_interaction_def keeps_def get_interaction_def same_log_def)
  show "keeps same_log (set_result ttl key x)"
    by (simp add: keeps_def set_result_def redis_set_eq same_log_def)
qed

lemma open_row_same_log: "keeps same_log (open_row f)"
  unfolding open_row_def Let_def by (intro log.steps writes_same_log)

lemma start_event_batching_log:
  assumes "start_event_batching fid s = (Inr (), t)"
  shows "events t = events s \<and> buffer_of t i = buffer_of s i \<and> fid \<in> batching_flow_runs t \<and>
    event_batch_size t = event_batch_size s"
proof -
  have t: "t = snd (start_event_batching fid s)" by (simp add: assms)
  show ?thesis
    unfolding t by (cases "map_of (event_batch_buffer s) fid"; cases "i = fid")
      (simp_all add: start_event_batching_def modify_def buffer_of_def dict_get_def update_conv)
qed

lemma open_run_log:
  assumes "open_run e f s = (Inr fid, t)"
  shows "events t = events s \<and> buffer_of t i = buffer_of s i \<and> fid \<in> batching_flow_runs t \<and>
    event_batch_size t = event_batch_size s"
proof -
  let ?m = "bind (open_row f) (\<lambda>fid. bind (observed fid (sv_trace_observation e fid)) (\<lambda>_.
     bind (link_interaction_to_flow_run (rf_interaction_id f) fid) (\<lambda>_. ret fid)))"
  have "keeps same_log ?m"
    unfolding observed_def by (intro log.steps writes_same_log open_row_same_log)
  moreover have "open_run e f = bind ?m (\<lambda>fid. bind (start_event_batching fid) (\<lambda>_. ret fid))"
    by (rule ext) (auto simp: open_run_def bind_def ret_def split: prod.splits sum.splits)
  then obtain u where "?m s = (Inr fid, u)" and "start_event_batching fid u = (Inr (), t)"
    using assms by (auto simp: bind_eq_Inr [of ?m] bind_eq_Inr [of "start_event_batching _"] ret_def)
  ultimately show ?thesis
    using start_event_batching_log [of fid u t i] by (auto simp: same_log_def buffer_of_def dest!: keepsD)
qed

lemma buffered_start_event:
  assumes "fid \<in> batching_flow_runs s" and "int (length (buffer_of s fid)) + 1 < event_batch_size s"
    and "ha_flow_run_id h = fid"
  shows "\<exists>t ev. hk_flow_start DbExecutionEventHook h s = (Inr (), t) \<and> events t = events s \<and>
    buffer_of t fid = buffer_of s fid @ [ev] \<and> be_type ev = ''FlowStarted'' \<and> fid \<in> batching_flow_runs t"
  using assms
  by (simp add: DbExecutionEventHook_def on_flow_start_def safe_emit_def append_execution_event_def new_uuid_def
      buffer_event_def Let_def comp_simps buffer_of_def dict_get_def buffered_def hook_event_def
      event_type_value_def)

lemma dispatch_same_log:
  assumes "sv_engine e = Some w" and "engine_quiet w"
  shows "keeps same_log (dispatch_flow_run e request wait)"
  using assms(2) unfolding dispatch_flow_run_def assms(1) option.case Let_def observed_def engine_quiet_def
  by (intro log.steps writes_same_log; blast)

text \<open>
  C38: When runs are dispatched to the workflow engine, the event that a run has started is not stored when the
  request returns: it stands in the event buffer of the process that took the request, whose batching for the run is still
  on, and nothing in the request writes it.
\<close>

theorem dispatched_start_event_not_stored:
  assumes run: "start_flow_run e q key f s = (Inr r, s')"
    and "sv_temporal_enabled e" and "sv_hook e = DbExecutionEventHook"
    and "sv_engine e = Some w" and "engine_quiet w"
    and room: "\<forall>fid. int (length (buffer_of s fid)) + 1 < event_batch_size s"
  shows "events s' = events s \<and> fw_id r \<in> batching_flow_runs s' \<and>
    (\<exists>ev. buffer_of s' (fw_id r) = buffer_of s (fw_id r) @ [ev] \<and> be_type ev = ''FlowStarted'')"
proof -
  obtain fid t where t: "open_run e f s = (Inr fid, t)"
    and rest: "bind (hk_flow_start (sv_hook e) (start_hook_args (cq_channel q) f fid)) (\<lambda>_.
     bind (execute_run e (cq_channel q) (cq_wait q) f fid) (\<lambda>result.
       finish_request (sv_idempotency_ttl e) key (created_response f fid) result)) t = (Inr r, s')"
    using run unfolding start_flow_run_def bind_eq_Inr [of "open_run e f"] by blast
  note opened = open_run_log [OF t, of fid]
  obtain u ev where u: "hk_flow_start (sv_hook e) (start_hook_args (cq_channel q) f fid) t = (Inr (), u)"
    and hook: "events u = events t" "buffer_of u fid = buffer_of t fid @ [ev]" "be_type ev = ''FlowStarted''"
      "fid \<in> batching_flow_runs u"
    using buffered_start_event [of fid t "start_hook_args (cq_channel q) f fid"] opened room assms(3)
    by (auto simp: start_hook_args_def)
  obtain result v where v: "execute_run e (cq_channel q) (cq_wait q) f fid u = (Inr result, v)"
    and fin: "finish_request (sv_idempotency_ttl e) key (created_response f fid) result v = (Inr r, s')"
    using rest u by (auto simp: bind_eq_Inr)
  have "keeps same_log (execute_run e (cq_channel q) (cq_wait q) f fid)"
    using assms(2) unfolding execute_run_def
    by (simp add: log.step_bind dispatch_same_log [OF assms(4,5)] log.step_pure direct_reads_pure)
  then have "same_log u v" using v by (blast dest: keepsD)
  moreover have "keeps same_log (finish_request (sv_idempotency_ttl e) key (created_response f fid) result)"
    unfolding finish_request_def by (intro log.steps writes_same_log)
  then have "same_log v s'" using fin by (blast dest: keepsD)
  ultimately have "same_log u s'" using log.chain by (blast dest: transpD)
  moreover have "fw_id r = fid"
    using fin by (auto simp: finish_request_def bind_eq_Inr lift_res_def ret_def merge_flow_run_result_def
        created_response_def Let_def split: option.splits if_splits)
  ultimately show ?thesis
    using hook opened by (simp add: same_log_def buffer_of_def)
qed

subsection \<open>Instances\<close>

lemmas demo_defs = demo_service_db_def empty_db_def empty_config_def empty_redis_def demo_create_def demo_request_def

lemma demo_versions_coherent: "versions_coherent demo_service_db" "reachable demo_service_db"
  by (simp_all add: versions_coherent_def coherent_def reachable_def demo_defs cache_lookup_def)

lemma demo_selected:
  "\<exists>u. select_flow 2 demo_create demo_service_db = (Inr (10, 11), u)"
proof -
  have "fst (select_flow 2 demo_create demo_service_db) = Inr (10, 11)" by code_simp
  then show ?thesis by (metis prod.collapse)
qed


lemma demo_outage_selected:
  "\<exists>u. select_flow 2 demo_create (demo_service_db\<lparr>redis_db := empty_redis\<lparr>rd_up := False\<rparr>\<rparr>) = (Inr (10, 11), u)"
proof -
  have "fst (select_flow 2 demo_create (demo_service_db\<lparr>redis_db := empty_redis\<lparr>rd_up := False\<rparr>\<rparr>)) = Inr (10, 11)"
    by code_simp
  then show ?thesis by (metis prod.collapse)
qed

theorem redis_outage_refuses_runs_witness:
  "fst (svc_create_flow_run demo_service (demo_request None) demo_create
     (demo_service_db\<lparr>redis_db := empty_redis\<lparr>rd_up := False\<rparr>\<rparr>)) = Inl in_progress"
proof -
  obtain u where u: "select_flow (cq_tenant_id (demo_request None)) demo_create
      (demo_service_db\<lparr>redis_db := empty_redis\<lparr>rd_up := False\<rparr>\<rparr>) = (Inr (10, 11), u)"
    using demo_outage_selected by (auto simp: demo_request_def)
  then show ?thesis
    using redis_outage_refuses_runs [OF u, of demo_service] by (simp add: empty_redis_def)
qed



theorem resume_marks_running_first_witness:
  "\<exists>u. svc_resume_flow_run demo_service 40 (Some demo_resume_input) demo_resume_request demo_resume_db =
       (Inl (domain_validation ''invalid_graph_state''), u) \<and>
     statuses_of 40 demo_resume_db = {(''COMPLETED'', ''COMPLETED'')} \<and> statuses_of 40 u = {(''RUNNING'', ''RUNNING'')}"
proof -
  let ?m = "resume_frame_of demo_service 40 demo_resume_input demo_resume_db"
  have ok: "\<not> isl (fst ?m)" "uf_graph_state (projr (fst ?m)) =
      \<lparr>gs_flow_run_id = 40, gs_last_node_run_id = None, gs_state = [(''current_node_id'', PInt 7)]\<rparr>"
    "\<not> isl (fst (reopen_run demo_service 40 demo_resume_request (projr (fst ?m)) (snd ?m)))"
    by code_simp+
  obtain f t where f: "?m = (Inr f, t)"
    using ok(1) by (metis prod.collapse sum.collapse(2))
  obtain p u where u: "reopen_run demo_service 40 demo_resume_request f t = (Inr p, u)"
    using ok(3) unfolding f by (metis prod.collapse sum.collapse(2) fst_conv snd_conv sum.sel(2))
  have "load_snapshot (uf_graph_state f) = Inl (domain_validation ''invalid_graph_state'')"
    using ok(2) unfolding f
    by (simp add: load_snapshot_def validate_snapshot_def str_field_def dict_get_def)
  moreover have "statuses_of 40 demo_resume_db = {(''COMPLETED'', ''COMPLETED'')}"
    by code_simp
  ultimately show ?thesis
    using resume_marks_running_first [OF f u] by auto
qed

theorem dispatched_start_event_not_stored_witness:
  "\<exists>r s'. start_flow_run demo_service (demo_request None) ''key'' demo_frame
       (demo_service_db\<lparr>interactions := [\<lparr>in_id = 33, in_session_id = 30, in_flow_run_id = None,
          in_result_node_run_id = None, in_channel = ''http'', in_payload = [], in_output = [], in_headers = [],
          in_metadata = [], in_external_message_id = None, in_request_id = None, in_trace_id = None,
          in_completed_at = None\<rparr>]\<rparr>) = (Inr r, s') \<and>
     events s' = [] \<and> (\<exists>ev. buffer_of s' (fw_id r) = [ev] \<and> be_type ev = ''FlowStarted'')"
proof -
  let ?s = "demo_service_db\<lparr>interactions := [\<lparr>in_id = 33, in_session_id = 30, in_flow_run_id = None,
          in_result_node_run_id = None, in_channel = ''http'', in_payload = [], in_output = [], in_headers = [],
          in_metadata = [], in_external_message_id = None, in_request_id = None, in_trace_id = None,
          in_completed_at = None\<rparr>]\<rparr>"
  have "\<not> isl (fst (start_flow_run demo_service (demo_request None) ''key'' demo_frame ?s))" by code_simp
  then obtain r s' where r: "start_flow_run demo_service (demo_request None) ''key'' demo_frame ?s = (Inr r, s')"
    by (metis prod.collapse sum.collapse(2))
  have quiet: "engine_quiet demo_engine"
    by (simp add: engine_quiet_def demo_engine_def log.step_basic)
  have "events s' = events ?s \<and> fw_id r \<in> batching_flow_runs s' \<and>
      (\<exists>ev. buffer_of s' (fw_id r) = buffer_of ?s (fw_id r) @ [ev] \<and> be_type ev = ''FlowStarted'')"
    by (rule dispatched_start_event_not_stored [OF r _ _ _ quiet])
       (simp_all add: demo_service_def demo_defs buffer_of_def dict_get_def)
  with r show ?thesis by (auto simp: demo_defs buffer_of_def dict_get_def)
qed

subsection \<open>User input\<close>

lemma py_strip_ends:
  assumes "py_strip t \<noteq> []"
  shows "\<not> py_space (hd (py_strip t))" and "\<not> py_space (last (py_strip t))"
proof -
  let ?d = "dropWhile py_space t"
  have strip: "py_strip t = rev (dropWhile py_space (rev ?d))"
    by (simp add: py_strip_def)
  have ne: "dropWhile py_space (rev ?d) \<noteq> []" using assms strip by simp
  show "\<not> py_space (last (py_strip t))"
    unfolding strip using hd_dropWhile [OF ne] by (simp add: last_rev)
  obtain z where z: "?d = py_strip t @ z"
    using takeWhile_dropWhile_id [of py_space "rev ?d"] unfolding strip
    by (metis rev_append rev_rev_ident)
  have "?d \<noteq> []" using ne by (metis dropWhile.simps(1) rev.simps(1))
  then have "\<not> py_space (hd ?d)" by (rule hd_dropWhile)
  then show "\<not> py_space (hd (py_strip t))"
    using assms z by (metis hd_append2)
qed

lemma py_strip_id:
  assumes "t = [] \<or> \<not> py_space (hd t) \<and> \<not> py_space (last t)"
  shows "py_strip t = t"
proof (cases t)
  case (Cons c cs)
  then have "dropWhile py_space t = t" using assms by simp
  moreover have "dropWhile py_space (rev t) = rev t"
    using assms Cons by (cases "rev t") (auto simp: hd_rev [symmetric])
  ultimately show ?thesis by (simp add: py_strip_def)
qed (simp add: py_strip_def)

lemma py_strip_strip [simp]: "py_strip (py_strip t) = py_strip t"
  using py_strip_ends [of t] by (intro py_strip_id) auto

lemma compose_input_parts:
  "sublist (py_strip (case u of None \<Rightarrow> [] | Some text \<Rightarrow> text)) (compose_input chunks u) \<and>
   prefix (py_strip (join blank_line chunks)) (compose_input chunks u)"
proof -
  let ?c = "py_strip (join blank_line chunks)" and ?x = "py_strip (case u of None \<Rightarrow> [] | Some text \<Rightarrow> text)"
  have "?c \<noteq> [] \<Longrightarrow> ?x \<noteq> [] \<Longrightarrow> py_strip (?c @ blank_line @ ?x) = ?c @ blank_line @ ?x"
    using py_strip_ends [of "join blank_line chunks"] py_strip_ends [of "case u of None \<Rightarrow> [] | Some text \<Rightarrow> text"]
    by (intro py_strip_id) simp
  moreover have "sublist ?x (?c @ blank_line @ ?x)"
    unfolding sublist_def by (metis append.assoc append_Nil2)
  ultimately show ?thesis
    by (simp add: compose_input_def Let_def)
qed

text \<open>
  The text that replaces the parts of an input starts with what the parts were read as, contains what the
  user typed, is not empty and is at most as long as the configured limit, counted in characters.
\<close>

theorem normalized_input_complete:
  assumes "normalize ports tenant u (Some parts) = Inr (Some t)" and "parts \<noteq> []"
  shows "t \<noteq> [] \<and> length (utf8_chars t) \<le> ip_max_composed_chars ports \<and>
    sublist (py_strip (case u of None \<Rightarrow> [] | Some text \<Rightarrow> text)) t \<and>
    (\<exists>chunks. input_chunks ports tenant parts = Inr chunks \<and> prefix (py_strip (join blank_line chunks)) t)"
proof -
  obtain chunks where "input_chunks ports tenant parts = Inr chunks" and t: "t = compose_input chunks u" "t \<noteq> []"
    "length (utf8_chars t) \<le> ip_max_composed_chars ports"
    using assms by (auto simp: normalize_def rbind_eq_Inr Let_def split: if_splits)
  then show ?thesis using compose_input_parts [of u chunks] by auto
qed

theorem normalized_input_complete_witness:
  "let ports = \<lparr>ip_get_bytes = (\<lambda>_ _. Inr ''%''), ip_to_text = (\<lambda>_ _ _. Inr ''body''), ip_max_composed_chars = 100\<rparr>;
       t = projr (normalize ports 2 (Some '' hello '') (Some [MediaRefUserInputPart ''r'' ''text/plain'' None]))
   in sublist ''hello'' (the t) \<and> length (utf8_chars (the t)) \<le> 100"
proof -
  define ports where "ports = \<lparr>ip_get_bytes = (\<lambda>_ _. Inr ''%''), ip_to_text = (\<lambda>_ _ _. Inr ''body''),
    ip_max_composed_chars = 100\<rparr>"
  let ?n = "normalize ports 2 (Some '' hello '') (Some [MediaRefUserInputPart ''r'' ''text/plain'' None])"
  have "\<not> isl ?n" "projr ?n \<noteq> None" unfolding ports_def by code_simp+
  then obtain t where n: "?n = Inr (Some t)" by (metis option.exhaust sum.collapse(2))
  have "py_strip '' hello '' = ''hello''" by code_simp
  then show ?thesis
    using normalized_input_complete [OF n] n unfolding ports_def Let_def by simp
qed

end
