(* ===== verification/ToolOrchestrator.thy ===== *)
theory ToolOrchestrator
  imports EventLog ConfigCache PyHash
begin

text \<open>
  The tool orchestrator, \<^verbatim>\<open>src/src/domain/tools/services/tool_orchestrator.py\<close>: the effective URL of a tool
  configuration, the headers with their secrets and metadata values, and the two ways of executing a tool
  run, for a flow node and for an agent.

  The secret resolver, the HTTP executor and the pydantic model of its result are the record \<open>tool_ports\<close>, with
  the text of an exception, the parsing of a decimal text as a float and the measured latency.  The lookup of
  the tool's name in \<open>execute_tool_run\<close> has no effect and is left out.
\<close>

record http_request =
  hq_method :: pyval
  hq_url :: string
  hq_headers :: "(string \<times> string) list"
  hq_json_body :: pydict
  hq_timeout_seconds :: rat

record tool_ports =
  tp_secret :: "string \<Rightarrow> exn + string"
  tp_http :: "http_request \<Rightarrow> exn + pydict"
  tp_valid_result :: "pydict \<Rightarrow> bool"
  tp_float :: "string \<Rightarrow> exn + rat"
  tp_repr :: "pyval \<Rightarrow> string"
  tp_float_repr :: "rat \<Rightarrow> string"
  tp_str :: "exn \<Rightarrow> string"
  tp_latency_ms :: int

subsection \<open>Configuration\<close>

text \<open>\<open>str(cfg.get(key) or '')\<close>, stripped.\<close>

definition config_text :: "(pyval \<Rightarrow> string) \<Rightarrow> pydict \<Rightarrow> string \<Rightarrow> string" where
  "config_text rp cfg key =
     (let v = dict_get cfg key PNone in py_strip (if truthy v then py_str rp v else []))"

definition rstrip_slash :: "string \<Rightarrow> string" where
  "rstrip_slash t = rev (dropWhile (\<lambda>c. c = CHR ''/'') (rev t))"

definition effective_tool_http_url :: "(pyval \<Rightarrow> string) \<Rightarrow> pydict \<Rightarrow> string" where
  "effective_tool_http_url rp cfg =
     (let base = rstrip_slash (config_text rp cfg ''base_url'');
          path = config_text rp cfg ''path'';
          path = (if path \<noteq> [] \<and> \<not> prefix ''/'' path then CHR ''/'' # path else path);
          explicit = config_text rp cfg ''url'' in
      if base \<noteq> [] \<and> path \<noteq> [] then base @ path
      else if explicit \<noteq> [] then explicit
      else if base \<noteq> [] then base else path)"

fun py_float :: "(string \<Rightarrow> exn + rat) \<Rightarrow> pyval \<Rightarrow> exn + rat" where
  "py_float parse (PInt i) = Inr (of_int i)"
| "py_float parse (PBool b) = Inr (if b then 1 else 0)"
| "py_float parse (PFloat r) = Inr r"
| "py_float parse (PStr t) = parse t"
| "py_float parse _ = Inl (Py TypeError)"

definition resolve_metadata_value :: "pydict \<Rightarrow> string \<Rightarrow> pyval option" where
  "resolve_metadata_value metadata key =
     (case dict_get metadata key PNone of
        PNone \<Rightarrow> None
      | PStr t \<Rightarrow> if py_strip t = [] then None else Some (PStr t)
      | v \<Rightarrow> Some v)"

definition resolve_header :: "tool_ports \<Rightarrow> pydict \<Rightarrow> pyval \<Rightarrow> exn + string \<times> string list" where
  "resolve_header p metadata v =
     (case v of
        PDict d \<Rightarrow>
          (case map_of d ''secret_ref'' of
             Some r \<Rightarrow> let secret_ref = py_str (tp_repr p) r in
               rbind (tp_secret p secret_ref) (\<lambda>secret. Inr (secret, [secret_ref]))
           | None \<Rightarrow> (case map_of d ''interaction_metadata_key'' of
               Some k \<Rightarrow> (case resolve_metadata_value metadata (py_str (tp_repr p) k) of
                   None \<Rightarrow> Inl (domain_validation ''interaction_metadata_header_missing'')
                 | Some raw \<Rightarrow> Inr (py_strip (py_str (tp_repr p) raw), []))
             | None \<Rightarrow> Inl (domain_validation ''invalid_tool_headers_config'')))
      | PStr t \<Rightarrow> Inr (t, [])
      | _ \<Rightarrow> Inl (domain_validation ''invalid_tool_headers_config''))"

fun resolve_header_items ::
    "tool_ports \<Rightarrow> pydict \<Rightarrow> pydict \<Rightarrow> (string \<times> string) list \<Rightarrow> string list \<Rightarrow> exn + (string \<times> string) list \<times> string list" where
  "resolve_header_items p metadata [] resolved refs = Inr (resolved, refs)"
| "resolve_header_items p metadata ((k, v) # items) resolved refs =
     rbind (resolve_header p metadata v) (\<lambda>(t, used).
       resolve_header_items p metadata items (AList.update k t resolved) (refs @ used))"

definition resolve_headers :: "tool_ports \<Rightarrow> pydict \<Rightarrow> pydict \<Rightarrow> exn + (string \<times> string) list \<times> string list" where
  "resolve_headers p cfg metadata =
     (let v = dict_get cfg ''headers'' (PDict []) in
      if \<not> truthy v then Inr ([], [])
      else case v of PDict items \<Rightarrow> resolve_header_items p metadata items [] [] | _ \<Rightarrow> Inl (Py AttributeError))"

definition config_timeout :: "tool_ports \<Rightarrow> pydict \<Rightarrow> exn + rat" where
  "config_timeout p cfg = py_float (tp_float p) (dict_get cfg ''timeout_seconds'' (PInt 10))"

subsection \<open>Execution\<close>

definition call_http :: "tool_ports \<Rightarrow> http_request \<Rightarrow> exn + pydict" where
  "call_http p q = rbind (tp_http p q) (\<lambda>result.
     if tp_valid_result p result then Inr result else Inl (domain_validation ''tool_response_validation_failed''))"

definition mark_executing :: "uuid \<Rightarrow> (db, unit) comp" where
  "mark_executing tid = update_tool_run_result tid (run_status R_RUNNING) (tool_status T_EXECUTING) (Some []) (Some [])"

definition mark_failed :: "tool_ports \<Rightarrow> uuid \<Rightarrow> exn \<Rightarrow> (db, unit) comp" where
  "mark_failed p tid x = update_tool_run_result tid (run_status R_FAILED) (tool_status T_ERROR) (Some [])
     (Some [(''error'', PStr (tp_str p x))])"

definition mark_completed :: "uuid \<Rightarrow> pydict \<Rightarrow> (db, unit) comp" where
  "mark_completed tid result =
     update_tool_run_result tid (run_status R_COMPLETED) (tool_status T_SUCCESS) (Some result) (Some [])"

definition record_failure :: "tool_ports \<Rightarrow> tool_run \<Rightarrow> exn \<Rightarrow> (db, unit) comp" where
  "record_failure p t x =
     bind (create_run_failure_for_tool_run (tr_id t) (tr_correlation_id t)
            (if is_domain_validation x then ''tool_response_validation_failed'' else ''tool_execution_error'')
            [(''error'', PStr (tp_str p x))]) (\<lambda>_. ret ())"

definition load_tool_run :: "uuid \<Rightarrow> (db, tool_run \<times> tool_config) comp" where
  "load_tool_run tid =
     bind (get_tool_run tid) (\<lambda>row.
       case row of None \<Rightarrow> raise (domain_validation ''tool_run_not_found'') | Some t \<Rightarrow>
     bind (get_tool_config (tr_tool_config_id t)) (\<lambda>row.
       case row of None \<Rightarrow> raise (domain_validation ''tool_config_not_found'') | Some k \<Rightarrow> ret (t, k)))"

definition agent_http :: "tool_ports \<Rightarrow> pydict \<Rightarrow> pydict \<Rightarrow> pydict \<Rightarrow> exn + pydict" where
  "agent_http p cfg metadata body =
     (let url = effective_tool_http_url (tp_repr p) cfg in
      if url = [] then Inl (domain_validation ''tool_config_missing_url'')
      else rbind (config_timeout p cfg) (\<lambda>timeout.
        rbind (resolve_headers p cfg metadata) (\<lambda>(headers, _).
          call_http p \<lparr>hq_method = dict_get cfg ''method'' (PStr ''POST''), hq_url = url, hq_headers = headers,
            hq_json_body = body, hq_timeout_seconds = timeout\<rparr>)))"

definition execute_agent_tool_run ::
    "tool_ports \<Rightarrow> uuid \<Rightarrow> uuid \<Rightarrow> pydict option \<Rightarrow> (db, pydict) comp" where
  "execute_agent_tool_run p tid tenant metadata =
     bind (load_tool_run tid) (\<lambda>(t, k).
       if tc_tenant_id k \<noteq> tenant then raise (domain_validation ''tool_config_not_found'')
       else bind (mark_executing (tr_id t)) (\<lambda>_.
         bind (catch (lift_res (agent_http p (tc_config k) (or_empty metadata) (tr_input t))) (\<lambda>x.
             bind (mark_failed p (tr_id t) x) (\<lambda>_. bind (record_failure p t x) (\<lambda>_. raise x)))) (\<lambda>result.
         bind (mark_completed (tr_id t) result) (\<lambda>_. ret result))))"

subsection \<open>Tool runs of a flow\<close>

definition json_size :: "tool_ports \<Rightarrow> pyval \<Rightarrow> exn + int" where
  "json_size p v = rbind (json_dumps (tp_float_repr p) False '', '' '': '' v) (\<lambda>t. Inr (int (length t)))"

text \<open>\<open>type(exc).__name__\<close>\<close>

fun service_class_name :: "service_kind \<Rightarrow> string" where
  "service_class_name BaseService = ''BaseServiceException''"
| "service_class_name RouterValidation = ''RouterValidationException''"
| "service_class_name NotImplementedService = ''NotImplementedServiceException''"
| "service_class_name MethodNotAllowedPlaceholder = ''MethodNotAllowedPlaceholderException''"
| "service_class_name NotFoundService = ''NotFoundServiceException''"
| "service_class_name ResourceBlocked = ''ResourceBlockedServiceException''"
| "service_class_name DomainValidation = ''DomainValidationException''"
| "service_class_name DomainConflict = ''DomainConflictException''"
| "service_class_name IdempotencyInProgress = ''IdempotencyInProgressException''"
| "service_class_name InvalidTransition = ''InvalidTransitionException''"
| "service_class_name AIOutputValidation = ''AIOutputValidationException''"
| "service_class_name RagNotAllowed = ''RagNotAllowedException''"
| "service_class_name SchemaIncompatible = ''SchemaIncompatibleException''"
| "service_class_name HashIncompatible = ''HashIncompatibleException''"
| "service_class_name AuthenticationFailed = ''AuthenticationFailedException''"
| "service_class_name AuthorizationDenied = ''AuthorizationDeniedException''"
| "service_class_name RateLimitExceeded = ''RateLimitExceededException''"
| "service_class_name service_kind.LimitExceeded = ''LimitExceededException''"
| "service_class_name GuardrailUnavailable = ''GuardrailUnavailableException''"

definition exn_class_name :: "exn \<Rightarrow> string" where
  "exn_class_name x = (case x of Service k m \<Rightarrow> service_class_name k | Py k \<Rightarrow> py_class_name k)"

definition exn_message :: "exn \<Rightarrow> string" where
  "exn_message x = (case x of Service k m \<Rightarrow> m | Py k \<Rightarrow> [])"

record tool_call =
  cl_run :: tool_run
  cl_flow_run_id :: uuid
  cl_request :: http_request
  cl_secret_refs :: "string list"
  cl_request_size :: int

definition tool_event :: "tool_run \<Rightarrow> uuid \<Rightarrow> uuid \<times> uuid \<Rightarrow> ExecutionEventType \<Rightarrow> pydict \<Rightarrow> (db, unit) comp" where
  "tool_event t fid = (\<lambda>(session, tenant) ty payload.
     bind (append_execution_event (Some fid) \<lparr>ea_tenant_id = tenant, ea_user_id = None, ea_session_id = session,
       ea_type = event_type_value ty, ea_payload = (''tool_run_id'', PStr (uuid_str (tr_id t))) #
         (''tool_config_id'', PStr (uuid_str (tr_tool_config_id t))) # payload,
       ea_correlation_id = tr_correlation_id t, ea_causation_id = None, ea_schema_version = 1, ea_node_id = None,
       ea_edge_id = None\<rparr>) (\<lambda>_. ret ()))"

text \<open>Everything up to the mark that the run is executing; a failure here leaves the run as it was.\<close>

definition prepare_call :: "tool_ports \<Rightarrow> uuid \<Rightarrow> (db, tool_call) comp" where
  "prepare_call p tid =
     bind (load_tool_run tid) (\<lambda>(t, k).
       let cfg = tc_config k; url = effective_tool_http_url (tp_repr p) cfg in
     bind (lift_res (config_timeout p cfg)) (\<lambda>timeout.
     bind (lift_res (py_int (dict_get cfg ''max_attempts'' (PInt 3)))) (\<lambda>_.
     bind (get_flow_run_id_for_tool_run tid) (\<lambda>fid.
     bind (get_interaction_metadata_for_flow_run fid) (\<lambda>metadata.
     bind (lift_res (resolve_headers p cfg metadata)) (\<lambda>(headers, refs).
       if url = [] then raise (domain_validation ''tool_config_missing_url'')
       else bind (mark_executing (tr_id t)) (\<lambda>_.
         bind (lift_res (json_size p (PDict (tr_input t)))) (\<lambda>size.
           ret \<lparr>cl_run = t, cl_flow_run_id = fid, cl_request = \<lparr>hq_method = dict_get cfg ''method'' (PStr ''POST''),
               hq_url = url, hq_headers = headers, hq_json_body = tr_input t, hq_timeout_seconds = timeout\<rparr>,
             cl_secret_refs = refs, cl_request_size = size\<rparr>))))))))"

definition perform_call :: "tool_ports \<Rightarrow> tool_call \<Rightarrow> (db, pydict) comp" where
  "perform_call p c =
     bind (if cl_secret_refs c = [] then ret ()
           else bind (get_flow_context (cl_flow_run_id c)) (\<lambda>ctx.
             tool_event (cl_run c) (cl_flow_run_id c) ctx SecretAccessed
               [(''secret_refs'', PList (map PStr (cl_secret_refs c)))])) (\<lambda>_.
       lift_res (call_http p (cl_request c)))"

definition invocation_payload :: "tool_ports \<Rightarrow> tool_call \<Rightarrow> int \<Rightarrow> pydict" where
  "invocation_payload p c response_size = [(''executor_type'', PStr ''http''), (''latency_ms'', PInt (tp_latency_ms p)),
     (''request_size'', PInt (cl_request_size c)), (''response_size'', PInt response_size), (''retries'', PInt 0)]"

definition call_failed :: "tool_ports \<Rightarrow> tool_call \<Rightarrow> exn \<Rightarrow> (db, pydict) comp" where
  "call_failed p c x =
     (let t = cl_run c in
      bind (get_flow_run_id_for_tool_run (tr_id t)) (\<lambda>fid.
      bind (get_flow_context fid) (\<lambda>ctx.
      bind (if is_domain_validation x
            then tool_event t fid ctx ValidationFailed
              [(''error_class'', PStr (exn_class_name x)), (''message'', PStr (exn_message x))]
            else ret ()) (\<lambda>_.
      bind (mark_failed p (tr_id t) x) (\<lambda>_.
      bind (tool_event t fid ctx ToolInvocationFailed
             (invocation_payload p c 0 @ [(''error_class'', PStr (exn_class_name x))])) (\<lambda>_.
      bind (record_failure p t x) (\<lambda>_. raise x)))))))"

definition call_succeeded :: "tool_ports \<Rightarrow> tool_call \<Rightarrow> pydict \<Rightarrow> (db, pydict) comp" where
  "call_succeeded p c result =
     (let t = cl_run c in
      bind (lift_res (json_size p (dict_get result ''body'' PNone))) (\<lambda>size.
      bind (get_flow_run_id_for_tool_run (tr_id t)) (\<lambda>fid.
      bind (get_flow_context fid) (\<lambda>ctx.
      bind (mark_completed (tr_id t) result) (\<lambda>_.
      bind (tool_event t fid ctx ToolInvocationSucceeded (invocation_payload p c size)) (\<lambda>_.
      bind (create_response_artifact_for_tool_run (tr_id t) [(''type'', PStr ''tool_result''),
             (''tool_run_id'', PStr (uuid_str (tr_id t))), (''result'', PDict result)]) (\<lambda>_. ret result)))))))"

definition execute_tool_run :: "tool_ports \<Rightarrow> uuid \<Rightarrow> (db, pydict) comp" where
  "execute_tool_run p tid =
     bind (prepare_call p tid) (\<lambda>c.
     bind (catch (perform_call p c) (call_failed p c)) (call_succeeded p c))"

subsection \<open>What an execution leaves of the tool runs\<close>

text \<open>The finishing times of the tool runs are as before.\<close>

definition same_finished :: "db \<Rightarrow> db \<Rightarrow> bool" where
  "same_finished s s' \<longleftrightarrow>
     map (\<lambda>t. (tr_id t, tr_finished_at t)) (tool_runs s') = map (\<lambda>t. (tr_id t, tr_finished_at t)) (tool_runs s)"

definition tool_statuses :: "uuid \<Rightarrow> db \<Rightarrow> (string \<times> string) set" where
  "tool_statuses tid s = (\<lambda>t. (tr_status t, tr_canonical_status t)) ` {t \<in> set (tool_runs s). tr_id t = tid}"

text \<open>The steps of an execution that do not touch the tool runs.\<close>

definition same_tool_runs :: "db \<Rightarrow> db \<Rightarrow> bool" where
  "same_tool_runs s s' \<longleftrightarrow> tool_runs s' = tool_runs s"

text \<open>The run is in the table, once.\<close>

definition tool_row :: "uuid \<Rightarrow> db \<Rightarrow> bool" where
  "tool_row tid s \<longleftrightarrow> (\<exists>t. one_or_none (\<lambda>r. tr_id r = tid) (tool_runs s) = Inr (Some t))"

definition demo_ports :: tool_ports where
  "demo_ports = \<lparr>tp_secret = (\<lambda>_. Inr ''s''), tp_http = (\<lambda>_. Inr [(''status_code'', PInt 200)]), tp_valid_result = (\<lambda>_. True),
     tp_float = (\<lambda>_. Inl (Py ValueError)), tp_repr = (\<lambda>_. []), tp_float_repr = (\<lambda>_. []), tp_str = (\<lambda>_. ''error''),
     tp_latency_ms = 5\<rparr>"

definition demo_tool_run :: tool_run where
  "demo_tool_run = \<lparr>tr_id = 60, tr_agent_run_id = None, tr_node_run_id = Some 61, tr_tool_config_id = 62,
     tr_status = ''CREATED'', tr_canonical_status = ''CREATED'', tr_correlation_id = 3, tr_finished_at = None,
     tr_input = [], tr_output = [], tr_error = [], tr_idempotency_key = None, tr_tool_call_id = None,
     tr_has_side_effect = False, tr_estimated_cost = None, tr_billing_policy_version_id = None\<rparr>"

definition demo_tool_config :: "pydict \<Rightarrow> tool_config" where
  "demo_tool_config headers = \<lparr>tc_id = 62, tc_tool_id = 63, tc_tenant_id = 2, tc_status = ''PUBLISHED'',
     tc_config_hash = None, tc_schema_version = None,
     tc_config = [(''url'', PStr ''http://x''), (''headers'', PDict headers)]\<rparr>"

definition demo_tool_db :: "pydict \<Rightarrow> db" where
  "demo_tool_db headers = empty_db\<lparr>tool_runs := [demo_tool_run],
     node_runs := [\<lparr>nr_id = 61, nr_flow_run_id = 40, nr_node_id = 64, nr_status = ''RUNNING'',
       nr_canonical_status = ''RUNNING'', nr_correlation_id = 3, nr_finished_at = None, nr_input = [], nr_output = [],
       nr_created_at = 0\<rparr>],
     flow_runs := [new_flow_run (demo_args\<lparr>fa_interaction_id := None\<rparr>) 40 0],
     config_db := empty_config\<lparr>tool_configs := [demo_tool_config headers]\<rparr>\<rparr>"

lemma effective_url_joins:
  assumes "rstrip_slash (config_text rp cfg ''base_url'') \<noteq> []" and "config_text rp cfg ''path'' \<noteq> []"
  shows "\<exists>b q. effective_tool_http_url rp cfg = b @ CHR ''/'' # q \<and> b \<noteq> [] \<and> last b \<noteq> CHR ''/'' \<and>
    (config_text rp cfg ''path'' = q \<or> config_text rp cfg ''path'' = CHR ''/'' # q)"
proof -
  let ?b = "rstrip_slash (config_text rp cfg ''base_url'')"
  have "last ?b \<noteq> CHR ''/''"
    using assms(1) hd_dropWhile [of "\<lambda>c. c = CHR ''/''" "rev (config_text rp cfg ''base_url'')"]
    by (auto simp: rstrip_slash_def last_rev)
  then show ?thesis
    using assms by (cases "config_text rp cfg ''path''") (auto simp: effective_tool_http_url_def Let_def prefix_def)
qed

lemma update_tool_run_result_finished:
  assumes "st \<notin> {tool_status T_SUCCESS, tool_status T_ERROR}"
  shows "keeps same_finished (update_tool_run_result tid st ct output error)"
  using assms
  by (auto simp: keeps_def update_tool_run_result_def update_tool_run_def get_tool_run_def comp_simps same_finished_def
      update_where_def split: sum.split option.split)

interpretation finished: kept_relation same_finished
  by unfold_locales (auto simp: same_finished_def reflp_def transp_def)

lemma same_finishedI: "tool_runs s' = tool_runs s \<Longrightarrow> same_finished s s'"
  by (simp add: same_finished_def)

interpretation tool_table: kept_relation same_tool_runs
  by unfold_locales (auto simp: same_tool_runs_def reflp_def transp_def)

lemma tool_reads_pure:
  "snd (get_tool_run i s) = s" "snd (get_flow_run_id_for_tool_run i s) = s"
  "snd (get_interaction_metadata_for_flow_run i s) = s" "snd (get_flow_context i s) = s"
proof -
  show "snd (get_tool_run i s) = s" by (simp add: get_tool_run_def)
  have node: "snd (flow_run_id_of_node n s) = s" for n
    by (cases n) (auto simp: flow_run_id_of_node_def get_node_run_def comp_simps split: sum.split option.split)
  show "snd (get_flow_run_id_for_tool_run i s) = s"
    using node by (auto simp: get_flow_run_id_for_tool_run_def get_tool_run_def get_agent_run_def bind_def raise_def
        split: sum.split option.split)
  show "snd (get_interaction_metadata_for_flow_run i s) = s"
    by (auto simp: get_interaction_metadata_for_flow_run_def get_flow_run_def get_interaction_def comp_simps
        split: sum.split option.split)
  show "snd (get_flow_context i s) = s"
    by (auto simp: get_flow_context_def get_flow_run_def get_session_def comp_simps split: sum.split option.split)
qed

lemma get_tool_config_only_redis: "keeps only_redis (get_tool_config i)"
  unfolding get_tool_config_def by (rule tool_config_cache.read_only_redis)

lemma only_redis_tool_runs: "keeps only_redis m \<Longrightarrow> keeps same_tool_runs m"
proof -
  have "only_redis s s' \<Longrightarrow> same_tool_runs s s'" for s s'
    unfolding only_redis_def same_tool_runs_def by auto
  then show "keeps only_redis m \<Longrightarrow> keeps same_tool_runs m" unfolding keeps_def by blast
qed

lemma load_tool_run_rows: "keeps same_tool_runs (load_tool_run tid)"
  unfolding load_tool_run_def
  by (intro tool_table.steps only_redis_tool_runs [OF get_tool_config_only_redis])
     (simp add: tool_table.step_pure tool_reads_pure)

lemma event_same_tool_runs: "keeps same_tool_runs (append_execution_event fid a)"
  by (auto simp: keeps_def same_tool_runs_def append_execution_event_def new_uuid_def buffer_event_def Let_def
      persist_execution_events_batch_def event_user_def run_user_def get_flow_run_def comp_simps
      split: option.splits sum.splits list.splits)

lemma tool_event_rows: "keeps same_tool_runs (tool_event t fid ctx ty payload)"
  unfolding tool_event_def by (cases ctx) (simp add: tool_table.steps event_same_tool_runs)

lemma record_failure_rows: "keeps same_tool_runs (record_failure p t x)"
  unfolding record_failure_def create_run_failure_for_tool_run_def
  by (intro tool_table.steps keeps_modify) (simp_all add: keeps_def new_uuid_def same_tool_runs_def)

lemma artifact_rows: "keeps same_tool_runs (create_response_artifact_for_tool_run tid payload)"
  unfolding create_response_artifact_for_tool_run_def create_response_artifact_for_flow_run_def
  by (intro tool_table.steps keeps_modify)
     (simp_all add: tool_table.step_pure tool_reads_pure get_flow_run_def keeps_def new_uuid_def same_tool_runs_def)

lemma rows_finished: "keeps same_tool_runs m \<Longrightarrow> keeps same_finished m"
  by (auto simp: keeps_def same_tool_runs_def same_finished_def)

lemma marks_finished:
  "keeps same_finished (mark_executing tid)" "keeps same_finished (mark_failed p tid x)"
  "keeps same_finished (mark_completed tid result)"
  unfolding mark_executing_def mark_failed_def mark_completed_def
  by (rule update_tool_run_result_finished; simp)+

lemmas execution_finished = finished.steps finished.step_catch marks_finished rows_finished [OF load_tool_run_rows]
  rows_finished [OF tool_event_rows] rows_finished [OF record_failure_rows] rows_finished [OF artifact_rows]

text \<open>
  C39: No execution of a tool run sets its finishing time, neither for a flow nor for an agent and whether it
  succeeds or fails: the repository stamps the time for the statuses \<open>SUCCESS\<close> and \<open>ERROR\<close>, and the orchestrator
  writes \<open>COMPLETED\<close> and \<open>FAILED\<close>.
\<close>

theorem tool_runs_never_finish:
  "same_finished s (snd (execute_tool_run p tid s)) \<and> same_finished s (snd (execute_agent_tool_run p tid tenant metadata s))"
proof
  have "keeps same_finished (execute_tool_run p tid)"
    unfolding execute_tool_run_def prepare_call_def perform_call_def call_failed_def call_succeeded_def Let_def
    by (intro execution_finished) (simp_all add: finished.step_pure tool_reads_pure)
  then show "same_finished s (snd (execute_tool_run p tid s))" by (simp add: keeps_def)
  have "keeps same_finished (execute_agent_tool_run p tid tenant metadata)"
    unfolding execute_agent_tool_run_def by (intro execution_finished)
  then show "same_finished s (snd (execute_agent_tool_run p tid tenant metadata s))" by (simp add: keeps_def)
qed

lemma filter_update_same:
  "(\<And>r. P (f r) = P r) \<Longrightarrow> filter P (update_where P f rows) = map f (filter P rows)"
  by (induction rows) (simp_all add: update_where_def)

lemma one_or_none_update:
  "one_or_none P rows = Inr (Some r) \<Longrightarrow> (\<And>r. P (f r) = P r) \<Longrightarrow> one_or_none P (update_where P f rows) = Inr (Some (f r))"
  by (auto simp: one_or_none_def filter_update_same split: list.splits)

lemma one_or_none_rows: "one_or_none P rows = Inr (Some r) \<Longrightarrow> {x \<in> set rows. P x} = {r}"
  by (auto simp: one_or_none_def split: list.splits dest: filter_eq_ConsD simp flip: set_filter)

lemma update_tool_run_result_statuses:
  assumes "tool_row tid s"
  shows "\<exists>s'. update_tool_run_result tid st ct output error s = (Inr (), s') \<and> tool_row tid s' \<and>
    tool_statuses tid s' = {(st, ct)} \<and> run_failures s' = run_failures s"
proof -
  obtain t where t: "one_or_none (\<lambda>r. tr_id r = tid) (tool_runs s) = Inr (Some t)"
    using assms by (auto simp: tool_row_def)
  let ?f = "\<lambda>r. r\<lparr>tr_status := st, tr_canonical_status := ct, tr_output := or_empty output, tr_error := or_empty error,
      tr_finished_at := (if st \<in> {tool_status T_SUCCESS, tool_status T_ERROR} then Some (clock s) else tr_finished_at r)\<rparr>"
  let ?s = "s\<lparr>tool_runs := update_where (\<lambda>r. tr_id r = tid) ?f (tool_runs s)\<rparr>"
  have "update_tool_run_result tid st ct output error s = (Inr (), ?s)"
    unfolding update_tool_run_result_def update_tool_run_def get_tool_run_def by (simp add: t comp_simps)
  moreover have row: "one_or_none (\<lambda>r. tr_id r = tid) (tool_runs ?s) = Inr (Some (?f t))"
    using one_or_none_update [OF t, of ?f] by simp
  moreover have "tool_statuses tid ?s = {(st, ct)}"
    unfolding tool_statuses_def one_or_none_rows [OF row] by simp
  ultimately show ?thesis unfolding tool_row_def by (intro exI [of _ ?s]) simp
qed

lemma load_tool_run_facts:
  assumes "load_tool_run tid s = (Inr (t, k), s1)"
  shows "tr_id t = tid \<and> tool_row tid s1 \<and> only_redis s s1"
proof -
  have row: "one_or_none (\<lambda>r. tr_id r = tid) (tool_runs s) = Inr (Some t)"
    and config_read: "get_tool_config (tr_tool_config_id t) s = (Inr (Some k), s1)"
    using assms by (auto simp: load_tool_run_def bind_eq_Inr get_tool_run_def ret_def raise_def split: option.splits)
  have "{x \<in> set (tool_runs s). tr_id x = tid} = {t}" by (rule one_or_none_rows [OF row])
  then have "tr_id t = tid" by blast
  moreover have redis: "only_redis s s1" by (rule keepsD [OF get_tool_config_only_redis config_read])
  then have "tool_runs s1 = tool_runs s" by (auto simp: only_redis_def)
  then have "tool_row tid s1" using row by (simp add: tool_row_def)
  ultimately show ?thesis using redis by simp
qed

lemma record_failure_eq:
  "\<exists>s' y. record_failure p t x s = (Inr (), s') \<and> tool_runs s' = tool_runs s \<and> run_failures s' = run_failures s @ [y]"
  by (simp add: record_failure_def create_run_failure_for_tool_run_def new_uuid_def comp_simps)

lemma tool_statuses_rows: "tool_runs s' = tool_runs s \<Longrightarrow> tool_statuses tid s' = tool_statuses tid s"
  by (simp add: tool_statuses_def)

text \<open>
  C40: A tool run that an agent executes with a configuration of its own tenant is always settled: it ends as
  completed with the result, or as failed with one failure recorded, and never stays executing.  With a
  configuration of another tenant nothing is written.
\<close>

theorem agent_tool_run_settled:
  assumes load: "load_tool_run tid s = (Inr (t, k), s1)"
  shows "case execute_agent_tool_run p tid tenant metadata s of
      (Inr r, s') \<Rightarrow> tool_statuses tid s' = {(''COMPLETED'', ''SUCCESS'')} \<and> run_failures s' = run_failures s
    | (Inl x, s') \<Rightarrow>
        if tc_tenant_id k = tenant
        then tool_statuses tid s' = {(''FAILED'', ''ERROR'')} \<and> length (run_failures s') = Suc (length (run_failures s))
        else only_redis s s'"
proof (cases "tc_tenant_id k = tenant")
  case False
  then have "execute_agent_tool_run p tid tenant metadata s = (Inl (domain_validation ''tool_config_not_found''), s1)"
    using load by (simp add: execute_agent_tool_run_def bind_def raise_def)
  with False load_tool_run_facts [OF load] show ?thesis by simp
next
  case True
  note facts = load_tool_run_facts [OF load]
  obtain s2 where s2: "mark_executing tid s1 = (Inr (), s2)" "tool_row tid s2" "run_failures s2 = run_failures s1"
    using update_tool_run_result_statuses facts unfolding mark_executing_def by blast
  have same: "run_failures s1 = run_failures s" using facts by (auto simp: only_redis_def)
  show ?thesis
  proof (cases "agent_http p (tc_config k) (or_empty metadata) (tr_input t)")
    case (Inr r)
    obtain s3 where s3: "mark_completed tid r s2 = (Inr (), s3)" "tool_statuses tid s3 = {(''COMPLETED'', ''SUCCESS'')}"
      "run_failures s3 = run_failures s2"
      using update_tool_run_result_statuses [OF s2(2), of "''COMPLETED''" "''SUCCESS''"]
      unfolding mark_completed_def run_status.simps tool_status.simps by blast
    have "execute_agent_tool_run p tid tenant metadata s = (Inr r, s3)"
      using load True s2(1) s3(1) facts Inr by (simp add: execute_agent_tool_run_def comp_simps)
    then show ?thesis using s2(3) s3 same by simp
  next
    case (Inl x)
    obtain s3 where s3: "mark_failed p tid x s2 = (Inr (), s3)" "tool_statuses tid s3 = {(''FAILED'', ''ERROR'')}"
      "run_failures s3 = run_failures s2"
      using update_tool_run_result_statuses [OF s2(2), of "''FAILED''" "''ERROR''"]
      unfolding mark_failed_def run_status.simps tool_status.simps by blast
    obtain s4 y where s4: "record_failure p t x s3 = (Inr (), s4)" "tool_runs s4 = tool_runs s3"
      "run_failures s4 = run_failures s3 @ [y]"
      using record_failure_eq by blast
    have "execute_agent_tool_run p tid tenant metadata s = (Inl x, s4)"
      using load True s2(1) s3(1) s4(1) facts Inl by (simp add: execute_agent_tool_run_def comp_simps)
    then show ?thesis using s2(3) s3 s4 same True tool_statuses_rows [OF s4(2)] by simp
  qed
qed

text \<open>
  A tool run of a flow whose headers cannot be resolved is left as it was created: the caller gets the error, but
  the run keeps its status and no failure or event is recorded.
\<close>

theorem header_failure_unrecorded:
  assumes load: "load_tool_run tid s = (Inr (t, k), s1)"
    and "config_timeout p (tc_config k) = Inr timeout"
    and "py_int (dict_get (tc_config k) ''max_attempts'' (PInt 3)) = Inr attempts"
    and fid: "get_flow_run_id_for_tool_run tid s1 = (Inr fid, s1)"
    and md: "get_interaction_metadata_for_flow_run fid s1 = (Inr metadata, s1)"
    and "resolve_headers p (tc_config k) metadata = Inl x"
  shows "execute_tool_run p tid s = (Inl x, s1) \<and> only_redis s s1"
proof -
  have "prepare_call p tid s = (Inl x, s1)"
    using load fid md assms(2,3,6) by (simp add: prepare_call_def Let_def comp_simps)
  then show ?thesis using load_tool_run_facts [OF load] by (simp add: execute_tool_run_def bind_def)
qed

lemma demo_tool_loaded:
  "\<exists>s1. load_tool_run 60 (demo_tool_db headers) = (Inr (demo_tool_run, demo_tool_config headers), s1)"
  by (simp add: load_tool_run_def get_tool_run_def get_tool_config_def cached_read_eq reachable_def row_of_id_def
      one_or_none_def demo_tool_db_def demo_tool_run_def demo_tool_config_def empty_db_def empty_config_def empty_redis_def
      cache_lookup_def comp_simps)

theorem agent_tool_run_settled_witness:
  "tool_statuses 60 (snd (execute_agent_tool_run demo_ports 60 2 None (demo_tool_db []))) = {(''COMPLETED'', ''SUCCESS'')}"
proof -
  obtain s1 where "load_tool_run 60 (demo_tool_db []) = (Inr (demo_tool_run, demo_tool_config []), s1)"
    using demo_tool_loaded by blast
  note out = agent_tool_run_settled [OF this, where p = demo_ports and tenant = 2 and metadata = None]
  have "\<not> isl (fst (execute_agent_tool_run demo_ports 60 2 None (demo_tool_db [])))" by code_simp
  then show ?thesis using out by (auto split: prod.splits sum.splits)
qed

theorem header_failure_unrecorded_witness:
  "\<exists>s1. execute_tool_run demo_ports 60 (demo_tool_db [(''Authorization'', PInt 7)]) =
     (Inl (domain_validation ''invalid_tool_headers_config''), s1) \<and> only_redis (demo_tool_db [(''Authorization'', PInt 7)]) s1"
proof -
  let ?h = "[(''Authorization'', PInt 7)]"
  obtain s1 where load: "load_tool_run 60 (demo_tool_db ?h) = (Inr (demo_tool_run, demo_tool_config ?h), s1)"
    using demo_tool_loaded by blast
  have s1: "s1 = snd (load_tool_run 60 (demo_tool_db ?h))" by (simp add: load)
  have "fst (get_flow_run_id_for_tool_run 60 s1) = Inr 40" "fst (get_interaction_metadata_for_flow_run 40 s1) = Inr []"
    unfolding s1 by code_simp+
  then have "get_flow_run_id_for_tool_run 60 s1 = (Inr 40, s1)" "get_interaction_metadata_for_flow_run 40 s1 = (Inr [], s1)"
    using tool_reads_pure by (metis prod.collapse)+
  from header_failure_unrecorded [OF load _ _ this] show ?thesis
    by (simp add: demo_tool_config_def config_timeout_def dict_get_def resolve_headers_def resolve_header_def)
qed

end
