(* ===== verification/Authentication.thy ===== *)
theory Authentication
  imports Governance PyHash NodeStepRunner
begin

text \<open>
  Authentication: the bearer tokens, inbound service keys and the admin key of \<^verbatim>\<open>src/src/utils/auth.py\<close>, the
  tokens and keys issued by \<^verbatim>\<open>src/src/domain/auth/services/auth_service.py\<close>, the checks of
  \<^verbatim>\<open>src/src/domain/auth/controllers/auth_controller.py\<close> and the key table of
  \<^verbatim>\<open>src/src/domain/auth/repositories/inbound_service_key_repository.py\<close>.

  The signing and verification of a token (\<^verbatim>\<open>jose\<close>) are the fields \<open>as_encode\<close> and \<open>as_decode\<close> of the settings;
  a token that does not verify at the given time, in seconds,
  decodes to \<open>None\<close>.  An exception carries its message; the status code 503 that
  two of them override is left out.
\<close>

record AuthContext =
  ac_tenant_id :: "uuid option"
  ac_principal_type :: string
  ac_principal_id :: string
  ac_scopes :: "string set"
  ac_token_issuer :: string
  ac_token_audience :: string
  ac_expires_at :: int

record auth_settings =
  as_secret :: string
  as_issuer :: string
  as_audience :: string
  as_leeway :: int
  as_token_seconds :: int
  as_admin_key :: string
  as_encode :: "pydict \<Rightarrow> string"
  as_decode :: "int \<Rightarrow> string \<Rightarrow> pydict option"
  as_repr :: "pyval \<Rightarrow> string"

abbreviation unauthenticated :: "string \<Rightarrow> exn" where
  "unauthenticated m \<equiv> Service AuthenticationFailed m"

abbreviation denied :: "string \<Rightarrow> exn" where
  "denied m \<equiv> Service AuthorizationDenied m"

subsection \<open>Claims\<close>

text \<open>\<open>str.split()\<close>\<close>

fun split_words :: "string \<Rightarrow> string \<Rightarrow> string list" where
  "split_words [] w = (if w = [] then [] else [rev w])"
| "split_words (c # cs) w =
     (if py_space c then (if w = [] then [] else [rev w]) @ split_words cs [] else split_words cs (c # w))"

definition scopes_claim :: "auth_settings \<Rightarrow> pyval \<Rightarrow> exn + string set" where
  "scopes_claim a v =
     (case (case v of
              PNone \<Rightarrow> Inl (denied ''scopes_claim_required'')
            | PStr t \<Rightarrow> Inr (set (split_words t []))
            | PList vs \<Rightarrow> Inr (set (filter (\<lambda>t. py_strip t \<noteq> []) (map (py_str (as_repr a)) vs)))
            | _ \<Rightarrow> Inl (denied ''scopes_claim_invalid'')) of
        Inl x \<Rightarrow> Inl x
      | Inr scopes \<Rightarrow> if scopes = {} then Inl (denied ''scopes_claim_empty'') else Inr scopes)"

definition tenant_claim :: "auth_settings \<Rightarrow> string set \<Rightarrow> pyval \<Rightarrow> exn + uuid option" where
  "tenant_claim a scopes v =
     (if v = PNone
      then if ''tenants:create'' \<in> scopes then Inr None else Inl (denied ''tenant_id_claim_required'')
      else case parse_uuid (py_str (as_repr a) v) of
        Inl _ \<Rightarrow> Inl (denied ''tenant_id_claim_invalid'') | Inr t \<Rightarrow> Inr (Some t))"

text \<open>Membership in a set needs a hashable value.\<close>

definition principal_type_claim :: "pyval \<Rightarrow> exn + string" where
  "principal_type_claim v =
     (case v of
        PStr t \<Rightarrow> if t \<in> {''human'', ''machine''} then Inr t else Inl (denied ''principal_type_claim_required'')
      | _ \<Rightarrow> if hashable v then Inl (denied ''principal_type_claim_required'') else Inl (Py TypeError))"

definition principal_id_claim :: "auth_settings \<Rightarrow> pydict \<Rightarrow> exn + string" where
  "principal_id_claim a payload =
     (let p = dict_get payload ''principal_id'' PNone;
          v = (if truthy p then p else dict_get payload ''sub'' PNone) in
      if v = PNone \<or> py_strip (py_str (as_repr a) v) = [] then Inl (denied ''principal_id_claim_required'')
      else Inr (py_str (as_repr a) v))"

definition issuer_claim :: "auth_settings \<Rightarrow> pydict \<Rightarrow> exn + string" where
  "issuer_claim a payload =
     (let v = dict_get payload ''iss'' PNone in
      if v = PNone \<or> py_str (as_repr a) v \<noteq> as_issuer a then Inl (unauthenticated ''invalid_token_issuer'')
      else Inr (py_str (as_repr a) v))"

definition audience_claim :: "auth_settings \<Rightarrow> pydict \<Rightarrow> exn + string" where
  "audience_claim a payload =
     (let v = dict_get payload ''aud'' PNone; audience = (if v = PNone then [] else py_str (as_repr a) v) in
      if audience = [] \<or> audience \<noteq> as_audience a then Inl (unauthenticated ''invalid_token_audience'')
      else Inr audience)"

definition exp_claim :: "auth_settings \<Rightarrow> int \<Rightarrow> pydict \<Rightarrow> exn + int" where
  "exp_claim a now payload =
     (case py_int (dict_get payload ''exp'' PNone) of
        Inl _ \<Rightarrow> Inl (unauthenticated ''token_exp_required'')
      | Inr e \<Rightarrow> if e + as_leeway a \<le> now then Inl (unauthenticated ''token_expired'') else Inr e)"

definition context_of_claims :: "auth_settings \<Rightarrow> int \<Rightarrow> pydict \<Rightarrow> exn + AuthContext" where
  "context_of_claims a now payload =
     rbind (issuer_claim a payload) (\<lambda>issuer.
     rbind (audience_claim a payload) (\<lambda>audience.
     rbind (exp_claim a now payload) (\<lambda>e.
     rbind (scopes_claim a (dict_get payload ''scopes'' PNone)) (\<lambda>scopes.
     rbind (tenant_claim a scopes (dict_get payload ''tenant_id'' PNone)) (\<lambda>tenant.
     rbind (principal_type_claim (dict_get payload ''principal_type'' PNone)) (\<lambda>ptype.
     rbind (principal_id_claim a payload) (\<lambda>pid.
       Inr \<lparr>ac_tenant_id = tenant, ac_principal_type = ptype, ac_principal_id = pid, ac_scopes = scopes,
         ac_token_issuer = issuer, ac_token_audience = audience, ac_expires_at = e\<rparr>)))))))"

text \<open>The credentials are the scheme and the token of the authorization header.\<close>

definition jwt_auth_context_from_bearer :: "auth_settings \<Rightarrow> int \<Rightarrow> (string \<times> string) option \<Rightarrow> exn + AuthContext" where
  "jwt_auth_context_from_bearer a now credentials =
     (case credentials of
        None \<Rightarrow> Inl (unauthenticated ''missing_bearer_token'')
      | Some (scheme, token) \<Rightarrow>
          if py_lower scheme \<noteq> ''bearer'' then Inl (unauthenticated ''missing_bearer_token'')
          else if as_secret a = [] then Inl (unauthenticated ''auth_not_configured'')
          else if as_issuer a = [] \<or> as_audience a = []
            then Inl (unauthenticated ''jwt_issuer_audience_not_configured'')
          else case as_decode a now token of
            None \<Rightarrow> Inl (unauthenticated ''invalid_token'')
          | Some payload \<Rightarrow> context_of_claims a now payload)"

subsection \<open>Keys, tokens and their audit trail\<close>

record inbound_key =
  ik_id :: uuid
  ik_tenant_id :: uuid
  ik_key_hash :: string
  ik_revoked_at :: "time option"

record authoring_event =
  ao_tenant_id :: uuid
  ao_resource_type :: string
  ao_resource_id :: uuid
  ao_version_id :: "uuid option"
  ao_event_type :: string
  ao_change_type :: string
  ao_principal_id :: string
  ao_justification :: string

text \<open>The tables, and the rate store that the processes keep in memory.\<close>

record auth_tables =
  at_tenants :: "uuid list"
  at_keys :: "inbound_key list"
  at_events :: "authoring_event list"
  at_rate_store :: "(string \<times> time list) list"

type_synonym auth_state = "db \<times> auth_tables"

definition tables :: "(auth_tables \<Rightarrow> auth_tables) \<Rightarrow> (auth_state, unit) comp" where
  "tables f = modify (\<lambda>(d, t). (d, f t))"

definition find_active_by_key_hash :: "string \<Rightarrow> (auth_state, inbound_key option) comp" where
  "find_active_by_key_hash h = (\<lambda>s. (one_or_none (\<lambda>k. ik_key_hash k = h \<and> ik_revoked_at k = None) (at_keys (snd s)), s))"

definition get_by_id_for_tenant :: "uuid \<Rightarrow> uuid \<Rightarrow> (auth_state, inbound_key option) comp" where
  "get_by_id_for_tenant kid tenant = (\<lambda>s. (one_or_none (\<lambda>k. ik_id k = kid \<and> ik_tenant_id k = tenant) (at_keys (snd s)), s))"

definition insert_key :: "uuid \<Rightarrow> string \<Rightarrow> (auth_state, uuid) comp" where
  "insert_key tenant h =
     bind (on_db new_uuid) (\<lambda>kid.
     bind (tables (\<lambda>t. t\<lparr>at_keys := at_keys t @ [\<lparr>ik_id = kid, ik_tenant_id = tenant, ik_key_hash = h,
       ik_revoked_at = None\<rparr>]\<rparr>)) (\<lambda>_. ret kid))"

definition revoke_key :: "uuid \<Rightarrow> uuid \<Rightarrow> (auth_state, bool) comp" where
  "revoke_key kid tenant =
     bind (get_by_id_for_tenant kid tenant) (\<lambda>row.
       case row of
         None \<Rightarrow> ret False
       | Some k \<Rightarrow> if ik_revoked_at k \<noteq> None then ret False
           else bind (modify (\<lambda>(d, t). (d, t\<lparr>at_keys := update_where (\<lambda>k. ik_id k = kid \<and> ik_tenant_id k = tenant)
             (\<lambda>k. k\<lparr>ik_revoked_at := Some (clock d)\<rparr>) (at_keys t)\<rparr>))) (\<lambda>_. ret True))"

definition append_event :: "authoring_event \<Rightarrow> (auth_state, unit) comp" where
  "append_event x = bind (on_db new_uuid) (\<lambda>_. tables (\<lambda>t. t\<lparr>at_events := at_events t @ [x]\<rparr>))"

definition require_tenant :: "uuid \<Rightarrow> (auth_state, unit) comp" where
  "require_tenant tenant = bind (\<lambda>s. (one_or_none (\<lambda>x. x = tenant) (at_tenants (snd s)), s)) (\<lambda>row.
     case row of None \<Rightarrow> raise (not_found ''tenant_not_found'') | Some _ \<Rightarrow> ret ())"

text \<open>\<open>_check_local_rate_limit\<close>\<close>

definition check_local_rate_limit :: "string \<Rightarrow> (auth_state, unit) comp" where
  "check_local_rate_limit pid =
     bind (get (\<lambda>(d, t). (clock d, filter (\<lambda>x. clock d - 300 < x) (dict_get (at_rate_store t) pid [])))) (\<lambda>(now, recent).
     bind (tables (\<lambda>t. t\<lparr>at_rate_store := AList.update pid recent (at_rate_store t)\<rparr>)) (\<lambda>_.
       if 20 \<le> length recent then raise (Service RateLimitExceeded ''tenant_token_rate_limit'')
       else tables (\<lambda>t. t\<lparr>at_rate_store := AList.update pid (recent @ [now]) (at_rate_store t)\<rparr>)))"

text \<open>
  \<open>_check_rate_limit\<close>.  The silent adapter answers \<open>False\<close> when the server is down; \<open>False\<close> is an instance of
  \<open>int\<close>, so the branch for other values, which would fall back to the local limit, is never taken.
\<close>

definition check_rate_limit :: "bool \<Rightarrow> string \<Rightarrow> (auth_state, unit) comp" where
  "check_rate_limit has_cache pid =
     (if \<not> has_cache then check_local_rate_limit pid
      else bind (on_db (incr_with_ttl (''auth:tenant_token_rate:'' @ pid) 300)) (\<lambda>used.
        if 20 < used then raise (Service RateLimitExceeded ''tenant_token_rate_limit'') else ret ()))"

definition token_payload :: "auth_settings \<Rightarrow> int \<Rightarrow> uuid \<Rightarrow> AuthContext \<Rightarrow> pydict" where
  "token_payload a now tenant auth = [(''iss'', PStr (as_issuer a)), (''aud'', PStr (as_audience a)),
     (''exp'', PInt (now + as_token_seconds a)), (''tenant_id'', PStr (uuid_str tenant)),
     (''principal_id'', PStr (ac_principal_id auth)), (''principal_type'', PStr (ac_principal_type auth)),
     (''scopes'', PList (map PStr (sorted_list_of_set (ac_scopes auth - {''tenants:create''})))),
     (''sub'', PStr (ac_principal_id auth))]"

definition svc_issue_tenant_token :: "auth_settings \<Rightarrow> bool \<Rightarrow> uuid \<Rightarrow> AuthContext \<Rightarrow> (auth_state, string) comp" where
  "svc_issue_tenant_token a has_cache tenant auth =
     bind (check_rate_limit has_cache (ac_principal_id auth)) (\<lambda>_.
     bind (require_tenant tenant) (\<lambda>_.
     bind (get (\<lambda>s. clock (fst s))) (\<lambda>now.
       if as_secret a = [] \<or> as_issuer a = [] \<or> as_audience a = []
       then raise (unauthenticated ''auth_not_configured'')
       else bind (append_event \<lparr>ao_tenant_id = tenant, ao_resource_type = ''tenant'', ao_resource_id = tenant,
              ao_version_id = None,
              ao_event_type = ''TENANT_TOKEN_ISSUED'', ao_change_type = ''CREATE'',
              ao_principal_id = ac_principal_id auth, ao_justification = ''tenant token issued''\<rparr>) (\<lambda>_.
            ret (as_encode a (token_payload a now tenant auth))))))"

text \<open>\<open>secret\<close> is what \<open>secrets.token_urlsafe\<close> returns.\<close>

definition svc_create_inbound_service_key :: "string \<Rightarrow> uuid \<Rightarrow> AuthContext \<Rightarrow> (auth_state, uuid \<times> uuid \<times> string) comp" where
  "svc_create_inbound_service_key secret tenant auth =
     bind (require_tenant tenant) (\<lambda>_.
     bind (insert_key tenant (sha256_hex secret)) (\<lambda>kid.
     bind (append_event \<lparr>ao_tenant_id = tenant, ao_resource_type = ''tenant_inbound_service_key'', ao_resource_id = kid,
            ao_version_id = None,
            ao_event_type = ''TENANT_INBOUND_SERVICE_KEY_CREATED'', ao_change_type = ''CREATE'',
            ao_principal_id = ac_principal_id auth, ao_justification = ''inbound service key created''\<rparr>) (\<lambda>_.
       ret (kid, tenant, secret))))"

definition svc_revoke_inbound_service_key :: "uuid \<Rightarrow> uuid \<Rightarrow> AuthContext \<Rightarrow> (auth_state, unit) comp" where
  "svc_revoke_inbound_service_key kid tenant auth =
     bind (revoke_key kid tenant) (\<lambda>ok.
       if \<not> ok then raise (not_found ''inbound_service_key_not_found'')
       else append_event \<lparr>ao_tenant_id = tenant, ao_resource_type = ''tenant_inbound_service_key'', ao_resource_id = kid,
            ao_version_id = None,
         ao_event_type = ''TENANT_INBOUND_SERVICE_KEY_REVOKED'', ao_change_type = ''UPDATE'',
         ao_principal_id = ac_principal_id auth, ao_justification = ''inbound service key revoked''\<rparr>)"

subsection \<open>Who a request comes from\<close>

text \<open>The key header, absent or not, as \<open>(header or '').strip()\<close>.\<close>

definition header_key :: "string option \<Rightarrow> string" where
  "header_key h = py_strip (case h of None \<Rightarrow> [] | Some t \<Rightarrow> t)"

definition key_context :: "auth_settings \<Rightarrow> int \<Rightarrow> inbound_key \<Rightarrow> string set \<Rightarrow> AuthContext" where
  "key_context a now k scopes = \<lparr>ac_tenant_id = Some (ik_tenant_id k), ac_principal_type = ''machine'',
     ac_principal_id = uuid_str (ik_id k), ac_scopes = scopes, ac_token_issuer = as_issuer a,
     ac_token_audience = as_audience a, ac_expires_at = now + 3600\<rparr>"

definition key_row :: "string \<Rightarrow> (auth_state, inbound_key) comp" where
  "key_row key = bind (find_active_by_key_hash (sha256_hex key)) (\<lambda>row.
     case row of None \<Rightarrow> raise (unauthenticated ''invalid_inbound_service_key'') | Some k \<Rightarrow> ret k)"

definition bearer_context :: "auth_settings \<Rightarrow> (string \<times> string) option \<Rightarrow> (auth_state, AuthContext) comp" where
  "bearer_context a credentials =
     bind (get (\<lambda>s. clock (fst s))) (\<lambda>now. lift_res (jwt_auth_context_from_bearer a now credentials))"

definition get_tenant_token_m2m_auth ::
    "auth_settings \<Rightarrow> uuid option \<Rightarrow> string option \<Rightarrow> (string \<times> string) option \<Rightarrow> (auth_state, AuthContext) comp" where
  "get_tenant_token_m2m_auth a body_tenant header credentials =
     (if header_key header = [] then bearer_context a credentials
      else bind (key_row (header_key header)) (\<lambda>k.
        if body_tenant \<noteq> None \<and> body_tenant \<noteq> Some (ik_tenant_id k)
        then raise (denied ''inbound_key_tenant_mismatch'')
        else if as_issuer a = [] \<or> as_audience a = []
        then raise (unauthenticated ''jwt_issuer_audience_not_configured'')
        else bind (get (\<lambda>s. clock (fst s))) (\<lambda>now.
          ret (key_context a now k {''tenants:create'', ''execution:flow_run:create''}))))"

definition get_auth_context_or_api_key ::
    "auth_settings \<Rightarrow> string option \<Rightarrow> (string \<times> string) option \<Rightarrow> (auth_state, AuthContext) comp" where
  "get_auth_context_or_api_key a header credentials =
     (if header_key header = [] then bearer_context a credentials
      else bind (key_row (header_key header)) (\<lambda>k.
        bind (get (\<lambda>s. clock (fst s))) (\<lambda>now.
          ret (key_context a now k {''conversation:turn:create'', ''execution:flow_run:create''}))))"

text \<open>\<open>compare_digest\<close> accepts strings of ASCII characters only.\<close>

definition get_admin_auth :: "auth_settings \<Rightarrow> string option \<Rightarrow> exn + unit" where
  "get_admin_auth a header =
     (if as_admin_key a = [] then Inl (unauthenticated ''admin_endpoint_not_configured'')
      else if header_key header = [] then Inl (unauthenticated ''invalid_admin_key'')
      else if \<exists>c \<in> set (header_key header @ as_admin_key a). 128 \<le> (of_char c :: nat) then Inl (Py TypeError)
      else if header_key header \<noteq> as_admin_key a then Inl (unauthenticated ''invalid_admin_key'')
      else Inr ())"

subsection \<open>The controller\<close>

definition check_tenant_scope :: "AuthContext \<Rightarrow> uuid option \<Rightarrow> exn + unit" where
  "check_tenant_scope auth body_tenant =
     (if ''tenants:create'' \<notin> ac_scopes auth then Inl (denied ''insufficient_scope'')
      else if ac_tenant_id auth \<noteq> None \<and> body_tenant \<noteq> None \<and> body_tenant \<noteq> ac_tenant_id auth
      then Inl (denied ''tenant_scope_mismatch'') else Inr ())"

definition issue_tenant_token ::
    "auth_settings \<Rightarrow> bool \<Rightarrow> uuid option \<Rightarrow> string option \<Rightarrow> (string \<times> string) option \<Rightarrow> (auth_state, string) comp" where
  "issue_tenant_token a has_cache body_tenant header credentials =
     bind (get_tenant_token_m2m_auth a body_tenant header credentials) (\<lambda>auth.
     bind (lift_res (check_tenant_scope auth body_tenant)) (\<lambda>_.
       case (case body_tenant of Some t \<Rightarrow> Some t | None \<Rightarrow> ac_tenant_id auth) of
         None \<Rightarrow> raise (Service RouterValidation ''tenant_id_required'')
       | Some t \<Rightarrow> svc_issue_tenant_token a has_cache t auth))"

definition create_inbound_service_key ::
    "auth_settings \<Rightarrow> string \<Rightarrow> uuid \<Rightarrow> (string \<times> string) option \<Rightarrow> (auth_state, uuid \<times> uuid \<times> string) comp" where
  "create_inbound_service_key a secret tenant credentials =
     bind (bearer_context a credentials) (\<lambda>auth.
     bind (lift_res (check_tenant_scope auth (Some tenant))) (\<lambda>_.
       svc_create_inbound_service_key secret tenant auth))"

definition revoke_inbound_service_key ::
    "auth_settings \<Rightarrow> uuid \<Rightarrow> uuid \<Rightarrow> (string \<times> string) option \<Rightarrow> (auth_state, unit) comp" where
  "revoke_inbound_service_key a kid tenant credentials =
     bind (bearer_context a credentials) (\<lambda>auth.
     bind (lift_res (check_tenant_scope auth (Some tenant))) (\<lambda>_.
       svc_revoke_inbound_service_key kid tenant auth))"

definition create_admin_api_key ::
    "auth_settings \<Rightarrow> string \<Rightarrow> uuid \<Rightarrow> string option \<Rightarrow> (auth_state, uuid \<times> uuid \<times> string) comp" where
  "create_admin_api_key a secret tenant header =
     bind (lift_res (get_admin_auth a header)) (\<lambda>_.
       svc_create_inbound_service_key secret tenant \<lparr>ac_tenant_id = None, ac_principal_type = ''machine'',
         ac_principal_id = ''admin'', ac_scopes = {''tenants:create''}, ac_token_issuer = ''admin'',
         ac_token_audience = ''admin'', ac_expires_at = 0\<rparr>)"

subsection \<open>What authentication promises\<close>

text \<open>A context that the handlers can rely on.\<close>

definition usable_context :: "auth_settings \<Rightarrow> int \<Rightarrow> AuthContext \<Rightarrow> bool" where
  "usable_context a now c \<longleftrightarrow>
     ac_scopes c \<noteq> {} \<and> ac_principal_type c \<in> {''human'', ''machine''} \<and> py_strip (ac_principal_id c) \<noteq> [] \<and>
     (ac_tenant_id c = None \<longrightarrow> ''tenants:create'' \<in> ac_scopes c) \<and> ac_token_issuer c = as_issuer a \<and>
     ac_token_audience c = as_audience a \<and> now < ac_expires_at c + as_leeway a"

text \<open>The active key that a request presents.\<close>

definition presents_key :: "string \<Rightarrow> auth_tables \<Rightarrow> inbound_key \<Rightarrow> bool" where
  "presents_key key t k \<longleftrightarrow> k \<in> set (at_keys t) \<and> ik_key_hash k = sha256_hex key \<and> ik_revoked_at k = None"

text \<open>The keys have distinct identifiers, all of them issued before.\<close>

definition keys_issued :: "auth_state \<Rightarrow> bool" where
  "keys_issued s \<longleftrightarrow> distinct (map ik_id (at_keys (snd s))) \<and> (\<forall>k \<in> set (at_keys (snd s)). ik_id k < fresh (fst s))"

definition active_with :: "string \<Rightarrow> inbound_key list \<Rightarrow> inbound_key list" where
  "active_with h rows = filter (\<lambda>k. ik_key_hash k = h \<and> ik_revoked_at k = None) rows"

definition demo_issuer :: AuthContext where
  "demo_issuer = \<lparr>ac_tenant_id = Some 2, ac_principal_type = ''machine'', ac_principal_id = ''robot'',
     ac_scopes = {''tenants:create'', ''execution:flow_run:create''}, ac_token_issuer = ''core'', ac_token_audience = ''api'',
     ac_expires_at = 100\<rparr>"

definition demo_settings :: auth_settings where
  "demo_settings = \<lparr>as_secret = ''k'', as_issuer = ''core'', as_audience = ''api'', as_leeway = 5, as_token_seconds = 60,
     as_admin_key = ''root'', as_encode = (\<lambda>_. ''token''), as_decode = (\<lambda>_ _. None), as_repr = (\<lambda>_. [])\<rparr>"

definition demo_codec :: auth_settings where
  "demo_codec = demo_settings\<lparr>as_decode := \<lambda>_ _. Some (token_payload demo_settings 0 2 demo_issuer)\<rparr>"

definition demo_auth_state :: auth_state where
  "demo_auth_state = (empty_db, \<lparr>at_tenants = [2], at_keys = [], at_events = [], at_rate_store = []\<rparr>)"

lemma py_strip_blank: "py_strip t = [] \<longleftrightarrow> (\<forall>c \<in> set t. py_space c)"
proof -
  have "dropWhile py_space (rev (dropWhile py_space t)) = [] \<longleftrightarrow> (\<forall>c \<in> set (dropWhile py_space t). py_space c)"
    by (simp add: dropWhile_eq_Nil_conv)
  also have "\<dots> \<longleftrightarrow> dropWhile py_space t = []"
    by (metis dropWhile_eq_Nil_conv hd_dropWhile hd_in_set list.set_cases empty_iff empty_set)
  finally show ?thesis by (simp add: py_strip_def dropWhile_eq_Nil_conv)
qed

lemma uuid_str_not_blank: "py_strip (uuid_str u) \<noteq> []"
proof -
  have "CHR ''-'' \<in> set (uuid_str u)" by (simp add: uuid_str_def Let_def)
  moreover have "\<not> py_space CHR ''-''" by (simp add: py_space_def)
  ultimately show ?thesis by (auto simp: py_strip_blank)
qed

lemma claim_facts:
  "issuer_claim a payload = Inr i \<Longrightarrow> i = as_issuer a"
  "audience_claim a payload = Inr u \<Longrightarrow> u = as_audience a"
  "exp_claim a now payload = Inr e \<Longrightarrow> now < e + as_leeway a"
  "scopes_claim a v = Inr scopes \<Longrightarrow> scopes \<noteq> {}"
  "tenant_claim a scopes v = Inr None \<Longrightarrow> ''tenants:create'' \<in> scopes"
  "principal_type_claim v = Inr t \<Longrightarrow> t \<in> {''human'', ''machine''}"
  "principal_id_claim a payload = Inr p \<Longrightarrow> py_strip p \<noteq> []"
proof -
  show "issuer_claim a payload = Inr i \<Longrightarrow> i = as_issuer a"
    by (auto simp: issuer_claim_def Let_def split: if_splits)
  show "audience_claim a payload = Inr u \<Longrightarrow> u = as_audience a"
    by (auto simp: audience_claim_def Let_def split: if_splits)
  show "exp_claim a now payload = Inr e \<Longrightarrow> now < e + as_leeway a"
    by (auto simp: exp_claim_def split: if_splits sum.splits)
  show "scopes_claim a v = Inr scopes \<Longrightarrow> scopes \<noteq> {}"
    by (auto simp: scopes_claim_def split: if_splits sum.splits)
  show "tenant_claim a scopes v = Inr None \<Longrightarrow> ''tenants:create'' \<in> scopes"
    by (simp add: tenant_claim_def split: if_splits sum.splits)
  show "principal_type_claim v = Inr t \<Longrightarrow> t \<in> {''human'', ''machine''}"
    by (cases v) (simp_all add: principal_type_claim_def split: if_splits)
  show "principal_id_claim a payload = Inr p \<Longrightarrow> py_strip p \<noteq> []"
    by (auto simp: principal_id_claim_def Let_def split: if_splits)
qed

lemma claims_usable:
  assumes "context_of_claims a now payload = Inr c"
  shows "usable_context a now c"
proof -
  obtain i u e scopes tenant t p where claims: "issuer_claim a payload = Inr i" "audience_claim a payload = Inr u"
    "exp_claim a now payload = Inr e" "scopes_claim a (dict_get payload ''scopes'' PNone) = Inr scopes"
    "tenant_claim a scopes (dict_get payload ''tenant_id'' PNone) = Inr tenant"
    "principal_type_claim (dict_get payload ''principal_type'' PNone) = Inr t" "principal_id_claim a payload = Inr p"
    and c: "c = \<lparr>ac_tenant_id = tenant, ac_principal_type = t, ac_principal_id = p, ac_scopes = scopes,
         ac_token_issuer = i, ac_token_audience = u, ac_expires_at = e\<rparr>"
    using assms unfolding context_of_claims_def rbind_eq_Inr by auto
  show ?thesis
    using claim_facts(1) [OF claims(1)] claim_facts(2) [OF claims(2)] claim_facts(3) [OF claims(3)]
      claim_facts(4) [OF claims(4)] claim_facts(5) [of a scopes] claims(5) claim_facts(6) [OF claims(6)]
      claim_facts(7) [OF claims(7)] by (auto simp: usable_context_def c)
qed

lemma bearer_usable:
  "jwt_auth_context_from_bearer a now credentials = Inr c \<Longrightarrow> usable_context a now c"
  by (auto simp: jwt_auth_context_from_bearer_def claims_usable split: option.splits if_splits)

lemma key_row_present:
  assumes "key_row key s = (Inr k, s')"
  shows "s' = s \<and> presents_key key (snd s) k"
proof -
  have "one_or_none (\<lambda>k. ik_key_hash k = sha256_hex key \<and> ik_revoked_at k = None) (at_keys (snd s)) = Inr (Some k)"
    and "s' = s"
    using assms by (auto simp: key_row_def find_active_by_key_hash_def comp_simps split: sum.splits option.splits)
  moreover have "one_or_none P rows = Inr (Some k) \<Longrightarrow> k \<in> set rows \<and> P k" for P and rows :: "inbound_key list"
    by (auto simp: one_or_none_def dest: filter_eq_ConsD split: list.splits)
  ultimately show ?thesis by (auto simp: presents_key_def)
qed

text \<open>
  C7: Every context that authenticates a request is usable: it has a scope, a known kind of principal and a name for
  it, it has a tenant unless it may create tenants, and it has not expired.  A request with a service key acts for the
  tenant of an active key with the key's digest, and never with the scope to create tenants.
\<close>

theorem auth_context_usable:
  assumes "get_auth_context_or_api_key a header credentials s = (Inr c, s')" and "0 \<le> as_leeway a"
  shows "s' = s \<and> usable_context a (clock (fst s)) c \<and>
    (header_key header \<noteq> [] \<longrightarrow> ''tenants:create'' \<notin> ac_scopes c \<and>
      (\<exists>k. presents_key (header_key header) (snd s) k \<and> ac_tenant_id c = Some (ik_tenant_id k)))"
proof (cases "header_key header = []")
  case True
  then have "jwt_auth_context_from_bearer a (clock (fst s)) credentials = Inr c \<and> s' = s"
    using assms(1) by (auto simp: get_auth_context_or_api_key_def bearer_context_def comp_simps)
  then show ?thesis using True bearer_usable by blast
next
  case False
  then obtain k s1 where k: "key_row (header_key header) s = (Inr k, s1)"
    and c: "c = key_context a (clock (fst s1)) k {''conversation:turn:create'', ''execution:flow_run:create''}" "s' = s1"
    using assms(1) by (auto simp: get_auth_context_or_api_key_def bind_eq_Inr ret_def get_def)
  from key_row_present [OF k] c assms(2) False show ?thesis
    by (auto simp: key_context_def usable_context_def uuid_str_not_blank)
qed

lemma issue_result:
  assumes "svc_issue_tenant_token a has_cache tenant auth s = (Inr token, s')"
  shows "\<exists>s1. token = as_encode a (token_payload a (clock (fst s1)) tenant auth) \<and>
    check_rate_limit has_cache (ac_principal_id auth) s = (Inr (), s1) \<and> tenant \<in> set (at_tenants (snd s1)) \<and>
    as_secret a \<noteq> [] \<and> as_issuer a \<noteq> [] \<and> as_audience a \<noteq> []"
proof -
  obtain s1 where s1: "check_rate_limit has_cache (ac_principal_id auth) s = (Inr (), s1)"
    and rest: "bind (require_tenant tenant) (\<lambda>_. bind (get (\<lambda>s. clock (fst s))) (\<lambda>now.
       if as_secret a = [] \<or> as_issuer a = [] \<or> as_audience a = []
       then raise (unauthenticated ''auth_not_configured'')
       else bind (append_event \<lparr>ao_tenant_id = tenant, ao_resource_type = ''tenant'', ao_resource_id = tenant,
              ao_version_id = None,
              ao_event_type = ''TENANT_TOKEN_ISSUED'', ao_change_type = ''CREATE'',
              ao_principal_id = ac_principal_id auth, ao_justification = ''tenant token issued''\<rparr>) (\<lambda>_.
            ret (as_encode a (token_payload a now tenant auth))))) s1 = (Inr token, s')"
    using assms unfolding svc_issue_tenant_token_def by (auto simp: bind_eq_Inr)
  from rest obtain s2 where s2: "require_tenant tenant s1 = (Inr (), s2)"
    and rest: "bind (get (\<lambda>s. clock (fst s))) (\<lambda>now.
       if as_secret a = [] \<or> as_issuer a = [] \<or> as_audience a = []
       then raise (unauthenticated ''auth_not_configured'')
       else bind (append_event \<lparr>ao_tenant_id = tenant, ao_resource_type = ''tenant'', ao_resource_id = tenant,
              ao_version_id = None,
              ao_event_type = ''TENANT_TOKEN_ISSUED'', ao_change_type = ''CREATE'',
              ao_principal_id = ac_principal_id auth, ao_justification = ''tenant token issued''\<rparr>) (\<lambda>_.
            ret (as_encode a (token_payload a now tenant auth)))) s2 = (Inr token, s')"
    by (auto simp: bind_eq_Inr)
  have "s2 = s1 \<and> tenant \<in> set (at_tenants (snd s1))"
    using s2 by (auto simp: require_tenant_def comp_simps one_or_none_def dest: filter_eq_ConsD
        split: sum.splits option.splits list.splits)
  then show ?thesis using s1 rest by (intro exI [of _ s1]) (auto simp: comp_simps split: if_splits sum.splits prod.splits)
qed

lemma rate_check_clock:
  assumes "check_rate_limit has_cache pid s = (Inr (), s1)"
  shows "clock (fst s1) = clock (fst s)"
proof (cases has_cache)
  case True
  obtain v where v: "incr_with_ttl (''auth:tenant_token_rate:'' @ pid) 300 (fst s) = (Inr v, fst s1)"
    using assms True by (auto simp: check_rate_limit_def on_db_def comp_simps split: prod.splits sum.splits if_splits)
  have "clock (snd (incr_with_ttl k ttl d)) = clock d" for k ttl d
    by (auto simp: incr_with_ttl_def silent_mode_wrapper_def comp_simps Let_def split: option.splits prod.splits)
  then show ?thesis using v by (metis snd_conv)
next
  case False
  then show ?thesis
    using assms by (auto simp: check_rate_limit_def check_local_rate_limit_def tables_def comp_simps
        split: prod.splits if_splits)
qed

text \<open>
  C15: A tenant token gives its bearer what the issuer had, and no more: until it expires, it authenticates the same
  principal for the tenant it was issued for, with the issuer's scopes but the one to create tenants.  When that was the
  issuer's only scope, the token is refused.
\<close>

theorem token_roundtrip:
  assumes issued: "svc_issue_tenant_token a has_cache tenant auth s = (Inr token, s')"
    and codec: "\<And>payload. payload = token_payload a (clock (fst s)) tenant auth \<Longrightarrow>
      as_decode a now (as_encode a payload) = Some payload"
    and fresh: "now < clock (fst s) + as_token_seconds a + as_leeway a"
    and auth: "ac_principal_type auth \<in> {''human'', ''machine''}" "py_strip (ac_principal_id auth) \<noteq> []"
    and scopes: "finite (ac_scopes auth)" "\<forall>t \<in> ac_scopes auth. py_strip t \<noteq> []"
    and tenant: "tenant < 2 ^ 128"
  shows "jwt_auth_context_from_bearer a now (Some (''Bearer'', token)) =
    (if ac_scopes auth \<subseteq> {''tenants:create''} then Inl (denied ''scopes_claim_empty'')
     else Inr \<lparr>ac_tenant_id = Some tenant, ac_principal_type = ac_principal_type auth,
       ac_principal_id = ac_principal_id auth, ac_scopes = ac_scopes auth - {''tenants:create''},
       ac_token_issuer = as_issuer a, ac_token_audience = as_audience a,
       ac_expires_at = clock (fst s) + as_token_seconds a\<rparr>)"
proof -
  let ?p = "token_payload a (clock (fst s)) tenant auth" and ?S = "ac_scopes auth - {''tenants:create''}"
  have set: "as_secret a \<noteq> []" "as_issuer a \<noteq> []" "as_audience a \<noteq> []" and token: "token = as_encode a ?p"
    using issue_result [OF issued] rate_check_clock by metis+
  have "filter (\<lambda>t. py_strip t \<noteq> []) (map (py_str (as_repr a)) (map PStr (sorted_list_of_set ?S))) = sorted_list_of_set ?S"
    using scopes by (simp add: comp_def filter_id_conv)
  then have "scopes_claim a (dict_get ?p ''scopes'' PNone) =
      (if ?S = {} then Inl (denied ''scopes_claim_empty'') else Inr ?S)"
    using scopes(1) by (simp add: scopes_claim_def token_payload_def dict_get_def)
  moreover have "issuer_claim a ?p = Inr (as_issuer a)" "audience_claim a ?p = Inr (as_audience a)"
    "exp_claim a now ?p = Inr (clock (fst s) + as_token_seconds a)"
    using set fresh by (simp_all add: issuer_claim_def audience_claim_def exp_claim_def token_payload_def dict_get_def)
  moreover have "tenant_claim a S (dict_get ?p ''tenant_id'' PNone) = Inr (Some tenant)" for S
    using tenant by (simp add: tenant_claim_def token_payload_def dict_get_def)
  moreover have "principal_type_claim (dict_get ?p ''principal_type'' PNone) = Inr (ac_principal_type auth)"
    "principal_id_claim a ?p = Inr (ac_principal_id auth)"
    using auth by (auto simp: principal_type_claim_def principal_id_claim_def token_payload_def dict_get_def Let_def
        py_strip_def)
  ultimately have "context_of_claims a now ?p = (if ?S = {} then Inl (denied ''scopes_claim_empty'')
      else Inr \<lparr>ac_tenant_id = Some tenant, ac_principal_type = ac_principal_type auth,
       ac_principal_id = ac_principal_id auth, ac_scopes = ?S, ac_token_issuer = as_issuer a,
       ac_token_audience = as_audience a, ac_expires_at = clock (fst s) + as_token_seconds a\<rparr>)"
    by (simp add: context_of_claims_def)
  moreover have "py_lower ''Bearer'' = ''bearer''" by code_simp
  ultimately show ?thesis using set codec [OF refl] by (simp add: jwt_auth_context_from_bearer_def token)
qed

lemma key_row_active:
  "key_row key s = (case active_with (sha256_hex key) (at_keys (snd s)) of
     [] \<Rightarrow> (Inl (unauthenticated ''invalid_inbound_service_key''), s) | [k] \<Rightarrow> (Inr k, s) | _ \<Rightarrow> (Inl MultipleResultsFound, s))"
  by (auto simp: key_row_def find_active_by_key_hash_def one_or_none_def active_with_def comp_simps
      split: list.splits option.splits)

lemma create_key_result:
  assumes "svc_create_inbound_service_key secret tenant auth s = (Inr (kid, t, sec), s')"
  shows "kid = fresh (fst s) \<and> t = tenant \<and> sec = secret \<and> clock (fst s') = clock (fst s) \<and> fresh (fst s) < fresh (fst s') \<and>
    at_keys (snd s') = at_keys (snd s) @ [\<lparr>ik_id = kid, ik_tenant_id = tenant, ik_key_hash = sha256_hex secret,
      ik_revoked_at = None\<rparr>]"
proof -
  have "\<exists>r. require_tenant tenant s = (r, s)"
    by (auto simp: require_tenant_def comp_simps split: sum.splits option.splits)
  then show ?thesis using assms
    by (auto simp: svc_create_inbound_service_key_def insert_key_def append_event_def on_db_def new_uuid_def tables_def
        bind_eq_Inr ret_def modify_def split: prod.splits)
qed

lemma revoke_key_result:
  assumes "at_keys (snd s) = before @ [k]" and "\<forall>k' \<in> set before. ik_id k' \<noteq> ik_id k" and "ik_revoked_at k = None"
  shows "\<exists>s'. svc_revoke_inbound_service_key (ik_id k) (ik_tenant_id k) auth s = (Inr (), s') \<and>
    at_keys (snd s') = before @ [k\<lparr>ik_revoked_at := Some (clock (fst s))\<rparr>]"
proof -
  have "filter (\<lambda>k'. ik_id k' = ik_id k \<and> ik_tenant_id k' = ik_tenant_id k) before = []"
    and "update_where (\<lambda>k'. ik_id k' = ik_id k \<and> ik_tenant_id k' = ik_tenant_id k) f before = before" for f
    using assms(2) by (auto simp: filter_empty_conv update_where_def intro!: map_idI)
  then show ?thesis using assms(1,3)
    by (simp add: svc_revoke_inbound_service_key_def revoke_key_def get_by_id_for_tenant_def one_or_none_def
        append_event_def on_db_def new_uuid_def tables_def comp_simps case_prod_beta update_where_def)
qed

text \<open>
  C16: A service key works from its creation to its revocation.  The secret that its creation returns authenticates a
  request for the key's tenant, and once the key is revoked the same secret is refused.
\<close>

theorem service_key_lifecycle:
  assumes created: "svc_create_inbound_service_key secret tenant auth s = (Inr (kid, t, sec), s1)"
    and issued: "keys_issued s" and new: "active_with (sha256_hex secret) (at_keys (snd s)) = []"
    and secret: "secret \<noteq> []" "py_strip secret = secret"
  shows "get_auth_context_or_api_key a (Some sec) credentials s1 =
      (Inr \<lparr>ac_tenant_id = Some tenant, ac_principal_type = ''machine'', ac_principal_id = uuid_str kid,
         ac_scopes = {''conversation:turn:create'', ''execution:flow_run:create''}, ac_token_issuer = as_issuer a,
         ac_token_audience = as_audience a, ac_expires_at = clock (fst s1) + 3600\<rparr>, s1) \<and>
    (\<exists>s2. svc_revoke_inbound_service_key kid tenant auth' s1 = (Inr (), s2) \<and>
      get_auth_context_or_api_key a (Some sec) credentials s2 = (Inl (unauthenticated ''invalid_inbound_service_key''), s2))"
proof -
  let ?k = "\<lparr>ik_id = kid, ik_tenant_id = tenant, ik_key_hash = sha256_hex secret, ik_revoked_at = None\<rparr>"
  note facts = create_key_result [OF created]
  then have keys: "at_keys (snd s1) = at_keys (snd s) @ [?k]" and header: "header_key (Some sec) = secret"
    using secret by (simp_all add: header_key_def)
  have "key_row secret s1 = (Inr ?k, s1)"
    using new by (simp add: key_row_active keys) (simp add: active_with_def)
  then have works: "get_auth_context_or_api_key a (Some sec) credentials s1 =
      (Inr (key_context a (clock (fst s1)) ?k {''conversation:turn:create'', ''execution:flow_run:create''}), s1)"
    using secret by (simp add: get_auth_context_or_api_key_def header comp_simps)
  have "\<forall>k' \<in> set (at_keys (snd s)). ik_id k' \<noteq> ik_id ?k"
    using issued facts by (auto simp: keys_issued_def)
  from revoke_key_result [OF keys this, of auth'] obtain s2 where
    revoked: "svc_revoke_inbound_service_key kid tenant auth' s1 = (Inr (), s2)"
    and "at_keys (snd s2) = at_keys (snd s) @ [?k\<lparr>ik_revoked_at := Some (clock (fst s1))\<rparr>]" by auto
  then have "key_row secret s2 = (Inl (unauthenticated ''invalid_inbound_service_key''), s2)"
    using new by (simp add: key_row_active) (simp add: active_with_def)
  then have "get_auth_context_or_api_key a (Some sec) credentials s2 =
      (Inl (unauthenticated ''invalid_inbound_service_key''), s2)"
    using secret by (simp add: get_auth_context_or_api_key_def header bind_def)
  with works revoked show ?thesis by (simp add: key_context_def)
qed

text \<open>
  While the Redis server is down and the adapter is silent, tokens are issued without a limit: the check answers at
  once, and the limit that a process keeps in its own memory is never consulted.
\<close>

theorem token_rate_limit_lost:
  assumes "\<not> rd_up (redis_db (fst s))" and "rd_silent (redis_db (fst s))"
  shows "check_rate_limit True pid s = (Inr (), s)"
  using assms by (simp add: check_rate_limit_def on_db_def incr_with_ttl_def silent_mode_wrapper_def comp_simps)

subsection \<open>Evaluated\<close>

lemma demo_codec_payload: "token_payload demo_codec now tenant auth = token_payload demo_settings now tenant auth"
  by (simp add: token_payload_def demo_codec_def)

lemma demo_issued: "\<exists>s'. svc_issue_tenant_token demo_codec True 2 demo_issuer demo_auth_state = (Inr ''token'', s')"
  by (simp add: svc_issue_tenant_token_def demo_auth_state_def check_rate_limit_def on_db_def incr_with_ttl_def
      silent_mode_wrapper_def require_tenant_def one_or_none_def append_event_def new_uuid_def tables_def comp_simps
      demo_codec_def demo_settings_def empty_db_def empty_redis_def)

lemma demo_bearer:
  "jwt_auth_context_from_bearer demo_codec 0 (Some (''Bearer'', ''token'')) =
     Inr (demo_issuer\<lparr>ac_scopes := {''execution:flow_run:create''}, ac_expires_at := 60\<rparr>)"
  by code_simp

lemma demo_fields:
  "as_issuer demo_codec = ''core''" "as_audience demo_codec = ''api''" "as_token_seconds demo_codec = 60"
  "as_leeway demo_codec = 5" "as_encode demo_codec p = ''token''"
  "as_decode demo_codec n t = Some (token_payload demo_settings 0 2 demo_issuer)"
  "ac_principal_type demo_issuer = ''machine''" "ac_principal_id demo_issuer = ''robot''"
  "ac_scopes demo_issuer = {''tenants:create'', ''execution:flow_run:create''}"
  "clock (fst demo_auth_state) = 0"
  by (simp_all add: demo_codec_def demo_settings_def demo_issuer_def demo_auth_state_def empty_db_def)

theorem token_roundtrip_witness:
  "jwt_auth_context_from_bearer demo_codec 30 (Some (''Bearer'', ''token'')) =
     Inr \<lparr>ac_tenant_id = Some 2, ac_principal_type = ''machine'', ac_principal_id = ''robot'',
       ac_scopes = {''execution:flow_run:create''}, ac_token_issuer = ''core'', ac_token_audience = ''api'', ac_expires_at = 60\<rparr>"
proof -
  obtain s' where issued: "svc_issue_tenant_token demo_codec True 2 demo_issuer demo_auth_state = (Inr ''token'', s')"
    using demo_issued by blast
  have "py_strip ''robot'' \<noteq> []" "py_strip ''tenants:create'' \<noteq> []" "py_strip ''execution:flow_run:create'' \<noteq> []"
    by code_simp+
  then show ?thesis
    using token_roundtrip [OF issued, of 30] by (simp add: demo_codec_payload demo_fields insert_Diff_if)
qed

theorem auth_context_usable_witness:
  "usable_context demo_codec 0 (demo_issuer\<lparr>ac_scopes := {''execution:flow_run:create''}, ac_expires_at := 60\<rparr>)"
proof -
  let ?c = "demo_issuer\<lparr>ac_scopes := {''execution:flow_run:create''}, ac_expires_at := 60\<rparr>"
  have "get_auth_context_or_api_key demo_codec None (Some (''Bearer'', ''token'')) demo_auth_state = (Inr ?c, demo_auth_state)"
    by (simp add: get_auth_context_or_api_key_def header_key_def py_strip_def bearer_context_def comp_simps
        demo_auth_state_def empty_db_def demo_bearer)
  from auth_context_usable [OF this] show ?thesis
    by (simp add: demo_codec_def demo_settings_def demo_auth_state_def empty_db_def)
qed

theorem service_key_lifecycle_witness:
  "\<exists>kid s1 s2. svc_create_inbound_service_key ''abc'' 2 demo_issuer demo_auth_state = (Inr (kid, 2, ''abc''), s1) \<and>
     svc_revoke_inbound_service_key kid 2 demo_issuer s1 = (Inr (), s2) \<and>
     get_auth_context_or_api_key demo_settings (Some ''abc'') None s2 =
       (Inl (unauthenticated ''invalid_inbound_service_key''), s2)"
proof -
  obtain kid s1 where created: "svc_create_inbound_service_key ''abc'' 2 demo_issuer demo_auth_state = (Inr (kid, 2, ''abc''), s1)"
    by (simp add: svc_create_inbound_service_key_def insert_key_def append_event_def on_db_def new_uuid_def tables_def
        require_tenant_def one_or_none_def comp_simps demo_auth_state_def)
  have "keys_issued demo_auth_state" "active_with h (at_keys (snd demo_auth_state)) = []" for h
    by (simp_all add: keys_issued_def active_with_def demo_auth_state_def)
  moreover have "py_strip ''abc'' = ''abc''" by code_simp
  ultimately show ?thesis
    using service_key_lifecycle [OF created, of demo_settings None demo_issuer] created by auto
qed

theorem token_rate_limit_lost_witness:
  "check_rate_limit True ''robot'' (empty_db\<lparr>redis_db := empty_redis\<lparr>rd_up := False\<rparr>\<rparr>, snd demo_auth_state) =
     (Inr (), (empty_db\<lparr>redis_db := empty_redis\<lparr>rd_up := False\<rparr>\<rparr>, snd demo_auth_state))"
  by (rule token_rate_limit_lost) (simp_all add: empty_redis_def)

end
