(* ===== verification/ExecutionBoundary.thy ===== *)
theory ExecutionBoundary
  imports ServiceGuarantees ToolOrchestrator Authentication
begin

text \<open>
  The boundary of the execution plane, \<^verbatim>\<open>src/src/services/execution_boundary.py\<close>: every request is counted against
  its rate limit and checked against the access policy of the caller's tenant, and the rows it names are checked
  to be that tenant's before the execution service or the tool orchestrator sees them.

  A caller without a tenant has no rate limit policy, so it is refused by the first check.  The methods that hand over to
  the agent run service are not modelled.
\<close>

definition boundary_authorize :: "service_env \<Rightarrow> AuthContext \<Rightarrow> string \<Rightarrow> (db, uuid) comp" where
  "boundary_authorize e auth action =
     (case ac_tenant_id auth of
        None \<Rightarrow> raise (Service AuthorizationDenied ''rate_limit_policy_not_configured'')
      | Some tenant \<Rightarrow>
          bind (enforce tenant (ac_principal_type auth) (ac_principal_id auth) action) (\<lambda>_.
          bind (authorize (rt_repr (sv_runtime e)) tenant (ac_scopes auth) action) (\<lambda>_. ret tenant)))"

definition assert_flow_run_tenant :: "uuid \<Rightarrow> uuid \<Rightarrow> (db, unit) comp" where
  "assert_flow_run_tenant tenant fid =
     bind (get_flow_context fid) (\<lambda>(_, owner).
       if owner \<noteq> tenant then raise (not_found ''flow_run_not_found'') else ret ())"

definition tool_run_node :: "tool_run \<Rightarrow> (db, uuid option) comp" where
  "tool_run_node t =
     (case tr_node_run_id t of
        Some n \<Rightarrow> ret (Some n)
      | None \<Rightarrow> (case tr_agent_run_id t of
          None \<Rightarrow> ret None
        | Some a \<Rightarrow> bind (get_agent_run a) (\<lambda>ar. ret (Option.bind ar ar_node_run_id))))"

definition assert_tool_run_tenant :: "uuid \<Rightarrow> uuid \<Rightarrow> (db, unit) comp" where
  "assert_tool_run_tenant tenant tid =
     (let missing = not_found ''tool_run_not_found'' in
      bind (get_tool_run tid) (\<lambda>row. case row of None \<Rightarrow> raise missing | Some t \<Rightarrow>
      bind (tool_run_node t) (\<lambda>node. case node of None \<Rightarrow> raise missing | Some n \<Rightarrow>
      bind (get_node_run n) (\<lambda>row. case row of None \<Rightarrow> raise missing | Some nr \<Rightarrow>
        catch (assert_flow_run_tenant tenant (nr_flow_run_id nr)) (\<lambda>x.
          case x of Service NotFoundService _ \<Rightarrow> raise missing | _ \<Rightarrow> raise x)))))"

definition ingest_interaction_and_create_flow_run ::
    "service_env \<Rightarrow> AuthContext \<Rightarrow> create_request \<Rightarrow> FlowRunCreate \<Rightarrow> (db, FlowRun) comp" where
  "ingest_interaction_and_create_flow_run e auth q c =
     bind (boundary_authorize e auth ''execution:flow_run:create'') (\<lambda>tenant.
       svc_create_flow_run e (q\<lparr>cq_tenant_id := tenant\<rparr>) c)"

definition boundary_resume_flow_run ::
    "service_env \<Rightarrow> AuthContext \<Rightarrow> uuid \<Rightarrow> FlowRunResumeInput option \<Rightarrow> resume_request \<Rightarrow> (db, FlowRun) comp" where
  "boundary_resume_flow_run e auth fid input_payload q =
     bind (boundary_authorize e auth ''execution:flow_run:resume'') (\<lambda>tenant.
     bind (assert_flow_run_tenant tenant fid) (\<lambda>_. svc_resume_flow_run e fid input_payload q))"

definition boundary_execute_tool_run :: "service_env \<Rightarrow> tool_ports \<Rightarrow> AuthContext \<Rightarrow> uuid \<Rightarrow> (db, pydict) comp" where
  "boundary_execute_tool_run e p auth tid =
     bind (boundary_authorize e auth ''execution:tool_run:execute'') (\<lambda>tenant.
     bind (assert_tool_run_tenant tenant tid) (\<lambda>_. execute_tool_run p tid))"

definition boundary_create_tool_run ::
    "service_env \<Rightarrow> AuthContext \<Rightarrow> string \<Rightarrow> string \<Rightarrow> ToolRunCreate \<Rightarrow> (db, ToolRun) comp" where
  "boundary_create_tool_run e auth endpoint idempotency_key c =
     bind (boundary_authorize e auth ''execution:tool_run:create'') (\<lambda>tenant.
       svc_create_tool_run e tenant endpoint idempotency_key c)"

definition boundary_list_execution_events ::
    "service_env \<Rightarrow> AuthContext \<Rightarrow> uuid option \<Rightarrow> uuid option \<Rightarrow> int \<Rightarrow> (db, execution_event list) comp" where
  "boundary_list_execution_events e auth fid correlation_id lmt =
     bind (boundary_authorize e auth ''execution:events:list'') (\<lambda>tenant.
     bind (case fid of None \<Rightarrow> ret () | Some f \<Rightarrow> assert_flow_run_tenant tenant f) (\<lambda>_.
       svc_list_execution_events tenant fid correlation_id lmt))"

definition boundary_get_flow_run :: "service_env \<Rightarrow> AuthContext \<Rightarrow> string \<Rightarrow> (db, FlowRun) comp" where
  "boundary_get_flow_run e auth flow_run_id =
     bind (boundary_authorize e auth ''execution:flow_run:get'') (\<lambda>tenant.
     bind (svc_get_flow_run flow_run_id) (\<lambda>r.
     bind (lift_res (parse_uuid flow_run_id)) (\<lambda>fid.
     bind (assert_flow_run_tenant tenant fid) (\<lambda>_. ret r))))"

definition boundary_get_graph_state :: "service_env \<Rightarrow> AuthContext \<Rightarrow> string \<Rightarrow> (db, graph_state) comp" where
  "boundary_get_graph_state e auth flow_run_id =
     bind (boundary_authorize e auth ''execution:graph_state:get'') (\<lambda>tenant.
     bind (lift_res (parse_uuid flow_run_id)) (\<lambda>fid.
     bind (assert_flow_run_tenant tenant fid) (\<lambda>_. svc_get_graph_state flow_run_id)))"

definition flow_run_filter :: "string option \<Rightarrow> exn + uuid option" where
  "flow_run_filter flow_run_id =
     (case flow_run_id of
        None \<Rightarrow> Inr None
      | Some t \<Rightarrow> if t = [] then Inr None
          else (case parse_uuid t of
            Inl _ \<Rightarrow> Inl (domain_validation ''Invalid flow_run_id format; expected UUID.'') | Inr u \<Rightarrow> Inr (Some u)))"

definition boundary_list_node_runs :: "service_env \<Rightarrow> AuthContext \<Rightarrow> string option \<Rightarrow> int \<Rightarrow> (db, NodeRun list) comp" where
  "boundary_list_node_runs e auth flow_run_id lmt =
     bind (boundary_authorize e auth ''execution:node_runs:list'') (\<lambda>tenant.
     bind (lift_res (flow_run_filter flow_run_id)) (\<lambda>fid. svc_list_node_runs tenant fid lmt))"

definition boundary_list_agent_runs :: "service_env \<Rightarrow> AuthContext \<Rightarrow> string option \<Rightarrow> int \<Rightarrow> (db, AgentRun list) comp" where
  "boundary_list_agent_runs e auth flow_run_id lmt =
     bind (boundary_authorize e auth ''execution:agent_runs:list'') (\<lambda>tenant.
     bind (lift_res (flow_run_filter flow_run_id)) (\<lambda>fid. svc_list_agent_runs tenant fid lmt))"

subsection \<open>Tenants are kept apart\<close>

text \<open>A request that fails and leaves nothing behind but counters and cached copies.\<close>

definition refused :: "(db, 'a) comp \<Rightarrow> db \<Rightarrow> bool" where
  "refused m s \<longleftrightarrow> (\<exists>x s'. m s = (Inl x, s') \<and> only_redis s s')"

text \<open>A run of tenant 3, and the policies of tenant 2.\<close>

definition demo_foreign_db :: db where
  "demo_foreign_db = (demo_tool_db [])\<lparr>
     sessions := [\<lparr>sn_id = 1, sn_tenant_id = 3, sn_user_id = ''u''\<rparr>],
     config_db := empty_config\<lparr>
       tool_configs := [(demo_tool_config [])\<lparr>tc_tenant_id := 3\<rparr>],
       rate_limit_policies := [\<lparr>po_id = 70, po_tenant_id = 2, po_name = ''p'', po_created_at = 0\<rparr>],
       rate_limit_policy_versions := [\<lparr>vr_id = 71, vr_policy_id = 70, vr_status = ''PUBLISHED'', vr_major = 1, vr_minor = 0,
         vr_patch = 0, vr_created_at = 0, rl_action = ''execution:tool_run:create'', rl_principal_type = ''machine'', rl_limit = 10,
         rl_window_seconds = 60\<rparr>],
       access_policies := [\<lparr>po_id = 70, po_tenant_id = 2, po_name = ''p'', po_created_at = 0\<rparr>],
       access_policy_versions := [\<lparr>vr_id = 71, vr_policy_id = 70, vr_status = ''PUBLISHED'', vr_major = 1, vr_minor = 0,
         vr_patch = 0, vr_created_at = 0,
         ap_rules = [(''allow'', PList [PStr ''execution:tool_run:create''])]\<rparr>],
       limit_policies := [\<lparr>po_id = 70, po_tenant_id = 2, po_name = ''p'', po_created_at = 0\<rparr>],
       limit_policy_versions := [\<lparr>vr_id = 71, vr_policy_id = 70, vr_status = ''PUBLISHED'', vr_major = 1, vr_minor = 0,
         vr_patch = 0, vr_created_at = 0, lv_max_agent_runs_per_interaction = 10, lv_max_tool_runs_per_flow_run = 10\<rparr>],
       billing_policies := [\<lparr>po_id = 70, po_tenant_id = 2, po_name = ''p'', po_created_at = 0\<rparr>],
       billing_policy_versions := [\<lparr>vr_id = 71, vr_policy_id = 70, vr_status = ''PUBLISHED'', vr_major = 1, vr_minor = 0,
         vr_patch = 0, vr_created_at = 0, va_tenant_id = Some 2, va_is_active = True, va_activated_at = None,
         va_activated_by = None, va_justification = None, bv_rules = []\<rparr>]\<rparr>\<rparr>"

definition demo_caller :: AuthContext where
  "demo_caller = demo_issuer\<lparr>ac_scopes := {''execution:tool_run:create''}\<rparr>"

definition demo_tool_request :: ToolRunCreate where
  "demo_tool_request = \<lparr>tq_tool_config_id = 62, tq_agent_run_id = None, tq_node_run_id = Some 61, tq_correlation_id = Some 3,
     tq_input = [], tq_has_side_effect = False\<rparr>"

lemma refused_bind:
  assumes "keeps only_redis m" and "\<And>a s1. m s = (Inr a, s1) \<Longrightarrow> only_redis s s1 \<Longrightarrow> refused (f a) s1"
  shows "refused (bind m f) s"
proof (cases "m s")
  case (Pair r s1)
  then have keep: "only_redis s s1" using assms(1) by (metis keepsD)
  show ?thesis
  proof (cases r)
    case (Inl x)
    then show ?thesis using Pair keep by (auto simp: refused_def bind_def)
  next
    case (Inr a)
    then obtain x s2 where "f a s1 = (Inl x, s2)" "only_redis s1 s2"
      using assms(2) Pair keep unfolding refused_def by blast
    then show ?thesis using Pair Inr keep only_redis_trans by (auto simp: refused_def bind_def transp_def)
  qed
qed

lemma incr_only_redis: "keeps only_redis (incr_with_ttl k ttl)"
  unfolding keeps_def
proof
  fix s
  show "only_redis s (snd (incr_with_ttl k ttl s))"
  proof (cases "rd_up (redis_db s)")
    case True
    from incr_with_ttl_up [OF this, of k ttl] obtain v expiry where
      "snd (incr_with_ttl k ttl s) = s\<lparr>redis_db := rd_counters_update (AList.update k (v, expiry)) (redis_db s)\<rparr>" by (metis snd_conv)
    then show ?thesis unfolding only_redis_def
      by (intro exI [of _ "rd_counters_update (AList.update k (v, expiry)) (redis_db s)"]) simp
  next
    case False
    then have "snd (incr_with_ttl k ttl s) = s"
      by (simp add: incr_with_ttl_def silent_mode_wrapper_def comp_simps)
    then show ?thesis using only_redis_refl by (simp add: reflp_def)
  qed
qed

lemma default_policy_pure: "snd (get_default_policy_for_tenant tbl tenant s) = s"
  by (simp add: get_default_policy_for_tenant_def comp_simps)

lemma authorize_only_redis: "keeps only_redis (boundary_authorize e auth action)"
  unfolding boundary_authorize_def enforce_def authorize_def
  by (intro redis.steps incr_only_redis; rule redis.step_pure; simp add: default_policy_pure)

lemma context_redis:
  assumes "only_redis s s1" and "get_flow_context fid s = (r, s)"
  shows "get_flow_context fid s1 = (r, s1)"
proof -
  obtain x where "s1 = s\<lparr>redis_db := x\<rparr>" using assms(1) by (auto simp: only_redis_def)
  moreover have "fst (get_flow_context fid (s\<lparr>redis_db := x\<rparr>)) = fst (get_flow_context fid s)"
    by (auto simp: get_flow_context_def get_flow_run_def get_session_def comp_simps split: sum.split option.split)
  ultimately show ?thesis using assms(2) tool_reads_pure(4) [of fid s1] by (metis fst_conv prod.collapse)
qed

lemma foreign_refused:
  assumes "get_flow_context fid s = (Inr (sess, owner), s)" and "owner \<noteq> tenant"
  shows "refused (bind (assert_flow_run_tenant tenant fid) f) s"
proof -
  have "only_redis s s" using only_redis_refl by (simp add: reflp_def)
  then show ?thesis using assms by (simp add: refused_def assert_flow_run_tenant_def bind_def raise_def)
qed

lemma authorized_refused:
  assumes "ac_tenant_id auth = Some tenant"
    and "\<And>s1. only_redis s s1 \<Longrightarrow> refused (f tenant) s1"
  shows "refused (bind (boundary_authorize e auth action) f) s"
proof (rule refused_bind [OF authorize_only_redis])
  fix a s1 assume r: "boundary_authorize e auth action s = (Inr a, s1)" and "only_redis s s1"
  have "a = tenant" using r assms(1) by (auto simp: boundary_authorize_def bind_eq_Inr ret_def)
  then show "refused (f a) s1" using assms(2) \<open>only_redis s s1\<close> by simp
qed

text \<open>
  C6: A run of another tenant is out of reach: whatever the caller's scopes and policies, resuming it, reading its graph
  state or its events fails, and leaves every table as it was.
\<close>

theorem foreign_run_out_of_reach:
  assumes auth: "ac_tenant_id auth = Some tenant"
    and owner: "get_flow_context fid s = (Inr (sess, owner), s)" "owner \<noteq> tenant" and "fid < 2 ^ 128"
  shows "refused (boundary_resume_flow_run e auth fid input_payload q) s \<and>
    refused (boundary_get_graph_state e auth (uuid_str fid)) s \<and>
    refused (boundary_list_execution_events e auth (Some fid) correlation_id lmt) s"
proof -
  have guarded: "refused (bind (boundary_authorize e auth action) (\<lambda>t. bind (assert_flow_run_tenant t fid) (f t))) s"
    for action and f :: "uuid \<Rightarrow> unit \<Rightarrow> (db, 'z) comp"
    using foreign_refused [OF context_redis [OF _ owner(1)] owner(2)] by (rule authorized_refused [OF auth])
  have "refused (boundary_resume_flow_run e auth fid input_payload q) s"
    unfolding boundary_resume_flow_run_def by (rule guarded)
  moreover have "bind (lift_res (parse_uuid (uuid_str fid))) f = f fid" for f :: "uuid \<Rightarrow> (db, graph_state) comp"
    using assms(4) by (simp add: comp_simps fun_eq_iff)
  then have "refused (boundary_get_graph_state e auth (uuid_str fid)) s"
    unfolding boundary_get_graph_state_def by (simp add: guarded)
  moreover have "refused (boundary_list_execution_events e auth (Some fid) correlation_id lmt) s"
    unfolding boundary_list_execution_events_def option.case by (rule guarded)
  ultimately show ?thesis by blast
qed

lemma sort_take_mem: "x \<in> set (take n (sort_key f (filter P rows))) \<Longrightarrow> x \<in> set rows \<and> P x"
  by (auto dest: in_set_takeD)

text \<open>
  The node runs that a caller lists are runs of the caller's tenant, and no more than asked for.
\<close>

lemma node_runs_of_tenant:
  assumes "boundary_list_node_runs e auth flow_run_id lmt s = (Inr rows, s')"
  shows "length rows \<le> nat lmt \<and> (\<forall>r \<in> set rows. \<exists>tenant. ac_tenant_id auth = Some tenant \<and>
    flow_tenant s' (nw_flow_run_id r) = Some tenant)"
proof -
  obtain tenant s1 where t: "boundary_authorize e auth ''execution:node_runs:list'' s = (Inr tenant, s1)"
    and rest: "bind (lift_res (flow_run_filter flow_run_id)) (\<lambda>fid. svc_list_node_runs tenant fid lmt) s1 = (Inr rows, s')"
    using assms unfolding boundary_list_node_runs_def by (auto simp: bind_eq_Inr)
  have "ac_tenant_id auth = Some tenant"
    using t by (auto simp: boundary_authorize_def raise_def bind_eq_Inr ret_def split: option.splits)
  moreover obtain fid where "svc_list_node_runs tenant fid lmt s1 = (Inr rows, s')"
    using rest by (auto simp: comp_simps split: sum.splits)
  then have "s' = s1" and rows: "rows = map node_run_schema (take (nat lmt) (sort_key (\<lambda>r. - nr_created_at r)
       (filter (\<lambda>r. flow_tenant s1 (nr_flow_run_id r) = Some tenant
           \<and> (fid = None \<or> fid = Some (nr_flow_run_id r))) (node_runs s1))))"
    by (auto simp: svc_list_node_runs_def list_node_runs_def comp_simps)
  ultimately show ?thesis
    by (auto simp: node_run_schema_def dest!: sort_take_mem)
qed

subsection \<open>Evaluated\<close>

text \<open>
  The owner of a tool run's parts is not checked: with the policies of tenant 2, the checks accept a tool run in a node run
  of tenant 3 with a tool configuration of tenant 3.
\<close>

lemma tool_checks_cross_tenants:
  "\<not> isl (fst (tool_checks 2 demo_tool_request demo_foreign_db))" "flow_tenant demo_foreign_db 40 = Some 3"
  "map tc_tenant_id (tool_configs (config_db demo_foreign_db)) = [3]"
  by code_simp+

theorem foreign_run_out_of_reach_witness:
  "refused (boundary_get_graph_state demo_service demo_caller (uuid_str 40)) demo_foreign_db"
proof -
  have "get_flow_context 40 demo_foreign_db = (Inr (1, 3), demo_foreign_db)"
    by (simp add: get_flow_context_def get_flow_run_def get_session_def one_or_none_def comp_simps demo_foreign_db_def
        demo_tool_db_def new_flow_run_def demo_args_def)
  from foreign_run_out_of_reach [OF _ this, of demo_caller 2] show ?thesis
    by (simp add: demo_caller_def demo_issuer_def)
qed

end
