(* ===== verification/Spec2Isabelle.thy ===== *)
theory Spec2Isabelle
  imports FlowGraphValidator RuntimeExecutor PolicyAdmin PyHash ExecutionService ServiceGuarantees ToolOrchestrator Authentication ExecutionBoundary
begin

text \<open>
  A verification of the execution core of the agent orchestration platform under \<^verbatim>\<open>src/src\<close>.

  \<^bold>\<open>The program.\<close>  An author draws a flow graph; it is validated when it is drafted and published, and
  compiled into an execution plan when it runs.  The runtime walks the plan: each step runs one node,
  stores a node run, events and a checkpoint, evaluates the conditions on the node's edges against its
  output and follows the one that is true.  The run ends completed, failed or waiting for input.

  \<^bold>\<open>Parts and theories.\<close>
  \<^item> \<open>Prelude\<close>: the exceptions of \<^verbatim>\<open>exceptions/service_exceptions.py\<close>; computations over a state that
    may raise (\<open>comp\<close>), with what they keep (\<open>keeps\<close>).
  \<^item> \<open>PyValue\<close>, \<open>PyConv\<close>, \<open>PyUuid\<close>: the Python values the code handles, their conversions, and the
    text form of UUIDs.
  \<^item> \<open>StateMachine\<close>: \<^verbatim>\<open>domain/execution/services/state_machine.py\<close>, the status enumerations,
    transition tables and validators.
  \<^item> \<open>EdgeEvaluator\<close>: \<^verbatim>\<open>graph_runtime/edge_evaluator.py\<close>, compilation and evaluation of edge conditions.
  \<^item> \<open>GraphSearch\<close>, \<open>GraphCompiler\<close>: \<^verbatim>\<open>graph_runtime/graph_compiler.py\<close> and \<^verbatim>\<open>execution_plan.py\<close>.
  \<^item> \<open>FlowGraphValidator\<close>: the authoring checks of \<^verbatim>\<open>domain/flows/services\<close>.
  \<^item> \<open>ExecutionStore\<close>: \<^verbatim>\<open>domain/execution/repositories/execution_repository.py\<close> over the tables it writes
    (record \<open>db\<close>, one row record per ORM model).
  \<^item> \<open>EventLog\<close>: the event methods of that repository with their batching, and the hooks of
    \<^verbatim>\<open>domain/execution/services/observability/hooks.py\<close>.
  \<^item> \<open>NodeStepRunner\<close>: \<^verbatim>\<open>graph_runtime/node_step_runner.py\<close>, \<^verbatim>\<open>types.py\<close>,
    \<^verbatim>\<open>fallback_reason_resolver.py\<close>.
  \<^item> \<open>RuntimeExecutor\<close>: \<^verbatim>\<open>graph_runtime/executor.py\<close>.

  \<^bold>\<open>What is shown.\<close>  Compiled conditions mean what their source says, and only domain errors leave the
  evaluator.  A plan has exactly the reachable nodes, no cycle without a loop edge and a terminal node, and
  every well-formed snapshot compiles; the authoring checks are characterised, with the cases in which they
  disagree with the compiler.  Events are numbered without gaps, never change once stored, and batching
  does not alter them.  A step follows the one true edge; a run that returns leaves its flow run in one of
  three statuses and touches no other; under stated conditions it always returns; loops are bounded.

  \<^bold>\<open>Interfaces.\<close>  \<open>lifecycle\<close> (transition tables), \<open>finite_graph\<close> and \<open>marked_graph\<close> (searches),
  \<open>table\<close> and \<open>generated_table\<close> (rows), \<open>event_log\<close>, \<open>step_writes\<close>, \<open>step_relation\<close>,
  \<open>flow_writes\<close> and \<open>run_relation\<close> (what a step or a run needs of the repository) are locales,
  interpreted on the definitions of the model.

  \<^bold>\<open>Bounds.\<close>  The recursive graph searches take the number of stack frames left; one more than the edges and
  the start node is shown to be enough.  The executor's loop runs at most \<open>max_steps\<close> times, as in the
  code.  UUIDs are numbers, new ones come from a counter; floats are rationals; strings are UTF-8 bytes.

  \<^bold>\<open>Not modelled.\<close>  The HTTP controllers, the database driver and migrations, tracing, queues and provider
  adapters are input and output.  The parser generator, pydantic's validation and the node executors are
  arguments of the definitions that use them.
\<close>

end
